(* ===== verification/Prelude.thy ===== *)
theory Prelude
  imports Main "HOL-Library.Word"
begin

text \<open>
  The prelude of the development: the machine types of the Rust sources, the operations of the
  Rust standard library that the sources use on them (\<open>checked_add\<close>, \<open>saturating_add\<close>, the
  in-memory byte representation of an integer), the effect type of the stateful code and the
  generic facts about lists, words and effects that the component theories share.

  A 64-bit little-endian target is modelled: \<open>usize\<close> values that index or count are naturals
  (with the 64-bit wrap-around or saturation written out where the code relies on it) and the
  machine native byte order of the wire format is little-endian.
\<close>

unbundle bit_operations_syntax

named_theorems wire_simps \<open>encoding and decoding of the packed structures\<close>
named_theorems monad_simps \<open>unfolding of the effect combinators\<close>

subsection \<open>Machine types\<close>

type_synonym u8 = "8 word"
type_synonym u16 = "16 word"
type_synonym u32 = "32 word"
type_synonym u64 = "64 word"

text \<open>An open file, socket or event descriptor, identified by its raw descriptor number.\<close>

type_synonym fd = int

definition usize_max :: nat where
  "usize_max = 2 ^ 64 - 1"

text \<open>Rust's \<open>checked_add\<close> on an unsigned integer of the width of its operands.\<close>

definition checked_add :: "'a::len word \<Rightarrow> 'a word \<Rightarrow> 'a word option" where
  "checked_add a b = (if unat a + unat b < 2 ^ LENGTH('a) then Some (a + b) else None)"

text \<open>\<open>checked_add\<close> and \<open>saturating_add\<close> on \<open>usize\<close>.\<close>

definition usize_checked_add :: "nat \<Rightarrow> nat \<Rightarrow> nat option" where
  "usize_checked_add a b = (if a + b \<le> usize_max then Some (a + b) else None)"

definition usize_saturating_add :: "nat \<Rightarrow> nat \<Rightarrow> nat" where
  "usize_saturating_add a b = min (a + b) usize_max"

text \<open>The bytes of an integer in memory, and the integer read back from bytes in memory.\<close>

definition le_bytes :: "nat \<Rightarrow> 'a::len word \<Rightarrow> u8 list" where
  "le_bytes n w = map (\<lambda>i. ucast (drop_bit (8 * i) w)) [0..<n]"

fun of_le_bytes :: "u8 list \<Rightarrow> 'a::len word" where
  "of_le_bytes [] = 0"
| "of_le_bytes (b # bs) = ucast b OR push_bit 8 (of_le_bytes bs)"

text \<open>The sub-slice \<open>buf[off .. off + n]\<close>.\<close>

definition slice :: "nat \<Rightarrow> nat \<Rightarrow> 'a list \<Rightarrow> 'a list" where
  "slice off n xs = take n (drop off xs)"

text \<open>Splitting a buffer into \<open>n\<close> consecutive pieces of \<open>w\<close> elements.\<close>

fun chunks :: "nat \<Rightarrow> nat \<Rightarrow> 'a list \<Rightarrow> 'a list list" where
  "chunks w 0 xs = []"
| "chunks w (Suc n) xs = take w xs # chunks w n (drop w xs)"

subsection \<open>The effect type\<close>

text \<open>
  A fallible operation on a state \<open>'s\<close> (the code's \<open>&mut self\<close>): it either never returns
  (\<open>None\<close>: it blocks for ever or panics) or returns an error or a value, together with the
  new state. \<open>bindM\<close> is the \<open>?\<close> operator: an error ends the function with the state reached.
  \<open>catchM\<close> keeps the result as a value, as \<open>let res = f();\<close> does.
\<close>

type_synonym ('s, 'e, 'a) M = "'s \<Rightarrow> (('e + 'a) \<times> 's) option"

definition retM :: "'a \<Rightarrow> ('s, 'e, 'a) M" where
  "retM x = (\<lambda>s. Some (Inr x, s))"

definition failM :: "'e \<Rightarrow> ('s, 'e, 'a) M" where
  "failM e = (\<lambda>s. Some (Inl e, s))"

definition bindM :: "('s, 'e, 'a) M \<Rightarrow> ('a \<Rightarrow> ('s, 'e, 'b) M) \<Rightarrow> ('s, 'e, 'b) M" where
  "bindM m f = (\<lambda>s. case m s of
       None \<Rightarrow> None
     | Some (Inl e, s') \<Rightarrow> Some (Inl e, s')
     | Some (Inr x, s') \<Rightarrow> f x s')"

definition thenM :: "('s, 'e, 'a) M \<Rightarrow> ('s, 'e, 'b) M \<Rightarrow> ('s, 'e, 'b) M" where
  "thenM m n = bindM m (\<lambda>_. n)"

definition catchM :: "('s, 'e, 'a) M \<Rightarrow> ('s, 'e, 'e + 'a) M" where
  "catchM m = (\<lambda>s. case m s of None \<Rightarrow> None | Some (r, s') \<Rightarrow> Some (Inr r, s'))"

definition liftR :: "'e + 'a \<Rightarrow> ('s, 'e, 'a) M" where
  "liftR r = (\<lambda>s. Some (r, s))"

definition readM :: "('s \<Rightarrow> 'a) \<Rightarrow> ('s, 'e, 'a) M" where
  "readM f = (\<lambda>s. Some (Inr (f s), s))"

definition modifyM :: "('s \<Rightarrow> 's) \<Rightarrow> ('s, 'e, unit) M" where
  "modifyM f = (\<lambda>s. Some (Inr (), f s))"

definition guardM :: "bool \<Rightarrow> 'e \<Rightarrow> ('s, 'e, unit) M" where
  "guardM b e = (if b then retM () else failM e)"

definition mapErrM :: "('e \<Rightarrow> 'f) \<Rightarrow> ('s, 'e, 'a) M \<Rightarrow> ('s, 'f, 'a) M" where
  "mapErrM g m = (\<lambda>s. case m s of
       None \<Rightarrow> None
     | Some (Inl e, s') \<Rightarrow> Some (Inl (g e), s')
     | Some (Inr x, s') \<Rightarrow> Some (Inr x, s'))"

text \<open>
  A method that cannot fail: it gives a value and the new state of the receiver, or never returns.
  \<open>callM\<close> uses it where errors are possible. The type \<open>M\<close> is the instance whose value is a result.
\<close>

type_synonym ('s, 'a) call = "'s \<Rightarrow> ('a \<times> 's) option"

definition returns :: "'a \<Rightarrow> ('s, 'a) call" where
  "returns x = (\<lambda>s. Some (x, s))"

definition callM :: "('s, 'a) call \<Rightarrow> ('s, 'e, 'a) M" where
  "callM c = (\<lambda>s. case c s of None \<Rightarrow> None | Some (x, s') \<Rightarrow> Some (Inr x, s'))"

text \<open>A \<open>for\<close> loop whose body may leave the function.\<close>

fun forM :: "'x list \<Rightarrow> ('x \<Rightarrow> ('s, 'e, unit) M) \<Rightarrow> ('s, 'e, unit) M" where
  "forM [] f = retM ()"
| "forM (x # xs) f = thenM (f x) (forM xs f)"

lemmas effect_defs = retM_def failM_def bindM_def thenM_def catchM_def liftR_def readM_def
  modifyM_def guardM_def mapErrM_def callM_def

subsection \<open>Facts about the effect type\<close>

lemma retM_apply [monad_simps]: "retM x s = Some (Inr x, s)"
  by (simp add: retM_def)

lemma failM_apply [monad_simps]: "failM e s = Some (Inl e, s)"
  by (simp add: failM_def)

lemma liftR_apply [monad_simps]: "liftR r s = Some (r, s)"
  by (simp add: liftR_def)

lemma readM_apply [monad_simps]: "readM f s = Some (Inr (f s), s)"
  by (simp add: readM_def)

lemma modifyM_apply [monad_simps]: "modifyM f s = Some (Inr (), f s)"
  by (simp add: modifyM_def)

lemma guardM_apply [monad_simps]: "guardM b e s = Some (if b then Inr () else Inl e, s)"
  by (simp add: guardM_def retM_def failM_def)

lemma bindM_None [monad_simps]: "m s = None \<Longrightarrow> bindM m f s = None"
  by (simp add: bindM_def)

lemma bindM_Inl [monad_simps]: "m s = Some (Inl e, s') \<Longrightarrow> bindM m f s = Some (Inl e, s')"
  by (simp add: bindM_def)

lemma bindM_Inr [monad_simps]: "m s = Some (Inr x, s') \<Longrightarrow> bindM m f s = f x s'"
  by (simp add: bindM_def)

lemma bindM_retM [simp]: "bindM (retM x) f = f x"
  by (simp add: bindM_def retM_def)

lemma bindM_failM [simp]: "bindM (failM e) f = failM e"
  by (simp add: bindM_def failM_def)

lemma bindM_retM_right [simp]: "bindM m retM = m"
  by (rule ext) (simp add: bindM_def retM_def split: option.split prod.split sum.split)

lemma bindM_assoc: "bindM (bindM m f) g = bindM m (\<lambda>x. bindM (f x) g)"
  by (rule ext) (simp add: bindM_def split: option.split prod.split sum.split)

text \<open>How a sequence can end: it never returns, the first part fails, or the second part runs.\<close>

lemma bindM_SomeE:
  assumes "bindM m f s = Some (r, s')"
  obtains (err) e where "m s = Some (Inl e, s')" and "r = Inl e"
        | (ok) x t where "m s = Some (Inr x, t)" and "f x t = Some (r, s')"
  using assms by (auto simp: bindM_def split: option.splits prod.splits sum.splits)

lemma bindM_InrE:
  assumes "bindM m f s = Some (Inr y, s')"
  obtains x t where "m s = Some (Inr x, t)" and "f x t = Some (Inr y, s')"
  using assms by (auto elim: bindM_SomeE)

lemma thenM_SomeE:
  assumes "thenM m n s = Some (r, s')"
  obtains (err) e where "m s = Some (Inl e, s')" and "r = Inl e"
        | (ok) x t where "m s = Some (Inr x, t)" and "n t = Some (r, s')"
  using assms unfolding thenM_def by (auto elim: bindM_SomeE)

text \<open>
  Preservation of a property of the state by every outcome of an operation: what the invariant
  proofs of the handlers compose.
\<close>

definition preserves :: "('s \<Rightarrow> bool) \<Rightarrow> ('s, 'e, 'a) M \<Rightarrow> bool" where
  "preserves P m \<longleftrightarrow> (\<forall>s r s'. P s \<longrightarrow> m s = Some (r, s') \<longrightarrow> P s')"

named_theorems preserve_intros \<open>preservation of a state predicate by the effect combinators\<close>

lemma preservesD: "preserves P m \<Longrightarrow> P s \<Longrightarrow> m s = Some (r, s') \<Longrightarrow> P s'"
  by (auto simp: preserves_def)

lemma preserves_retM [preserve_intros]: "preserves P (retM x)"
  by (simp add: preserves_def retM_def)

lemma preserves_failM [preserve_intros]: "preserves P (failM e)"
  by (simp add: preserves_def failM_def)

lemma preserves_liftR [preserve_intros]: "preserves P (liftR r)"
  by (simp add: preserves_def liftR_def)

lemma preserves_readM [preserve_intros]: "preserves P (readM f)"
  by (simp add: preserves_def readM_def)

lemma preserves_guardM [preserve_intros]: "preserves P (guardM b e)"
  by (simp add: preserves_def guardM_def retM_def failM_def)

lemma preserves_modifyM: "(\<And>s. P s \<Longrightarrow> P (f s)) \<Longrightarrow> preserves P (modifyM f)"
  by (simp add: preserves_def modifyM_def)

lemma preserves_bindM [preserve_intros]:
  "preserves P m \<Longrightarrow> (\<And>x. preserves P (f x)) \<Longrightarrow> preserves P (bindM m f)"
  unfolding preserves_def by (blast elim: bindM_SomeE)

lemma preserves_thenM [preserve_intros]:
  "preserves P m \<Longrightarrow> preserves P n \<Longrightarrow> preserves P (thenM m n)"
  unfolding thenM_def by (intro preserves_bindM)

lemma preserves_catchM [preserve_intros]: "preserves P m \<Longrightarrow> preserves P (catchM m)"
  by (auto simp: preserves_def catchM_def split: option.splits)

lemma preserves_mapErrM [preserve_intros]: "preserves P m \<Longrightarrow> preserves P (mapErrM g m)"
  by (auto simp: preserves_def mapErrM_def split: option.splits sum.splits prod.splits)

lemma preserves_callM:
  "(\<And>s x s'. P s \<Longrightarrow> c s = Some (x, s') \<Longrightarrow> P s') \<Longrightarrow> preserves P (callM c)"
  by (auto simp: preserves_def callM_def split: option.splits)

lemma preserves_forM [preserve_intros]:
  "(\<And>x. x \<in> set xs \<Longrightarrow> preserves P (f x)) \<Longrightarrow> preserves P (forM xs f)"
  by (induction xs) (auto intro: preserve_intros)

lemma preserves_if [preserve_intros]:
  "preserves P m \<Longrightarrow> preserves P n \<Longrightarrow> preserves P (if b then m else n)"
  by simp

lemma preserves_case_option [preserve_intros]:
  "preserves P a \<Longrightarrow> (\<And>x. preserves P (b x)) \<Longrightarrow> preserves P (case v of None \<Rightarrow> a | Some x \<Rightarrow> b x)"
  by (cases v) auto

lemma preserves_case_sum [preserve_intros]:
  "(\<And>x. preserves P (a x)) \<Longrightarrow> (\<And>x. preserves P (b x)) \<Longrightarrow>
     preserves P (case v of Inl x \<Rightarrow> a x | Inr x \<Rightarrow> b x)"
  by (cases v) auto

lemma preserves_case_prod [preserve_intros]:
  "(\<And>x y. preserves P (f x y)) \<Longrightarrow> preserves P (case v of (x, y) \<Rightarrow> f x y)"
  by (cases v) auto

text \<open>An error that an operation never returns.\<close>

definition never :: "'e \<Rightarrow> ('s, 'e, 'a) M \<Rightarrow> bool" where
  "never e m \<longleftrightarrow> (\<forall>s s'. m s \<noteq> Some (Inl e, s'))"

named_theorems never_intros \<open>errors that the effect combinators never return\<close>

lemma never_retM [never_intros]: "never e (retM x)"
  by (simp add: never_def retM_def)

lemma never_failM [never_intros]: "e' \<noteq> e \<Longrightarrow> never e (failM e')"
  by (simp add: never_def failM_def)

lemma never_readM [never_intros]: "never e (readM f)"
  by (simp add: never_def readM_def)

lemma never_guardM [never_intros]: "e' \<noteq> e \<Longrightarrow> never e (guardM b e')"
  by (simp add: never_def guardM_def retM_def failM_def)

lemma never_bindM [never_intros]: "never e m \<Longrightarrow> (\<And>x. never e (f x)) \<Longrightarrow> never e (bindM m f)"
  unfolding never_def by (blast elim: bindM_SomeE)

lemma never_thenM [never_intros]: "never e m \<Longrightarrow> never e n \<Longrightarrow> never e (thenM m n)"
  unfolding thenM_def by (intro never_bindM)

lemma never_if [never_intros]: "never e m \<Longrightarrow> never e n \<Longrightarrow> never e (if b then m else n)"
  by simp

lemma never_case_prod [never_intros]:
  "(\<And>x y. never e (f x y)) \<Longrightarrow> never e (case v of (x, y) \<Rightarrow> f x y)"
  by (cases v) auto

subsection \<open>Facts about machine arithmetic\<close>

lemma checked_add_Some_iff:
  "checked_add a b = Some c \<longleftrightarrow>
     unat (a::'a::len word) + unat b < 2 ^ LENGTH('a) \<and> unat c = unat a + unat b"
proof
  assume "checked_add a b = Some c"
  then show "unat a + unat b < 2 ^ LENGTH('a) \<and> unat c = unat a + unat b"
    by (auto simp: checked_add_def unat_word_ariths split: if_splits)
next
  assume *: "unat a + unat b < 2 ^ LENGTH('a) \<and> unat c = unat a + unat b"
  then have "unat (a + b) = unat c" by (simp add: unat_word_ariths)
  then have "a + b = c" by (simp add: word_unat_eq_iff)
  with * show "checked_add a b = Some c" by (simp add: checked_add_def)
qed

lemma checked_add_None_iff [simp]:
  "checked_add a b = None \<longleftrightarrow> 2 ^ LENGTH('a) \<le> unat (a::'a::len word) + unat b"
  by (auto simp: checked_add_def)

lemma unat_add_no_overflow:
  "unat (a::'a::len word) + unat b < 2 ^ LENGTH('a) \<Longrightarrow> unat (a + b) = unat a + unat b"
  by (simp add: unat_word_ariths)

lemma usize_checked_add_Some_iff:
  "usize_checked_add a b = Some c \<longleftrightarrow> a + b \<le> usize_max \<and> c = a + b"
  by (auto simp: usize_checked_add_def)

lemma usize_saturating_add_le: "usize_saturating_add a b \<le> usize_max"
  by (simp add: usize_saturating_add_def)

text \<open>Masking: reassociation brings two constant masks together, where they are computed.\<close>

lemmas mask_simps = bit.conj_disj_distrib bit.conj_disj_distrib2 and.assoc

lemma and_pow2_nonzero_iff: "w AND 2 ^ n \<noteq> 0 \<longleftrightarrow> bit (w::'a::len word) n"
  using and_exp_eq_0_iff_not_bit [of w n] by simp

lemma and_mask_eq_0_iff_dvd: "(w::'a::len word) AND mask n = 0 \<longleftrightarrow> 2 ^ n dvd unat w"
  by (simp flip: take_bit_eq_mask add: word_unat_eq_iff unsigned_take_bit_eq)
    (simp add: take_bit_eq_0_iff)

subsection \<open>Facts about byte representations\<close>

lemma length_le_bytes [simp]: "length (le_bytes n w) = n"
  by (simp add: le_bytes_def)

lemma le_bytes_0: "le_bytes n 0 = replicate n 0"
  by (simp add: le_bytes_def map_replicate_const)

lemma nth_le_bytes: "i < n \<Longrightarrow> le_bytes n w ! i = ucast (drop_bit (8 * i) w)"
  by (simp add: le_bytes_def)

lemma bit_of_le_bytes:
  "bit (of_le_bytes bs :: 'a::len word) k \<longleftrightarrow>
     k < LENGTH('a) \<and> k div 8 < length bs \<and> bit (bs ! (k div 8)) (k mod 8)"
proof (induction bs arbitrary: k)
  case Nil
  then show ?case by simp
next
  case (Cons b bs)
  show ?case
  proof (cases "k < 8")
    case True
    then show ?thesis by (auto simp: bit_simps)
  next
    case False
    then obtain j where k: "k = 8 + j" using le_Suc_ex not_less by blast
    have "\<not> bit b k"
    proof
      assume "bit b k"
      then have "k < LENGTH(8)" by (rule bit_imp_le_length)
      with False show False by simp
    qed
    moreover have "(8 + j) div 8 = Suc (j div 8)" and "(8 + j) mod 8 = j mod 8" by simp_all
    ultimately show ?thesis unfolding k by (auto simp: bit_simps Cons)
  qed
qed

lemma of_le_bytes_le_bytes [simp, wire_simps]:
  fixes w :: "'a::len word"
  assumes "LENGTH('a) \<le> 8 * n"
  shows "of_le_bytes (le_bytes n w) = w"
proof (rule bit_word_eqI)
  fix k
  assume k: "k < LENGTH('a)"
  with assms have "k div 8 < n" by (simp add: less_mult_imp_div_less mult.commute)
  moreover have "8 * (k div 8) + k mod 8 = k" by simp
  ultimately show "bit (of_le_bytes (le_bytes n w) :: 'a word) k \<longleftrightarrow> bit w k"
    using k by (simp add: bit_of_le_bytes nth_le_bytes bit_simps)
qed

lemma le_bytes_of_le_bytes:
  assumes "length bs = n" and "LENGTH('a::len) = 8 * n"
  shows "le_bytes n (of_le_bytes bs :: 'a word) = bs"
proof (rule nth_equalityI)
  show "length (le_bytes n (of_le_bytes bs :: 'a word)) = length bs"
    using assms by simp
next
  fix i
  assume "i < length (le_bytes n (of_le_bytes bs :: 'a word))"
  then have i: "i < n" by simp
  show "le_bytes n (of_le_bytes bs :: 'a word) ! i = bs ! i"
  proof (rule bit_word_eqI)
    fix k
    assume "k < LENGTH(8)"
    then have k: "k < 8" by simp
    then have "(8 * i + k) div 8 = i" and "(8 * i + k) mod 8 = k" by simp_all
    moreover have "8 * i + k < 8 * n" using i k by linarith
    ultimately show "bit (le_bytes n (of_le_bytes bs :: 'a word) ! i) k \<longleftrightarrow> bit (bs ! i) k"
      using i k assms by (simp add: nth_le_bytes bit_simps bit_of_le_bytes)
  qed
qed

subsection \<open>Facts about lists\<close>

lemma length_slice [simp]: "length (slice off n xs) = min n (length xs - off)"
  by (simp add: slice_def)

lemma slice_append_skip [simp]:
  "length xs = off \<Longrightarrow> slice off n (xs @ ys) = take n ys"
  by (simp add: slice_def)

lemma length_chunks [simp]: "length (chunks w n xs) = n"
  by (induction n arbitrary: xs) auto

lemma chunks_concat:
  assumes "\<forall>x \<in> set xss. length x = w" and "length xss = n"
  shows "chunks w n (concat xss) = xss"
  using assms
proof (induction xss arbitrary: n)
  case Nil
  then show ?case by simp
next
  case (Cons x xss)
  then show ?case by (cases n) auto
qed

lemma length_concat_const:
  "\<forall>x \<in> set xss. length x = w \<Longrightarrow> length (concat xss) = w * length xss"
  by (induction xss) auto

lemma drop_concat_skip:
  "n \<le> length xss \<Longrightarrow> drop (sum_list (map length (take n xss))) (concat xss) = concat (drop n xss)"
proof (induction xss arbitrary: n)
  case Nil
  then show ?case by simp
next
  case (Cons x xss)
  then show ?case by (cases n) auto
qed

end
