(* ===== verification/Vhost_Error.thy ===== *)
theory Vhost_Error
  imports Prelude
begin

text \<open>
  The error values of both crates: \<open>vhost/src/vhost_user/mod.rs\<close> (the vhost-user errors, their
  classification, the conversion of a raw \<open>errno\<close>, \<open>take_single_file\<close> and the \<open>enum_value!\<close>
  macro) and \<open>vhost/src/lib.rs\<close> (the crate error). \<open>std::io::Error\<close> is modelled as the standard
  library has it: a raw OS error number, a bare kind, or a kind with a payload.
\<close>

subsection \<open>std::io::Error\<close>

datatype io_kind =
    ConnectionRefused | ConnectionAborted | WouldBlock | Interrupted | AlreadyExists
  | InvalidInput | InvalidData | Unsupported | OtherKind

datatype io_error =
    RawOs int
  | SimpleIo io_kind
  | CustomIo io_kind

definition EINTR :: int where "EINTR = 4"
definition EAGAIN :: int where "EAGAIN = 11"
definition ENOMEM :: int where "ENOMEM = 12"
definition EACCES :: int where "EACCES = 13"
definition EEXIST :: int where "EEXIST = 17"
definition EINVAL :: int where "EINVAL = 22"
definition EPIPE :: int where "EPIPE = 32"
definition ENOSYS :: int where "ENOSYS = 38"
definition ECONNABORTED :: int where "ECONNABORTED = 103"
definition ECONNRESET :: int where "ECONNRESET = 104"
definition ENOBUFS :: int where "ENOBUFS = 105"
definition ECONNREFUSED :: int where "ECONNREFUSED = 111"

lemmas errno_defs = EINTR_def EAGAIN_def ENOMEM_def EACCES_def EEXIST_def EINVAL_def EPIPE_def
  ENOSYS_def ECONNABORTED_def ECONNRESET_def ENOBUFS_def ECONNREFUSED_def

text \<open>\<open>io::Error::kind\<close> and \<open>io::Error::raw_os_error\<close>, for the numbers the sources ask about.\<close>

fun io_error_kind :: "io_error \<Rightarrow> io_kind" where
  "io_error_kind (RawOs e) =
     (if e = EINTR then Interrupted
      else if e = EAGAIN then WouldBlock
      else if e = EEXIST then AlreadyExists
      else if e = EINVAL then InvalidInput
      else if e = ECONNABORTED then ConnectionAborted
      else if e = ECONNREFUSED then ConnectionRefused
      else OtherKind)"
| "io_error_kind (SimpleIo k) = k"
| "io_error_kind (CustomIo k) = k"

fun raw_os_error :: "io_error \<Rightarrow> int option" where
  "raw_os_error (RawOs e) = Some e"
| "raw_os_error (SimpleIo k) = None"
| "raw_os_error (CustomIo k) = None"

subsection \<open>vhost_user::Error\<close>

text \<open>The feature flags carried by two of the errors are the bit masks of the flag sets.\<close>

datatype Error =
    InvalidParam
  | InvalidOperation string
  | InactiveFeature u64
  | InactiveOperation u64
  | InvalidMessage
  | InvalidSocketFd io_error
  | NotUnixSocket
  | NotStreamSocket
  | PartialMessage
  | Disconnected
  | OversizedMsg
  | IncorrectFds
  | SocketConnect io_error
  | SocketError io_error
  | SocketBroken io_error
  | SocketRetry io_error
  | BackendInternalError
  | FrontendInternalError
  | FeatureMismatch
  | ReqHandlerError io_error
  | MemFdCreateError
  | FileTruncateError
  | MemFdSealError

fun should_reconnect :: "Error \<Rightarrow> bool" where
  "should_reconnect PartialMessage = True"
| "should_reconnect (SocketBroken _) = True"
| "should_reconnect BackendInternalError = True"
| "should_reconnect FrontendInternalError = True"
| "should_reconnect (SocketRetry _) = False"
| "should_reconnect Disconnected = False"
| "should_reconnect InvalidParam = False"
| "should_reconnect (InvalidOperation _) = False"
| "should_reconnect (InactiveFeature _) = False"
| "should_reconnect (InactiveOperation _) = False"
| "should_reconnect InvalidMessage = False"
| "should_reconnect IncorrectFds = False"
| "should_reconnect OversizedMsg = False"
| "should_reconnect (InvalidSocketFd _) = False"
| "should_reconnect NotUnixSocket = False"
| "should_reconnect NotStreamSocket = False"
| "should_reconnect (SocketError _) = False"
| "should_reconnect (SocketConnect _) = False"
| "should_reconnect FeatureMismatch = False"
| "should_reconnect (ReqHandlerError _) = False"
| "should_reconnect MemFdCreateError = False"
| "should_reconnect FileTruncateError = False"
| "should_reconnect MemFdSealError = False"

text \<open>\<open>From<vmm_sys_util::errno::Error>\<close>; \<open>EWOULDBLOCK\<close> equals \<open>EAGAIN\<close> on Linux.\<close>

definition error_from_errno :: "int \<Rightarrow> Error" where
  "error_from_errno e =
     (if e = EAGAIN then SocketRetry (RawOs EAGAIN)
      else if e = EINTR then SocketRetry (RawOs EINTR)
      else if e = ENOBUFS then SocketRetry (RawOs ENOBUFS)
      else if e = ENOMEM then SocketRetry (RawOs ENOMEM)
      else if e = ECONNRESET then SocketBroken (RawOs ECONNRESET)
      else if e = EPIPE then SocketBroken (RawOs EPIPE)
      else if e = EACCES then SocketConnect (RawOs EACCES)
      else SocketError (RawOs e))"

fun is_socket_retry :: "Error \<Rightarrow> bool" where
  "is_socket_retry (SocketRetry _) = True"
| "is_socket_retry _ = False"

subsection \<open>take_single_file\<close>

definition take_single_file :: "fd list option \<Rightarrow> fd option" where
  "take_single_file files = (case files of
       None \<Rightarrow> None
     | Some fs \<Rightarrow> if length fs \<noteq> 1 then None else Some (fs ! 0))"

subsection \<open>The enum_value! macro\<close>

text \<open>
  \<open>TryFrom\<close> compares the number with each variant in the order they are written and returns the
  first that matches.
\<close>

definition enum_try_from :: "('r \<Rightarrow> u32) \<Rightarrow> 'r list \<Rightarrow> u32 \<Rightarrow> 'r option" where
  "enum_try_from into variants v = find (\<lambda>r. v = into r) variants"

subsection \<open>vhost::Error\<close>

datatype VhostError =
    VInvalidOperation
  | InvalidGuestMemory
  | InvalidGuestMemoryRegion
  | InvalidIotlbMsg
  | InvalidQueue
  | DescriptorTableAddress
  | UsedAddress
  | AvailAddress
  | LogAddress
  | VhostOpen io_error
  | IoctlError io_error
  | IOError io_error
  | VhostUserProtocol Error

subsection \<open>Facts\<close>

lemma take_single_file_Some_iff [simp]:
  "take_single_file files = Some f \<longleftrightarrow> files = Some [f]"
  by (auto simp: take_single_file_def length_Suc_conv split: option.splits if_splits)

lemma take_single_file_single [simp]: "take_single_file (Some [f]) = Some f"
  by simp

lemma take_single_file_None_iff:
  "take_single_file files = None \<longleftrightarrow> (\<forall>f. files \<noteq> Some [f])"
  by (metis option.exhaust take_single_file_Some_iff option.distinct(1))

lemma is_socket_retry_iff: "is_socket_retry e \<longleftrightarrow> (\<exists>io. e = SocketRetry io)"
  by (cases e) auto

text \<open>
  A round trip holds for every enum whose variant list is complete and whose codes are distinct.
\<close>

lemma enum_try_from_Some_iff:
  assumes "set variants = UNIV" and "inj into"
  shows "enum_try_from into variants v = Some r \<longleftrightarrow> into r = v"
proof
  assume "enum_try_from into variants v = Some r"
  then show "into r = v" by (auto simp: enum_try_from_def find_Some_iff)
next
  assume v: "into r = v"
  show "enum_try_from into variants v = Some r"
  proof (cases "enum_try_from into variants v")
    case None
    with assms v show ?thesis by (auto simp: enum_try_from_def find_None_iff)
  next
    case (Some r')
    then have "into r' = v" by (auto simp: enum_try_from_def find_Some_iff)
    with assms v have "r' = r" by (auto dest: injD)
    with Some show ?thesis by simp
  qed
qed

lemma enum_try_from_None_iff:
  assumes "set variants = UNIV" and "inj into"
  shows "enum_try_from into variants v = None \<longleftrightarrow> v \<notin> range into"
  using assms by (auto simp: enum_try_from_def find_None_iff)

end
