(* ===== verification/Vring.thy ===== *)
theory Vring
  imports Vhost_Error
begin

text \<open>
  The state of one virtio queue, \<open>VringState\<close> of \<open>vhost-user-backend/src/vring.rs\<close>. The wrappers
  \<open>VringMutex\<close> and \<open>VringRwLock\<close> are in \<open>Vring_Lock\<close>.

  The queue inside (\<open>virtio_queue::Queue\<close>) is a parameter: a dictionary of the operations that
  the code calls, on an arbitrary queue state and guest memory. What the code relies on of them,
  that the ready flag reads back as it was set and no other setter changes it, is \<open>queue_law\<close>.
\<close>

record ('q, 'm, 'e) queue_ops =
  q_new :: "u16 \<Rightarrow> 'e + 'q"
  q_ready :: "'q \<Rightarrow> bool"
  q_set_ready :: "bool \<Rightarrow> 'q \<Rightarrow> 'q"
  q_set_size :: "u16 \<Rightarrow> 'q \<Rightarrow> 'q"
  q_next_avail :: "'q \<Rightarrow> u16"
  q_set_next_avail :: "u16 \<Rightarrow> 'q \<Rightarrow> 'q"
  q_set_next_used :: "u16 \<Rightarrow> 'q \<Rightarrow> 'q"
  q_set_event_idx :: "bool \<Rightarrow> 'q \<Rightarrow> 'q"
  q_try_set_desc_table_address :: "u64 \<Rightarrow> 'q \<Rightarrow> 'e + 'q"
  q_try_set_avail_ring_address :: "u64 \<Rightarrow> 'q \<Rightarrow> 'e + 'q"
  q_try_set_used_ring_address :: "u64 \<Rightarrow> 'q \<Rightarrow> 'e + 'q"
  q_used_idx :: "'m \<Rightarrow> 'q \<Rightarrow> 'e + u16"

definition queue_law :: "('q, 'm, 'e) queue_ops \<Rightarrow> bool" where
  "queue_law Q \<longleftrightarrow> (\<forall>q b n a q'.
     q_ready Q (q_set_ready Q b q) = b
     \<and> q_ready Q (q_set_size Q n q) = q_ready Q q
     \<and> q_ready Q (q_set_next_avail Q n q) = q_ready Q q
     \<and> q_ready Q (q_set_next_used Q n q) = q_ready Q q
     \<and> q_ready Q (q_set_event_idx Q b q) = q_ready Q q
     \<and> (q_try_set_desc_table_address Q a q = Inr q' \<longrightarrow> q_ready Q q' = q_ready Q q)
     \<and> (q_try_set_avail_ring_address Q a q = Inr q' \<longrightarrow> q_ready Q q' = q_ready Q q)
     \<and> (q_try_set_used_ring_address Q a q = Inr q' \<longrightarrow> q_ready Q q' = q_ready Q q))"

subsection \<open>VringState\<close>

record 'q VringState =
  vr_queue :: 'q
  vr_kick :: "fd option"
  vr_call :: "fd option"
  vr_err :: "fd option"
  vr_enabled :: bool

definition vring_new :: "('q, 'm, 'e) queue_ops \<Rightarrow> u16 \<Rightarrow> 'e + 'q VringState" where
  "vring_new Q max_queue_size =
     (case q_new Q max_queue_size of
        Inl e \<Rightarrow> Inl e
      | Inr q \<Rightarrow> Inr \<lparr>vr_queue = q, vr_kick = None, vr_call = None, vr_err = None, vr_enabled = False\<rparr>)"

definition set_enabled :: "bool \<Rightarrow> 'q VringState \<Rightarrow> 'q VringState" where
  "set_enabled enabled v = v\<lparr>vr_enabled := enabled\<rparr>"

text \<open>
  The three addresses are set one after the other; a refused address ends the operation with the
  earlier ones in place.
\<close>

definition set_queue_info ::
    "('q, 'm, 'e) queue_ops \<Rightarrow> u64 \<Rightarrow> u64 \<Rightarrow> u64 \<Rightarrow> 'q VringState \<Rightarrow> ('e + unit) \<times> 'q VringState" where
  "set_queue_info Q desc_table avail_ring used_ring v =
     (case q_try_set_desc_table_address Q desc_table (vr_queue v) of
        Inl e \<Rightarrow> (Inl e, v)
      | Inr q1 \<Rightarrow> (case q_try_set_avail_ring_address Q avail_ring q1 of
          Inl e \<Rightarrow> (Inl e, v\<lparr>vr_queue := q1\<rparr>)
        | Inr q2 \<Rightarrow> (case q_try_set_used_ring_address Q used_ring q2 of
            Inl e \<Rightarrow> (Inl e, v\<lparr>vr_queue := q2\<rparr>)
          | Inr q3 \<Rightarrow> (Inr (), v\<lparr>vr_queue := q3\<rparr>))))"

definition queue_next_avail :: "('q, 'm, 'e) queue_ops \<Rightarrow> 'q VringState \<Rightarrow> u16" where
  "queue_next_avail Q v = q_next_avail Q (vr_queue v)"

definition set_queue_next_avail ::
    "('q, 'm, 'e) queue_ops \<Rightarrow> u16 \<Rightarrow> 'q VringState \<Rightarrow> 'q VringState" where
  "set_queue_next_avail Q base v = v\<lparr>vr_queue := q_set_next_avail Q base (vr_queue v)\<rparr>"

definition set_queue_next_used ::
    "('q, 'm, 'e) queue_ops \<Rightarrow> u16 \<Rightarrow> 'q VringState \<Rightarrow> 'q VringState" where
  "set_queue_next_used Q idx v = v\<lparr>vr_queue := q_set_next_used Q idx (vr_queue v)\<rparr>"

definition queue_used_idx :: "('q, 'm, 'e) queue_ops \<Rightarrow> 'm \<Rightarrow> 'q VringState \<Rightarrow> 'e + u16" where
  "queue_used_idx Q mem v = q_used_idx Q mem (vr_queue v)"

definition set_queue_size :: "('q, 'm, 'e) queue_ops \<Rightarrow> u16 \<Rightarrow> 'q VringState \<Rightarrow> 'q VringState" where
  "set_queue_size Q num v = v\<lparr>vr_queue := q_set_size Q num (vr_queue v)\<rparr>"

definition set_queue_event_idx ::
    "('q, 'm, 'e) queue_ops \<Rightarrow> bool \<Rightarrow> 'q VringState \<Rightarrow> 'q VringState" where
  "set_queue_event_idx Q enabled v = v\<lparr>vr_queue := q_set_event_idx Q enabled (vr_queue v)\<rparr>"

definition set_queue_ready :: "('q, 'm, 'e) queue_ops \<Rightarrow> bool \<Rightarrow> 'q VringState \<Rightarrow> 'q VringState" where
  "set_queue_ready Q ready v = v\<lparr>vr_queue := q_set_ready Q ready (vr_queue v)\<rparr>"

definition set_kick :: "fd option \<Rightarrow> 'q VringState \<Rightarrow> 'q VringState" where
  "set_kick file v = v\<lparr>vr_kick := file\<rparr>"

definition set_call :: "fd option \<Rightarrow> 'q VringState \<Rightarrow> 'q VringState" where
  "set_call file v = v\<lparr>vr_call := file\<rparr>"

definition set_err :: "fd option \<Rightarrow> 'q VringState \<Rightarrow> 'q VringState" where
  "set_err file v = v\<lparr>vr_err := file\<rparr>"

text \<open>\<open>consume\<close> reads the event descriptor and may fail; the world \<open>'w\<close> holds its counter.\<close>

definition read_kick :: "(fd \<Rightarrow> ('w, io_error, unit) M) \<Rightarrow> 'q VringState \<Rightarrow> ('w, io_error, bool) M" where
  "read_kick consume v =
     (case vr_kick v of
        None \<Rightarrow> retM (vr_enabled v)
      | Some f \<Rightarrow> thenM (consume f) (retM (vr_enabled v)))"

subsection \<open>What a device does with a vring\<close>

text \<open>
  The operations of the queue that a device uses. They work on the ring in guest memory, so they
  give the memory back as well. \<open>notify\<close> writes to an event descriptor.
\<close>

record ('q, 'm, 'e) ring_ops =
  q_add_used :: "'m \<Rightarrow> u16 \<Rightarrow> u32 \<Rightarrow> 'q \<Rightarrow> ('e + unit) \<times> 'q \<times> 'm"
  q_enable_notification :: "'m \<Rightarrow> 'q \<Rightarrow> ('e + bool) \<times> 'q \<times> 'm"
  q_disable_notification :: "'m \<Rightarrow> 'q \<Rightarrow> ('e + unit) \<times> 'q \<times> 'm"
  q_needs_notification :: "'m \<Rightarrow> 'q \<Rightarrow> ('e + bool) \<times> 'q \<times> 'm"

definition on_ring ::
    "('m \<Rightarrow> 'q \<Rightarrow> ('e + 'a) \<times> 'q \<times> 'm) \<Rightarrow> 'm \<Rightarrow> 'q VringState \<Rightarrow> ('e + 'a) \<times> 'q VringState \<times> 'm" where
  "on_ring f mem v = (case f mem (vr_queue v) of (r, q, mem') \<Rightarrow> (r, v\<lparr>vr_queue := q\<rparr>, mem'))"

definition add_used ::
    "('q, 'm, 'e) ring_ops \<Rightarrow> u16 \<Rightarrow> u32 \<Rightarrow> 'm \<Rightarrow> 'q VringState \<Rightarrow> ('e + unit) \<times> 'q VringState \<times> 'm" where
  "add_used R desc_index len = on_ring (\<lambda>mem. q_add_used R mem desc_index len)"

definition signal_used_queue :: "(fd \<Rightarrow> ('w, io_error, unit) M) \<Rightarrow> 'q VringState \<Rightarrow> ('w, io_error, unit) M" where
  "signal_used_queue notify v = (case vr_call v of Some call \<Rightarrow> notify call | None \<Rightarrow> retM ())"

definition enable_notification ::
    "('q, 'm, 'e) ring_ops \<Rightarrow> 'm \<Rightarrow> 'q VringState \<Rightarrow> ('e + bool) \<times> 'q VringState \<times> 'm" where
  "enable_notification R = on_ring (q_enable_notification R)"

definition disable_notification ::
    "('q, 'm, 'e) ring_ops \<Rightarrow> 'm \<Rightarrow> 'q VringState \<Rightarrow> ('e + unit) \<times> 'q VringState \<times> 'm" where
  "disable_notification R = on_ring (q_disable_notification R)"

definition needs_notification ::
    "('q, 'm, 'e) ring_ops \<Rightarrow> 'm \<Rightarrow> 'q VringState \<Rightarrow> ('e + bool) \<times> 'q VringState \<times> 'm" where
  "needs_notification R = on_ring (q_needs_notification R)"

lemma on_ring_keeps:
  assumes "on_ring f mem v = (r, v', mem')"
  shows "vr_kick v' = vr_kick v \<and> vr_call v' = vr_call v \<and> vr_err v' = vr_err v
    \<and> vr_enabled v' = vr_enabled v"
  using assms by (auto simp: on_ring_def split: prod.splits)

subsection \<open>Started and enabled\<close>

text \<open>A vring is started and enabled: the state in which its kicks are to be handled.\<close>

definition active :: "('q, 'm, 'e) queue_ops \<Rightarrow> 'q VringState \<Rightarrow> bool" where
  "active Q v \<longleftrightarrow> q_ready Q (vr_queue v) \<and> vr_enabled v"

lemmas vring_defs = set_enabled_def set_queue_next_avail_def set_queue_next_used_def
  set_queue_size_def set_queue_event_idx_def set_queue_ready_def set_kick_def set_call_def set_err_def

subsection \<open>What the setters keep\<close>

lemma vr_kick_setters [simp]:
  "vr_kick (set_enabled b v) = vr_kick v"
  "vr_kick (set_queue_next_avail Q n v) = vr_kick v"
  "vr_kick (set_queue_next_used Q n v) = vr_kick v"
  "vr_kick (set_queue_size Q n v) = vr_kick v"
  "vr_kick (set_queue_event_idx Q b v) = vr_kick v"
  "vr_kick (set_queue_ready Q b v) = vr_kick v"
  "vr_kick (set_call f v) = vr_kick v"
  "vr_kick (set_err f v) = vr_kick v"
  "vr_kick (set_kick f v) = f"
  by (simp_all add: vring_defs)

lemma active_setters:
  assumes "queue_law Q"
  shows "active Q (set_queue_next_avail Q n v) = active Q v"
    and "active Q (set_queue_next_used Q n v) = active Q v"
    and "active Q (set_queue_size Q n v) = active Q v"
    and "active Q (set_queue_event_idx Q b v) = active Q v"
    and "active Q (set_call f v) = active Q v"
    and "active Q (set_err f v) = active Q v"
    and "active Q (set_kick f v) = active Q v"
  using assms by (simp_all add: vring_defs active_def queue_law_def)

lemma set_queue_info_keeps:
  assumes "queue_law Q" and "set_queue_info Q d a u v = (r, v')"
  shows "vr_kick v' = vr_kick v" and "active Q v' = active Q v"
proof -
  from assms(1) have law: "\<And>x q q'. q_try_set_desc_table_address Q x q = Inr q' \<Longrightarrow> q_ready Q q' = q_ready Q q"
    "\<And>x q q'. q_try_set_avail_ring_address Q x q = Inr q' \<Longrightarrow> q_ready Q q' = q_ready Q q"
    "\<And>x q q'. q_try_set_used_ring_address Q x q = Inr q' \<Longrightarrow> q_ready Q q' = q_ready Q q"
    by (simp_all add: queue_law_def)
  show "vr_kick v' = vr_kick v"
    using assms(2) by (auto simp: set_queue_info_def split: sum.splits)
  show "active Q v' = active Q v"
    using assms(2) by (auto simp: set_queue_info_def active_def law split: sum.splits)
qed

subsection \<open>A queue for the witnesses\<close>

record simple_queue =
  sq_ready :: bool
  sq_next_avail :: u16

definition simple_queue_ops :: "(simple_queue, unit, unit) queue_ops" where
  "simple_queue_ops =
     \<lparr>q_new = (\<lambda>n. Inr \<lparr>sq_ready = False, sq_next_avail = 0\<rparr>),
      q_ready = sq_ready,
      q_set_ready = (\<lambda>b q. q\<lparr>sq_ready := b\<rparr>),
      q_set_size = (\<lambda>n q. q),
      q_next_avail = sq_next_avail,
      q_set_next_avail = (\<lambda>n q. q\<lparr>sq_next_avail := n\<rparr>),
      q_set_next_used = (\<lambda>n q. q),
      q_set_event_idx = (\<lambda>b q. q),
      q_try_set_desc_table_address = (\<lambda>a q. Inr q),
      q_try_set_avail_ring_address = (\<lambda>a q. Inr q),
      q_try_set_used_ring_address = (\<lambda>a q. Inr q),
      q_used_idx = (\<lambda>m q. Inr 0)\<rparr>"

lemma simple_queue_law [simp]: "queue_law simple_queue_ops"
  by (simp add: queue_law_def simple_queue_ops_def)

end
