(* ===== verification/Locks.thy ===== *)
theory Locks
  imports Prelude
begin

text \<open>
  The wrappers that share a value or give a type with \<open>&mut self\<close> methods interior mutability:
  \<open>Arc\<close>, \<open>Mutex\<close>, \<open>RwLock\<close> and \<open>RefCell\<close> of the Rust standard library, as far as the
  forwarding implementations of the two crates use them (\<open>deref()\<close>, \<open>lock().unwrap()\<close>,
  \<open>read().unwrap()\<close>, \<open>write().unwrap()\<close>, \<open>borrow_mut()\<close>). A poisoned lock and a cell that
  is borrowed make the method panic.

  \<open>lifts g m m'\<close> says that an operation does on wrapped states what another does on bare ones;
  the rules \<open>lift_intros\<close> carry it through the effect combinators.
\<close>

subsection \<open>Arc, Mutex, RwLock and RefCell\<close>

text \<open>The value behind an \<open>Arc\<close>; all its clones share it.\<close>

record 'd Arc =
  arc_inner :: 'd

definition arc_new :: "'d \<Rightarrow> 'd Arc" where
  "arc_new d = \<lparr>arc_inner = d\<rparr>"

definition arc_deref :: "('d, 'a) call \<Rightarrow> ('d Arc, 'a) call" where
  "arc_deref m = (\<lambda>l.
     case m (arc_inner l) of None \<Rightarrow> None | Some (x, d') \<Rightarrow> Some (x, l\<lparr>arc_inner := d'\<rparr>))"

record 'd Mutex =
  mx_inner :: 'd
  mx_poisoned :: bool

definition mutex_new :: "'d \<Rightarrow> 'd Mutex" where
  "mutex_new d = \<lparr>mx_inner = d, mx_poisoned = False\<rparr>"

definition lock_unwrap :: "('d, 'a) call \<Rightarrow> ('d Mutex, 'a) call" where
  "lock_unwrap m = (\<lambda>l.
     if mx_poisoned l then None
     else (case m (mx_inner l) of None \<Rightarrow> None | Some (x, d') \<Rightarrow> Some (x, l\<lparr>mx_inner := d'\<rparr>)))"

record 'd RwLock =
  rw_inner :: 'd
  rw_poisoned :: bool

definition rwlock_new :: "'d \<Rightarrow> 'd RwLock" where
  "rwlock_new d = \<lparr>rw_inner = d, rw_poisoned = False\<rparr>"

definition write_unwrap :: "('d, 'a) call \<Rightarrow> ('d RwLock, 'a) call" where
  "write_unwrap m = (\<lambda>l.
     if rw_poisoned l then None
     else (case m (rw_inner l) of None \<Rightarrow> None | Some (x, d') \<Rightarrow> Some (x, l\<lparr>rw_inner := d'\<rparr>)))"

text \<open>
  A method behind a read guard has \<open>&self\<close>; it can still change a part of the state that has
  interior mutability itself.
\<close>

definition read_unwrap :: "('d, 'a) call \<Rightarrow> ('d RwLock, 'a) call" where
  "read_unwrap m = (\<lambda>l.
     if rw_poisoned l then None
     else (case m (rw_inner l) of None \<Rightarrow> None | Some (x, d') \<Rightarrow> Some (x, l\<lparr>rw_inner := d'\<rparr>)))"

text \<open>The borrow flag counts the readers; it is negative while a writer has the cell.\<close>

record 'd RefCell =
  rc_inner :: 'd
  rc_borrow :: int

definition refcell_new :: "'d \<Rightarrow> 'd RefCell" where
  "refcell_new d = \<lparr>rc_inner = d, rc_borrow = 0\<rparr>"

definition borrow_mut :: "('d, 'a) call \<Rightarrow> ('d RefCell, 'a) call" where
  "borrow_mut m = (\<lambda>l.
     if rc_borrow l \<noteq> 0 then None
     else (case m (rc_inner l) of None \<Rightarrow> None | Some (x, d') \<Rightarrow> Some (x, l\<lparr>rc_inner := d'\<rparr>)))"

subsection \<open>Lifting along a function of states\<close>

definition lifts :: "('s \<Rightarrow> 't) \<Rightarrow> ('s, 'a) call \<Rightarrow> ('t, 'a) call \<Rightarrow> bool" where
  "lifts g m m' \<longleftrightarrow> (\<forall>s. m' (g s) = (case m s of None \<Rightarrow> None | Some (x, s') \<Rightarrow> Some (x, g s')))"

named_theorems lift_intros \<open>lifting through the effect combinators\<close>

lemma liftsD: "lifts g m m' \<Longrightarrow> m' (g s) = (case m s of None \<Rightarrow> None | Some (x, s') \<Rightarrow> Some (x, g s'))"
  by (simp add: lifts_def)

lemma lifts_arc_deref [lift_intros]: "lifts arc_new m (arc_deref m)"
  by (auto simp: lifts_def arc_deref_def arc_new_def split: option.split)

lemma lifts_lock_unwrap [lift_intros]: "lifts mutex_new m (lock_unwrap m)"
  by (auto simp: lifts_def lock_unwrap_def mutex_new_def split: option.split)

lemma lifts_write_unwrap [lift_intros]: "lifts rwlock_new m (write_unwrap m)"
  by (auto simp: lifts_def write_unwrap_def rwlock_new_def split: option.split)

lemma lifts_read_unwrap [lift_intros]: "lifts rwlock_new m (read_unwrap m)"
  by (auto simp: lifts_def read_unwrap_def rwlock_new_def split: option.split)

lemma lifts_borrow_mut [lift_intros]: "lifts refcell_new m (borrow_mut m)"
  by (auto simp: lifts_def borrow_mut_def refcell_new_def split: option.split)

text \<open>A poisoned lock lets no method run.\<close>

lemma poisoned_panics:
  "mx_poisoned l \<Longrightarrow> lock_unwrap m l = None"
  "rw_poisoned r \<Longrightarrow> write_unwrap m' r = None"
  "rw_poisoned r \<Longrightarrow> read_unwrap m'' r = None"
  by (simp_all add: lock_unwrap_def write_unwrap_def read_unwrap_def)

lemma lifts_id: "lifts (\<lambda>s. s) m m"
  by (auto simp: lifts_def split: option.split)

lemma lifts_comp: "lifts g m m' \<Longrightarrow> lifts g' m' m'' \<Longrightarrow> lifts (\<lambda>s. g' (g s)) m m''"
  by (auto simp: lifts_def split: option.split)

lemma lifts_returns [lift_intros]: "lifts g (returns x) (returns x)"
  by (simp add: lifts_def returns_def)

lemma lifts_retM [lift_intros]: "lifts g (retM x) (retM x)"
  by (simp add: lifts_def retM_def)

lemma lifts_failM [lift_intros]: "lifts g (failM e) (failM e)"
  by (simp add: lifts_def failM_def)

lemma lifts_liftR [lift_intros]: "lifts g (liftR r) (liftR r)"
  by (simp add: lifts_def liftR_def)

lemma lifts_guardM [lift_intros]: "lifts g (guardM b e) (guardM b e)"
  by (simp add: lifts_def guardM_def retM_def failM_def)

lemma lifts_readM: "(\<And>s. f' (g s) = f s) \<Longrightarrow> lifts g (readM f) (readM f')"
  by (simp add: lifts_def readM_def)

lemma lifts_modifyM: "(\<And>s. f' (g s) = g (f s)) \<Longrightarrow> lifts g (modifyM f) (modifyM f')"
  by (simp add: lifts_def modifyM_def)

lemma lifts_bindM [lift_intros]:
  "lifts g m m' \<Longrightarrow> (\<And>x. lifts g (f x) (f' x)) \<Longrightarrow> lifts g (bindM m f) (bindM m' f')"
  by (auto simp: lifts_def bindM_def split: option.split sum.split)

lemma lifts_thenM [lift_intros]: "lifts g m m' \<Longrightarrow> lifts g n n' \<Longrightarrow> lifts g (thenM m n) (thenM m' n')"
  unfolding thenM_def by (intro lift_intros)

lemma lifts_catchM [lift_intros]: "lifts g m m' \<Longrightarrow> lifts g (catchM m) (catchM m')"
  by (auto simp: lifts_def catchM_def split: option.split)

lemma lifts_callM [lift_intros]: "lifts g c c' \<Longrightarrow> lifts g (callM c) (callM c')"
  by (auto simp: lifts_def callM_def split: option.split)

lemma lifts_mapErrM [lift_intros]: "lifts g m m' \<Longrightarrow> lifts g (mapErrM f m) (mapErrM f m')"
  by (auto simp: lifts_def mapErrM_def split: option.split sum.split)

lemma lifts_forM [lift_intros]:
  "(\<And>x. lifts g (f x) (f' x)) \<Longrightarrow> lifts g (forM xs f) (forM xs f')"
  by (induction xs) (auto intro: lift_intros)

lemma lifts_if [lift_intros]:
  "lifts g m m' \<Longrightarrow> lifts g n n' \<Longrightarrow> lifts g (if b then m else n) (if b then m' else n')"
  by simp

lemma lifts_case_option [lift_intros]:
  "lifts g a a' \<Longrightarrow> (\<And>x. lifts g (b x) (b' x)) \<Longrightarrow>
     lifts g (case v of None \<Rightarrow> a | Some x \<Rightarrow> b x) (case v of None \<Rightarrow> a' | Some x \<Rightarrow> b' x)"
  by (cases v) auto

lemma lifts_case_sum [lift_intros]:
  "(\<And>x. lifts g (a x) (a' x)) \<Longrightarrow> (\<And>x. lifts g (b x) (b' x)) \<Longrightarrow>
     lifts g (case v of Inl x \<Rightarrow> a x | Inr x \<Rightarrow> b x) (case v of Inl x \<Rightarrow> a' x | Inr x \<Rightarrow> b' x)"
  by (cases v) auto

lemma lifts_case_prod [lift_intros]:
  "(\<And>x y. lifts g (f x y) (f' x y)) \<Longrightarrow>
     lifts g (case v of (x, y) \<Rightarrow> f x y) (case v of (x, y) \<Rightarrow> f' x y)"
  by (cases v) auto

end
