(* ===== verification/Msg_Header.thy ===== *)
theory Msg_Header
  imports Vhost_Error
begin

text \<open>
  The request codes and the common message header of the vhost-user protocol, from
  \<open>vhost/src/vhost_user/message.rs\<close>: the \<open>enum_value!\<close> request enums, the \<open>Req\<close> trait as a
  dictionary of its two conversions, the header flags, the header with its accessors and its
  validity check, and the transport and protocol feature flags.

  The interface \<open>Req\<close> (a request type converts to a number and back) is the locale
  \<open>request_codes\<close>, interpreted here for both request enums. The facts about headers are proved
  once in it.
\<close>

subsection \<open>Limits\<close>

definition MAX_MSG_SIZE :: nat where
  "MAX_MSG_SIZE = 0x1000"

definition MAX_ATTACHED_FD_ENTRIES :: nat where
  "MAX_ATTACHED_FD_ENTRIES = 32"

definition VHOST_USER_CONFIG_SIZE :: u32 where
  "VHOST_USER_CONFIG_SIZE = 0x1000"

definition VHOST_USER_MAX_VRINGS :: u64 where
  "VHOST_USER_MAX_VRINGS = 0x8000"

lemmas limit_defs = MAX_MSG_SIZE_def MAX_ATTACHED_FD_ENTRIES_def VHOST_USER_CONFIG_SIZE_def
  VHOST_USER_MAX_VRINGS_def

subsection \<open>Requests from backends to frontends\<close>

datatype BackendReq =
    IOTLB_MSG | CONFIG_CHANGE_MSG | VRING_HOST_NOTIFIER_MSG | VRING_CALL
  | VRING_ERR | SHARED_OBJECT_ADD | SHARED_OBJECT_REMOVE | SHARED_OBJECT_LOOKUP
  | SHMEM_MAP | SHMEM_UNMAP

fun BackendReq_into :: "BackendReq \<Rightarrow> u32" where
  "BackendReq_into IOTLB_MSG = 1"
| "BackendReq_into CONFIG_CHANGE_MSG = 2"
| "BackendReq_into VRING_HOST_NOTIFIER_MSG = 3"
| "BackendReq_into VRING_CALL = 4"
| "BackendReq_into VRING_ERR = 5"
| "BackendReq_into SHARED_OBJECT_ADD = 6"
| "BackendReq_into SHARED_OBJECT_REMOVE = 7"
| "BackendReq_into SHARED_OBJECT_LOOKUP = 8"
| "BackendReq_into SHMEM_MAP = 9"
| "BackendReq_into SHMEM_UNMAP = 10"

definition BackendReq_variants :: "BackendReq list" where
  "BackendReq_variants =
    [ IOTLB_MSG, CONFIG_CHANGE_MSG, VRING_HOST_NOTIFIER_MSG, VRING_CALL,
      VRING_ERR, SHARED_OBJECT_ADD, SHARED_OBJECT_REMOVE, SHARED_OBJECT_LOOKUP,
      SHMEM_MAP, SHMEM_UNMAP]"

definition BackendReq_try_from :: "u32 \<Rightarrow> BackendReq option" where
  "BackendReq_try_from = enum_try_from BackendReq_into BackendReq_variants"

subsection \<open>Requests from frontends to backends\<close>

datatype FrontendReq =
    GET_FEATURES | SET_FEATURES | SET_OWNER | RESET_OWNER
  | SET_MEM_TABLE | SET_LOG_BASE | SET_LOG_FD | SET_VRING_NUM
  | SET_VRING_ADDR | SET_VRING_BASE | GET_VRING_BASE | SET_VRING_KICK
  | SET_VRING_CALL | SET_VRING_ERR | GET_PROTOCOL_FEATURES | SET_PROTOCOL_FEATURES
  | GET_QUEUE_NUM | SET_VRING_ENABLE | SEND_RARP | NET_SET_MTU
  | SET_BACKEND_REQ_FD | IOTLB_MSG | SET_VRING_ENDIAN | GET_CONFIG
  | SET_CONFIG | CREATE_CRYPTO_SESSION | CLOSE_CRYPTO_SESSION | POSTCOPY_ADVISE
  | POSTCOPY_LISTEN | POSTCOPY_END | GET_INFLIGHT_FD | SET_INFLIGHT_FD
  | GPU_SET_SOCKET | RESET_DEVICE | VRING_KICK | GET_MAX_MEM_SLOTS
  | ADD_MEM_REG | REM_MEM_REG | SET_STATUS | GET_STATUS
  | GET_SHARED_OBJECT | SET_DEVICE_STATE_FD | CHECK_DEVICE_STATE | GET_SHMEM_CONFIG

fun FrontendReq_into :: "FrontendReq \<Rightarrow> u32" where
  "FrontendReq_into GET_FEATURES = 1"
| "FrontendReq_into SET_FEATURES = 2"
| "FrontendReq_into SET_OWNER = 3"
| "FrontendReq_into RESET_OWNER = 4"
| "FrontendReq_into SET_MEM_TABLE = 5"
| "FrontendReq_into SET_LOG_BASE = 6"
| "FrontendReq_into SET_LOG_FD = 7"
| "FrontendReq_into SET_VRING_NUM = 8"
| "FrontendReq_into SET_VRING_ADDR = 9"
| "FrontendReq_into SET_VRING_BASE = 10"
| "FrontendReq_into GET_VRING_BASE = 11"
| "FrontendReq_into SET_VRING_KICK = 12"
| "FrontendReq_into SET_VRING_CALL = 13"
| "FrontendReq_into SET_VRING_ERR = 14"
| "FrontendReq_into GET_PROTOCOL_FEATURES = 15"
| "FrontendReq_into SET_PROTOCOL_FEATURES = 16"
| "FrontendReq_into GET_QUEUE_NUM = 17"
| "FrontendReq_into SET_VRING_ENABLE = 18"
| "FrontendReq_into SEND_RARP = 19"
| "FrontendReq_into NET_SET_MTU = 20"
| "FrontendReq_into SET_BACKEND_REQ_FD = 21"
| "FrontendReq_into IOTLB_MSG = 22"
| "FrontendReq_into SET_VRING_ENDIAN = 23"
| "FrontendReq_into GET_CONFIG = 24"
| "FrontendReq_into SET_CONFIG = 25"
| "FrontendReq_into CREATE_CRYPTO_SESSION = 26"
| "FrontendReq_into CLOSE_CRYPTO_SESSION = 27"
| "FrontendReq_into POSTCOPY_ADVISE = 28"
| "FrontendReq_into POSTCOPY_LISTEN = 29"
| "FrontendReq_into POSTCOPY_END = 30"
| "FrontendReq_into GET_INFLIGHT_FD = 31"
| "FrontendReq_into SET_INFLIGHT_FD = 32"
| "FrontendReq_into GPU_SET_SOCKET = 33"
| "FrontendReq_into RESET_DEVICE = 34"
| "FrontendReq_into VRING_KICK = 35"
| "FrontendReq_into GET_MAX_MEM_SLOTS = 36"
| "FrontendReq_into ADD_MEM_REG = 37"
| "FrontendReq_into REM_MEM_REG = 38"
| "FrontendReq_into SET_STATUS = 39"
| "FrontendReq_into GET_STATUS = 40"
| "FrontendReq_into GET_SHARED_OBJECT = 41"
| "FrontendReq_into SET_DEVICE_STATE_FD = 42"
| "FrontendReq_into CHECK_DEVICE_STATE = 43"
| "FrontendReq_into GET_SHMEM_CONFIG = 44"

definition FrontendReq_variants :: "FrontendReq list" where
  "FrontendReq_variants =
    [ GET_FEATURES, SET_FEATURES, SET_OWNER, RESET_OWNER,
      SET_MEM_TABLE, SET_LOG_BASE, SET_LOG_FD, SET_VRING_NUM,
      SET_VRING_ADDR, SET_VRING_BASE, GET_VRING_BASE, SET_VRING_KICK,
      SET_VRING_CALL, SET_VRING_ERR, GET_PROTOCOL_FEATURES, SET_PROTOCOL_FEATURES,
      GET_QUEUE_NUM, SET_VRING_ENABLE, SEND_RARP, NET_SET_MTU,
      SET_BACKEND_REQ_FD, IOTLB_MSG, SET_VRING_ENDIAN, GET_CONFIG,
      SET_CONFIG, CREATE_CRYPTO_SESSION, CLOSE_CRYPTO_SESSION, POSTCOPY_ADVISE,
      POSTCOPY_LISTEN, POSTCOPY_END, GET_INFLIGHT_FD, SET_INFLIGHT_FD,
      GPU_SET_SOCKET, RESET_DEVICE, VRING_KICK, GET_MAX_MEM_SLOTS,
      ADD_MEM_REG, REM_MEM_REG, SET_STATUS, GET_STATUS,
      GET_SHARED_OBJECT, SET_DEVICE_STATE_FD, CHECK_DEVICE_STATE, GET_SHMEM_CONFIG]"

definition FrontendReq_try_from :: "u32 \<Rightarrow> FrontendReq option" where
  "FrontendReq_try_from = enum_try_from FrontendReq_into FrontendReq_variants"

subsection \<open>The Req trait\<close>

record 'r Req =
  into :: "'r \<Rightarrow> u32"
  try_from :: "u32 \<Rightarrow> 'r option"

definition FrontendReq_Req :: "FrontendReq Req" where
  "FrontendReq_Req = \<lparr>into = FrontendReq_into, try_from = FrontendReq_try_from\<rparr>"

definition BackendReq_Req :: "BackendReq Req" where
  "BackendReq_Req = \<lparr>into = BackendReq_into, try_from = BackendReq_try_from\<rparr>"

subsection \<open>Header flags\<close>

definition HDR_VERSION :: u32 where "HDR_VERSION = 0x3"
definition HDR_REPLY :: u32 where "HDR_REPLY = 0x4"
definition HDR_NEED_REPLY :: u32 where "HDR_NEED_REPLY = 0x8"
definition HDR_ALL_FLAGS :: u32 where "HDR_ALL_FLAGS = 0xc"
definition HDR_RESERVED_BITS :: u32 where "HDR_RESERVED_BITS = NOT 0xf"

lemmas hdr_flag_defs = HDR_VERSION_def HDR_REPLY_def HDR_NEED_REPLY_def HDR_ALL_FLAGS_def
  HDR_RESERVED_BITS_def

subsection \<open>The message header\<close>

text \<open>
  \<open>VhostUserMsgHeader<R>\<close>; the operations that depend on the request type take the dictionary
  of \<open>R\<close> as their first argument.
\<close>

record VhostUserMsgHeader =
  hdr_request :: u32
  hdr_flags :: u32
  hdr_size :: u32

definition hdr_new :: "'r Req \<Rightarrow> 'r \<Rightarrow> u32 \<Rightarrow> u32 \<Rightarrow> VhostUserMsgHeader" where
  "hdr_new R request flags sz =
     (let fl = (flags AND HDR_ALL_FLAGS) OR 0x1
      in \<lparr>hdr_request = into R request, hdr_flags = fl, hdr_size = sz\<rparr>)"

definition hdr_default :: VhostUserMsgHeader where
  "hdr_default = \<lparr>hdr_request = 0, hdr_flags = 0x1, hdr_size = 0\<rparr>"

definition get_code :: "'r Req \<Rightarrow> VhostUserMsgHeader \<Rightarrow> Error + 'r" where
  "get_code R h = (case try_from R (hdr_request h) of
       Some r \<Rightarrow> Inr r
     | None \<Rightarrow> Inl InvalidMessage)"

definition set_code :: "'r Req \<Rightarrow> 'r \<Rightarrow> VhostUserMsgHeader \<Rightarrow> VhostUserMsgHeader" where
  "set_code R r h = h\<lparr>hdr_request := into R r\<rparr>"

definition get_version :: "VhostUserMsgHeader \<Rightarrow> u32" where
  "get_version h = hdr_flags h AND 0x3"

definition set_version :: "u32 \<Rightarrow> VhostUserMsgHeader \<Rightarrow> VhostUserMsgHeader" where
  "set_version ver h = h\<lparr>hdr_flags := (hdr_flags h AND NOT 0x3) OR (ver AND 0x3)\<rparr>"

definition is_reply :: "VhostUserMsgHeader \<Rightarrow> bool" where
  "is_reply h \<longleftrightarrow> hdr_flags h AND HDR_REPLY \<noteq> 0"

definition set_reply :: "bool \<Rightarrow> VhostUserMsgHeader \<Rightarrow> VhostUserMsgHeader" where
  "set_reply b h =
     (if b then h\<lparr>hdr_flags := hdr_flags h OR HDR_REPLY\<rparr>
      else h\<lparr>hdr_flags := hdr_flags h AND NOT HDR_REPLY\<rparr>)"

definition is_need_reply :: "VhostUserMsgHeader \<Rightarrow> bool" where
  "is_need_reply h \<longleftrightarrow> hdr_flags h AND HDR_NEED_REPLY \<noteq> 0"

definition set_need_reply :: "bool \<Rightarrow> VhostUserMsgHeader \<Rightarrow> VhostUserMsgHeader" where
  "set_need_reply b h =
     (if b then h\<lparr>hdr_flags := hdr_flags h OR HDR_NEED_REPLY\<rparr>
      else h\<lparr>hdr_flags := hdr_flags h AND NOT HDR_NEED_REPLY\<rparr>)"

definition is_reply_for :: "'r Req \<Rightarrow> VhostUserMsgHeader \<Rightarrow> VhostUserMsgHeader \<Rightarrow> bool" where
  "is_reply_for R h req = (case (get_code R h, get_code R req) of
       (Inr code1, Inr code2) \<Rightarrow> is_reply h \<and> \<not> is_reply req \<and> code1 = code2
     | _ \<Rightarrow> False)"

definition get_size :: "VhostUserMsgHeader \<Rightarrow> u32" where
  "get_size h = hdr_size h"

definition set_size :: "u32 \<Rightarrow> VhostUserMsgHeader \<Rightarrow> VhostUserMsgHeader" where
  "set_size n h = h\<lparr>hdr_size := n\<rparr>"

definition hdr_is_valid :: "'r Req \<Rightarrow> VhostUserMsgHeader \<Rightarrow> bool" where
  "hdr_is_valid R h =
     (if isl (get_code R h) then False
      else if unat (hdr_size h) > MAX_MSG_SIZE then False
      else if get_version h \<noteq> 0x1 then False
      else if hdr_flags h AND HDR_RESERVED_BITS \<noteq> 0 then False
      else True)"

text \<open>The header as bytes of memory (\<open>repr(C, packed)\<close>, twelve bytes).\<close>

definition hdr_size_of :: nat where
  "hdr_size_of = 12"

definition hdr_as_slice :: "VhostUserMsgHeader \<Rightarrow> u8 list" where
  "hdr_as_slice h = le_bytes 4 (hdr_request h) @ le_bytes 4 (hdr_flags h) @ le_bytes 4 (hdr_size h)"

definition hdr_from_slice :: "u8 list \<Rightarrow> VhostUserMsgHeader" where
  "hdr_from_slice bs =
     \<lparr>hdr_request = of_le_bytes (slice 0 4 bs),
      hdr_flags = of_le_bytes (slice 4 4 bs),
      hdr_size = of_le_bytes (slice 8 4 bs)\<rparr>"

subsection \<open>Feature flags\<close>

datatype VhostUserVirtioFeatures = VF_LOG_ALL | VF_PROTOCOL_FEATURES

fun vf_bits :: "VhostUserVirtioFeatures \<Rightarrow> u64" where
  "vf_bits VF_LOG_ALL = 0x4000000"
| "vf_bits VF_PROTOCOL_FEATURES = 0x40000000"

datatype VhostUserProtocolFeatures =
    PF_MQ | PF_LOG_SHMFD | PF_RARP | PF_REPLY_ACK | PF_MTU | PF_BACKEND_REQ | PF_CROSS_ENDIAN
  | PF_CRYPTO_SESSION | PF_PAGEFAULT | PF_CONFIG | PF_BACKEND_SEND_FD | PF_HOST_NOTIFIER
  | PF_INFLIGHT_SHMFD | PF_RESET_DEVICE | PF_INBAND_NOTIFICATIONS | PF_CONFIGURE_MEM_SLOTS
  | PF_STATUS | PF_XEN_MMAP | PF_SHARED_OBJECT | PF_DEVICE_STATE | PF_GET_VRING_BASE_INFLIGHT
  | PF_GPA_ADDRESSES | PF_SHMEM

fun pf_bits :: "VhostUserProtocolFeatures \<Rightarrow> u64" where
  "pf_bits PF_MQ = 0x1"
| "pf_bits PF_LOG_SHMFD = 0x2"
| "pf_bits PF_RARP = 0x4"
| "pf_bits PF_REPLY_ACK = 0x8"
| "pf_bits PF_MTU = 0x10"
| "pf_bits PF_BACKEND_REQ = 0x20"
| "pf_bits PF_CROSS_ENDIAN = 0x40"
| "pf_bits PF_CRYPTO_SESSION = 0x80"
| "pf_bits PF_PAGEFAULT = 0x100"
| "pf_bits PF_CONFIG = 0x200"
| "pf_bits PF_BACKEND_SEND_FD = 0x400"
| "pf_bits PF_HOST_NOTIFIER = 0x800"
| "pf_bits PF_INFLIGHT_SHMFD = 0x1000"
| "pf_bits PF_RESET_DEVICE = 0x2000"
| "pf_bits PF_INBAND_NOTIFICATIONS = 0x4000"
| "pf_bits PF_CONFIGURE_MEM_SLOTS = 0x8000"
| "pf_bits PF_STATUS = 0x10000"
| "pf_bits PF_XEN_MMAP = 0x20000"
| "pf_bits PF_SHARED_OBJECT = 0x40000"
| "pf_bits PF_DEVICE_STATE = 0x80000"
| "pf_bits PF_GET_VRING_BASE_INFLIGHT = 0x100000"
| "pf_bits PF_GPA_ADDRESSES = 0x200000"
| "pf_bits PF_SHMEM = 0x400000"

text \<open>
  The protocol feature that the vhost-user specification asks for before a request is sent, for
  every request that belongs to one. The two ends of the crate are compared with this table.
\<close>

fun protocol_feature :: "FrontendReq \<Rightarrow> VhostUserProtocolFeatures option" where
  "protocol_feature GET_QUEUE_NUM = Some PF_MQ"
| "protocol_feature SET_LOG_BASE = Some PF_LOG_SHMFD"
| "protocol_feature SEND_RARP = Some PF_RARP"
| "protocol_feature NET_SET_MTU = Some PF_MTU"
| "protocol_feature SET_BACKEND_REQ_FD = Some PF_BACKEND_REQ"
| "protocol_feature SET_VRING_ENDIAN = Some PF_CROSS_ENDIAN"
| "protocol_feature GET_CONFIG = Some PF_CONFIG"
| "protocol_feature SET_CONFIG = Some PF_CONFIG"
| "protocol_feature CREATE_CRYPTO_SESSION = Some PF_CRYPTO_SESSION"
| "protocol_feature CLOSE_CRYPTO_SESSION = Some PF_CRYPTO_SESSION"
| "protocol_feature POSTCOPY_ADVISE = Some PF_PAGEFAULT"
| "protocol_feature POSTCOPY_LISTEN = Some PF_PAGEFAULT"
| "protocol_feature POSTCOPY_END = Some PF_PAGEFAULT"
| "protocol_feature GET_INFLIGHT_FD = Some PF_INFLIGHT_SHMFD"
| "protocol_feature SET_INFLIGHT_FD = Some PF_INFLIGHT_SHMFD"
| "protocol_feature RESET_DEVICE = Some PF_RESET_DEVICE"
| "protocol_feature VRING_KICK = Some PF_INBAND_NOTIFICATIONS"
| "protocol_feature GET_MAX_MEM_SLOTS = Some PF_CONFIGURE_MEM_SLOTS"
| "protocol_feature ADD_MEM_REG = Some PF_CONFIGURE_MEM_SLOTS"
| "protocol_feature REM_MEM_REG = Some PF_CONFIGURE_MEM_SLOTS"
| "protocol_feature SET_STATUS = Some PF_STATUS"
| "protocol_feature GET_STATUS = Some PF_STATUS"
| "protocol_feature GET_SHARED_OBJECT = Some PF_SHARED_OBJECT"
| "protocol_feature SET_DEVICE_STATE_FD = Some PF_DEVICE_STATE"
| "protocol_feature CHECK_DEVICE_STATE = Some PF_DEVICE_STATE"
| "protocol_feature GET_SHMEM_CONFIG = Some PF_SHMEM"
| "protocol_feature _ = None"

text \<open>The union of all declared flags, and \<open>from_bits_truncate\<close>, which drops the other bits.\<close>

definition pf_all :: u64 where
  "pf_all = 0x7fffff"

definition pf_from_bits_truncate :: "u64 \<Rightarrow> u64" where
  "pf_from_bits_truncate bits = bits AND pf_all"

subsection \<open>The interface of a request type\<close>

locale request_codes =
  fixes R :: "'r Req"
  assumes try_from_Some: "try_from R v = Some r \<longleftrightarrow> into R r = v"
begin

lemma into_inject [simp]: "into R a = into R b \<longleftrightarrow> a = b"
  by (metis try_from_Some option.inject)

lemma try_from_into [simp]: "try_from R (into R r) = Some r"
  by (simp add: try_from_Some)

lemma get_code_Inr: "get_code R h = Inr r \<longleftrightarrow> hdr_request h = into R r"
  by (auto simp: get_code_def try_from_Some split: option.splits)

lemma hdr_new_code [simp]: "get_code R (hdr_new R r fl n) = Inr r"
  by (simp add: get_code_Inr hdr_new_def Let_def)

lemma hdr_new_valid_iff: "hdr_is_valid R (hdr_new R r fl n) \<longleftrightarrow> unat n \<le> MAX_MSG_SIZE"
  unfolding hdr_is_valid_def
  by (simp add: hdr_new_def Let_def get_version_def hdr_flag_defs mask_simps get_code_def not_less)

lemma is_reply_for_iff:
  "is_reply_for R h req \<longleftrightarrow>
     (\<exists>r. get_code R h = Inr r \<and> get_code R req = Inr r) \<and> is_reply h \<and> \<not> is_reply req"
  by (auto simp: is_reply_for_def split: sum.splits)

lemma hdr_is_valid_iff:
  "hdr_is_valid R h \<longleftrightarrow>
     (\<exists>r. get_code R h = Inr r) \<and> unat (hdr_size h) \<le> MAX_MSG_SIZE \<and>
     get_version h = 1 \<and> hdr_flags h AND HDR_RESERVED_BITS = 0"
  by (cases "get_code R h") (auto simp: hdr_is_valid_def)

end

subsection \<open>Facts about headers that hold for every request type\<close>

lemma hdr_new_size [simp]: "hdr_size (hdr_new R r fl n) = n"
  by (simp add: hdr_new_def Let_def)

lemma hdr_new_version [simp]: "get_version (hdr_new R r fl n) = 1"
  by (simp add: hdr_new_def Let_def get_version_def HDR_ALL_FLAGS_def mask_simps)

lemma hdr_new_is_reply [simp]: "is_reply (hdr_new R r fl n) \<longleftrightarrow> fl AND HDR_REPLY \<noteq> 0"
  by (simp add: hdr_new_def Let_def is_reply_def hdr_flag_defs mask_simps)

lemma hdr_new_is_need_reply [simp]:
  "is_need_reply (hdr_new R r fl n) \<longleftrightarrow> fl AND HDR_NEED_REPLY \<noteq> 0"
  by (simp add: hdr_new_def Let_def is_need_reply_def hdr_flag_defs mask_simps)

lemma length_hdr_as_slice [simp]: "length (hdr_as_slice h) = hdr_size_of"
  by (simp add: hdr_as_slice_def hdr_size_of_def)

lemma hdr_from_slice_as_slice [simp, wire_simps]: "hdr_from_slice (hdr_as_slice h) = h"
  by (simp add: hdr_from_slice_def hdr_as_slice_def slice_def)

lemma hdr_as_slice_inject [simp]: "hdr_as_slice h = hdr_as_slice h' \<longleftrightarrow> h = h'"
  by (metis hdr_from_slice_as_slice)

lemma hdr_as_slice_from_slice:
  assumes "length bs = hdr_size_of"
  shows "hdr_as_slice (hdr_from_slice bs) = bs"
proof -
  have "take 4 (drop 8 bs) = drop 8 bs"
    using assms by (simp add: hdr_size_of_def)
  moreover have "take 4 (drop 4 bs) @ drop 8 bs = drop 4 bs"
    using append_take_drop_id [of 4 "drop 4 bs"] by simp
  ultimately have "take 4 bs @ take 4 (drop 4 bs) @ take 4 (drop 8 bs) = bs"
    by simp
  then show ?thesis
    using assms by (simp add: hdr_as_slice_def hdr_from_slice_def slice_def hdr_size_of_def
        le_bytes_of_le_bytes)
qed

lemma set_need_reply_frame [simp]:
  "hdr_request (set_need_reply b h) = hdr_request h"
  "hdr_size (set_need_reply b h) = hdr_size h"
  "is_need_reply (set_need_reply b h) \<longleftrightarrow> b"
  "is_reply (set_need_reply b h) \<longleftrightarrow> is_reply h"
  "get_version (set_need_reply b h) = get_version h"
  by (auto simp: set_need_reply_def is_need_reply_def is_reply_def get_version_def hdr_flag_defs
      mask_simps)

lemma set_reply_frame [simp]:
  "hdr_request (set_reply b h) = hdr_request h"
  "hdr_size (set_reply b h) = hdr_size h"
  "is_reply (set_reply b h) \<longleftrightarrow> b"
  "is_need_reply (set_reply b h) \<longleftrightarrow> is_need_reply h"
  "get_version (set_reply b h) = get_version h"
  by (auto simp: set_reply_def is_need_reply_def is_reply_def get_version_def hdr_flag_defs
      mask_simps)

subsection \<open>The two request enums implement the interface\<close>

lemma inj_of_variants: "set vs = UNIV \<Longrightarrow> distinct (map f vs) \<Longrightarrow> inj f"
  by (simp add: distinct_map)

lemma set_FrontendReq_variants: "set FrontendReq_variants = UNIV"
proof (rule set_eqI)
  fix r show "r \<in> set FrontendReq_variants \<longleftrightarrow> r \<in> UNIV"
    by (cases r) (simp_all add: FrontendReq_variants_def)
qed

lemma set_BackendReq_variants: "set BackendReq_variants = UNIV"
proof (rule set_eqI)
  fix r show "r \<in> set BackendReq_variants \<longleftrightarrow> r \<in> UNIV"
    by (cases r) (simp_all add: BackendReq_variants_def)
qed

lemma inj_FrontendReq_into: "inj FrontendReq_into"
  by (rule inj_of_variants [OF set_FrontendReq_variants]) (simp add: FrontendReq_variants_def)

lemma inj_BackendReq_into: "inj BackendReq_into"
  by (rule inj_of_variants [OF set_BackendReq_variants]) (simp add: BackendReq_variants_def)

interpretation frontend_req: request_codes FrontendReq_Req
  by unfold_locales
    (simp add: FrontendReq_Req_def FrontendReq_try_from_def
      enum_try_from_Some_iff [OF set_FrontendReq_variants inj_FrontendReq_into])

interpretation backend_req: request_codes BackendReq_Req
  by unfold_locales
    (simp add: BackendReq_Req_def BackendReq_try_from_def
      enum_try_from_Some_iff [OF set_BackendReq_variants inj_BackendReq_into])

lemma FrontendReq_codes: "map (unat \<circ> FrontendReq_into) FrontendReq_variants = [1..<45]"
  by (simp add: FrontendReq_variants_def upt_rec)

lemma BackendReq_codes: "map (unat \<circ> BackendReq_into) BackendReq_variants = [1..<11]"
  by (simp add: BackendReq_variants_def upt_rec)

lemma in_range_of_codes:
  assumes "set vs = UNIV" and "map (unat \<circ> f) vs = [1..<n]"
  shows "(v::u32) \<in> range f \<longleftrightarrow> 0 < unat v \<and> unat v < n"
proof -
  have "unat ` range f = {1..<n}"
    using assms by (metis atLeastLessThan_upt image_comp list.set_map)
  moreover have "v \<in> range f \<longleftrightarrow> unat v \<in> unat ` range f"
    by (rule inj_image_mem_iff [symmetric]) (simp add: inj_def word_unat_eq_iff)
  ultimately show ?thesis by auto
qed

subsection \<open>What the header operations establish\<close>

text \<open>
  A request number decodes to a request exactly when it is that request's number, and
  decoding fails exactly on 0 and on the numbers above the last one the code defines (44 for
  requests to the backend, 10 for requests to the frontend).
\<close>

theorem request_code_roundtrip:
  "(FrontendReq_try_from v = Some r \<longleftrightarrow> FrontendReq_into r = v)
   \<and> (BackendReq_try_from v = Some b \<longleftrightarrow> BackendReq_into b = v)
   \<and> (FrontendReq_try_from v = None \<longleftrightarrow> v = 0 \<or> 44 < v)
   \<and> (BackendReq_try_from v = None \<longleftrightarrow> v = 0 \<or> 10 < v)"
  unfolding FrontendReq_try_from_def BackendReq_try_from_def
    enum_try_from_Some_iff [OF set_FrontendReq_variants inj_FrontendReq_into]
    enum_try_from_Some_iff [OF set_BackendReq_variants inj_BackendReq_into]
    enum_try_from_None_iff [OF set_FrontendReq_variants inj_FrontendReq_into]
    enum_try_from_None_iff [OF set_BackendReq_variants inj_BackendReq_into]
    in_range_of_codes [OF set_FrontendReq_variants FrontendReq_codes]
    in_range_of_codes [OF set_BackendReq_variants BackendReq_codes]
  by (auto simp: word_less_nat_alt word_unat_eq_iff)

text \<open>
  A header built by \<open>VhostUserMsgHeader::new\<close> carries its request and size, has version 1
  whatever flags are passed, keeps of the flags just the reply and need-reply bits, and is valid
  exactly when the size is at most the 4096 bytes of the largest message.
\<close>

theorem hdr_new_wellformed:
  "let h = hdr_new FrontendReq_Req r fl n in
     get_code FrontendReq_Req h = Inr r \<and> get_size h = n \<and> get_version h = 1
     \<and> hdr_flags h AND HDR_RESERVED_BITS = 0
     \<and> (is_reply h \<longleftrightarrow> fl AND HDR_REPLY \<noteq> 0)
     \<and> (is_need_reply h \<longleftrightarrow> fl AND HDR_NEED_REPLY \<noteq> 0)
     \<and> (hdr_is_valid FrontendReq_Req h \<longleftrightarrow> unat n \<le> MAX_MSG_SIZE)"
  by (simp add: Let_def frontend_req.hdr_new_valid_iff get_size_def)
    (simp add: hdr_new_def hdr_flag_defs mask_simps Let_def)

text \<open>
  A header is accepted as the reply to a request exactly when both carry the same known
  request number, the first has the reply flag and the second has not; so a reply never answers
  a reply, and a message with an unknown number answers nothing.
\<close>

theorem is_reply_for_exact:
  "is_reply_for FrontendReq_Req h req \<longleftrightarrow>
     hdr_request h = hdr_request req \<and> 1 \<le> hdr_request req \<and> hdr_request req \<le> 44
     \<and> is_reply h \<and> \<not> is_reply req"
proof -
  have "(\<exists>r. hdr_request req = into FrontendReq_Req r) \<longleftrightarrow>
      1 \<le> hdr_request req \<and> hdr_request req \<le> 44"
    using in_range_of_codes [OF set_FrontendReq_variants FrontendReq_codes, of "hdr_request req"]
    by (auto simp: FrontendReq_Req_def word_le_nat_alt)
  then show ?thesis
    unfolding frontend_req.is_reply_for_iff frontend_req.get_code_Inr by auto
qed

text \<open>
  The twelve bytes of a header determine it and are determined by it, and marking a header
  as reply or as needing a reply changes that flag and nothing else of it.
\<close>

theorem hdr_bytes_and_flags:
  "hdr_from_slice (hdr_as_slice h) = h
   \<and> (hdr_as_slice h = hdr_as_slice h' \<longleftrightarrow> h = h')
   \<and> length (hdr_as_slice h) = hdr_size_of
   \<and> is_reply (set_reply b h) = b \<and> is_need_reply (set_reply b h) = is_need_reply h
   \<and> is_need_reply (set_need_reply b h) = b \<and> is_reply (set_need_reply b h) = is_reply h
   \<and> get_version (set_need_reply b (set_reply c h)) = get_version h
   \<and> hdr_request (set_need_reply b (set_reply c h)) = hdr_request h
   \<and> hdr_size (set_need_reply b (set_reply c h)) = hdr_size h"
  by simp

end
