(* ===== verification/Message.thy ===== *)
theory Message
  imports Msg_Header
begin

text \<open>
  The message bodies of \<open>vhost/src/vhost_user/message.rs\<close> (without the \<open>xen\<close> feature): one
  record per structure, its constructor, its validity check and its representation in memory.

  The traits \<open>ByteValued\<close> and \<open>VhostUserMsgValidator\<close>, over which the endpoint is generic, are
  a dictionary \<open>msg_type\<close>; the law the endpoint relies on (a structure has a fixed size and is
  recovered from its bytes) is the locale \<open>byte_valued\<close>, interpreted for every structure that
  travels on the socket.
\<close>

subsection \<open>The traits ByteValued and VhostUserMsgValidator\<close>

record 't msg_type =
  size_of :: nat
  as_slice :: "'t \<Rightarrow> u8 list"
  from_slice :: "u8 list \<Rightarrow> 't"
  is_valid :: "'t \<Rightarrow> bool"

locale byte_valued =
  fixes T :: "'t msg_type" and ok :: "'t \<Rightarrow> bool"
  assumes length_as_slice: "ok x \<Longrightarrow> length (as_slice T x) = size_of T"
    and from_slice_as_slice: "ok x \<Longrightarrow> from_slice T (as_slice T x) = x"
begin

lemma as_slice_inject:
  "ok x \<Longrightarrow> ok y \<Longrightarrow> as_slice T x = as_slice T y \<longleftrightarrow> x = y"
  by (metis from_slice_as_slice)

text \<open>A structure at the front of a longer buffer is read back unchanged.\<close>

lemma from_slice_prefix:
  "ok x \<Longrightarrow> from_slice T (take (size_of T) (as_slice T x @ rest)) = x"
  by (simp add: length_as_slice from_slice_as_slice)

end

subsection \<open>VhostUserEmpty and VhostUserU64\<close>

definition VhostUserEmpty_T :: "unit msg_type" where
  "VhostUserEmpty_T =
     \<lparr>size_of = 0, as_slice = (\<lambda>_. []), from_slice = (\<lambda>_. ()), is_valid = (\<lambda>_. True)\<rparr>"

record VhostUserU64 =
  u64_value :: u64

definition VhostUserU64_new :: "u64 \<Rightarrow> VhostUserU64" where
  "VhostUserU64_new v = \<lparr>u64_value = v\<rparr>"

definition VhostUserU64_T :: "VhostUserU64 msg_type" where
  "VhostUserU64_T =
     \<lparr>size_of = 8,
      as_slice = (\<lambda>m. le_bytes 8 (u64_value m)),
      from_slice = (\<lambda>bs. \<lparr>u64_value = of_le_bytes (slice 0 8 bs)\<rparr>),
      is_valid = (\<lambda>_. True)\<rparr>"

subsection \<open>VhostUserMemory and its regions\<close>

record VhostUserMemory =
  num_regions :: u32
  padding1 :: u32

definition VhostUserMemory_new :: "u32 \<Rightarrow> VhostUserMemory" where
  "VhostUserMemory_new cnt = \<lparr>num_regions = cnt, padding1 = 0\<rparr>"

definition VhostUserMemory_is_valid :: "VhostUserMemory \<Rightarrow> bool" where
  "VhostUserMemory_is_valid m =
     (if padding1 m \<noteq> 0 then False
      else if num_regions m = 0 \<or> unat (num_regions m) > MAX_ATTACHED_FD_ENTRIES then False
      else True)"

definition VhostUserMemory_T :: "VhostUserMemory msg_type" where
  "VhostUserMemory_T =
     \<lparr>size_of = 8,
      as_slice = (\<lambda>m. le_bytes 4 (num_regions m) @ le_bytes 4 (padding1 m)),
      from_slice = (\<lambda>bs. \<lparr>num_regions = of_le_bytes (slice 0 4 bs),
                          padding1 = of_le_bytes (slice 4 4 bs)\<rparr>),
      is_valid = VhostUserMemory_is_valid\<rparr>"

record VhostUserMemoryRegion =
  guest_phys_addr :: u64
  memory_size :: u64
  user_addr :: u64
  mmap_offset :: u64

definition VhostUserMemoryRegion_new :: "u64 \<Rightarrow> u64 \<Rightarrow> u64 \<Rightarrow> u64 \<Rightarrow> VhostUserMemoryRegion" where
  "VhostUserMemoryRegion_new gpa sz ua off =
     \<lparr>guest_phys_addr = gpa, memory_size = sz, user_addr = ua, mmap_offset = off\<rparr>"

definition is_valid_common :: "VhostUserMemoryRegion \<Rightarrow> bool" where
  "is_valid_common r \<longleftrightarrow>
     memory_size r \<noteq> 0
     \<and> checked_add (guest_phys_addr r) (memory_size r) \<noteq> None
     \<and> checked_add (user_addr r) (memory_size r) \<noteq> None
     \<and> checked_add (mmap_offset r) (memory_size r) \<noteq> None"

definition VhostUserMemoryRegion_T :: "VhostUserMemoryRegion msg_type" where
  "VhostUserMemoryRegion_T =
     \<lparr>size_of = 32,
      as_slice = (\<lambda>r. le_bytes 8 (guest_phys_addr r) @ le_bytes 8 (memory_size r)
                      @ le_bytes 8 (user_addr r) @ le_bytes 8 (mmap_offset r)),
      from_slice = (\<lambda>bs. \<lparr>guest_phys_addr = of_le_bytes (slice 0 8 bs),
                          memory_size = of_le_bytes (slice 8 8 bs),
                          user_addr = of_le_bytes (slice 16 8 bs),
                          mmap_offset = of_le_bytes (slice 24 8 bs)\<rparr>),
      is_valid = is_valid_common\<rparr>"

text \<open>
  The single-region body of \<open>ADD_MEM_REG\<close> and \<open>REM_MEM_REG\<close> uses the trait's default validity
  check, which accepts everything: the embedded region is not validated.
\<close>

record VhostUserSingleMemoryRegion =
  smr_padding :: u64
  smr_region :: VhostUserMemoryRegion

definition VhostUserSingleMemoryRegion_new ::
    "u64 \<Rightarrow> u64 \<Rightarrow> u64 \<Rightarrow> u64 \<Rightarrow> VhostUserSingleMemoryRegion" where
  "VhostUserSingleMemoryRegion_new gpa sz ua off =
     \<lparr>smr_padding = 0, smr_region = VhostUserMemoryRegion_new gpa sz ua off\<rparr>"

definition VhostUserSingleMemoryRegion_T :: "VhostUserSingleMemoryRegion msg_type" where
  "VhostUserSingleMemoryRegion_T =
     \<lparr>size_of = 40,
      as_slice = (\<lambda>r. le_bytes 8 (smr_padding r)
                      @ as_slice VhostUserMemoryRegion_T (smr_region r)),
      from_slice = (\<lambda>bs. \<lparr>smr_padding = of_le_bytes (slice 0 8 bs),
                          smr_region = from_slice VhostUserMemoryRegion_T (slice 8 32 bs)\<rparr>),
      is_valid = (\<lambda>_. True)\<rparr>"

subsection \<open>VhostUserShMemConfig\<close>

record VhostUserShMemConfig =
  nregions :: u32
  shm_padding :: u32
  memory_sizes :: "u64 list"

definition VhostUserShMemConfig_default :: VhostUserShMemConfig where
  "VhostUserShMemConfig_default =
     \<lparr>nregions = 0, shm_padding = 0, memory_sizes = replicate 256 0\<rparr>"

definition VhostUserShMemConfig_new :: "u32 \<Rightarrow> u64 list \<Rightarrow> VhostUserShMemConfig" where
  "VhostUserShMemConfig_new n memory =
     \<lparr>nregions = n, shm_padding = 0,
      memory_sizes = map (\<lambda>i. if i < length memory then memory ! i else 0) [0..<256]\<rparr>"

definition VhostUserShMemConfig_T :: "VhostUserShMemConfig msg_type" where
  "VhostUserShMemConfig_T =
     \<lparr>size_of = 2056,
      as_slice = (\<lambda>m. le_bytes 4 (nregions m) @ le_bytes 4 (shm_padding m)
                      @ concat (map (le_bytes 8) (memory_sizes m))),
      from_slice = (\<lambda>bs. \<lparr>nregions = of_le_bytes (slice 0 4 bs),
                          shm_padding = of_le_bytes (slice 4 4 bs),
                          memory_sizes = map of_le_bytes (chunks 8 256 (drop 8 bs))\<rparr>),
      is_valid = (\<lambda>_. True)\<rparr>"

subsection \<open>Vring state and vring addresses\<close>

record VhostUserVringState =
  vs_index :: u32
  vs_num :: u32

definition VhostUserVringState_new :: "u32 \<Rightarrow> u32 \<Rightarrow> VhostUserVringState" where
  "VhostUserVringState_new i n = \<lparr>vs_index = i, vs_num = n\<rparr>"

definition VhostUserVringState_T :: "VhostUserVringState msg_type" where
  "VhostUserVringState_T =
     \<lparr>size_of = 8,
      as_slice = (\<lambda>m. le_bytes 4 (vs_index m) @ le_bytes 4 (vs_num m)),
      from_slice = (\<lambda>bs. \<lparr>vs_index = of_le_bytes (slice 0 4 bs),
                          vs_num = of_le_bytes (slice 4 4 bs)\<rparr>),
      is_valid = (\<lambda>_. True)\<rparr>"

definition VHOST_VRING_F_LOG :: u32 where
  "VHOST_VRING_F_LOG = 0x1"

text \<open>\<open>VhostUserVringAddrFlags::all\<close> has the one flag; \<open>from_bits\<close> refuses every other bit.\<close>

definition vring_addr_flags_from_bits :: "u32 \<Rightarrow> u32 option" where
  "vring_addr_flags_from_bits bits =
     (if bits AND NOT VHOST_VRING_F_LOG \<noteq> 0 then None else Some bits)"

record VhostUserVringAddr =
  va_index :: u32
  va_flags :: u32
  va_descriptor :: u64
  va_used :: u64
  va_available :: u64
  va_log :: u64

definition VhostUserVringAddr_new ::
    "u32 \<Rightarrow> u32 \<Rightarrow> u64 \<Rightarrow> u64 \<Rightarrow> u64 \<Rightarrow> u64 \<Rightarrow> VhostUserVringAddr" where
  "VhostUserVringAddr_new i fl desc used avail lg =
     \<lparr>va_index = i, va_flags = fl, va_descriptor = desc, va_used = used,
      va_available = avail, va_log = lg\<rparr>"

definition VhostUserVringAddr_is_valid :: "VhostUserVringAddr \<Rightarrow> bool" where
  "VhostUserVringAddr_is_valid a =
     (if va_flags a AND NOT VHOST_VRING_F_LOG \<noteq> 0 then False
      else if va_descriptor a AND 0xf \<noteq> 0 then False
      else if va_available a AND 0x1 \<noteq> 0 then False
      else if va_used a AND 0x3 \<noteq> 0 then False
      else True)"

definition VhostUserVringAddr_T :: "VhostUserVringAddr msg_type" where
  "VhostUserVringAddr_T =
     \<lparr>size_of = 40,
      as_slice = (\<lambda>a. le_bytes 4 (va_index a) @ le_bytes 4 (va_flags a)
                      @ le_bytes 8 (va_descriptor a) @ le_bytes 8 (va_used a)
                      @ le_bytes 8 (va_available a) @ le_bytes 8 (va_log a)),
      from_slice = (\<lambda>bs. \<lparr>va_index = of_le_bytes (slice 0 4 bs),
                          va_flags = of_le_bytes (slice 4 4 bs),
                          va_descriptor = of_le_bytes (slice 8 8 bs),
                          va_used = of_le_bytes (slice 16 8 bs),
                          va_available = of_le_bytes (slice 24 8 bs),
                          va_log = of_le_bytes (slice 32 8 bs)\<rparr>),
      is_valid = VhostUserVringAddr_is_valid\<rparr>"

subsection \<open>VhostUserConfig\<close>

definition CONFIG_FLAGS_ALL :: u32 where
  "CONFIG_FLAGS_ALL = 0x3"

definition config_flags_from_bits :: "u32 \<Rightarrow> u32 option" where
  "config_flags_from_bits bits =
     (if bits AND NOT CONFIG_FLAGS_ALL \<noteq> 0 then None else Some bits)"

record VhostUserConfig =
  cfg_offset :: u32
  cfg_size :: u32
  cfg_flags :: u32

definition VhostUserConfig_new :: "u32 \<Rightarrow> u32 \<Rightarrow> u32 \<Rightarrow> VhostUserConfig" where
  "VhostUserConfig_new off sz fl = \<lparr>cfg_offset = off, cfg_size = sz, cfg_flags = fl\<rparr>"

definition VhostUserConfig_is_valid :: "VhostUserConfig \<Rightarrow> bool" where
  "VhostUserConfig_is_valid c = (case checked_add (cfg_size c) (cfg_offset c) of
       None \<Rightarrow> False
     | Some end_addr \<Rightarrow>
         if cfg_flags c AND NOT CONFIG_FLAGS_ALL \<noteq> 0 then False
         else if cfg_size c = 0 \<or> end_addr > VHOST_USER_CONFIG_SIZE then False
         else True)"

definition VhostUserConfig_T :: "VhostUserConfig msg_type" where
  "VhostUserConfig_T =
     \<lparr>size_of = 12,
      as_slice = (\<lambda>c. le_bytes 4 (cfg_offset c) @ le_bytes 4 (cfg_size c)
                      @ le_bytes 4 (cfg_flags c)),
      from_slice = (\<lambda>bs. \<lparr>cfg_offset = of_le_bytes (slice 0 4 bs),
                          cfg_size = of_le_bytes (slice 4 4 bs),
                          cfg_flags = of_le_bytes (slice 8 4 bs)\<rparr>),
      is_valid = VhostUserConfig_is_valid\<rparr>"

subsection \<open>VhostUserInflight and VhostUserLog\<close>

record VhostUserInflight =
  infl_mmap_size :: u64
  infl_mmap_offset :: u64
  infl_num_queues :: u16
  infl_queue_size :: u16

definition VhostUserInflight_new :: "u64 \<Rightarrow> u64 \<Rightarrow> u16 \<Rightarrow> u16 \<Rightarrow> VhostUserInflight" where
  "VhostUserInflight_new msz off num_queues queue_size =
     \<lparr>infl_mmap_size = msz, infl_mmap_offset = off, infl_num_queues = num_queues,
      infl_queue_size = queue_size\<rparr>"

definition VhostUserInflight_is_valid :: "VhostUserInflight \<Rightarrow> bool" where
  "VhostUserInflight_is_valid i =
     (if infl_num_queues i = 0 \<or> infl_queue_size i = 0 then False else True)"

text \<open>\<open>repr(C)\<close> pads the structure to a multiple of eight bytes: four bytes follow the fields.\<close>

definition VhostUserInflight_T :: "VhostUserInflight msg_type" where
  "VhostUserInflight_T =
     \<lparr>size_of = 24,
      as_slice = (\<lambda>i. le_bytes 8 (infl_mmap_size i) @ le_bytes 8 (infl_mmap_offset i)
                      @ le_bytes 2 (infl_num_queues i) @ le_bytes 2 (infl_queue_size i)
                      @ replicate 4 0),
      from_slice = (\<lambda>bs. \<lparr>infl_mmap_size = of_le_bytes (slice 0 8 bs),
                          infl_mmap_offset = of_le_bytes (slice 8 8 bs),
                          infl_num_queues = of_le_bytes (slice 16 2 bs),
                          infl_queue_size = of_le_bytes (slice 18 2 bs)\<rparr>),
      is_valid = VhostUserInflight_is_valid\<rparr>"

record VhostUserLog =
  log_mmap_size :: u64
  log_mmap_offset :: u64

definition VhostUserLog_new :: "u64 \<Rightarrow> u64 \<Rightarrow> VhostUserLog" where
  "VhostUserLog_new msz off = \<lparr>log_mmap_size = msz, log_mmap_offset = off\<rparr>"

definition VhostUserLog_is_valid :: "VhostUserLog \<Rightarrow> bool" where
  "VhostUserLog_is_valid l =
     (if log_mmap_size l = 0 \<or> checked_add (log_mmap_offset l) (log_mmap_size l) = None then False
      else True)"

definition VhostUserLog_T :: "VhostUserLog msg_type" where
  "VhostUserLog_T =
     \<lparr>size_of = 16,
      as_slice = (\<lambda>l. le_bytes 8 (log_mmap_size l) @ le_bytes 8 (log_mmap_offset l)),
      from_slice = (\<lambda>bs. \<lparr>log_mmap_size = of_le_bytes (slice 0 8 bs),
                          log_mmap_offset = of_le_bytes (slice 8 8 bs)\<rparr>),
      is_valid = VhostUserLog_is_valid\<rparr>"

subsection \<open>Device state transfer\<close>

datatype VhostTransferStateDirection = SAVE | LOAD

fun direction_into :: "VhostTransferStateDirection \<Rightarrow> u32" where
  "direction_into SAVE = 0"
| "direction_into LOAD = 1"

definition direction_try_from :: "u32 \<Rightarrow> VhostTransferStateDirection option" where
  "direction_try_from = enum_try_from direction_into [SAVE, LOAD]"

datatype VhostTransferStatePhase = STOPPED

fun phase_into :: "VhostTransferStatePhase \<Rightarrow> u32" where
  "phase_into STOPPED = 0"

definition phase_try_from :: "u32 \<Rightarrow> VhostTransferStatePhase option" where
  "phase_try_from = enum_try_from phase_into [STOPPED]"

record VhostUserTransferDeviceState =
  tds_direction :: u32
  tds_phase :: u32

definition VhostUserTransferDeviceState_new ::
    "VhostTransferStateDirection \<Rightarrow> VhostTransferStatePhase \<Rightarrow> VhostUserTransferDeviceState" where
  "VhostUserTransferDeviceState_new d p =
     \<lparr>tds_direction = direction_into d, tds_phase = phase_into p\<rparr>"

definition VhostUserTransferDeviceState_is_valid :: "VhostUserTransferDeviceState \<Rightarrow> bool" where
  "VhostUserTransferDeviceState_is_valid m \<longleftrightarrow>
     direction_try_from (tds_direction m) \<noteq> None \<and> phase_try_from (tds_phase m) \<noteq> None"

definition VhostUserTransferDeviceState_T :: "VhostUserTransferDeviceState msg_type" where
  "VhostUserTransferDeviceState_T =
     \<lparr>size_of = 8,
      as_slice = (\<lambda>m. le_bytes 4 (tds_direction m) @ le_bytes 4 (tds_phase m)),
      from_slice = (\<lambda>bs. \<lparr>tds_direction = of_le_bytes (slice 0 4 bs),
                          tds_phase = of_le_bytes (slice 4 4 bs)\<rparr>),
      is_valid = VhostUserTransferDeviceState_is_valid\<rparr>"

subsection \<open>Shared objects and shared memory mappings\<close>

text \<open>A UUID is its sixteen bytes, here as one 128-bit value: nil has no bit set, max all.\<close>

record VhostUserSharedMsg =
  uuid :: "128 word"

definition VhostUserSharedMsg_is_valid :: "VhostUserSharedMsg \<Rightarrow> bool" where
  "VhostUserSharedMsg_is_valid m \<longleftrightarrow> \<not> (uuid m = 0 \<or> uuid m = - 1)"

definition VhostUserSharedMsg_T :: "VhostUserSharedMsg msg_type" where
  "VhostUserSharedMsg_T =
     \<lparr>size_of = 16,
      as_slice = (\<lambda>m. le_bytes 16 (uuid m)),
      from_slice = (\<lambda>bs. \<lparr>uuid = of_le_bytes (slice 0 16 bs)\<rparr>),
      is_valid = VhostUserSharedMsg_is_valid\<rparr>"

text \<open>The flags of a mapping: a mapping without \<open>WRITABLE\<close> is read-only.\<close>

definition MMAP_WRITABLE :: u64 where "MMAP_WRITABLE = 1"

record VhostUserMMap =
  shmid :: u8
  mmap_padding :: "u8 list"
  fd_offset :: u64
  shm_offset :: u64
  mm_len :: u64
  mm_flags :: u64

definition VhostUserMMap_is_valid :: "VhostUserMMap \<Rightarrow> bool" where
  "VhostUserMMap_is_valid m \<longleftrightarrow>
     checked_add (fd_offset m) (mm_len m) \<noteq> None
     \<and> checked_add (shm_offset m) (mm_len m) \<noteq> None
     \<and> mm_len m \<noteq> 0
     \<and> mm_flags m AND NOT MMAP_WRITABLE = 0"

definition VhostUserMMap_T :: "VhostUserMMap msg_type" where
  "VhostUserMMap_T =
     \<lparr>size_of = 40,
      as_slice = (\<lambda>m. [shmid m] @ mmap_padding m @ le_bytes 8 (fd_offset m)
                      @ le_bytes 8 (shm_offset m) @ le_bytes 8 (mm_len m)
                      @ le_bytes 8 (mm_flags m)),
      from_slice = (\<lambda>bs. \<lparr>shmid = of_le_bytes (slice 0 1 bs),
                          mmap_padding = slice 1 7 bs,
                          fd_offset = of_le_bytes (slice 8 8 bs),
                          shm_offset = of_le_bytes (slice 16 8 bs),
                          mm_len = of_le_bytes (slice 24 8 bs),
                          mm_flags = of_le_bytes (slice 32 8 bs)\<rparr>),
      is_valid = VhostUserMMap_is_valid\<rparr>"

subsection \<open>Every body implements ByteValued\<close>

lemmas body_defs = VhostUserEmpty_T_def VhostUserU64_T_def VhostUserMemory_T_def
  VhostUserMemoryRegion_T_def VhostUserSingleMemoryRegion_T_def VhostUserShMemConfig_T_def
  VhostUserVringState_T_def VhostUserVringAddr_T_def VhostUserConfig_T_def VhostUserInflight_T_def
  VhostUserLog_T_def VhostUserTransferDeviceState_T_def VhostUserSharedMsg_T_def VhostUserMMap_T_def

interpretation empty_body: byte_valued VhostUserEmpty_T "\<lambda>_. True"
  by unfold_locales (simp_all add: body_defs)

interpretation u64_body: byte_valued VhostUserU64_T "\<lambda>_. True"
  by unfold_locales (simp_all add: body_defs slice_def)

interpretation memory_body: byte_valued VhostUserMemory_T "\<lambda>_. True"
  by unfold_locales (simp_all add: body_defs slice_def)

interpretation region_body: byte_valued VhostUserMemoryRegion_T "\<lambda>_. True"
  by unfold_locales (simp_all add: body_defs slice_def)

interpretation single_region_body: byte_valued VhostUserSingleMemoryRegion_T "\<lambda>_. True"
  by unfold_locales (simp_all add: body_defs slice_def)

interpretation vring_state_body: byte_valued VhostUserVringState_T "\<lambda>_. True"
  by unfold_locales (simp_all add: body_defs slice_def)

interpretation vring_addr_body: byte_valued VhostUserVringAddr_T "\<lambda>_. True"
  by unfold_locales (simp_all add: body_defs slice_def)

interpretation config_body: byte_valued VhostUserConfig_T "\<lambda>_. True"
  by unfold_locales (simp_all add: body_defs slice_def)

interpretation inflight_body: byte_valued VhostUserInflight_T "\<lambda>_. True"
  by unfold_locales (simp_all add: body_defs slice_def)

interpretation log_body: byte_valued VhostUserLog_T "\<lambda>_. True"
  by unfold_locales (simp_all add: body_defs slice_def)

interpretation transfer_body: byte_valued VhostUserTransferDeviceState_T "\<lambda>_. True"
  by unfold_locales (simp_all add: body_defs slice_def)

interpretation shared_body: byte_valued VhostUserSharedMsg_T "\<lambda>_. True"
  by unfold_locales (simp_all add: body_defs slice_def)

interpretation mmap_body: byte_valued VhostUserMMap_T "\<lambda>m. length (mmap_padding m) = 7"
  by unfold_locales (simp_all add: body_defs slice_def)

lemma length_concat_le_bytes:
  "length (concat (map (le_bytes w) xs)) = w * length xs"
  by (induction xs) auto

lemma chunks_concat_le_bytes:
  "n = length xs \<Longrightarrow> chunks w n (concat (map (le_bytes w) xs)) = map (le_bytes w) xs"
  by (simp add: chunks_concat)

interpretation shmem_config_body:
  byte_valued VhostUserShMemConfig_T "\<lambda>m. length (memory_sizes m) = 256"
  by unfold_locales
    (simp_all add: body_defs slice_def length_concat_le_bytes chunks_concat_le_bytes map_idI)

subsection \<open>What the validity checks establish\<close>

lemma direction_try_from_Some_iff [simp]: "direction_try_from v = Some d \<longleftrightarrow> direction_into d = v"
proof -
  have "set [SAVE, LOAD] = UNIV" using VhostTransferStateDirection.exhaust by auto
  moreover have "inj direction_into"
    by (rule inj_of_variants [OF calculation]) simp
  ultimately show ?thesis by (simp add: direction_try_from_def enum_try_from_Some_iff)
qed

lemma phase_try_from_Some_iff [simp]: "phase_try_from v = Some p \<longleftrightarrow> phase_into p = v"
proof -
  have "set [STOPPED] = UNIV" using VhostTransferStatePhase.exhaust by auto
  moreover have "inj phase_into"
    by (rule inj_of_variants [OF calculation]) simp
  ultimately show ?thesis by (simp add: phase_try_from_def enum_try_from_Some_iff)
qed

lemma and_not_1_eq_0_iff: "(w::'a::len word) AND NOT 1 = 0 \<longleftrightarrow> w = 0 \<or> w = 1"
proof -
  have "w AND NOT 1 = 0 \<longleftrightarrow> w AND 1 = w"
    by (metis (no_types) bit.conj_cancel_right bit.conj_disj_distrib bit.disj_cancel_right
        bit.conj_one_right or.right_neutral and.assoc bit.conj_zero_right)
  moreover have "w AND 1 = w \<longleftrightarrow> w = 0 \<or> w = 1"
    by (metis and_one_eq and_zero_eq mod2_eq_if zero_and_eq and.idem)
  ultimately show ?thesis by simp
qed

text \<open>
  A memory region passes validation exactly when it is not empty and the first address after each
  of its three ranges (guest physical, frontend virtual, file) is a 64-bit number; a range that
  ends with the address space is refused.
\<close>

theorem memory_region_valid_iff:
  "is_valid_common r \<longleftrightarrow>
     0 < unat (memory_size r)
     \<and> unat (guest_phys_addr r) + unat (memory_size r) < 2 ^ 64
     \<and> unat (user_addr r) + unat (memory_size r) < 2 ^ 64
     \<and> unat (mmap_offset r) + unat (memory_size r) < 2 ^ 64"
  by (auto simp: is_valid_common_def unat_gt_0 checked_add_Some_iff simp del: not_None_eq)

text \<open>
  A configuration access passes validation exactly when it has no undeclared flag, is not
  empty and lies inside the 4096 bytes of the device configuration space; the 32-bit sum of
  offset and size cannot wrap around the check.
\<close>

theorem config_valid_iff:
  "VhostUserConfig_is_valid c \<longleftrightarrow>
     cfg_flags c AND NOT CONFIG_FLAGS_ALL = 0
     \<and> 0 < unat (cfg_size c)
     \<and> unat (cfg_offset c) + unat (cfg_size c) \<le> 4096"
  by (auto simp: VhostUserConfig_is_valid_def VHOST_USER_CONFIG_SIZE_def unat_gt_0
      checked_add_def word_le_nat_alt word_less_nat_alt unat_word_ariths split: option.splits)

text \<open>
  The vring addresses that pass validation are exactly those with no flag beside the log
  flag, a descriptor table aligned to 16 bytes, an available ring aligned to 2 bytes and a used
  ring aligned to 4 bytes.
\<close>

theorem vring_addr_valid_iff:
  "VhostUserVringAddr_is_valid a \<longleftrightarrow>
     (va_flags a = 0 \<or> va_flags a = VHOST_VRING_F_LOG)
     \<and> 16 dvd unat (va_descriptor a) \<and> 2 dvd unat (va_available a) \<and> 4 dvd unat (va_used a)"
  using and_mask_eq_0_iff_dvd [of "va_descriptor a" 4] and_mask_eq_0_iff_dvd [of "va_available a" 1]
    and_mask_eq_0_iff_dvd [of "va_used a" 2] and_not_1_eq_0_iff [of "va_flags a"]
  by (simp add: VhostUserVringAddr_is_valid_def VHOST_VRING_F_LOG_def mask_eq_exp_minus_1)

text \<open>
  A device state transfer message is valid exactly when it is one that
  \<open>VhostUserTransferDeviceState::new\<close> builds from a direction and a phase.
\<close>

theorem transfer_state_valid_iff:
  "VhostUserTransferDeviceState_is_valid m \<longleftrightarrow>
     (\<exists>d p. m = VhostUserTransferDeviceState_new d p)"
  by (cases m)
    (fastforce simp: VhostUserTransferDeviceState_is_valid_def VhostUserTransferDeviceState_new_def)

end
