(* ===== verification/Connection.thy ===== *)
theory Connection
  imports Message
begin

text \<open>
  The endpoint of \<open>vhost/src/vhost_user/connection.rs\<close>: the scatter/gather loops that send and
  receive whole messages over a stream socket, and the message-level operations built on them.

  The socket itself (\<open>vmm_sys_util\<close>'s \<open>ScmSocket\<close> over the operating system) is a parameter
  \<open>'s sock_ops\<close> on an arbitrary socket state; a call that blocks for ever is \<open>None\<close>. What
  \<open>sendmsg\<close> and \<open>recvmsg\<close> document of themselves is \<open>send_law\<close> and \<open>recv_law\<close>. The loops are
  \<open>partial_function\<close>s: a loop that retries for ever has the value \<open>None\<close>, and that they return
  on a socket that makes progress is proved.
\<close>

subsection \<open>The socket\<close>

text \<open>
  \<open>send_with_fds s iovs fds\<close> sends the concatenation of the vectors with the descriptors attached
  and returns an errno or the number of bytes accepted; \<open>recv_with_fds s lens cap\<close> fills vectors
  of the given lengths and at most \<open>cap\<close> descriptors and returns an errno or what it received.
\<close>

record 's sock_ops =
  send_with_fds :: "'s \<Rightarrow> u8 list list \<Rightarrow> fd list \<Rightarrow> ((int + nat) \<times> 's) option"
  recv_with_fds :: "'s \<Rightarrow> nat list \<Rightarrow> nat \<Rightarrow> ((int + (u8 list \<times> fd list)) \<times> 's) option"

subsection \<open>The header type of an endpoint\<close>

record 'h MsgHeader =
  hdr_T :: "'h msg_type"
  max_msg_size :: nat

definition VhostUserMsgHeader_H :: "'r Req \<Rightarrow> VhostUserMsgHeader MsgHeader" where
  "VhostUserMsgHeader_H R =
     \<lparr>hdr_T = \<lparr>size_of = hdr_size_of, as_slice = hdr_as_slice, from_slice = hdr_from_slice,
               is_valid = hdr_is_valid R\<rparr>,
      max_msg_size = MAX_MSG_SIZE\<rparr>"

text \<open>The headers of the two channels: requests to the backend and requests to the frontend.\<close>

abbreviation FH :: "VhostUserMsgHeader MsgHeader" where
  "FH \<equiv> VhostUserMsgHeader_H FrontendReq_Req"

abbreviation BH :: "VhostUserMsgHeader MsgHeader" where
  "BH \<equiv> VhostUserMsgHeader_H BackendReq_Req"

subsection \<open>Position in a vector of buffers\<close>

fun get_sub_iovs_offset :: "nat list \<Rightarrow> nat \<Rightarrow> nat \<times> nat" where
  "get_sub_iovs_offset [] skip = (0, skip)"
| "get_sub_iovs_offset (len # lens) skip =
     (if len \<le> skip
      then (let (nr_skip, off) = get_sub_iovs_offset lens (skip - len) in (Suc nr_skip, off))
      else (0, skip))"

subsection \<open>Sending\<close>

definition send_iovec ::
    "'s sock_ops \<Rightarrow> u8 list list \<Rightarrow> fd list option \<Rightarrow> ('s, Error, nat) M" where
  "send_iovec so iovs fds = (\<lambda>s.
     let rfds = (case fds of None \<Rightarrow> [] | Some l \<Rightarrow> l)
     in case send_with_fds so s iovs rfds of
          None \<Rightarrow> None
        | Some (Inl e, s') \<Rightarrow> Some (Inl (error_from_errno e), s')
        | Some (Inr n, s') \<Rightarrow> Some (Inr n, s'))"

text \<open>The vectors that are left to send after \<open>skip\<close> bytes.\<close>

definition sub_iovs :: "u8 list list \<Rightarrow> nat \<Rightarrow> u8 list list" where
  "sub_iovs iovs skip =
     (let (nr_skip, off) = get_sub_iovs_offset (map length iovs) skip
      in drop off (iovs ! nr_skip) # drop (Suc nr_skip) iovs)"

text \<open>One round of the send loop: the descriptors go with the first chunk.\<close>

definition send_chunk ::
    "'s sock_ops \<Rightarrow> u8 list list \<Rightarrow> fd list option \<Rightarrow> nat \<Rightarrow> ('s, Error, nat) M" where
  "send_chunk so iovs fds sent =
     (let sfds = (if sent = 0 then fds else None) in send_iovec so (sub_iovs iovs sent) sfds)"

partial_function (option) send_iovec_loop ::
    "'s sock_ops \<Rightarrow> u8 list list \<Rightarrow> fd list option \<Rightarrow> nat \<Rightarrow> nat \<Rightarrow> 's
     \<Rightarrow> ((Error + nat) \<times> 's) option" where
  "send_iovec_loop so iovs fds tot sent s =
     (if 0 < tot - sent
      then (case send_chunk so iovs fds sent s of
              None \<Rightarrow> None
            | Some r \<Rightarrow> (case r of (res, s') \<Rightarrow>
                (case res of
                   Inr n \<Rightarrow>
                     if n = 0 then Some (Inr sent, s')
                     else send_iovec_loop so iovs fds tot (sent + n) s'
                 | Inl e \<Rightarrow>
                     if is_socket_retry e then send_iovec_loop so iovs fds tot sent s'
                     else Some (Inl e, s'))))
      else Some (Inr sent, s))"

definition send_iovec_all ::
    "'s sock_ops \<Rightarrow> u8 list list \<Rightarrow> fd list option \<Rightarrow> ('s, Error, nat) M" where
  "send_iovec_all so iovs fds = send_iovec_loop so iovs fds (sum_list (map length iovs)) 0"

definition send_slice :: "'s sock_ops \<Rightarrow> u8 list \<Rightarrow> fd list option \<Rightarrow> ('s, Error, nat) M" where
  "send_slice so data fds = send_iovec so [data] fds"

definition send_header ::
    "'h MsgHeader \<Rightarrow> 's sock_ops \<Rightarrow> 'h \<Rightarrow> fd list option \<Rightarrow> ('s, Error, unit) M" where
  "send_header H so hdr fds =
     bindM (send_iovec_all so [as_slice (hdr_T H) hdr] fds) (\<lambda>bytes.
       guardM (bytes = size_of (hdr_T H)) PartialMessage)"

definition send_message ::
    "'h MsgHeader \<Rightarrow> 't msg_type \<Rightarrow> 's sock_ops \<Rightarrow> 'h \<Rightarrow> 't \<Rightarrow> fd list option \<Rightarrow> ('s, Error, unit) M" where
  "send_message H T so hdr body fds =
     (if size_of T > max_msg_size H then failM OversizedMsg
      else bindM (send_iovec_all so [as_slice (hdr_T H) hdr, as_slice T body] fds) (\<lambda>bytes.
        guardM (bytes = size_of (hdr_T H) + size_of T) PartialMessage))"

definition send_message_with_payload ::
    "'h MsgHeader \<Rightarrow> 't msg_type \<Rightarrow> 's sock_ops \<Rightarrow> 'h \<Rightarrow> 't \<Rightarrow> u8 list \<Rightarrow> fd list option
     \<Rightarrow> ('s, Error, unit) M" where
  "send_message_with_payload H T so hdr body payload fds =
     (let len = length payload in
      if size_of T > max_msg_size H then failM OversizedMsg
      else if len > max_msg_size H - size_of T then failM OversizedMsg
      else if (case fds of Some l \<Rightarrow> length l > MAX_ATTACHED_FD_ENTRIES | None \<Rightarrow> False)
        then failM IncorrectFds
      else
        (let tot = size_of (hdr_T H) + size_of T + len in
         bindM (send_iovec_all so [as_slice (hdr_T H) hdr, as_slice T body, payload] fds) (\<lambda>n.
           guardM (n = tot) PartialMessage)))"

subsection \<open>Receiving\<close>

text \<open>Received bytes overwrite the vectors in order, from offset \<open>off\<close> of the first one.\<close>

fun fill_iovs :: "u8 list list \<Rightarrow> nat \<Rightarrow> u8 list \<Rightarrow> u8 list list" where
  "fill_iovs [] off bs = []"
| "fill_iovs (b # rest) off bs =
     (take off b @ take (length b - off) bs @ drop (off + length bs) b)
       # fill_iovs rest 0 (drop (length b - off) bs)"

definition recv_data :: "'s sock_ops \<Rightarrow> nat \<Rightarrow> ('s, Error, nat \<times> u8 list) M" where
  "recv_data so len = (\<lambda>s.
     case recv_with_fds so s [len] 0 of
       None \<Rightarrow> None
     | Some (Inl e, s') \<Rightarrow> Some (Inl (error_from_errno e), s')
     | Some (Inr (bs, _), s') \<Rightarrow>
         Some (Inr (length bs, concat (fill_iovs [replicate len 0] 0 bs)), s'))"

definition recv_into_iovec ::
    "'s sock_ops \<Rightarrow> nat list \<Rightarrow> ('s, Error, u8 list \<times> fd list option) M" where
  "recv_into_iovec so lens = (\<lambda>s.
     case recv_with_fds so s lens MAX_ATTACHED_FD_ENTRIES of
       None \<Rightarrow> None
     | Some (Inl e, s') \<Rightarrow> Some (Inl (error_from_errno e), s')
     | Some (Inr (bs, fds), s') \<Rightarrow>
         let files = (if length fds = 0 then None else Some fds) in Some (Inr (bs, files), s'))"

text \<open>The lengths of the vectors left to fill after \<open>skip\<close> bytes, and the vectors filled there.\<close>

definition sub_lens :: "u8 list list \<Rightarrow> nat \<Rightarrow> nat list" where
  "sub_lens bufs skip =
     (let (nr_skip, off) = get_sub_iovs_offset (map length bufs) skip
      in (length (bufs ! nr_skip) - off) # map length (drop (Suc nr_skip) bufs))"

definition fill_at :: "u8 list list \<Rightarrow> nat \<Rightarrow> u8 list \<Rightarrow> u8 list list" where
  "fill_at bufs skip bs =
     (let (nr_skip, off) = get_sub_iovs_offset (map length bufs) skip
      in take nr_skip bufs @ fill_iovs (drop nr_skip bufs) off bs)"

partial_function (option) recv_iovec_loop ::
    "'s sock_ops \<Rightarrow> nat \<Rightarrow> u8 list list \<Rightarrow> nat \<Rightarrow> fd list option \<Rightarrow> 's
     \<Rightarrow> ((Error + (nat \<times> u8 list list \<times> fd list option)) \<times> 's) option" where
  "recv_iovec_loop so tot bufs got rfds s =
     (if 0 < tot - got
      then (case recv_into_iovec so (sub_lens bufs got) s of
              None \<Rightarrow> None
            | Some r \<Rightarrow> (case r of (res, s') \<Rightarrow>
                (case res of
                   Inr v \<Rightarrow> (case v of (bs, fds) \<Rightarrow>
                     if length bs = 0 then Some (Inr (got, bufs, rfds), s')
                     else recv_iovec_loop so tot (fill_at bufs got bs) (got + length bs)
                            (if got = 0 then fds else rfds) s')
                 | Inl e \<Rightarrow>
                     if is_socket_retry e then recv_iovec_loop so tot bufs got rfds s'
                     else Some (Inl e, s'))))
      else Some (Inr (got, bufs, rfds), s))"

text \<open>Returns the number of bytes received, the vectors as they are then, and the files.\<close>

definition recv_into_iovec_all ::
    "'s sock_ops \<Rightarrow> u8 list list \<Rightarrow> ('s, Error, nat \<times> u8 list list \<times> fd list option) M" where
  "recv_into_iovec_all so bufs =
     recv_iovec_loop so (sum_list (map length bufs)) bufs 0 None"

definition recv_into_buf ::
    "'s sock_ops \<Rightarrow> nat \<Rightarrow> ('s, Error, nat \<times> u8 list \<times> fd list option) M" where
  "recv_into_buf so buf_size =
     bindM (recv_into_iovec so [buf_size]) (\<lambda>(bs, files).
       retM (length bs, concat (fill_iovs [replicate buf_size 0] 0 bs), files))"

definition recv_header ::
    "'h MsgHeader \<Rightarrow> 's sock_ops \<Rightarrow> ('s, Error, 'h \<times> fd list option) M" where
  "recv_header H so =
     bindM (recv_into_iovec_all so [replicate (size_of (hdr_T H)) 0]) (\<lambda>(bytes, bufs, files).
       let hdr = from_slice (hdr_T H) (bufs ! 0) in
       if bytes = 0 then failM Disconnected
       else if bytes \<noteq> size_of (hdr_T H) then failM PartialMessage
       else if \<not> is_valid (hdr_T H) hdr then failM InvalidMessage
       else retM (hdr, files))"

definition recv_body ::
    "'h MsgHeader \<Rightarrow> 't msg_type \<Rightarrow> 's sock_ops \<Rightarrow> ('s, Error, 'h \<times> 't \<times> fd list option) M" where
  "recv_body H T so =
     bindM (recv_into_iovec_all so [replicate (size_of (hdr_T H)) 0, replicate (size_of T) 0])
       (\<lambda>(bytes, bufs, files).
       let hdr = from_slice (hdr_T H) (bufs ! 0);
           body = from_slice T (bufs ! 1);
           tot = size_of (hdr_T H) + size_of T in
       if bytes \<noteq> tot then failM PartialMessage
       else if \<not> is_valid (hdr_T H) hdr \<or> \<not> is_valid T body then failM InvalidMessage
       else retM (hdr, body, files))"

definition recv_body_into_buf ::
    "'h MsgHeader \<Rightarrow> 's sock_ops \<Rightarrow> u8 list
     \<Rightarrow> ('s, Error, 'h \<times> nat \<times> u8 list \<times> fd list option) M" where
  "recv_body_into_buf H so buf =
     bindM (recv_into_iovec_all so [replicate (size_of (hdr_T H)) 0, buf]) (\<lambda>(bytes, bufs, files).
       let hdr = from_slice (hdr_T H) (bufs ! 0) in
       if bytes < size_of (hdr_T H) then failM PartialMessage
       else if \<not> is_valid (hdr_T H) hdr then failM InvalidMessage
       else retM (hdr, bytes - size_of (hdr_T H), bufs ! 1, files))"

definition recv_payload_into_buf ::
    "'h MsgHeader \<Rightarrow> 't msg_type \<Rightarrow> 's sock_ops \<Rightarrow> u8 list
     \<Rightarrow> ('s, Error, 'h \<times> 't \<times> nat \<times> u8 list \<times> fd list option) M" where
  "recv_payload_into_buf H T so buf =
     bindM (recv_into_iovec_all so
              [replicate (size_of (hdr_T H)) 0, replicate (size_of T) 0, buf])
       (\<lambda>(bytes, bufs, files).
       let hdr = from_slice (hdr_T H) (bufs ! 0);
           body = from_slice T (bufs ! 1);
           tot = size_of (hdr_T H) + size_of T in
       if bytes < tot then failM PartialMessage
       else if \<not> is_valid (hdr_T H) hdr \<or> \<not> is_valid T body then failM InvalidMessage
       else retM (hdr, body, bytes - tot, bufs ! 2, files))"

subsection \<open>What the socket documents\<close>

text \<open>
  \<open>tx s\<close> is what has been handed to the operating system so far: one entry per successful
  \<open>sendmsg\<close>, with its bytes and the descriptors attached to its first byte. A send accepts a
  prefix of the data; a failed send accepts nothing.
\<close>

definition send_law :: "'s sock_ops \<Rightarrow> ('s \<Rightarrow> (u8 list \<times> fd list) list) \<Rightarrow> bool" where
  "send_law so tx \<longleftrightarrow> (\<forall>s iovs fds r s'. send_with_fds so s iovs fds = Some (r, s') \<longrightarrow>
     (case r of
        Inl e \<Rightarrow> tx s' = tx s
      | Inr n \<Rightarrow> n \<le> length (concat iovs) \<and> tx s' = tx s @ [(take n (concat iovs), fds)]))"

text \<open>
  \<open>rx s\<close> is what the peer sends from now on and \<open>rxf s\<close> the descriptors attached to its first
  byte. A receive takes a prefix of the stream that fits the vectors, with the first descriptors
  that fit, and takes nothing only at the end of the stream; a failed receive takes nothing.
\<close>

definition recv_law ::
    "'s sock_ops \<Rightarrow> ('s \<Rightarrow> u8 list) \<Rightarrow> ('s \<Rightarrow> fd list) \<Rightarrow> bool" where
  "recv_law so rx rxf \<longleftrightarrow> (\<forall>s lens cap r s'. recv_with_fds so s lens cap = Some (r, s') \<longrightarrow>
     (case r of
        Inl e \<Rightarrow> rx s' = rx s \<and> rxf s' = rxf s
      | Inr (bs, fds) \<Rightarrow> rx s = bs @ rx s' \<and> length bs \<le> sum_list lens
          \<and> (bs = [] \<and> 0 < sum_list lens \<longrightarrow> rx s = [])
          \<and> (bs \<noteq> [] \<longrightarrow> fds = take cap (rxf s))))"

text \<open>The two directions of a socket are independent.\<close>

definition duplex_law ::
    "'s sock_ops \<Rightarrow> ('s \<Rightarrow> (u8 list \<times> fd list) list) \<Rightarrow> ('s \<Rightarrow> u8 list) \<Rightarrow> ('s \<Rightarrow> fd list) \<Rightarrow> bool" where
  "duplex_law so tx rx rxf \<longleftrightarrow>
     (\<forall>s iovs fds r s'. send_with_fds so s iovs fds = Some (r, s') \<longrightarrow> rx s' = rx s \<and> rxf s' = rxf s)
     \<and> (\<forall>s lens cap r s'. recv_with_fds so s lens cap = Some (r, s') \<longrightarrow> tx s' = tx s)"

text \<open>
  Progress: a send of some bytes, or a receive while the peer has sent something, moves at least
  one byte, or fails with an error that asks for a retry, which happens only \<open>budget\<close> times.
\<close>

definition send_progress :: "'s sock_ops \<Rightarrow> ('s \<Rightarrow> nat) \<Rightarrow> bool" where
  "send_progress so budget \<longleftrightarrow> (\<forall>s iovs fds. concat iovs \<noteq> [] \<longrightarrow>
     (\<exists>n s'. send_with_fds so s iovs fds = Some (Inr n, s') \<and> 0 < n)
     \<or> (\<exists>e s'. send_with_fds so s iovs fds = Some (Inl e, s')
            \<and> is_socket_retry (error_from_errno e) \<and> budget s' < budget s))"

definition recv_progress :: "'s sock_ops \<Rightarrow> ('s \<Rightarrow> u8 list) \<Rightarrow> ('s \<Rightarrow> nat) \<Rightarrow> bool" where
  "recv_progress so rx budget \<longleftrightarrow> (\<forall>s lens cap. 0 < sum_list lens \<longrightarrow> rx s \<noteq> [] \<longrightarrow>
     (\<exists>bs fds s'. recv_with_fds so s lens cap = Some (Inr (bs, fds), s') \<and> bs \<noteq> [])
     \<or> (\<exists>e s'. recv_with_fds so s lens cap = Some (Inl e, s')
            \<and> is_socket_retry (error_from_errno e) \<and> budget s' < budget s))"

text \<open>The errors that end a transfer: those made of an errno that does not ask for a retry.\<close>

definition is_socket_failure :: "Error \<Rightarrow> bool" where
  "is_socket_failure e \<longleftrightarrow> e \<in> range error_from_errno \<and> \<not> is_socket_retry e"

text \<open>The descriptors that go with the i-th chunk of a message.\<close>

definition chunk_fds :: "fd list option \<Rightarrow> nat \<Rightarrow> fd list" where
  "chunk_fds fds i = (if i = 0 then (case fds of None \<Rightarrow> [] | Some l \<Rightarrow> l) else [])"

text \<open>The files the receiver makes of the descriptors attached to a message.\<close>

definition received_files :: "fd list \<Rightarrow> fd list option" where
  "received_files fds =
     (let l = take MAX_ATTACHED_FD_ENTRIES fds in if l = [] then None else Some l)"

subsection \<open>Facts about positions\<close>

lemma get_sub_iovs_offset_pos:
  assumes "get_sub_iovs_offset lens skip = (k, off)" and "skip < sum_list lens"
  shows "k < length lens \<and> off < lens ! k \<and> skip = sum_list (take k lens) + off"
  using assms
proof (induction lens skip arbitrary: k rule: get_sub_iovs_offset.induct)
  case (1 skip)
  then show ?case by simp
next
  case (2 len lens skip)
  show ?case
  proof (cases "len \<le> skip")
    case True
    with 2 obtain j where "get_sub_iovs_offset lens (skip - len) = (j, off)" and "k = Suc j"
      by (auto split: prod.splits)
    moreover have "skip - len < sum_list lens" using 2 True by simp
    ultimately show ?thesis using 2 True by fastforce
  next
    case False
    with 2 show ?thesis by simp
  qed
qed

lemma sum_list_lengths: "sum_list (map length xss) = length (concat xss)"
  by (simp add: length_concat)

lemma concat_split_at:
  assumes "get_sub_iovs_offset (map length xss) skip = (k, off)" and "skip < length (concat xss)"
  shows "k < length xss \<and> off < length (xss ! k) \<and> skip = length (concat (take k xss)) + off"
  using get_sub_iovs_offset_pos [OF assms(1)] assms(2)
  by (auto simp: sum_list_lengths take_map)

lemma concat_sub_iovs:
  assumes "skip < length (concat iovs)"
  shows "concat (sub_iovs iovs skip) = drop skip (concat iovs)"
proof -
  obtain k off where pos: "get_sub_iovs_offset (map length iovs) skip = (k, off)"
    by (cases "get_sub_iovs_offset (map length iovs) skip") auto
  note at = concat_split_at [OF this assms]
  have "iovs = take k iovs @ iovs ! k # drop (Suc k) iovs"
    using at id_take_nth_drop by blast
  then have "concat iovs = concat (take k iovs) @ iovs ! k @ concat (drop (Suc k) iovs)"
    by (metis concat.simps(2) concat_append)
  then have "drop skip (concat iovs) = drop off (iovs ! k) @ concat (drop (Suc k) iovs)"
    using at by (metis (no_types, lifting) add.commute drop_append drop_drop append_eq_conv_conj
        drop_eq_Nil diff_is_0_eq drop_0 less_imp_le_nat append_Nil)
  then show ?thesis by (simp add: sub_iovs_def pos)
qed

subsection \<open>Facts about sending\<close>

lemma send_chunk_law:
  assumes "send_law so tx" and "send_chunk so iovs fds sent s = Some (r, s')"
    and "sent < length (concat iovs)"
  shows "case r of
      Inl e \<Rightarrow> tx s' = tx s \<and> e \<in> range error_from_errno
    | Inr n \<Rightarrow> n \<le> length (concat iovs) - sent
        \<and> tx s' = tx s @ [(take n (drop sent (concat iovs)),
                            chunk_fds (if sent = 0 then fds else None) 0)]"
  using assms concat_sub_iovs [OF assms(3)]
  by (fastforce simp: send_law_def send_chunk_def send_iovec_def chunk_fds_def Let_def
      split: option.splits prod.splits sum.splits if_splits)

text \<open>
  The invariant of the send loop: what it adds to the socket is the data from the current
  position on, cut into chunks, and the descriptors go with the chunk at position 0 alone.
\<close>

definition chunks_sent :: "u8 list \<Rightarrow> fd list option \<Rightarrow> nat \<Rightarrow> (u8 list \<times> fd list) list \<Rightarrow> bool" where
  "chunks_sent data fds sent cs \<longleftrightarrow>
     (\<exists>m. m \<le> length data - sent \<and> concat (map fst cs) = take m (drop sent data))
     \<and> map snd cs = map (\<lambda>i. if sent = 0 then chunk_fds fds i else []) [0..<length cs]"

lemma chunks_sent_Nil [simp]: "chunks_sent data fds sent []"
  by (auto simp: chunks_sent_def intro: exI [of _ 0])

lemma chunks_sent_Cons:
  assumes "chunks_sent data fds (sent + n) cs" and "sent + n \<le> length data" and "0 < n"
  shows "chunks_sent data fds sent
           ((take n (drop sent data), chunk_fds (if sent = 0 then fds else None) 0) # cs)"
proof -
  obtain m where m: "m \<le> length data - (sent + n)"
    and cs: "concat (map fst cs) = take m (drop (sent + n) data)"
    and sn: "map snd cs = map (\<lambda>i. []) [0..<length cs]"
    using assms unfolding chunks_sent_def by auto
  have "take (n + m) (drop sent data) = take n (drop sent data) @ take m (drop (sent + n) data)"
    using take_add [of n m "drop sent data"] by (simp add: add.commute)
  then show ?thesis
    unfolding chunks_sent_def using m cs sn assms(2)
    by (auto simp: upt_conv_Cons map_Suc_upt [symmetric] chunk_fds_def comp_def
        simp del: upt_Suc intro!: exI [of _ "n + m"])
qed

text \<open>The ways the send loop can go on, as an induction rule for the runs that return.\<close>

lemma send_iovec_loop_induct [consumes 1, case_names stop zero more retry err]:
  assumes run: "send_iovec_loop so iovs fds tot sent s = Some (r, s')"
    and stop: "\<And>sent s. tot \<le> sent \<Longrightarrow> P sent s (Inr sent) s"
    and zero: "\<And>sent s s'. sent < tot \<Longrightarrow>
      send_chunk so iovs fds sent s = Some (Inr 0, s') \<Longrightarrow>
      P sent s (Inr sent) s'"
    and more: "\<And>sent s n s1 r s'. sent < tot \<Longrightarrow>
      send_chunk so iovs fds sent s = Some (Inr n, s1) \<Longrightarrow>
      0 < n \<Longrightarrow> P (sent + n) s1 r s' \<Longrightarrow> P sent s r s'"
    and retry: "\<And>sent s e s1 r s'. sent < tot \<Longrightarrow>
      send_chunk so iovs fds sent s = Some (Inl e, s1) \<Longrightarrow>
      is_socket_retry e \<Longrightarrow> P sent s1 r s' \<Longrightarrow> P sent s r s'"
    and err: "\<And>sent s e s'. sent < tot \<Longrightarrow>
      send_chunk so iovs fds sent s = Some (Inl e, s') \<Longrightarrow>
      \<not> is_socket_retry e \<Longrightarrow> P sent s (Inl e) s'"
  shows "P sent s r s'"
proof -
  have "so' = so \<longrightarrow> iovs' = iovs \<longrightarrow> fds' = fds \<longrightarrow> tot' = tot \<longrightarrow> P sent s (fst y) (snd y)"
    if "send_iovec_loop so' iovs' fds' tot' sent s = Some y" for so' iovs' fds' tot' sent s y
    using that
  proof (rule send_iovec_loop.raw_induct [rotated], goal_cases)
    case (1 loop so' iovs' fds' tot' sent s y)
    then show ?case
      by (fastforce intro: stop zero more retry err
          split: if_splits option.splits prod.splits sum.splits)
  qed
  from this [OF run] show ?thesis by simp
qed

lemma send_iovec_loop_sends:
  assumes law: "send_law so tx"
    and run: "send_iovec_loop so iovs fds tot sent s = Some (r, s')"
    and tot: "tot = length (concat iovs)" and sent: "sent \<le> tot"
  shows "\<exists>cs. tx s' = tx s @ cs \<and> chunks_sent (concat iovs) fds sent cs
     \<and> (case r of Inl e \<Rightarrow> is_socket_failure e
          | Inr n \<Rightarrow> n = sent + length (concat (map fst cs)))"
  using run sent
proof (induction rule: send_iovec_loop_induct)
  case (stop sent s)
  then show ?case by (intro exI [of _ "[]"]) simp
next
  case (zero sent s s')
  with send_chunk_law [OF law zero(2)] tot show ?case
    by (auto intro!: exI [of _ "[([], chunk_fds (if sent = 0 then fds else None) 0)]"]
        simp: chunks_sent_def chunk_fds_def)
next
  case (more sent s n s1 r s')
  let ?c = "(take n (drop sent (concat iovs)), chunk_fds (if sent = 0 then fds else None) 0)"
  from send_chunk_law [OF law more(2)] more(1) tot
  have n: "sent + n \<le> tot" and tx1: "tx s1 = tx s @ [?c]" by auto
  with more.IH obtain cs where cs: "tx s' = tx s1 @ cs"
    "chunks_sent (concat iovs) fds (sent + n) cs"
    "case r of Inl e \<Rightarrow> is_socket_failure e
      | Inr m \<Rightarrow> m = sent + n + length (concat (map fst cs))"
    by auto
  have "chunks_sent (concat iovs) fds sent (?c # cs)"
    using chunks_sent_Cons [OF cs(2)] n tot more(3) by simp
  with cs tx1 n tot show ?case
    by (intro exI [of _ "?c # cs"]) (auto split: sum.splits)
next
  case (retry sent s e s1 r s')
  with send_chunk_law [OF law retry(2)] tot show ?case by simp
next
  case (err sent s e s')
  with send_chunk_law [OF law err(2)] tot show ?case
    by (intro exI [of _ "[]"]) (simp add: is_socket_failure_def)
qed

lemma send_chunk_keeps_rx:
  assumes "duplex_law so tx rx rxf" and "send_chunk so iovs fds sent s = Some (r, s')"
  shows "rx s' = rx s" and "rxf s' = rxf s"
  using assms by (fastforce simp: duplex_law_def send_chunk_def send_iovec_def Let_def
      split: option.splits sum.splits)+

lemma send_iovec_loop_keeps_rx:
  assumes "send_iovec_loop so iovs fds tot sent s = Some (r, s')" and "duplex_law so tx rx rxf"
  shows "rx s' = rx s \<and> rxf s' = rxf s"
  using assms
  by (induction rule: send_iovec_loop_induct) (simp_all add: send_chunk_keeps_rx)

lemma send_all_keeps_rx:
  assumes "duplex_law so tx rx rxf" and "send_iovec_all so iovs fds s = Some (r, s')"
  shows "rx s' = rx s" and "rxf s' = rxf s"
  using send_iovec_loop_keeps_rx [OF assms(2) [unfolded send_iovec_all_def] assms(1)] by simp_all

lemma send_chunk_progress:
  assumes "send_progress so budget" and "sent < length (concat iovs)"
  obtains (more) n s' where "send_chunk so iovs fds sent s = Some (Inr n, s')" and "0 < n"
    | (retry) e s' where "send_chunk so iovs fds sent s = Some (Inl e, s')"
        and "is_socket_retry e" and "budget s' < budget s"
proof -
  define sfds where "sfds = (case if sent = 0 then fds else None of None \<Rightarrow> [] | Some l \<Rightarrow> l)"
  have "concat (sub_iovs iovs sent) \<noteq> []" using assms(2) by (simp add: concat_sub_iovs)
  with assms(1) have
    "(\<exists>n s'. send_with_fds so s (sub_iovs iovs sent) sfds = Some (Inr n, s') \<and> 0 < n)
     \<or> (\<exists>e s'. send_with_fds so s (sub_iovs iovs sent) sfds = Some (Inl e, s')
          \<and> is_socket_retry (error_from_errno e) \<and> budget s' < budget s)"
    unfolding send_progress_def by blast
  then show ?thesis
    using more retry unfolding send_chunk_def send_iovec_def Let_def sfds_def [symmetric] by auto
qed

lemma send_iovec_loop_returns:
  assumes law: "send_law so tx" and progress: "send_progress so budget"
    and tot: "tot = length (concat iovs)"
  shows "sent \<le> tot \<Longrightarrow> \<exists>s'. send_iovec_loop so iovs fds tot sent s = Some (Inr tot, s')"
proof (induction "tot - sent" arbitrary: sent s rule: less_induct)
  case outer: less
  show ?case
  proof (induction "budget s" arbitrary: s rule: less_induct)
    case less
    show ?case
    proof (cases "sent < tot")
      case False
      with outer.prems show ?thesis by (simp add: send_iovec_loop.simps)
    next
      case True
      with tot have "sent < length (concat iovs)" by simp
      from progress this show ?thesis
      proof (cases rule: send_chunk_progress [where fds = fds and s = s])
        case (more n s')
        then have "sent + n \<le> tot" using send_chunk_law [OF law more(1)] tot True by auto
        with more True outer.hyps [of "sent + n" s'] show ?thesis
          by (simp add: send_iovec_loop.simps [of so iovs fds tot sent])
      next
        case (retry e s')
        with True less [of s'] show ?thesis
          by (simp add: send_iovec_loop.simps [of so iovs fds tot sent])
      qed
    qed
  qed
qed

subsection \<open>Facts about receiving\<close>

lemma fill_iovs_0_lengths: "map length (fill_iovs bufs 0 bs) = map length bufs"
proof (induction bufs arbitrary: bs)
  case Nil
  then show ?case by simp
next
  case (Cons b bufs)
  then show ?case by (simp add: min_def)
qed

lemma concat_fill_iovs_0:
  "length bs \<le> length (concat bufs) \<Longrightarrow>
     concat (fill_iovs bufs 0 bs) = bs @ drop (length bs) (concat bufs)"
proof (induction bufs arbitrary: bs)
  case Nil
  then show ?case by simp
next
  case (Cons b bufs)
  show ?case
  proof (cases "length bs \<le> length b")
    case True
    with Cons.IH [of "[]"] show ?thesis by simp
  next
    case False
    then have "concat (fill_iovs bufs 0 (drop (length b) bs))
        = drop (length b) bs @ drop (length bs - length b) (concat bufs)"
      using Cons.IH [of "drop (length b) bs"] Cons.prems by simp
    with False show ?thesis by (simp flip: append_assoc)
  qed
qed

text \<open>Filling overwrites exactly the bytes at the position, and no vector changes its length.\<close>

lemma fill_at_spec:
  assumes "skip < length (concat bufs)" and "skip + length bs \<le> length (concat bufs)"
  shows "concat (fill_at bufs skip bs)
           = take skip (concat bufs) @ bs @ drop (skip + length bs) (concat bufs)"
    and "map length (fill_at bufs skip bs) = map length bufs"
proof -
  obtain k off where pos: "get_sub_iovs_offset (map length bufs) skip = (k, off)"
    by (cases "get_sub_iovs_offset (map length bufs) skip") auto
  note at = concat_split_at [OF this assms(1)]
  define pre b rest where "pre = take k bufs" and "b = bufs ! k" and "rest = drop (Suc k) bufs"
  have bufs: "bufs = pre @ b # rest" using at unfolding pre_def b_def rest_def
    using id_take_nth_drop by blast
  have dk: "drop k bufs = b # rest" using at by (simp add: Cons_nth_drop_Suc b_def rest_def)
  have skip: "skip = length (concat pre) + off" and off: "off < length b"
    using at unfolding pre_def b_def by blast+
  have fill: "fill_at bufs skip bs = pre @ fill_iovs (b # rest) off bs"
    unfolding fill_at_def pos by (simp add: dk pre_def)
  have "length bs \<le> length (concat (drop off b # rest))"
    using assms(2) off by (simp add: bufs skip)
  from concat_fill_iovs_0 [OF this] off
  show "concat (fill_at bufs skip bs)
      = take skip (concat bufs) @ bs @ drop (skip + length bs) (concat bufs)"
    unfolding fill by (simp add: bufs skip add.commute add.left_commute)
  show "map length (fill_at bufs skip bs) = map length bufs"
    unfolding fill using off by (simp add: bufs fill_iovs_0_lengths)
qed

lemma sum_list_sub_lens:
  assumes "skip < length (concat bufs)"
  shows "sum_list (sub_lens bufs skip) = length (concat bufs) - skip"
proof -
  have "sum_list (sub_lens bufs skip) = length (concat (sub_iovs bufs skip))"
    by (auto simp: sub_lens_def sub_iovs_def sum_list_lengths split: prod.splits)
  then show ?thesis using assms by (simp add: concat_sub_iovs)
qed

lemma recv_iovec_loop_induct [consumes 1, case_names stop eof more retry err]:
  assumes run: "recv_iovec_loop so tot bufs got rfds s = Some (r, s')"
    and stop: "\<And>bufs got rfds s. tot \<le> got \<Longrightarrow> P bufs got rfds s (Inr (got, bufs, rfds)) s"
    and eof: "\<And>bufs got rfds s fds s'. got < tot \<Longrightarrow>
      recv_into_iovec so (sub_lens bufs got) s = Some (Inr ([], fds), s') \<Longrightarrow>
      P bufs got rfds s (Inr (got, bufs, rfds)) s'"
    and more: "\<And>bufs got rfds s bs fds s1 r s'. got < tot \<Longrightarrow>
      recv_into_iovec so (sub_lens bufs got) s = Some (Inr (bs, fds), s1) \<Longrightarrow> bs \<noteq> [] \<Longrightarrow>
      P (fill_at bufs got bs) (got + length bs) (if got = 0 then fds else rfds) s1 r s' \<Longrightarrow>
      P bufs got rfds s r s'"
    and retry: "\<And>bufs got rfds s e s1 r s'. got < tot \<Longrightarrow>
      recv_into_iovec so (sub_lens bufs got) s = Some (Inl e, s1) \<Longrightarrow>
      is_socket_retry e \<Longrightarrow> P bufs got rfds s1 r s' \<Longrightarrow> P bufs got rfds s r s'"
    and err: "\<And>bufs got rfds s e s'. got < tot \<Longrightarrow>
      recv_into_iovec so (sub_lens bufs got) s = Some (Inl e, s') \<Longrightarrow>
      \<not> is_socket_retry e \<Longrightarrow> P bufs got rfds s (Inl e) s'"
  shows "P bufs got rfds s r s'"
proof -
  have "so' = so \<longrightarrow> tot' = tot \<longrightarrow> P bufs got rfds s (fst y) (snd y)"
    if "recv_iovec_loop so' tot' bufs got rfds s = Some y" for so' tot' bufs got rfds s y
    using that
  proof (rule recv_iovec_loop.raw_induct [rotated], goal_cases)
    case (1 loop so' tot' bufs got rfds s y)
    note IH = 1(1) and body = 1(2)
    show ?case
    proof (intro impI, cases "got < tot")
      assume eq: "so' = so" "tot' = tot" and "got < tot"
      then obtain res s1 where step: "recv_into_iovec so (sub_lens bufs got) s = Some (res, s1)"
        using body by (auto split: option.splits)
      then show "P bufs got rfds s (fst y) (snd y)"
        using body eq \<open>got < tot\<close> IH
        by (cases res) (fastforce intro: eof more retry err split: if_splits prod.splits)+
    qed (use body stop in auto)
  qed
  from this [OF run] show ?thesis by simp
qed

lemma recv_into_iovec_law:
  assumes "recv_law so rx rxf" and "recv_into_iovec so lens s = Some (r, s')"
  shows "case r of
      Inl e \<Rightarrow> rx s' = rx s \<and> rxf s' = rxf s \<and> e \<in> range error_from_errno
    | Inr (bs, files) \<Rightarrow> rx s = bs @ rx s' \<and> length bs \<le> sum_list lens
        \<and> (bs = [] \<and> 0 < sum_list lens \<longrightarrow> rx s = [])
        \<and> (bs \<noteq> [] \<longrightarrow> files = received_files (rxf s))"
proof -
  obtain q where q: "recv_with_fds so s lens MAX_ATTACHED_FD_ENTRIES = Some (q, s')"
    using assms(2) by (auto simp: recv_into_iovec_def Let_def split: option.splits sum.splits)
  note law = assms(1) [unfolded recv_law_def, rule_format, OF q]
  obtain n where "sum_list lens = n" by simp
  then show ?thesis
    using assms(2) law
    by (auto simp del: sum_list_eq_0_iff simp: recv_into_iovec_def q received_files_def Let_def split: sum.splits if_splits)
qed

lemma recv_iovec_loop_receives:
  assumes law: "recv_law so rx rxf"
    and run: "recv_iovec_loop so tot bufs got rfds s = Some (r, s')"
    and tot: "tot = length (concat bufs)" and got: "got \<le> tot"
  shows "case r of
      Inl e \<Rightarrow> is_socket_failure e
    | Inr (n, bufs', files) \<Rightarrow>
        (\<exists>bs. rx s = bs @ rx s' \<and> n = got + length bs \<and> n \<le> tot
          \<and> concat bufs' = take got (concat bufs) @ bs @ drop n (concat bufs))
        \<and> map length bufs' = map length bufs
        \<and> (n < tot \<longrightarrow> rx s' = [])
        \<and> files = (if got = 0 \<and> 0 < n then received_files (rxf s) else rfds)"
  using run tot got
proof (induction rule: recv_iovec_loop_induct)
  case (stop bufs got rfds s)
  then show ?case by auto
next
  case (eof bufs got rfds s fds s')
  with recv_into_iovec_law [OF law eof(2)] sum_list_sub_lens [of got bufs] show ?case by auto
next
  case (more bufs got rfds s bs fds s1 r s')
  from recv_into_iovec_law [OF law more(2)] sum_list_sub_lens [of got bufs] more(1,3,5)
  have s: "rx s = bs @ rx s1" "got + length bs \<le> length (concat bufs)"
    "fds = received_files (rxf s)" by auto
  note fill = fill_at_spec [of got bufs bs]
  have "length (concat (fill_at bufs got bs)) = length (concat bufs)"
    using fill(2) more(1,5) s(2) by (metis sum_list_lengths)
  with more.IH more.prems s fill more(1,3) show ?case
    by (auto split: sum.splits simp: take_add add.commute add.left_commute)
next
  case (retry bufs got rfds s e s1 r s')
  with recv_into_iovec_law [OF law retry(2)] show ?case by (auto split: sum.splits)
next
  case (err bufs got rfds s e s')
  with recv_into_iovec_law [OF law err(2)] show ?case by (simp add: is_socket_failure_def)
qed

lemma recv_iovec_loop_keeps_tx:
  assumes "recv_iovec_loop so tot bufs got rfds s = Some (r, s')" and "duplex_law so tx rx rxf"
  shows "tx s' = tx s"
  using assms
proof (induction rule: recv_iovec_loop_induct)
qed (auto simp: duplex_law_def recv_into_iovec_def Let_def split: option.splits sum.splits)

lemma recv_all_keeps_tx:
  assumes "duplex_law so tx rx rxf" and "recv_into_iovec_all so bufs s = Some (r, s')"
  shows "tx s' = tx s"
  using recv_iovec_loop_keeps_tx [OF assms(2) [unfolded recv_into_iovec_all_def] assms(1)] .

lemma recv_body_keeps_tx:
  assumes "duplex_law so tx rx rxf" and "recv_body H T so s = Some (r, s')"
  shows "tx s' = tx s"
proof -
  obtain r' where "recv_into_iovec_all so [replicate (size_of (hdr_T H)) 0, replicate (size_of T) 0] s = Some (r', s')"
    using assms(2) unfolding recv_body_def
    by (auto simp: Let_def failM_apply retM_apply split: if_splits elim!: bindM_SomeE)
  then show ?thesis by (rule recv_all_keeps_tx [OF assms(1)])
qed

lemma recv_into_iovec_progress:
  assumes "recv_progress so rx budget" and "0 < sum_list lens" and "rx s \<noteq> []"
  obtains (more) bs fds s' where "recv_into_iovec so lens s = Some (Inr (bs, fds), s')" and "bs \<noteq> []"
    | (retry) e s' where "recv_into_iovec so lens s = Some (Inl e, s')"
        and "is_socket_retry e" and "budget s' < budget s"
proof -
  have "(\<exists>bs fds s'. recv_with_fds so s lens MAX_ATTACHED_FD_ENTRIES = Some (Inr (bs, fds), s')
          \<and> bs \<noteq> [])
     \<or> (\<exists>e s'. recv_with_fds so s lens MAX_ATTACHED_FD_ENTRIES = Some (Inl e, s')
            \<and> is_socket_retry (error_from_errno e) \<and> budget s' < budget s)"
    using assms unfolding recv_progress_def by blast
  then show ?thesis
    using more retry unfolding recv_into_iovec_def Let_def by auto
qed

lemma recv_iovec_loop_returns:
  assumes law: "recv_law so rx rxf" and progress: "recv_progress so rx budget"
  shows "tot = length (concat bufs) \<Longrightarrow> got \<le> tot \<Longrightarrow> tot - got \<le> length (rx s) \<Longrightarrow>
    \<exists>bufs' files s'. recv_iovec_loop so tot bufs got rfds s = Some (Inr (tot, bufs', files), s')"
proof (induction "tot - got" arbitrary: bufs got rfds s rule: less_induct)
  case outer: less
  show ?case
    using outer.prems(3)
  proof (induction "budget s" arbitrary: s rule: less_induct)
    case less
    show ?case
    proof (cases "got < tot")
      case False
      with outer.prems show ?thesis by (simp add: recv_iovec_loop.simps)
    next
      case True
      have room: "sum_list (sub_lens bufs got) = tot - got"
        using True outer.prems by (simp add: sum_list_sub_lens)
      have "0 < sum_list (sub_lens bufs got)" and "rx s \<noteq> []"
        using True less.prems room by auto
      with progress show ?thesis
      proof (cases rule: recv_into_iovec_progress)
        case (more bs fds s')
        have s: "rx s = bs @ rx s'" "got + length bs \<le> tot"
          using recv_into_iovec_law [OF law more(1)] room True by auto
        have "tot = length (concat (fill_at bufs got bs))"
          using fill_at_spec(2) [of got bufs bs] s(2) True outer.prems(1)
          by (metis sum_list_lengths)
        moreover have "tot - (got + length bs) < tot - got"
          using more(2) True by (cases bs) auto
        moreover have "tot - (got + length bs) \<le> length (rx s')" using s less.prems by simp
        ultimately obtain bufs' files s2 where
          "recv_iovec_loop so tot (fill_at bufs got bs) (got + length bs)
             (if got = 0 then fds else rfds) s' = Some (Inr (tot, bufs', files), s2)"
          using outer.hyps [of "got + length bs" "fill_at bufs got bs"] s(2) by blast
        with more True show ?thesis by (simp add: recv_iovec_loop.simps [of so tot bufs got])
      next
        case (retry e s')
        moreover have "rx s' = rx s" using recv_into_iovec_law [OF law retry(1)] by simp
        ultimately show ?thesis
          using True less.hyps [of s'] less.prems
          by (simp add: recv_iovec_loop.simps [of so tot bufs got])
      qed
    qed
  qed
qed

subsection \<open>A stream socket for the witnesses\<close>

text \<open>
  A socket that is interrupted \<open>p_budget\<close> times and then moves at most \<open>k\<close> bytes in each call.
\<close>

record pipe =
  p_budget :: nat
  p_tx :: "(u8 list \<times> fd list) list"
  p_rx :: "u8 list"
  p_rxf :: "fd list"

definition pipe_sock :: "nat \<Rightarrow> pipe sock_ops" where
  "pipe_sock k =
     \<lparr>send_with_fds = (\<lambda>s iovs fds.
        if 0 < p_budget s then Some (Inl EINTR, s\<lparr>p_budget := p_budget s - 1\<rparr>)
        else let n = min k (length (concat iovs)) in
          Some (Inr n, s\<lparr>p_tx := p_tx s @ [(take n (concat iovs), fds)]\<rparr>)),
      recv_with_fds = (\<lambda>s lens cap.
        if 0 < p_budget s then Some (Inl EINTR, s\<lparr>p_budget := p_budget s - 1\<rparr>)
        else let n = min k (min (sum_list lens) (length (p_rx s))) in
          Some (Inr (take n (p_rx s), take cap (p_rxf s)),
                s\<lparr>p_rx := drop n (p_rx s), p_rxf := []\<rparr>))\<rparr>"

lemma is_socket_retry_EINTR [simp]: "is_socket_retry (error_from_errno EINTR)"
  by (simp add: error_from_errno_def errno_defs)

lemma pipe_send_law [simp]: "send_law (pipe_sock k) p_tx"
  by (simp add: send_law_def pipe_sock_def Let_def)

lemma pipe_recv_law [simp]: "0 < k \<Longrightarrow> recv_law (pipe_sock k) p_rx p_rxf"
  by (auto simp: recv_law_def pipe_sock_def Let_def min_def simp del: sum_list_eq_0_iff
      split: if_splits)

lemma pipe_duplex_law [simp]: "duplex_law (pipe_sock k) p_tx p_rx p_rxf"
  by (auto simp: duplex_law_def pipe_sock_def Let_def split: if_splits)

lemma pipe_send_progress [simp]: "0 < k \<Longrightarrow> send_progress (pipe_sock k) p_budget"
  by (auto simp: send_progress_def pipe_sock_def Let_def)

lemma pipe_recv_progress [simp]: "0 < k \<Longrightarrow> recv_progress (pipe_sock k) p_rx p_budget"
  by (auto simp: recv_progress_def pipe_sock_def Let_def simp del: sum_list_eq_0_iff)

subsection \<open>The transfer loops\<close>

lemma send_all_outcome:
  assumes "send_law so tx" and "send_iovec_all so iovs fds s = Some (r, s')"
  shows "\<exists>cs m. tx s' = tx s @ cs \<and> m \<le> length (concat iovs)
     \<and> concat (map fst cs) = take m (concat iovs)
     \<and> map snd cs = map (chunk_fds fds) [0..<length cs]
     \<and> (case r of Inl e \<Rightarrow> is_socket_failure e | Inr n \<Rightarrow> n = m)"
proof -
  from send_iovec_loop_sends [OF assms(1) assms(2) [unfolded send_iovec_all_def]]
  obtain cs where cs: "tx s' = tx s @ cs" "chunks_sent (concat iovs) fds 0 cs"
    "case r of Inl e \<Rightarrow> is_socket_failure e | Inr n \<Rightarrow> n = 0 + length (concat (map fst cs))"
    unfolding sum_list_lengths by blast
  from cs(2) obtain m where m: "m \<le> length (concat iovs)"
    "concat (map fst cs) = take m (concat iovs)"
    "map snd cs = map (chunk_fds fds) [0..<length cs]"
    unfolding chunks_sent_def by auto
  then have "length (concat (map fst cs)) = m" by simp
  with cs m show ?thesis by (intro exI [of _ cs] exI [of _ m]) (auto split: sum.splits)
qed

lemma send_all_returns:
  assumes "send_law so tx" and "send_progress so budget"
  obtains s' where "send_iovec_all so iovs fds s = Some (Inr (length (concat iovs)), s')"
  using send_iovec_loop_returns [OF assms refl, of 0 iovs fds s]
  unfolding send_iovec_all_def sum_list_lengths by auto

lemma recv_all_outcome:
  assumes "recv_law so rx rxf" and "recv_into_iovec_all so bufs s = Some (r, s')"
  shows "case r of
      Inl e \<Rightarrow> is_socket_failure e
    | Inr (n, bufs', files) \<Rightarrow>
        n \<le> length (concat bufs) \<and> n \<le> length (rx s) \<and> rx s' = drop n (rx s)
        \<and> concat bufs' = take n (rx s) @ drop n (concat bufs)
        \<and> map length bufs' = map length bufs
        \<and> (n < length (concat bufs) \<longrightarrow> rx s' = [])
        \<and> files = (if 0 < n then received_files (rxf s) else None)"
  using recv_iovec_loop_receives [OF assms(1) assms(2) [unfolded recv_into_iovec_all_def]]
  unfolding sum_list_lengths
  by (cases r) (fastforce simp del: length_concat)+

lemma recv_all_returns:
  assumes "recv_law so rx rxf" and "recv_progress so rx budget"
    and "length (concat bufs) \<le> length (rx s)"
  obtains bufs' files s' where
    "recv_into_iovec_all so bufs s = Some (Inr (length (concat bufs), bufs', files), s')"
  using recv_iovec_loop_returns [OF assms(1,2) refl, of 0 bufs s None] assms(3)
  unfolding recv_into_iovec_all_def sum_list_lengths by auto

text \<open>
  For a position inside the buffers, \<open>get_sub_iovs_offset\<close> names the buffer and the offset in
  it where that position lies, and what the send loop builds from them is exactly the data that
  is left.
\<close>

theorem sub_iovs_position:
  assumes "get_sub_iovs_offset (map length iovs) skip = (k, off)" and "skip < length (concat iovs)"
  shows "k < length iovs \<and> off < length (iovs ! k)
    \<and> skip = length (concat (take k iovs)) + off
    \<and> concat (sub_iovs iovs skip) = drop skip (concat iovs)"
  using concat_split_at [OF assms] concat_sub_iovs [OF assms(2)] by simp

theorem sub_iovs_position_witness:
  "concat (sub_iovs [[1, 2, 3, 4], [], [5, 6, 7, 8], [9]] 6) = [7, 8, 9]"
  using sub_iovs_position [of "[[1, 2, 3, 4], [], [5, 6, 7, 8], [9]]" 6 2 2] by simp

text \<open>
  C12: whatever \<open>send_iovec_all\<close> has handed to the socket when it returns is a prefix of the
  data, in order and without a byte sent twice, and the descriptors are attached to its first
  chunk and to no other. The number it returns is the length of that prefix; an error it returns
  is a failure of the socket, never a request to retry.
\<close>

theorem send_iovec_all_sends:
  assumes "send_law so tx" and "send_iovec_all so iovs fds s = Some (r, s')"
  shows "\<exists>cs m. tx s' = tx s @ cs \<and> m \<le> length (concat iovs)
     \<and> concat (map fst cs) = take m (concat iovs)
     \<and> map snd cs = map (chunk_fds fds) [0..<length cs]
     \<and> (case r of Inl e \<Rightarrow> is_socket_failure e | Inr n \<Rightarrow> n = m)"
  by (rule send_all_outcome [OF assms])

theorem send_iovec_all_sends_witness:
  "\<exists>r s' cs.
     send_iovec_all (pipe_sock 3) [[1, 2], [3, 4]] (Some [7])
       \<lparr>p_budget = 0, p_tx = [], p_rx = [], p_rxf = []\<rparr> = Some (r, s')
     \<and> p_tx s' = cs \<and> concat (map fst cs) = [1, 2, 3, 4]
     \<and> map snd cs = map (chunk_fds (Some [7])) [0..<length cs]"
proof -
  let ?s = "\<lparr>p_budget = 0, p_tx = [], p_rx = [], p_rxf = []\<rparr>"
  obtain s' where run: "send_iovec_all (pipe_sock 3) [[1, 2], [3, 4]] (Some [7]) ?s
      = Some (Inr (length (concat [[1, 2], [3, 4::u8]])), s')"
    using send_all_returns [of "pipe_sock 3" p_tx p_budget] pipe_send_progress [of 3]
    by (metis pipe_send_law zero_less_numeral)
  from send_iovec_all_sends [OF pipe_send_law this] obtain cs where
    "p_tx s' = cs" "concat (map fst cs) = [1, 2, 3, 4]"
    "map snd cs = map (chunk_fds (Some [7])) [0..<length cs]"
    by auto
  with run show ?thesis by auto
qed

text \<open>
  C20: on a socket that makes progress (every send moves a byte or asks for one of finitely many
  retries) the send loop returns, all the data has been handed over, and the descriptors went
  with the first chunk only.
\<close>

theorem send_iovec_all_completes:
  assumes "send_law so tx" and "send_progress so budget"
  shows "\<exists>s' cs. send_iovec_all so iovs fds s = Some (Inr (length (concat iovs)), s')
     \<and> tx s' = tx s @ cs \<and> concat (map fst cs) = concat iovs
     \<and> map snd cs = map (chunk_fds fds) [0..<length cs]"
proof -
  obtain s' where run: "send_iovec_all so iovs fds s = Some (Inr (length (concat iovs)), s')"
    using send_all_returns [OF assms] by blast
  from send_all_outcome [OF assms(1) run] run show ?thesis by auto
qed

theorem send_iovec_all_completes_witness:
  "\<exists>s' cs. send_iovec_all (pipe_sock 3) [[1, 2], [], [3, 4]] (Some [7])
       \<lparr>p_budget = 2, p_tx = [], p_rx = [], p_rxf = []\<rparr>
       = Some (Inr (length (concat [[1, 2], [], [3, 4::u8]])), s')
     \<and> p_tx s' = [] @ cs \<and> concat (map fst cs) = concat [[1, 2], [], [3, 4]]
     \<and> map snd cs = map (chunk_fds (Some [7])) [0..<length cs]"
  using send_iovec_all_completes [of "pipe_sock 3" p_tx p_budget "[[1, 2], [], [3, 4]]" "Some [7]"
      "\<lparr>p_budget = 2, p_tx = [], p_rx = [], p_rxf = []\<rparr>"]
  unfolding pipe.simps by simp

text \<open>
  C21: \<open>recv_into_iovec_all\<close> takes a prefix of the peer's stream and stores it in the buffers in
  order; the rest of the buffers and their lengths are unchanged, it stops short only at the end
  of the stream, and the files it returns are those attached to the first byte.
\<close>

theorem recv_into_iovec_all_receives:
  assumes "recv_law so rx rxf" and "recv_into_iovec_all so bufs s = Some (r, s')"
  shows "case r of
      Inl e \<Rightarrow> is_socket_failure e
    | Inr (n, bufs', files) \<Rightarrow>
        n \<le> length (concat bufs) \<and> n \<le> length (rx s) \<and> rx s' = drop n (rx s)
        \<and> concat bufs' = take n (rx s) @ drop n (concat bufs)
        \<and> map length bufs' = map length bufs
        \<and> (n < length (concat bufs) \<longrightarrow> rx s' = [])
        \<and> files = (if 0 < n then received_files (rxf s) else None)"
  by (rule recv_all_outcome [OF assms])

theorem recv_into_iovec_all_receives_witness:
  "\<exists>n bufs' files s'.
     recv_into_iovec_all (pipe_sock 3) [[0, 0], [0, 0, 0]]
       \<lparr>p_budget = 1, p_tx = [], p_rx = [1, 2, 3, 4, 5, 6], p_rxf = [7]\<rparr>
       = Some (Inr (n, bufs', files), s')
     \<and> concat bufs' = [1, 2, 3, 4, 5] \<and> p_rx s' = [6] \<and> files = received_files [7]"
proof -
  let ?s = "\<lparr>p_budget = 1, p_tx = [], p_rx = [1, 2, 3, 4, 5, 6], p_rxf = [7]\<rparr>"
  obtain bufs' files s' where run: "recv_into_iovec_all (pipe_sock 3) [[0, 0], [0, 0, 0]] ?s
      = Some (Inr (length (concat [[0, 0], [0, 0, 0::u8]]), bufs', files), s')"
    by (rule recv_all_returns [of "pipe_sock 3" p_rx p_rxf p_budget "[[0, 0], [0, 0, 0]]" ?s])
      (simp_all only: pipe_recv_law pipe_recv_progress zero_less_numeral, simp_all)
  from recv_into_iovec_all_receives [OF pipe_recv_law this] run show ?thesis by auto
qed

subsection \<open>Whole messages\<close>

text \<open>
  The trait \<open>MsgHeader\<close>: a header is a byte valued structure that is not empty. The facts about
  whole messages hold for every endpoint.
\<close>

locale msg_header = byte_valued "hdr_T H" "\<lambda>_. True" for H :: "'h MsgHeader" +
  assumes header_nonempty: "0 < size_of (hdr_T H)"
begin

lemma recv_header_outcome:
  assumes law: "recv_law so rx rxf" and run: "recv_header H so s = Some (r, s')"
  shows "(\<exists>e. r = Inl e \<and> is_socket_failure e)
    \<or> r = (if rx s = [] then Inl Disconnected
           else if length (rx s) < size_of (hdr_T H) then Inl PartialMessage
           else let h = from_slice (hdr_T H) (take (size_of (hdr_T H)) (rx s)) in
             if is_valid (hdr_T H) h then Inr (h, received_files (rxf s)) else Inl InvalidMessage)
      \<and> rx s' = drop (size_of (hdr_T H)) (rx s)"
  using run unfolding recv_header_def
proof (cases rule: bindM_SomeE)
  case (err e)
  with recv_all_outcome [OF law err(1)] show ?thesis by simp
next
  case (ok x t)
  obtain n bufs' files where x: "x = (n, bufs', files)" by (cases x)
  note out = recv_all_outcome [OF law ok(1), unfolded x]
  then obtain b where bufs': "bufs' = [b]" by auto
  with out have b: "b = take n (rx s) @ drop n (replicate (size_of (hdr_T H)) 0)"
    and n: "n = min (size_of (hdr_T H)) (length (rx s))" and rest: "rx t = drop n (rx s)"
    and f: "files = (if 0 < n then received_files (rxf s) else None)"
    by auto
  show ?thesis
    using ok(2) header_nonempty rest
    by (auto simp: x bufs' b f n effect_defs Let_def min_def split: if_splits)
qed

lemma recv_body_outcome:
  assumes law: "recv_law so rx rxf" and run: "recv_body H T so s = Some (r, s')"
  shows "(\<exists>e. r = Inl e \<and> is_socket_failure e)
    \<or> r = (if length (rx s) < size_of (hdr_T H) + size_of T then Inl PartialMessage
           else let h = from_slice (hdr_T H) (take (size_of (hdr_T H)) (rx s));
                    body = from_slice T (take (size_of T) (drop (size_of (hdr_T H)) (rx s))) in
             if \<not> is_valid (hdr_T H) h \<or> \<not> is_valid T body then Inl InvalidMessage
             else Inr (h, body, received_files (rxf s)))
      \<and> rx s' = drop (size_of (hdr_T H) + size_of T) (rx s)"
  using run unfolding recv_body_def
proof (cases rule: bindM_SomeE)
  case (err e)
  with recv_all_outcome [OF law err(1)] show ?thesis by simp
next
  case (ok x t)
  let ?hs = "size_of (hdr_T H)" and ?bs = "size_of T"
  obtain n bufs' files where x: "x = (n, bufs', files)" by (cases x)
  note out = recv_all_outcome [OF law ok(1), unfolded x]
  then obtain b0 b1 where bufs': "bufs' = [b0, b1]" "length b0 = ?hs" "length b1 = ?bs"
    by (auto simp: map_eq_Cons_conv)
  from out have n: "n = min (?hs + ?bs) (length (rx s))" and rest: "rx t = drop n (rx s)"
    and f: "files = (if 0 < n then received_files (rxf s) else None)"
    by auto
  have b: "b0 = take ?hs (rx s)" "b1 = take ?bs (drop ?hs (rx s))" if "?hs + ?bs \<le> length (rx s)"
  proof -
    from that n out bufs' have "b0 @ b1 = take (?hs + ?bs) (rx s)" by auto
    then show "b0 = take ?hs (rx s)" "b1 = take ?bs (drop ?hs (rx s))"
      using bufs' by (auto simp: take_add append_eq_append_conv2 append_eq_conv_conj)
  qed
  show ?thesis
    using ok(2) header_nonempty rest b
    by (auto simp: x bufs' f n effect_defs Let_def min_def split: if_splits)
qed

lemma send_message_completes:
  assumes "byte_valued T ok" and "ok body" and "size_of T \<le> max_msg_size H"
    and "send_law so tx" and "send_progress so budget"
  shows "\<exists>s' cs. send_message H T so hdr body fds s = Some (Inr (), s')
    \<and> tx s' = tx s @ cs \<and> concat (map fst cs) = as_slice (hdr_T H) hdr @ as_slice T body
    \<and> map snd cs = map (chunk_fds fds) [0..<length cs]"
proof -
  let ?iovs = "[as_slice (hdr_T H) hdr, as_slice T body]"
  have len: "length (concat ?iovs) = size_of (hdr_T H) + size_of T"
    using length_as_slice byte_valued.length_as_slice [OF assms(1,2)] by simp
  obtain s' where run: "send_iovec_all so ?iovs fds s = Some (Inr (length (concat ?iovs)), s')"
    using send_all_returns [OF assms(4,5)] by blast
  then have "send_message H T so hdr body fds s = Some (Inr (), s')"
    using assms(3) len by (simp add: send_message_def effect_defs)
  with send_all_outcome [OF assms(4) run] show ?thesis by auto
qed

lemma recv_body_reads:
  assumes T: "byte_valued T ok" and wf: "ok body" and valid: "is_valid (hdr_T H) hdr" "is_valid T body"
    and recv: "recv_law so rx rxf" "recv_progress so rx budget"
    and stream: "rx t = as_slice (hdr_T H) hdr @ as_slice T body @ later"
  shows "\<exists>t'. recv_body H T so t = Some (Inr (hdr, body, received_files (rxf t)), t') \<and> rx t' = later"
proof -
  let ?bytes = "as_slice (hdr_T H) hdr @ as_slice T body"
  let ?hs = "size_of (hdr_T H)" and ?bs = "size_of T"
  have len: "length (as_slice (hdr_T H) hdr) = ?hs" "length (as_slice T body) = ?bs"
    using length_as_slice byte_valued.length_as_slice [OF T wf] by simp_all
  obtain bufs' files t' where run: "recv_into_iovec_all so [replicate ?hs 0, replicate ?bs 0] t
      = Some (Inr (?hs + ?bs, bufs', files), t')"
    using recv_all_returns [OF recv, of "[replicate ?hs 0, replicate ?bs 0]" t] stream len
    by auto
  note out = recv_all_outcome [OF recv(1) run]
  then obtain b0 b1 where bufs': "bufs' = [b0, b1]" "length b0 = ?hs" "length b1 = ?bs"
    by (auto simp: map_eq_Cons_conv)
  with out stream len have "b0 @ b1 = ?bytes" "rx t' = later" by auto
  with bufs' len have "b0 = as_slice (hdr_T H) hdr" "b1 = as_slice T body" "rx t' = later"
    by (auto simp: append_eq_append_conv)
  with run out bufs' valid header_nonempty show ?thesis
    unfolding recv_body_def
    by (simp add: effect_defs Let_def from_slice_as_slice byte_valued.from_slice_as_slice [OF T wf])
qed

lemma send_message_recv_body:
  assumes T: "byte_valued T ok" and wf: "ok body"
    and valid: "is_valid (hdr_T H) hdr" "is_valid T body"
    and send: "send_law so tx" "send_message H T so hdr body fds s = Some (Inr (), s')"
    and recv: "recv_law so' rx rxf" "recv_progress so' rx budget"
    and link: "tx s' = tx s @ cs" "rx t = concat (map fst cs) @ later" "rxf t = concat (map snd cs)"
  shows "\<exists>t'. recv_body H T so' t
      = Some (Inr (hdr, body, received_files (case fds of None \<Rightarrow> [] | Some l \<Rightarrow> l)), t')
      \<and> rx t' = later"
proof -
  let ?bytes = "as_slice (hdr_T H) hdr @ as_slice T body"
  have len: "length (as_slice (hdr_T H) hdr) = size_of (hdr_T H)" "length (as_slice T body) = size_of T"
    using length_as_slice byte_valued.length_as_slice [OF T wf] by simp_all
  obtain n where "send_iovec_all so [as_slice (hdr_T H) hdr, as_slice T body] fds s = Some (Inr n, s')"
    and n: "n = size_of (hdr_T H) + size_of T"
    using send(2) unfolding send_message_def
    by (auto elim!: bindM_InrE simp: guardM_apply failM_apply split: if_splits)
  from send_all_outcome [OF send(1) this(1)] link(1) len n
  have cs: "concat (map fst cs) = ?bytes" "map snd cs = map (chunk_fds fds) [0..<length cs]" by auto
  then have "cs \<noteq> []" using len header_nonempty by auto
  then have "concat (map snd cs) = (case fds of None \<Rightarrow> [] | Some l \<Rightarrow> l)"
    unfolding cs(2) by (cases cs) (auto simp: upt_conv_Cons chunk_fds_def simp del: upt_Suc)
  with recv_body_reads [OF T wf valid recv, of t later] link cs(1) show ?thesis by simp
qed

end

interpretation vhost_user_header: msg_header "VhostUserMsgHeader_H R" for R :: "'r Req"
  by unfold_locales (simp_all add: VhostUserMsgHeader_H_def hdr_size_of_def)

lemma VhostUserMsgHeader_H_simps [simp]:
  "size_of (hdr_T (VhostUserMsgHeader_H R)) = hdr_size_of"
  "as_slice (hdr_T (VhostUserMsgHeader_H R)) = hdr_as_slice"
  "from_slice (hdr_T (VhostUserMsgHeader_H R)) = hdr_from_slice"
  "is_valid (hdr_T (VhostUserMsgHeader_H R)) = hdr_is_valid R"
  "max_msg_size (VhostUserMsgHeader_H R) = MAX_MSG_SIZE"
  by (simp_all add: VhostUserMsgHeader_H_def)

text \<open>
  Receiving a header has exactly these outcomes, for any request type: a failure of the
  socket, \<open>Disconnected\<close> when the peer had closed before the first byte, \<open>PartialMessage\<close> when
  it closed inside the header, \<open>InvalidMessage\<close> for a header with an unknown request, an oversized
  body, a wrong version or a reserved flag, and otherwise the header with the attached files, with
  just the twelve bytes of the header taken from the stream.
\<close>

theorem recv_header_classifies:
  assumes "recv_law so rx rxf" and "recv_header (VhostUserMsgHeader_H R) so s = Some (r, s')"
  shows "(\<exists>e. r = Inl e \<and> is_socket_failure e)
    \<or> r = (if rx s = [] then Inl Disconnected
           else if length (rx s) < 12 then Inl PartialMessage
           else if hdr_is_valid R (hdr_from_slice (take 12 (rx s)))
             then Inr (hdr_from_slice (take 12 (rx s)), received_files (rxf s))
           else Inl InvalidMessage)
      \<and> rx s' = drop 12 (rx s)"
  using vhost_user_header.recv_header_outcome [OF assms]
  unfolding VhostUserMsgHeader_H_simps hdr_size_of_def Let_def by simp

theorem recv_header_classifies_witness:
  "\<exists>s'. recv_header (VhostUserMsgHeader_H FrontendReq_Req) (pipe_sock 5)
       \<lparr>p_budget = 0, p_tx = [], p_rx = [1, 0, 0], p_rxf = []\<rparr> = Some (Inl PartialMessage, s')"
proof -
  let ?s = "\<lparr>p_budget = 0, p_tx = [], p_rx = [1, 0, 0::u8], p_rxf = []\<rparr>"
  have run: "recv_header (VhostUserMsgHeader_H FrontendReq_Req) (pipe_sock 5) ?s
      = Some (Inl PartialMessage, ?s\<lparr>p_rx := []\<rparr>)"
    by (simp add: recv_header_def recv_into_iovec_all_def recv_iovec_loop.simps recv_into_iovec_def
        hdr_size_of_def sub_lens_def pipe_sock_def fill_at_def Let_def effect_defs
        MAX_ATTACHED_FD_ENTRIES_def)
  from recv_header_classifies [OF pipe_recv_law this] run show ?thesis by auto
qed

text \<open>
  C2: a message sent by \<open>send_message\<close> is received by \<open>recv_body\<close> at the other end: whatever the
  chunks in which the sender's socket took it and those in which the receiver's socket delivers
  it, the receiver returns, with the same header and body and with the files attached by the
  sender (at most 32 of them), and the stream is left at the byte after the message.
\<close>

theorem send_message_recv_body_roundtrip:
  assumes "byte_valued T ok" and "ok body"
    and "hdr_is_valid R hdr" and "is_valid T body"
    and "send_law so tx" and "send_message (VhostUserMsgHeader_H R) T so hdr body fds s = Some (Inr (), s')"
    and "recv_law so' rx rxf" and "recv_progress so' rx budget"
    and "tx s' = tx s @ cs" and "rx t = concat (map fst cs) @ later"
    and "rxf t = concat (map snd cs)"
  shows "\<exists>t'. recv_body (VhostUserMsgHeader_H R) T so' t
      = Some (Inr (hdr, body, received_files (case fds of None \<Rightarrow> [] | Some l \<Rightarrow> l)), t')
      \<and> rx t' = later"
  using vhost_user_header.send_message_recv_body [of T ok body R hdr] assms by simp

theorem send_message_recv_body_roundtrip_witness:
  "\<exists>cs s' t'.
     send_message (VhostUserMsgHeader_H FrontendReq_Req) VhostUserU64_T (pipe_sock 7)
       (hdr_new FrontendReq_Req SET_FEATURES 0 8) \<lparr>u64_value = 5\<rparr> (Some [3])
       \<lparr>p_budget = 0, p_tx = [], p_rx = [], p_rxf = []\<rparr> = Some (Inr (), s')
     \<and> p_tx s' = cs
     \<and> recv_body (VhostUserMsgHeader_H FrontendReq_Req) VhostUserU64_T (pipe_sock 3)
         \<lparr>p_budget = 1, p_tx = [], p_rx = concat (map fst cs) @ [9], p_rxf = concat (map snd cs)\<rparr>
       = Some (Inr (hdr_new FrontendReq_Req SET_FEATURES 0 8, \<lparr>u64_value = 5\<rparr>,
                    received_files [3]), t') \<and> p_rx t' = [9]"
proof -
  let ?h = "hdr_new FrontendReq_Req SET_FEATURES 0 8" and ?b = "\<lparr>u64_value = 5\<rparr>"
  let ?s = "\<lparr>p_budget = 0, p_tx = [], p_rx = [], p_rxf = []\<rparr>"
  have len: "length (hdr_as_slice ?h) = 12" "length (as_slice VhostUserU64_T ?b) = 8"
    by (simp_all add: hdr_size_of_def VhostUserU64_T_def)
  obtain s' where "send_iovec_all (pipe_sock 7) [hdr_as_slice ?h, as_slice VhostUserU64_T ?b]
      (Some [3]) ?s = Some (Inr (length (concat [hdr_as_slice ?h, as_slice VhostUserU64_T ?b])), s')"
    using send_all_returns [of "pipe_sock 7" p_tx p_budget] pipe_send_progress [of 7]
    by (metis pipe_send_law zero_less_numeral)
  then have send: "send_message (VhostUserMsgHeader_H FrontendReq_Req) VhostUserU64_T (pipe_sock 7)
      ?h ?b (Some [3]) ?s = Some (Inr (), s')"
    using len by (simp add: send_message_def effect_defs hdr_size_of_def VhostUserU64_T_def
        MAX_MSG_SIZE_def)
  have "hdr_is_valid FrontendReq_Req ?h"
    by (simp add: frontend_req.hdr_new_valid_iff MAX_MSG_SIZE_def)
  moreover have "is_valid VhostUserU64_T ?b" by (simp add: VhostUserU64_T_def)
  ultimately show ?thesis
    using send_message_recv_body_roundtrip [OF u64_body.byte_valued_axioms, of FrontendReq_Req ?h ?b
        "pipe_sock 7" p_tx "Some [3]" ?s s' "pipe_sock 3" p_rx p_rxf p_budget "p_tx s'"
        "\<lparr>p_budget = 1, p_tx = [], p_rx = concat (map fst (p_tx s')) @ [9],
          p_rxf = concat (map snd (p_tx s'))\<rparr>" "[9]"] send
    by auto
qed

end
