(* ===== verification/Backend_Channel.thy ===== *)
theory Backend_Channel
  imports Connection
begin

text \<open>
  The reverse channel, by which a backend asks services of its frontend: the proxy \<open>Backend\<close> on
  the backend side (\<open>vhost/src/vhost_user/backend_req.rs\<close>) and the server \<open>FrontendReqHandler\<close> on
  the frontend side (\<open>vhost/src/vhost_user/frontend_req_handler.rs\<close>). The services behind the
  server (any implementation of \<open>VhostUserFrontendReqHandler\<close>) are a dictionary of operations on
  an arbitrary state.
\<close>

subsection \<open>The proxy\<close>

record 's BackendInternal =
  bc_sock :: 's
  bc_reply_ack_negotiated :: bool
  bc_shared_object_negotiated :: bool
  bc_shmem_negotiated :: bool
  bc_error :: "int option"

definition bc_new :: "'s \<Rightarrow> 's BackendInternal" where
  "bc_new ep =
     \<lparr>bc_sock = ep, bc_reply_ack_negotiated = False, bc_shared_object_negotiated = False,
      bc_shmem_negotiated = False, bc_error = None\<rparr>"

definition set_reply_ack_flag :: "bool \<Rightarrow> 's BackendInternal \<Rightarrow> 's BackendInternal" where
  "set_reply_ack_flag enable b = b\<lparr>bc_reply_ack_negotiated := enable\<rparr>"

definition set_shared_object_flag :: "bool \<Rightarrow> 's BackendInternal \<Rightarrow> 's BackendInternal" where
  "set_shared_object_flag enable b = b\<lparr>bc_shared_object_negotiated := enable\<rparr>"

definition set_shmem_flag :: "bool \<Rightarrow> 's BackendInternal \<Rightarrow> 's BackendInternal" where
  "set_shmem_flag enable b = b\<lparr>bc_shmem_negotiated := enable\<rparr>"

definition bc_set_failed :: "int \<Rightarrow> 's BackendInternal \<Rightarrow> 's BackendInternal" where
  "bc_set_failed e b = b\<lparr>bc_error := Some e\<rparr>"

type_synonym ('s, 'a) bc = "('s BackendInternal, Error, 'a) M"

definition bc_on_sock :: "('s, Error, 'a) M \<Rightarrow> ('s, 'a) bc" where
  "bc_on_sock m = (\<lambda>b. case m (bc_sock b) of
       None \<Rightarrow> None
     | Some (r, s') \<Rightarrow> Some (r, b\<lparr>bc_sock := s'\<rparr>))"

definition bc_check_state :: "('s, u64) bc" where
  "bc_check_state = bindM (readM bc_error) (\<lambda>err. case err of
       Some e \<Rightarrow> failM (SocketBroken (RawOs e))
     | None \<Rightarrow> retM 0)"

definition bc_wait_for_ack :: "'s sock_ops \<Rightarrow> VhostUserMsgHeader \<Rightarrow> ('s, u64) bc" where
  "bc_wait_for_ack so hdr =
     thenM bc_check_state
     (bindM (readM bc_reply_ack_negotiated) (\<lambda>negotiated.
       if \<not> negotiated then retM 0
       else bindM (bc_on_sock (recv_body BH VhostUserU64_T so)) (\<lambda>(reply, body, rfds).
         if \<not> is_reply_for BackendReq_Req reply hdr \<or> rfds \<noteq> None \<or> \<not> is_valid VhostUserU64_T body
         then failM InvalidMessage
         else if u64_value body \<noteq> 0 then failM FrontendInternalError
         else retM (u64_value body))))"

definition bc_send_message ::
    "'t msg_type \<Rightarrow> 's sock_ops \<Rightarrow> BackendReq \<Rightarrow> 't \<Rightarrow> fd list option \<Rightarrow> ('s, u64) bc" where
  "bc_send_message T so request body fds =
     thenM bc_check_state
     (bindM (readM bc_reply_ack_negotiated) (\<lambda>negotiated.
       let len = size_of T;
           hdr0 = hdr_new BackendReq_Req request 0 (word_of_nat len);
           hdr = (if negotiated then set_need_reply True hdr0 else hdr0) in
       thenM (bc_on_sock (send_message BH T so hdr body fds))
         (bc_wait_for_ack so hdr)))"

text \<open>The operations of the proxy return \<open>io::Error\<close>; a vhost-user error becomes one of kind other.\<close>

type_synonym ('s, 'a) bc_io = "('s BackendInternal, io_error, 'a) M"

definition to_io :: "('s, 'a) bc \<Rightarrow> ('s, 'a) bc_io" where
  "to_io m = mapErrM (\<lambda>_. CustomIo OtherKind) m"

definition gate :: "('s BackendInternal \<Rightarrow> bool) \<Rightarrow> ('s, 'a) bc_io \<Rightarrow> ('s, 'a) bc_io" where
  "gate flag m = bindM (readM flag) (\<lambda>b. if \<not> b then failM (CustomIo OtherKind) else m)"

definition bc_shared_object_add :: "'s sock_ops \<Rightarrow> VhostUserSharedMsg \<Rightarrow> ('s, u64) bc_io" where
  "bc_shared_object_add so u = gate bc_shared_object_negotiated
     (to_io (bc_send_message VhostUserSharedMsg_T so SHARED_OBJECT_ADD u None))"

definition bc_shared_object_remove :: "'s sock_ops \<Rightarrow> VhostUserSharedMsg \<Rightarrow> ('s, u64) bc_io" where
  "bc_shared_object_remove so u = gate bc_shared_object_negotiated
     (to_io (bc_send_message VhostUserSharedMsg_T so SHARED_OBJECT_REMOVE u None))"

definition bc_shared_object_lookup :: "'s sock_ops \<Rightarrow> VhostUserSharedMsg \<Rightarrow> fd \<Rightarrow> ('s, u64) bc_io" where
  "bc_shared_object_lookup so u f = gate bc_shared_object_negotiated
     (to_io (bc_send_message VhostUserSharedMsg_T so SHARED_OBJECT_LOOKUP u (Some [f])))"

definition bc_shmem_map :: "'s sock_ops \<Rightarrow> VhostUserMMap \<Rightarrow> fd \<Rightarrow> ('s, u64) bc_io" where
  "bc_shmem_map so req f = gate bc_shmem_negotiated
     (to_io (bc_send_message VhostUserMMap_T so SHMEM_MAP req (Some [f])))"

definition bc_shmem_unmap :: "'s sock_ops \<Rightarrow> VhostUserMMap \<Rightarrow> ('s, u64) bc_io" where
  "bc_shmem_unmap so req = gate bc_shmem_negotiated
     (to_io (bc_send_message VhostUserMMap_T so SHMEM_UNMAP req None))"

subsection \<open>The server\<close>

record 'f VhostUserFrontendReqHandler =
  fs_handle_config_change :: "('f, io_error, u64) M"
  fs_shared_object_add :: "VhostUserSharedMsg \<Rightarrow> ('f, io_error, u64) M"
  fs_shared_object_remove :: "VhostUserSharedMsg \<Rightarrow> ('f, io_error, u64) M"
  fs_shared_object_lookup :: "VhostUserSharedMsg \<Rightarrow> fd \<Rightarrow> ('f, io_error, u64) M"
  fs_shmem_map :: "VhostUserMMap \<Rightarrow> fd \<Rightarrow> ('f, io_error, u64) M"
  fs_shmem_unmap :: "VhostUserMMap \<Rightarrow> ('f, io_error, u64) M"

text \<open>The default methods of the trait all report \<open>ENOSYS\<close>.\<close>

definition default_services :: "'f VhostUserFrontendReqHandler" where
  "default_services =
     \<lparr>fs_handle_config_change = failM (RawOs ENOSYS),
      fs_shared_object_add = (\<lambda>_. failM (RawOs ENOSYS)),
      fs_shared_object_remove = (\<lambda>_. failM (RawOs ENOSYS)),
      fs_shared_object_lookup = (\<lambda>_ _. failM (RawOs ENOSYS)),
      fs_shmem_map = (\<lambda>_ _. failM (RawOs ENOSYS)),
      fs_shmem_unmap = (\<lambda>_. failM (RawOs ENOSYS))\<rparr>"

record ('s, 'f) FrontendReqHandler =
  fr_sub_sock :: 's
  fr_reply_ack_negotiated :: bool
  fr_backend :: 'f
  fr_error :: "int option"

definition fr_new :: "'s \<Rightarrow> 'f \<Rightarrow> ('s, 'f) FrontendReqHandler" where
  "fr_new rx backend =
     \<lparr>fr_sub_sock = rx, fr_reply_ack_negotiated = False, fr_backend = backend, fr_error = None\<rparr>"

definition fr_set_reply_ack_flag :: "bool \<Rightarrow> ('s, 'f) FrontendReqHandler \<Rightarrow> ('s, 'f) FrontendReqHandler" where
  "fr_set_reply_ack_flag enable h = h\<lparr>fr_reply_ack_negotiated := enable\<rparr>"

definition fr_set_failed :: "int \<Rightarrow> ('s, 'f) FrontendReqHandler \<Rightarrow> ('s, 'f) FrontendReqHandler" where
  "fr_set_failed e h = (if e = 0 then h\<lparr>fr_error := None\<rparr> else h\<lparr>fr_error := Some e\<rparr>)"

type_synonym ('s, 'f, 'a) fr = "(('s, 'f) FrontendReqHandler, Error, 'a) M"

definition fr_on_sock :: "('s, Error, 'a) M \<Rightarrow> ('s, 'f, 'a) fr" where
  "fr_on_sock m = (\<lambda>h. case m (fr_sub_sock h) of
       None \<Rightarrow> None
     | Some (r, s') \<Rightarrow> Some (r, h\<lparr>fr_sub_sock := s'\<rparr>))"

text \<open>A call of a service, its error mapped to \<open>Error::ReqHandlerError\<close>.\<close>

definition fr_service :: "('f, io_error, 'a) M \<Rightarrow> ('s, 'f, 'a) fr" where
  "fr_service m = (\<lambda>h. case m (fr_backend h) of
       None \<Rightarrow> None
     | Some (Inl e, b') \<Rightarrow> Some (Inl (ReqHandlerError e), h\<lparr>fr_backend := b'\<rparr>)
     | Some (Inr x, b') \<Rightarrow> Some (Inr x, h\<lparr>fr_backend := b'\<rparr>))"

definition fr_check_state :: "('s, 'f, unit) fr" where
  "fr_check_state = bindM (readM fr_error) (\<lambda>err. case err of
       Some e \<Rightarrow> failM (SocketBroken (RawOs e))
     | None \<Rightarrow> retM ())"

definition check_msg_size :: "VhostUserMsgHeader \<Rightarrow> nat \<Rightarrow> nat \<Rightarrow> Error + unit" where
  "check_msg_size hdr sz expected =
     (if unat (get_size hdr) \<noteq> expected \<or> is_reply hdr \<or> get_version hdr \<noteq> 0x1 \<or> sz \<noteq> expected
      then Inl InvalidMessage else Inr ())"

definition fr_check_attached_files :: "VhostUserMsgHeader \<Rightarrow> fd list option \<Rightarrow> Error + unit" where
  "fr_check_attached_files hdr files =
     (if get_code BackendReq_Req hdr = Inr SHARED_OBJECT_LOOKUP
         \<or> get_code BackendReq_Req hdr = Inr SHMEM_MAP
      then (case files of
              Some fs \<Rightarrow> if length fs = 1 then Inr () else Inl InvalidMessage
            | None \<Rightarrow> Inl InvalidMessage)
      else if files \<noteq> None then Inl InvalidMessage
      else Inr ())"

definition extract_msg_body ::
    "'t msg_type \<Rightarrow> VhostUserMsgHeader \<Rightarrow> nat \<Rightarrow> u8 list \<Rightarrow> Error + 't" where
  "extract_msg_body T hdr sz buf =
     (case check_msg_size hdr sz (size_of T) of
        Inl e \<Rightarrow> Inl e
      | Inr _ \<Rightarrow>
          let msg = from_slice T (take (size_of T) buf) in
          if \<not> is_valid T msg then Inl InvalidMessage else Inr msg)"

definition fr_new_reply_header :: "nat \<Rightarrow> VhostUserMsgHeader \<Rightarrow> ('s, 'f, VhostUserMsgHeader) fr" where
  "fr_new_reply_header body_size req =
     (if body_size > MAX_MSG_SIZE then failM InvalidParam
      else thenM fr_check_state
        (bindM (liftR (get_code BackendReq_Req req)) (\<lambda>code.
          retM (hdr_new BackendReq_Req code HDR_REPLY (word_of_nat body_size)))))"

text \<open>
  The value of an acknowledgement: the result, or a negated errno as an unsigned number. The
  negation is of an \<open>i32\<close>: of the smallest number it wraps around (a build with overflow checks panics
  there).
\<close>

definition i32_neg :: "int \<Rightarrow> int" where
  "i32_neg e = (if e = - (2 ^ 31) then e else - e)"

definition ack_value :: "Error + u64 \<Rightarrow> u64" where
  "ack_value res = (case res of
       Inr n \<Rightarrow> n
     | Inl (ReqHandlerError ioerr) \<Rightarrow> (case raw_os_error ioerr of
           Some rawerr \<Rightarrow> word_of_int (i32_neg rawerr)
         | None \<Rightarrow> word_of_int (i32_neg EINVAL))
     | Inl _ \<Rightarrow> word_of_int (i32_neg EINVAL))"

definition fr_send_ack_message ::
    "'s sock_ops \<Rightarrow> VhostUserMsgHeader \<Rightarrow> Error + u64 \<Rightarrow> ('s, 'f, unit) fr" where
  "fr_send_ack_message so req res =
     bindM (readM fr_reply_ack_negotiated) (\<lambda>negotiated.
       if negotiated \<and> is_need_reply req
       then bindM (fr_new_reply_header (size_of VhostUserU64_T) req) (\<lambda>hdr.
         fr_on_sock (send_message BH VhostUserU64_T so hdr (VhostUserU64_new (ack_value res)) None))
       else retM ())"

definition fr_recv_request_body ::
    "'s sock_ops \<Rightarrow> VhostUserMsgHeader \<Rightarrow> ('s, 'f, nat \<times> u8 list) fr" where
  "fr_recv_request_body so hdr =
     (if get_size hdr = 0 then retM (0, [])
      else
        (let len = unat (get_size hdr) in
         if len > MAX_MSG_SIZE then failM InvalidMessage
         else bindM (fr_on_sock (recv_data so len)) (\<lambda>(size2, rbuf).
           if size2 \<noteq> len then failM InvalidMessage else retM (size2, rbuf))))"

text \<open>
  The dispatch. An outer error is one that ends the function before the acknowledgement (the
  \<open>?\<close> of the checks); the inner result is what the acknowledgement reports. \<open>files.unwrap()[0]\<close>
  panics without a file, which is not returning.
\<close>

definition unwrap_file :: "fd list option \<Rightarrow> ('s, 'e, fd) M" where
  "unwrap_file files = (\<lambda>s. case files of
       Some (f # _) \<Rightarrow> Some (Inr f, s)
     | _ \<Rightarrow> None)"

fun fr_dispatch ::
    "'f VhostUserFrontendReqHandler \<Rightarrow> VhostUserMsgHeader \<Rightarrow> nat \<Rightarrow> u8 list \<Rightarrow> fd list option
     \<Rightarrow> BackendReq \<Rightarrow> ('s, 'f, Error + u64) fr" where
  "fr_dispatch S hdr sz buf files CONFIG_CHANGE_MSG =
     thenM (liftR (check_msg_size hdr sz 0)) (catchM (fr_service (fs_handle_config_change S)))"
| "fr_dispatch S hdr sz buf files SHARED_OBJECT_ADD =
     bindM (liftR (extract_msg_body VhostUserSharedMsg_T hdr sz buf)) (\<lambda>msg.
       catchM (fr_service (fs_shared_object_add S msg)))"
| "fr_dispatch S hdr sz buf files SHARED_OBJECT_REMOVE =
     bindM (liftR (extract_msg_body VhostUserSharedMsg_T hdr sz buf)) (\<lambda>msg.
       catchM (fr_service (fs_shared_object_remove S msg)))"
| "fr_dispatch S hdr sz buf files SHARED_OBJECT_LOOKUP =
     bindM (liftR (extract_msg_body VhostUserSharedMsg_T hdr sz buf)) (\<lambda>msg.
       bindM (unwrap_file files) (\<lambda>f. catchM (fr_service (fs_shared_object_lookup S msg f))))"
| "fr_dispatch S hdr sz buf files SHMEM_MAP =
     bindM (liftR (extract_msg_body VhostUserMMap_T hdr sz buf)) (\<lambda>msg.
       bindM (unwrap_file files) (\<lambda>f. catchM (fr_service (fs_shmem_map S msg f))))"
| "fr_dispatch S hdr sz buf files SHMEM_UNMAP =
     bindM (liftR (extract_msg_body VhostUserMMap_T hdr sz buf)) (\<lambda>msg.
       catchM (fr_service (fs_shmem_unmap S msg)))"
| "fr_dispatch S hdr sz buf files _ = retM (Inl InvalidMessage)"

definition fr_handle_request ::
    "'f VhostUserFrontendReqHandler \<Rightarrow> 's sock_ops \<Rightarrow> ('s, 'f, u64) fr" where
  "fr_handle_request S so =
     thenM fr_check_state
     (bindM (fr_on_sock (recv_header BH so)) (\<lambda>(hdr, files).
       thenM (liftR (fr_check_attached_files hdr files))
       (bindM (fr_recv_request_body so hdr) (\<lambda>(sz, buf).
       bindM (case get_code BackendReq_Req hdr of
                Inr code \<Rightarrow> fr_dispatch S hdr sz buf files code
              | Inl _ \<Rightarrow> retM (Inl InvalidMessage)) (\<lambda>res.
         thenM (fr_send_ack_message so hdr res) (liftR res))))))"

subsection \<open>The server never panics\<close>

text \<open>Services that always return, for every argument and in every state.\<close>

definition services_return :: "'f VhostUserFrontendReqHandler \<Rightarrow> bool" where
  "services_return S \<longleftrightarrow> (\<forall>b u m f. fs_handle_config_change S b \<noteq> None
     \<and> fs_shared_object_add S u b \<noteq> None \<and> fs_shared_object_remove S u b \<noteq> None
     \<and> fs_shared_object_lookup S u f b \<noteq> None \<and> fs_shmem_map S m f b \<noteq> None
     \<and> fs_shmem_unmap S m b \<noteq> None)"

lemma fr_service_returns: "m (fr_backend h) \<noteq> None \<Longrightarrow> \<exists>r h'. fr_service m h = Some (r, h')"
  by (auto simp: fr_service_def split: option.splits sum.splits)

lemma catchM_returns: "\<exists>r h'. m h = Some (r, h') \<Longrightarrow> \<exists>r h'. catchM m h = Some (r, h')"
  by (auto simp: catchM_def)

lemma bindM_liftR_returns:
  "(\<And>x. r = Inr x \<Longrightarrow> \<exists>r' h'. f x h = Some (r', h')) \<Longrightarrow> \<exists>r' h'. bindM (liftR r) f h = Some (r', h')"
  by (cases r) (auto simp: bindM_def liftR_def)

lemma bindM_unwrap_file [simp]: "bindM (unwrap_file (Some (f # fs))) g = g f"
  by (rule ext) (simp add: bindM_def unwrap_file_def)

text \<open>
  C32: after the check of the attached files, the dispatch of a request of the backend always
  returns when the services do: taking the file out of a lookup or a mapping request cannot
  panic.
\<close>

theorem reverse_dispatch_returns:
  assumes "services_return S" and "fr_check_attached_files hdr files = Inr ()"
    and "get_code BackendReq_Req hdr = Inr code"
  shows "\<exists>r h'. fr_dispatch S hdr sz buf files code h = Some (r, h')"
proof -
  have one_file: "\<exists>f. files = Some [f]" if "code = SHARED_OBJECT_LOOKUP \<or> code = SHMEM_MAP"
    using assms(2,3) that
    by (auto simp: fr_check_attached_files_def length_Suc_conv split: option.splits if_splits)
  have S: "fs_handle_config_change S b \<noteq> None" "fs_shared_object_add S u b \<noteq> None"
    "fs_shared_object_remove S u b \<noteq> None" "fs_shared_object_lookup S u f b \<noteq> None"
    "fs_shmem_map S m f b \<noteq> None" "fs_shmem_unmap S m b \<noteq> None" for b u m f
    using assms(1) unfolding services_return_def by blast+
  show ?thesis
    using one_file
    by (cases code)
      (auto simp: thenM_def retM_def
        intro!: bindM_liftR_returns catchM_returns fr_service_returns S)
qed

theorem reverse_dispatch_returns_witness:
  "\<exists>r h'. fr_dispatch (default_services :: nat VhostUserFrontendReqHandler)
     (hdr_new BackendReq_Req SHMEM_MAP 0 40) 40 (replicate 40 0) (Some [5]) SHMEM_MAP
     (fr_new (0::nat) 0) = Some (r, h')"
  by (rule reverse_dispatch_returns)
    (simp_all add: services_return_def default_services_def failM_def fr_check_attached_files_def)

subsection \<open>What an acknowledgement says\<close>

text \<open>
  C33: the value of an acknowledgement is 0, which the proxy takes as success, exactly when the
  service returned 0 or failed with the error number 0; every other error, and every other value,
  reaches the backend as a failure. (An error number fits 32 bits.)
\<close>

theorem ack_value_zero_iff:
  assumes "\<And>e. res = Inl (ReqHandlerError (RawOs e)) \<Longrightarrow> - (2 ^ 31) \<le> e \<and> e < 2 ^ 31"
  shows "ack_value res = 0 \<longleftrightarrow> res = Inr 0 \<or> res = Inl (ReqHandlerError (RawOs 0))"
proof -
  have zero: "(word_of_int (i32_neg e) :: u64) = 0 \<longleftrightarrow> e = 0" if "- (2 ^ 31) \<le> e \<and> e < 2 ^ 31" for e :: int
  proof
    assume "(word_of_int (i32_neg e) :: u64) = 0"
    then have "(2 ^ 64 :: int) dvd i32_neg e" by (simp add: word_of_int_eq_0_iff)
    then have "(2 ^ 64 :: int) dvd e" by (simp add: i32_neg_def split: if_splits)
    with that show "e = 0" by (auto simp: zdvd_not_zless dest: zdvd_imp_le)
  qed (simp add: i32_neg_def)
  have inval: "(word_of_int (i32_neg EINVAL) :: u64) \<noteq> 0" by (simp add: i32_neg_def EINVAL_def)
  show ?thesis
  proof (cases res)
    case (Inr n)
    then show ?thesis by (simp add: ack_value_def)
  next
    case (Inl e)
    show ?thesis
    proof (cases "\<exists>n. e = ReqHandlerError (RawOs n)")
      case True
      then obtain n where "res = Inl (ReqHandlerError (RawOs n))" using Inl by blast
      with zero [OF assms [OF this]] show ?thesis by (simp add: ack_value_def)
    next
      case False
      have "ack_value res = word_of_int (i32_neg EINVAL)"
      proof (cases e)
        case (ReqHandlerError io)
        with False Inl show ?thesis by (cases io) (simp_all add: ack_value_def)
      qed (simp_all add: Inl ack_value_def)
      with inval Inl False show ?thesis by auto
    qed
  qed
qed

theorem ack_value_zero_iff_witness: "ack_value (Inl (ReqHandlerError (RawOs 22))) \<noteq> 0"
  using ack_value_zero_iff [of "Inl (ReqHandlerError (RawOs 22))"] by simp

end
