(* ===== verification/Device_Trait.thy ===== *)
theory Device_Trait
  imports Locks Backend_Channel
begin

text \<open>
  The trait that a device implements, \<open>vhost-user-backend/src/backend.rs\<close>: \<open>VhostUserBackend\<close>
  (and its twin \<open>VhostUserBackendMut\<close>, which differs in mutability only) as a dictionary of its
  methods on an arbitrary device state \<open>'d\<close>, the methods that the traits provide, and the
  implementations for \<open>Arc\<close>, \<open>Mutex\<close> and \<open>RwLock\<close> that forward to the value inside.

  \<open>transparent_device\<close> is the contract of such a wrapper: every method does on wrapped states what
  the method of the device does on bare ones. Its clients are the handler and the request server.
\<close>

subsection \<open>The traits\<close>

text \<open>
  Any method can panic, and any method can change the device, because the traits allow interior
  mutability. \<open>handle_event\<close> gets references to the vrings that the device may change: it gives
  them back.
\<close>

record ('d, 'm, 'v) VhostUserBackend =
  d_num_queues :: "('d, nat) call"
  d_max_queue_size :: "('d, nat) call"
  d_features :: "('d, u64) call"
  d_acked_features :: "u64 \<Rightarrow> ('d, unit) call"
  d_protocol_features :: "('d, u64) call"
  d_reset_device :: "('d, unit) call"
  d_set_event_idx :: "bool \<Rightarrow> ('d, unit) call"
  d_get_config :: "u32 \<Rightarrow> u32 \<Rightarrow> ('d, u8 list) call"
  d_set_config :: "u32 \<Rightarrow> u8 list \<Rightarrow> ('d, io_error + unit) call"
  d_update_memory :: "'m \<Rightarrow> ('d, io_error + unit) call"
  d_set_backend_req_fd :: "fd BackendInternal \<Rightarrow> ('d, unit) call"
  d_get_shared_object :: "VhostUserSharedMsg \<Rightarrow> ('d, io_error + fd) call"
  d_set_gpu_socket :: "fd \<Rightarrow> ('d, io_error + unit) call"
  d_queues_per_thread :: "('d, u64 list) call"
  d_exit_event :: "nat \<Rightarrow> ('d, (fd \<times> fd) option) call"
  d_handle_event ::
    "u16 \<Rightarrow> u32 \<Rightarrow> 'v list \<Rightarrow> nat \<Rightarrow> ('d, (io_error + unit) \<times> 'v list) call"
  d_set_device_state_fd ::
    "VhostTransferStateDirection \<Rightarrow> VhostTransferStatePhase \<Rightarrow> fd \<Rightarrow> ('d, io_error + fd option) call"
  d_check_device_state :: "('d, io_error + unit) call"
  d_get_shmem_config :: "('d, io_error + VhostUserShMemConfig) call"

text \<open>A device with the methods that have no default, and the provided methods for the others.\<close>

definition VhostUserBackend_provided ::
    "('d, nat) call
     \<Rightarrow> ('d, nat) call
     \<Rightarrow> ('d, u64) call
     \<Rightarrow> ('d, u64) call
     \<Rightarrow> (bool \<Rightarrow> ('d, unit) call)
     \<Rightarrow> ('m \<Rightarrow> ('d, io_error + unit) call)
     \<Rightarrow> (u16 \<Rightarrow> u32 \<Rightarrow> 'v list \<Rightarrow> nat \<Rightarrow> ('d, (io_error + unit) \<times> 'v list) call)
     \<Rightarrow> ('d, 'm, 'v) VhostUserBackend" where
  "VhostUserBackend_provided num_queues max_queue_size features protocol_features set_event_idx update_memory handle_event =
     \<lparr>d_num_queues = num_queues,
      d_max_queue_size = max_queue_size,
      d_features = features,
      d_acked_features = (\<lambda>_. returns ()),
      d_protocol_features = protocol_features,
      d_reset_device = returns (),
      d_set_event_idx = set_event_idx,
      d_get_config = (\<lambda>_ _. returns []),
      d_set_config = (\<lambda>_ _. returns (Inr ())),
      d_update_memory = update_memory,
      d_set_backend_req_fd = (\<lambda>_. returns ()),
      d_get_shared_object = (\<lambda>_. returns (Inl (CustomIo Unsupported))),
      d_set_gpu_socket = (\<lambda>_. returns (Inl (CustomIo Unsupported))),
      d_queues_per_thread = returns [0xffffffff],
      d_exit_event = (\<lambda>_. returns None),
      d_handle_event = handle_event,
      d_set_device_state_fd = (\<lambda>_ _ _. returns (Inl (CustomIo Unsupported))),
      d_check_device_state = returns (Inl (CustomIo Unsupported)),
      d_get_shmem_config = returns (Inl (CustomIo Unsupported))\<rparr>"

definition VhostUserBackendMut_provided ::
    "('d, nat) call
     \<Rightarrow> ('d, nat) call
     \<Rightarrow> ('d, u64) call
     \<Rightarrow> ('d, u64) call
     \<Rightarrow> (bool \<Rightarrow> ('d, unit) call)
     \<Rightarrow> ('m \<Rightarrow> ('d, io_error + unit) call)
     \<Rightarrow> (u16 \<Rightarrow> u32 \<Rightarrow> 'v list \<Rightarrow> nat \<Rightarrow> ('d, (io_error + unit) \<times> 'v list) call)
     \<Rightarrow> ('d, 'm, 'v) VhostUserBackend" where
  "VhostUserBackendMut_provided num_queues max_queue_size features protocol_features set_event_idx update_memory handle_event =
     \<lparr>d_num_queues = num_queues,
      d_max_queue_size = max_queue_size,
      d_features = features,
      d_acked_features = (\<lambda>_. returns ()),
      d_protocol_features = protocol_features,
      d_reset_device = returns (),
      d_set_event_idx = set_event_idx,
      d_get_config = (\<lambda>_ _. returns []),
      d_set_config = (\<lambda>_ _. returns (Inr ())),
      d_update_memory = update_memory,
      d_set_backend_req_fd = (\<lambda>_. returns ()),
      d_get_shared_object = (\<lambda>_. returns (Inl (CustomIo Unsupported))),
      d_set_gpu_socket = (\<lambda>_. returns (Inl (CustomIo Unsupported))),
      d_queues_per_thread = returns [0xffffffff],
      d_exit_event = (\<lambda>_. returns None),
      d_handle_event = handle_event,
      d_set_device_state_fd = (\<lambda>_ _ _. returns (Inl (CustomIo Unsupported))),
      d_check_device_state = returns (Inl (CustomIo Unsupported)),
      d_get_shmem_config = returns (Inl (CustomIo Unsupported))\<rparr>"

subsection \<open>The forwarding implementations\<close>

definition arc_device ::
    "('d, 'm, 'v) VhostUserBackend \<Rightarrow> ('d Arc, 'm, 'v) VhostUserBackend" where
  "arc_device D =
     \<lparr>d_num_queues = arc_deref (d_num_queues D),
      d_max_queue_size = arc_deref (d_max_queue_size D),
      d_features = arc_deref (d_features D),
      d_acked_features = (\<lambda>features. arc_deref (d_acked_features D features)),
      d_protocol_features = arc_deref (d_protocol_features D),
      d_reset_device = arc_deref (d_reset_device D),
      d_set_event_idx = (\<lambda>enabled. arc_deref (d_set_event_idx D enabled)),
      d_get_config = (\<lambda>off sz. arc_deref (d_get_config D off sz)),
      d_set_config = (\<lambda>off buf. arc_deref (d_set_config D off buf)),
      d_update_memory = (\<lambda>mem. arc_deref (d_update_memory D mem)),
      d_set_backend_req_fd = (\<lambda>backend. arc_deref (d_set_backend_req_fd D backend)),
      d_get_shared_object = (\<lambda>uuid. arc_deref (d_get_shared_object D uuid)),
      d_set_gpu_socket = (\<lambda>gpu_backend. arc_deref (d_set_gpu_socket D gpu_backend)),
      d_queues_per_thread = arc_deref (d_queues_per_thread D),
      d_exit_event = (\<lambda>thread_index. arc_deref (d_exit_event D thread_index)),
      d_handle_event = (\<lambda>device_event evset vrings thread_id. arc_deref (d_handle_event D device_event evset vrings thread_id)),
      d_set_device_state_fd = (\<lambda>direction phase f. arc_deref (d_set_device_state_fd D direction phase f)),
      d_check_device_state = arc_deref (d_check_device_state D),
      d_get_shmem_config = arc_deref (d_get_shmem_config D)\<rparr>"

definition mutex_device ::
    "('d, 'm, 'v) VhostUserBackend \<Rightarrow> ('d Mutex, 'm, 'v) VhostUserBackend" where
  "mutex_device D =
     \<lparr>d_num_queues = lock_unwrap (d_num_queues D),
      d_max_queue_size = lock_unwrap (d_max_queue_size D),
      d_features = lock_unwrap (d_features D),
      d_acked_features = (\<lambda>features. lock_unwrap (d_acked_features D features)),
      d_protocol_features = lock_unwrap (d_protocol_features D),
      d_reset_device = lock_unwrap (d_reset_device D),
      d_set_event_idx = (\<lambda>enabled. lock_unwrap (d_set_event_idx D enabled)),
      d_get_config = (\<lambda>off sz. lock_unwrap (d_get_config D off sz)),
      d_set_config = (\<lambda>off buf. lock_unwrap (d_set_config D off buf)),
      d_update_memory = (\<lambda>mem. lock_unwrap (d_update_memory D mem)),
      d_set_backend_req_fd = (\<lambda>backend. lock_unwrap (d_set_backend_req_fd D backend)),
      d_get_shared_object = (\<lambda>uuid. lock_unwrap (d_get_shared_object D uuid)),
      d_set_gpu_socket = (\<lambda>gpu_backend. lock_unwrap (d_set_gpu_socket D gpu_backend)),
      d_queues_per_thread = lock_unwrap (d_queues_per_thread D),
      d_exit_event = (\<lambda>thread_index. lock_unwrap (d_exit_event D thread_index)),
      d_handle_event = (\<lambda>device_event evset vrings thread_id. lock_unwrap (d_handle_event D device_event evset vrings thread_id)),
      d_set_device_state_fd = (\<lambda>direction phase f. lock_unwrap (d_set_device_state_fd D direction phase f)),
      d_check_device_state = lock_unwrap (d_check_device_state D),
      d_get_shmem_config = lock_unwrap (d_get_shmem_config D)\<rparr>"

text \<open>The methods with \<open>&self\<close> take the read lock, those with \<open>&mut self\<close> the write lock.\<close>

definition rwlock_device ::
    "('d, 'm, 'v) VhostUserBackend \<Rightarrow> ('d RwLock, 'm, 'v) VhostUserBackend" where
  "rwlock_device D =
     \<lparr>d_num_queues = read_unwrap (d_num_queues D),
      d_max_queue_size = read_unwrap (d_max_queue_size D),
      d_features = read_unwrap (d_features D),
      d_acked_features = (\<lambda>features. write_unwrap (d_acked_features D features)),
      d_protocol_features = read_unwrap (d_protocol_features D),
      d_reset_device = write_unwrap (d_reset_device D),
      d_set_event_idx = (\<lambda>enabled. write_unwrap (d_set_event_idx D enabled)),
      d_get_config = (\<lambda>off sz. read_unwrap (d_get_config D off sz)),
      d_set_config = (\<lambda>off buf. write_unwrap (d_set_config D off buf)),
      d_update_memory = (\<lambda>mem. write_unwrap (d_update_memory D mem)),
      d_set_backend_req_fd = (\<lambda>backend. write_unwrap (d_set_backend_req_fd D backend)),
      d_get_shared_object = (\<lambda>uuid. write_unwrap (d_get_shared_object D uuid)),
      d_set_gpu_socket = (\<lambda>gpu_backend. write_unwrap (d_set_gpu_socket D gpu_backend)),
      d_queues_per_thread = read_unwrap (d_queues_per_thread D),
      d_exit_event = (\<lambda>thread_index. read_unwrap (d_exit_event D thread_index)),
      d_handle_event = (\<lambda>device_event evset vrings thread_id. write_unwrap (d_handle_event D device_event evset vrings thread_id)),
      d_set_device_state_fd = (\<lambda>direction phase f. write_unwrap (d_set_device_state_fd D direction phase f)),
      d_check_device_state = read_unwrap (d_check_device_state D),
      d_get_shmem_config = read_unwrap (d_get_shmem_config D)\<rparr>"

subsection \<open>Transparent wrappers\<close>

locale transparent_device =
  fixes g :: "'d \<Rightarrow> 'l" and D :: "('d, 'm, 'v) VhostUserBackend" and D' :: "('l, 'm, 'v) VhostUserBackend"
  assumes lift_num_queues: "lifts g (d_num_queues D) (d_num_queues D')"
    and lift_max_queue_size: "lifts g (d_max_queue_size D) (d_max_queue_size D')"
    and lift_features: "lifts g (d_features D) (d_features D')"
    and lift_acked_features: "\<And>ft. lifts g (d_acked_features D ft) (d_acked_features D' ft)"
    and lift_protocol_features: "lifts g (d_protocol_features D) (d_protocol_features D')"
    and lift_reset_device: "lifts g (d_reset_device D) (d_reset_device D')"
    and lift_set_event_idx: "\<And>b. lifts g (d_set_event_idx D b) (d_set_event_idx D' b)"
    and lift_get_config: "\<And>off sz. lifts g (d_get_config D off sz) (d_get_config D' off sz)"
    and lift_set_config: "\<And>off buf. lifts g (d_set_config D off buf) (d_set_config D' off buf)"
    and lift_update_memory: "\<And>mem. lifts g (d_update_memory D mem) (d_update_memory D' mem)"
    and lift_set_backend_req_fd: "\<And>bi. lifts g (d_set_backend_req_fd D bi) (d_set_backend_req_fd D' bi)"
    and lift_get_shared_object: "\<And>u. lifts g (d_get_shared_object D u) (d_get_shared_object D' u)"
    and lift_set_gpu_socket: "\<And>f. lifts g (d_set_gpu_socket D f) (d_set_gpu_socket D' f)"
    and lift_queues_per_thread: "lifts g (d_queues_per_thread D) (d_queues_per_thread D')"
    and lift_exit_event: "\<And>t. lifts g (d_exit_event D t) (d_exit_event D' t)"
    and lift_handle_event: "\<And>e evset vs t. lifts g (d_handle_event D e evset vs t) (d_handle_event D' e evset vs t)"
    and lift_set_device_state_fd: "\<And>dir ph f. lifts g (d_set_device_state_fd D dir ph f) (d_set_device_state_fd D' dir ph f)"
    and lift_check_device_state: "lifts g (d_check_device_state D) (d_check_device_state D')"
    and lift_get_shmem_config: "lifts g (d_get_shmem_config D) (d_get_shmem_config D')"
begin

lemmas lift_methods = lift_num_queues lift_max_queue_size lift_features lift_acked_features lift_protocol_features lift_reset_device lift_set_event_idx lift_get_config lift_set_config lift_update_memory lift_set_backend_req_fd lift_get_shared_object lift_set_gpu_socket lift_queues_per_thread lift_exit_event lift_handle_event lift_set_device_state_fd lift_check_device_state lift_get_shmem_config

end

interpretation arc_dev: transparent_device arc_new D "arc_device D" for D
  by unfold_locales (simp_all add: arc_device_def lift_intros)

interpretation mutex_dev: transparent_device mutex_new D "mutex_device D" for D
  by unfold_locales (simp_all add: mutex_device_def lift_intros)

interpretation rwlock_dev: transparent_device rwlock_new D "rwlock_device D" for D
  by unfold_locales (simp_all add: rwlock_device_def lift_intros)

text \<open>Wrappers around wrappers, as in \<open>Arc<RwLock<T>>\<close>.\<close>

lemma transparent_device_comp:
  assumes "transparent_device g D D'" and "transparent_device g' D' D''"
  shows "transparent_device (\<lambda>d. g' (g d)) D D''"
  using transparent_device.lift_methods [OF assms(1)] transparent_device.lift_methods [OF assms(2)]
  by unfold_locales (metis lifts_comp)+

end
