(* ===== verification/Event_Loop.thy ===== *)
theory Event_Loop
  imports Vring Device_Trait
begin

text \<open>
  The worker threads of a backend, \<open>vhost-user-backend/src/event_loop.rs\<close>: an epoll instance that
  the handler registers kick descriptors with, and the loop that waits for events and calls the
  device.

  The epoll instance is a parameter (\<open>epoll_ops\<close>), and so is the device. The loop runs beside the thread that handles
  requests: \<open>worker_ops\<close> describes one worker's view of a shared world \<open>'w\<close>, in which the
  other thread may act whenever the worker waits. The loop is a \<open>partial_function\<close>: a worker that
  never leaves it has the value \<open>None\<close>.
\<close>

subsection \<open>Parameters\<close>

text \<open>
  \<open>epoll_add\<close> and \<open>epoll_del\<close> are the two uses of \<open>epoll_ctl\<close>; \<open>epoll_closed\<close> is what the
  kernel does to an epoll instance when a descriptor is closed. A registration belongs to the number
  of a descriptor and the open file behind it: a value of type \<open>fd\<close> stands for both, so that a new
  descriptor with an old number is a different value unless it refers to the same open file.
\<close>

record 'p epoll_ops =
  epoll_create :: "io_error + 'p"
  epoll_add :: "fd \<Rightarrow> u32 \<Rightarrow> u64 \<Rightarrow> 'p \<Rightarrow> (io_error + unit) \<times> 'p"
  epoll_del :: "fd \<Rightarrow> u32 \<Rightarrow> u64 \<Rightarrow> 'p \<Rightarrow> (io_error + unit) \<times> 'p"
  epoll_closed :: "fd \<Rightarrow> 'p \<Rightarrow> 'p"

text \<open>
  What the kernel promises of an epoll instance, whose registrations are \<open>interest\<close>: a new instance
  has none, an addition that fails changes nothing, and a deleted descriptor is not registered any
  more. Closing a descriptor takes its registration away only when no other descriptor refers to
  the same open file; the frontend may keep one, so that the registration may stay.
\<close>

definition epoll_law :: "'p epoll_ops \<Rightarrow> ('p \<Rightarrow> (fd \<times> u64) set) \<Rightarrow> bool" where
  "epoll_law P interest \<longleftrightarrow>
     (\<forall>p. epoll_create P = Inr p \<longrightarrow> interest p = {})
     \<and> (\<forall>f ev d p r p'.
       (epoll_add P f ev d p = (Inr r, p') \<longrightarrow> interest p' = insert (f, d) (interest p))
       \<and> (\<forall>e. epoll_add P f ev d p = (Inl e, p') \<longrightarrow> interest p' = interest p
            \<and> (io_error_kind e = AlreadyExists \<longrightarrow> f \<in> fst ` interest p))
       \<and> interest (snd (epoll_del P f ev d p)) = {x \<in> interest p. fst x \<noteq> f}
       \<and> {x \<in> interest p. fst x \<noteq> f} \<subseteq> interest (epoll_closed P f p)
       \<and> interest (epoll_closed P f p) \<subseteq> interest p)"

lemma epoll_law_create: "epoll_law P N \<Longrightarrow> epoll_create P = Inr p \<Longrightarrow> N p = {}"
  by (simp add: epoll_law_def)

lemma epoll_law_add_ok: "epoll_law P N \<Longrightarrow> epoll_add P f ev d p = (Inr r, p') \<Longrightarrow> N p' = insert (f, d) (N p)"
  unfolding epoll_law_def by blast

lemma epoll_law_add_fail:
  "epoll_law P N \<Longrightarrow> epoll_add P f ev d p = (Inl e, p') \<Longrightarrow>
     N p' = N p \<and> (io_error_kind e = AlreadyExists \<longrightarrow> f \<in> fst ` N p)"
  unfolding epoll_law_def by blast

lemma epoll_law_add:
  assumes "epoll_law P N" and "epoll_add P f ev d p = (r, p')"
  shows "N p' \<subseteq> insert (f, d) (N p)"
    and "(\<And>e. r = Inl e \<Longrightarrow> io_error_kind e = AlreadyExists) \<Longrightarrow> f \<in> fst ` N p'"
  using epoll_law_add_ok [OF assms(1)] epoll_law_add_fail [OF assms(1)] assms(2)
  by (cases r; auto)+

lemma epoll_law_del:
  assumes "epoll_law P N" and "epoll_del P f ev d p = (r, p')"
  shows "N p' = {x \<in> N p. fst x \<noteq> f}"
proof -
  have "N (snd (epoll_del P f ev d p)) = {x \<in> N p. fst x \<noteq> f}" using assms(1) by (simp add: epoll_law_def)
  then show ?thesis using assms(2) by simp
qed

lemma epoll_law_closed:
  "epoll_law P N \<Longrightarrow> N (epoll_closed P f p) \<subseteq> N p"
  "epoll_law P N \<Longrightarrow> x \<in> N p \<Longrightarrow> fst x \<noteq> f \<Longrightarrow> x \<in> N (epoll_closed P f p)"
  unfolding epoll_law_def by blast+

text \<open>
  A worker: \<open>w_wait\<close> is \<open>epoll_wait\<close> without a timeout, for at most the given number of events,
  giving the event bits and the data of each event; \<open>w_known\<close> tells event bits that \<open>EventSet\<close> has.
\<close>

record ('w, 'q) worker_ops =
  w_wait :: "nat \<Rightarrow> ('w, io_error, (u32 \<times> u64) list) M"
  w_known :: "u32 \<Rightarrow> bool"
  w_vrings :: "'w \<Rightarrow> 'q VringState list"
  w_consume :: "fd \<Rightarrow> ('w, io_error, unit) M"
  w_num_queues :: "('w, nat) call"
  w_handle_event :: "u16 \<Rightarrow> u32 \<Rightarrow> nat \<Rightarrow> ('w, io_error, unit) M"

definition EVENTSET_IN :: u32 where "EVENTSET_IN = 1"

subsection \<open>VringEpollHandler\<close>

datatype VringEpollError =
    EpollCreateFd io_error
  | EpollWait io_error
  | RegisterExitEvent io_error
  | HandleEventReadKick io_error
  | HandleEventBackendHandling io_error

text \<open>
  The vrings of a worker are shared with the handler: \<open>veh_vrings\<close> has their indices in the list
  of the handler.
\<close>

record 'p VringEpollHandler =
  veh_epoll :: 'p
  veh_vrings :: "nat list"
  veh_thread_id :: nat
  veh_exit_event_fd :: "fd option"

text \<open>
  \<open>exit_event\<close> of the device gives the descriptor to wait on and the one to notify, if this thread
  is to have them.
\<close>

definition veh_new ::
    "'p epoll_ops \<Rightarrow> ('d, 'm, 'v) VhostUserBackend \<Rightarrow> nat list \<Rightarrow> nat
     \<Rightarrow> ('d, VringEpollError, 'p VringEpollHandler) M" where
  "veh_new P D vrings thread_id =
     (case epoll_create P of
        Inl e \<Rightarrow> failM (EpollCreateFd e)
      | Inr epoll \<Rightarrow>
          bindM (callM (d_exit_event D thread_id)) (\<lambda>exit_event. case exit_event of
             None \<Rightarrow> retM \<lparr>veh_epoll = epoll, veh_vrings = vrings, veh_thread_id = thread_id,
                            veh_exit_event_fd = None\<rparr>
           | Some (consumer, notifier) \<Rightarrow>
               bindM (callM (d_num_queues D)) (\<lambda>id.
                 case epoll_add P consumer EVENTSET_IN (word_of_nat id) epoll of
                   (Inl e, _) \<Rightarrow> failM (RegisterExitEvent e)
                 | (Inr _, epoll') \<Rightarrow> retM \<lparr>veh_epoll = epoll', veh_vrings = vrings,
                     veh_thread_id = thread_id, veh_exit_event_fd = Some notifier\<rparr>)))"

text \<open>\<open>notify\<close> writes to an event descriptor; what it returns is not looked at.\<close>

definition send_exit_event ::
    "(fd \<Rightarrow> ('w, io_error + unit) call) \<Rightarrow> 'p VringEpollHandler \<Rightarrow> ('w, unit) call" where
  "send_exit_event notify v =
     (case veh_exit_event_fd v of
        None \<Rightarrow> returns ()
      | Some eventfd \<Rightarrow> (\<lambda>w. case notify eventfd w of
          None \<Rightarrow> None
        | Some (_, w') \<Rightarrow> Some ((), w')))"

text \<open>The registrations, as operations on the epoll instance.\<close>

definition register_event ::
    "'p epoll_ops \<Rightarrow> fd \<Rightarrow> u32 \<Rightarrow> u64 \<Rightarrow> 'p \<Rightarrow> (io_error + unit) \<times> 'p" where
  "register_event P f ev_type data p = epoll_add P f ev_type data p"

definition unregister_event ::
    "'p epoll_ops \<Rightarrow> fd \<Rightarrow> u32 \<Rightarrow> u64 \<Rightarrow> 'p \<Rightarrow> (io_error + unit) \<times> 'p" where
  "unregister_event P f ev_type data p = epoll_del P f ev_type data p"

definition register_listener ::
    "'p epoll_ops \<Rightarrow> nat \<Rightarrow> fd \<Rightarrow> u32 \<Rightarrow> u64 \<Rightarrow> 'p \<Rightarrow> (io_error + unit) \<times> 'p" where
  "register_listener P num_queues f ev_type data p =
     (if data \<le> word_of_nat num_queues then (Inl (RawOs EINVAL), p)
      else register_event P f ev_type data p)"

definition unregister_listener ::
    "'p epoll_ops \<Rightarrow> nat \<Rightarrow> fd \<Rightarrow> u32 \<Rightarrow> u64 \<Rightarrow> 'p \<Rightarrow> (io_error + unit) \<times> 'p" where
  "unregister_listener P num_queues f ev_type data p =
     (if data \<le> word_of_nat num_queues then (Inl (RawOs EINVAL), p)
      else unregister_event P f ev_type data p)"

text \<open>The number of queues is asked for only when there is an exit event.\<close>

definition is_exit_event ::
    "('w, 'q) worker_ops \<Rightarrow> 'p VringEpollHandler \<Rightarrow> u16 \<Rightarrow> ('w, VringEpollError, bool) M" where
  "is_exit_event W v device_event =
     (if veh_exit_event_fd v = None then retM False
      else bindM (callM (w_num_queues W)) (\<lambda>num_queues. retM (unat device_event = num_queues)))"

text \<open>The handling of an event that is not the exit event.\<close>

definition handle_vring_event ::
    "('w, 'q) worker_ops \<Rightarrow> 'p VringEpollHandler \<Rightarrow> u16 \<Rightarrow> u32 \<Rightarrow> ('w, VringEpollError, bool) M" where
  "handle_vring_event W v device_event evset =
     bindM (readM (w_vrings W)) (\<lambda>vrings.
     bindM (if unat device_event < length vrings
            then mapErrM HandleEventReadKick (read_kick (w_consume W) (vrings ! unat device_event))
            else retM True) (\<lambda>enabled.
       if \<not> enabled then retM False
       else thenM (mapErrM HandleEventBackendHandling
                    (w_handle_event W device_event evset (veh_thread_id v)))
              (retM False)))"

definition handle_event ::
    "('w, 'q) worker_ops \<Rightarrow> 'p VringEpollHandler \<Rightarrow> u16 \<Rightarrow> u32 \<Rightarrow> ('w, VringEpollError, bool) M" where
  "handle_event W v device_event evset =
     bindM (is_exit_event W v device_event) (\<lambda>exit.
       if exit then retM True else handle_vring_event W v device_event evset)"

text \<open>
  The events of one wait, up to the exit event. Unknown event bits are skipped; the data are cut
  to 16 bits.
\<close>

fun handle_events ::
    "('w, 'q) worker_ops \<Rightarrow> 'p VringEpollHandler \<Rightarrow> (u32 \<times> u64) list \<Rightarrow> ('w, VringEpollError, bool) M" where
  "handle_events W v [] = retM False"
| "handle_events W v ((evbits, data) # events) =
     (if \<not> w_known W evbits then handle_events W v events
      else
        (let ev_type = ucast data in
         bindM (handle_event W v ev_type evbits) (\<lambda>stop.
           if stop then retM True else handle_events W v events)))"

definition EPOLL_EVENTS_LEN :: nat where "EPOLL_EVENTS_LEN = 100"

partial_function (option) run ::
    "('w, 'q) worker_ops \<Rightarrow> 'p VringEpollHandler \<Rightarrow> 'w \<Rightarrow> ((VringEpollError + unit) \<times> 'w) option" where
  "run W v w =
     (case w_wait W EPOLL_EVENTS_LEN w of
        None \<Rightarrow> None
      | Some r \<Rightarrow> (case r of (res, w1) \<Rightarrow>
          (case res of
             Inl e \<Rightarrow>
               if io_error_kind e = Interrupted then run W v w1
               else Some (Inl (EpollWait e), w1)
           | Inr events \<Rightarrow>
               (case handle_events W v events w1 of
                  None \<Rightarrow> None
                | Some r2 \<Rightarrow> (case r2 of (res2, w2) \<Rightarrow>
                    (case res2 of
                       Inl e \<Rightarrow> Some (Inl e, w2)
                     | Inr stop \<Rightarrow> if stop then Some (Inr (), w2) else run W v w2))))))"

subsection \<open>Which events reach the device\<close>

text \<open>Reading a kick descriptor leaves the vring states as they are.\<close>

definition consume_law :: "('w, 'q) worker_ops \<Rightarrow> bool" where
  "consume_law W \<longleftrightarrow>
     (\<forall>f w r w'. w_consume W f w = Some (r, w') \<longrightarrow> w_vrings W w' = w_vrings W w)"

text \<open>
  The worker with a device that does anything at all, \<open>g\<close>, when it is called for a vring that is
  not enabled.
\<close>

definition careless_device ::
    "(u16 \<Rightarrow> u32 \<Rightarrow> nat \<Rightarrow> ('w, io_error, unit) M) \<Rightarrow> ('w, 'q) worker_ops \<Rightarrow> ('w, 'q) worker_ops" where
  "careless_device g W = W\<lparr>w_handle_event := (\<lambda>e evset t w.
     if unat e < length (w_vrings W w) \<and> \<not> vr_enabled (w_vrings W w ! unat e)
     then g e evset t w else w_handle_event W e evset t w)\<rparr>"

lemma careless_device_sel [simp]:
  "w_wait (careless_device g W) = w_wait W" "w_known (careless_device g W) = w_known W"
  "w_vrings (careless_device g W) = w_vrings W" "w_consume (careless_device g W) = w_consume W"
  "w_num_queues (careless_device g W) = w_num_queues W"
  by (simp_all add: careless_device_def)

lemma read_kick_law:
  assumes "consume_law W" and "read_kick (w_consume W) v w = Some (r, w')"
  shows "w_vrings W w' = w_vrings W w" and "r = Inr b \<Longrightarrow> b = vr_enabled v"
  using assms
  by (auto simp: read_kick_def consume_law_def retM_def split: option.splits elim!: thenM_SomeE)

lemma handle_vring_event_careless:
  assumes "consume_law W"
  shows "handle_vring_event (careless_device g W) v e evset w = handle_vring_event W v e evset w"
proof (cases "unat e < length (w_vrings W w)")
  case False
  then have "w_handle_event (careless_device g W) e evset (veh_thread_id v) w
      = w_handle_event W e evset (veh_thread_id v) w"
    by (simp add: careless_device_def)
  with False show ?thesis by (simp add: handle_vring_event_def effect_defs)
next
  case True
  show ?thesis
  proof (cases "read_kick (w_consume W) (w_vrings W w ! unat e) w")
    case None
    with True show ?thesis by (simp add: handle_vring_event_def effect_defs)
  next
    case (Some rw)
    obtain r w' where rw: "rw = (r, w')" by (cases rw)
    note law = read_kick_law [OF assms Some [unfolded rw]]
    have "w_handle_event (careless_device g W) e evset (veh_thread_id v) w'
        = w_handle_event W e evset (veh_thread_id v) w'" if "r = Inr True"
      using law that by (simp add: careless_device_def)
    with True Some rw show ?thesis
      by (cases r) (simp_all add: handle_vring_event_def effect_defs)
  qed
qed

lemma handle_event_careless:
  assumes "consume_law W"
  shows "handle_event (careless_device g W) v e evset w = handle_event W v e evset w"
proof -
  have "is_exit_event (careless_device g W) v e = is_exit_event W v e"
    by (simp add: is_exit_event_def)
  moreover have "handle_vring_event (careless_device g W) v e evset = handle_vring_event W v e evset"
    by (rule ext) (rule handle_vring_event_careless [OF assms])
  ultimately show ?thesis by (simp add: handle_event_def bindM_def cong: if_cong)
qed

lemma handle_events_careless:
  assumes "consume_law W"
  shows "handle_events (careless_device g W) v events w = handle_events W v events w"
proof (induction events arbitrary: w)
  case (Cons ev events)
  then show ?case
    by (cases ev) (simp add: bindM_def handle_event_careless [OF assms] Let_def retM_def
        split: option.split sum.split)
qed (simp add: retM_def)

lemma run_careless_Some:
  assumes "run W v w = Some r" and "consume_law W"
  shows "run (careless_device g W) v w = Some r"
proof -
  have "consume_law W \<longrightarrow> run (careless_device g W) v w = Some r"
  proof (rule run.raw_induct [OF _ assms(1), where P = "\<lambda>W v w r. consume_law W \<longrightarrow> run (careless_device g W) v w = Some r"])
    fix rn :: "('a, 'b) worker_ops \<Rightarrow> 'c VringEpollHandler \<Rightarrow> 'a \<Rightarrow> ((VringEpollError + unit) \<times> 'a) option"
      and W :: "('a, 'b) worker_ops" and v w r
    assume IH: "\<And>W v w r. rn W v w = Some r \<Longrightarrow> consume_law W \<longrightarrow> run (careless_device g W) v w = Some r"
      and body: "(case w_wait W EPOLL_EVENTS_LEN w of
        None \<Rightarrow> None
      | Some r \<Rightarrow> (case r of (res, w1) \<Rightarrow>
          (case res of
             Inl e \<Rightarrow> if io_error_kind e = Interrupted then rn W v w1 else Some (Inl (EpollWait e), w1)
           | Inr events \<Rightarrow>
               (case handle_events W v events w1 of
                  None \<Rightarrow> None
                | Some r2 \<Rightarrow> (case r2 of (res2, w2) \<Rightarrow>
                    (case res2 of
                       Inl e \<Rightarrow> Some (Inl e, w2)
                     | Inr stop \<Rightarrow> if stop then Some (Inr (), w2) else rn W v w2)))))) = Some r"
    have "run (careless_device g W) v w' = Some r" if "consume_law W" "rn W v w' = Some r" for w'
      using IH that by blast
    with body show "consume_law W \<longrightarrow> run (careless_device g W) v w = Some r"
      by (subst run.simps) (auto simp: handle_events_careless split: option.splits prod.splits sum.splits if_splits)
  qed
  with assms(2) show ?thesis by simp
qed

text \<open>Being careless is undone by being careful again.\<close>

lemma careless_careless:
  "careless_device (w_handle_event W) (careless_device g W) = W"
proof -
  have "w_handle_event (careless_device (w_handle_event W) (careless_device g W)) = w_handle_event W"
    by (auto simp: careless_device_def fun_eq_iff)
  then show ?thesis by (simp add: careless_device_def)
qed

text \<open>
  C7: a worker never passes a vring that is not enabled to the device: for the whole run of its
  event loop, whatever a device would do when called for such a vring changes nothing, neither the
  outcome nor the world.
\<close>

theorem disabled_vring_not_dispatched:
  assumes "consume_law W"
  shows "run (careless_device g W) v w = run W v w"
proof (cases "run W v w")
  case (Some r)
  with run_careless_Some [OF this assms] show ?thesis by simp
next
  case None
  have law: "consume_law (careless_device g W)" using assms by (simp add: consume_law_def)
  show ?thesis
  proof (cases "run (careless_device g W) v w")
    case (Some r)
    from run_careless_Some [OF this law, of "w_handle_event W"] None show ?thesis
      by (simp add: careless_careless)
  qed (simp add: None)
qed

subsection \<open>A worker for the witnesses\<close>

text \<open>
  The world counts the calls of the device; the events of each wait come from a list, and vring 0
  is disabled, vring 1 enabled, with two queues.
\<close>

definition counting_worker :: "((u32 \<times> u64) list list \<times> nat, unit) worker_ops" where
  "counting_worker =
     \<lparr>w_wait = (\<lambda>_ (evs, n). case evs of [] \<Rightarrow> None | e # es \<Rightarrow> Some (Inr e, (es, n))),
      w_known = (\<lambda>b. b < 0x20),
      w_vrings = (\<lambda>_. [\<lparr>vr_queue = (), vr_kick = Some 7, vr_call = None, vr_err = None, vr_enabled = False\<rparr>,
                       \<lparr>vr_queue = (), vr_kick = Some 8, vr_call = None, vr_err = None, vr_enabled = True\<rparr>]),
      w_consume = (\<lambda>_ w. Some (Inr (), w)),
      w_num_queues = returns 2,
      w_handle_event = (\<lambda>_ _ _ (evs, n). Some (Inr (), (evs, Suc n)))\<rparr>"

definition exit_worker :: "unit VringEpollHandler" where
  "exit_worker = \<lparr>veh_epoll = (), veh_vrings = [0, 1], veh_thread_id = 0, veh_exit_event_fd = Some 9\<rparr>"

lemmas counting_worker_defs = counting_worker_def exit_worker_def handle_event_def is_exit_event_def
  handle_vring_event_def  read_kick_def effect_defs returns_def Let_def

theorem disabled_vring_not_dispatched_witness:
  "consume_law counting_worker
   \<and> run counting_worker exit_worker ([[(1, 0), (1, 1)], [(1, 2)]], 0) = Some (Inr (), ([], 1))
   \<and> run (careless_device (\<lambda>_ _ _ _. None) counting_worker) exit_worker ([[(1, 0), (1, 1)], [(1, 2)]], 0)
       = Some (Inr (), ([], 1))"
proof -
  have law: "consume_law counting_worker" by (simp add: consume_law_def counting_worker_def)
  have "run counting_worker exit_worker ([[(1, 0), (1, 1)], [(1, 2)]], 0) = Some (Inr (), ([], 1))"
    by (simp add: run.simps counting_worker_defs)
  with law disabled_vring_not_dispatched [OF law, of "\<lambda>_ _ _ _. None" exit_worker] show ?thesis
    by simp
qed

text \<open>
  An epoll instance as the list of its registrations, beside a frontend that keeps its copies of all
  descriptors open, and a device with two queues for one thread that does nothing.
\<close>

definition list_epoll_ops :: "(fd \<times> u64) list epoll_ops" where
  "list_epoll_ops =
     \<lparr>epoll_create = Inr [],
      epoll_add = (\<lambda>f ev d p. if f \<in> set (map fst p) then (Inl (RawOs EEXIST), p) else (Inr (), (f, d) # p)),
      epoll_del = (\<lambda>f ev d p. if f \<in> set (map fst p) then (Inr (), filter (\<lambda>x. fst x \<noteq> f) p) else (Inl (RawOs 2), p)),
      epoll_closed = (\<lambda>f p. p)\<rparr>"

lemma list_epoll_law [simp]: "epoll_law list_epoll_ops set"
  by (auto simp: epoll_law_def list_epoll_ops_def split: if_splits)

definition idle_device_ops :: "(unit, unit, 'v) VhostUserBackend" where
  "idle_device_ops =
     \<lparr>d_num_queues = returns 2, d_max_queue_size = returns 256, d_features = returns 0x40000000,
      d_acked_features = (\<lambda>_. returns ()), d_protocol_features = returns 0, d_reset_device = returns (),
      d_set_event_idx = (\<lambda>_. returns ()), d_get_config = (\<lambda>_ _. returns []),
      d_set_config = (\<lambda>_ _. returns (Inr ())), d_update_memory = (\<lambda>_. returns (Inr ())),
      d_set_backend_req_fd = (\<lambda>_. returns ()), d_get_shared_object = (\<lambda>_. returns (Inr 5)),
      d_set_gpu_socket = (\<lambda>_. returns (Inr ())), d_queues_per_thread = returns [3],
      d_exit_event = (\<lambda>_. returns None), d_handle_event = (\<lambda>_ _ vs _. returns (Inr (), vs)),
      d_set_device_state_fd = (\<lambda>_ _ _. returns (Inr None)), d_check_device_state = returns (Inr ()),
      d_get_shmem_config = returns (Inr VhostUserShMemConfig_default)\<rparr>"

subsection \<open>The exit event ends the worker\<close>

text \<open>The number of queues of a device does not change.\<close>

definition num_queues_law :: "('d, 'm, 'v) VhostUserBackend \<Rightarrow> nat \<Rightarrow> bool" where
  "num_queues_law D n \<longleftrightarrow> (\<forall>d r d'. d_num_queues D d = Some (r, d') \<longrightarrow> r = n)"

text \<open>
  The exit event of a worker: a consumer \<open>c\<close>, which is registered as \<open>regs\<close> says, and a notifier \<open>nf\<close>.
  A notification makes the consumer readable, and nobody reads it. The kernel keeps the descriptors
  that are ready in a list, reports at most the asked number of them at a time and goes round robin
  through it (\<open>epoll_wait(2)\<close>): as long as the consumer is readable, there are \<open>ahead\<close> others before
  it; a wait reports it, with the data of its registration, when they leave room for it, and else
  leaves fewer of them. Waits are interrupted finitely often (\<open>left\<close>), and what the worker calls
  returns.
\<close>

definition exit_law ::
    "('w, 'q) worker_ops \<Rightarrow> nat \<Rightarrow> (fd \<Rightarrow> ('w, io_error + unit) call) \<Rightarrow> fd \<Rightarrow> fd \<Rightarrow> (fd \<times> u64) set
     \<Rightarrow> ('w \<Rightarrow> bool) \<Rightarrow> ('w \<Rightarrow> nat) \<Rightarrow> ('w \<Rightarrow> nat) \<Rightarrow> bool" where
  "exit_law W n notify c nf regs readable ahead left \<longleftrightarrow>
     (\<forall>w r w'. notify nf w = Some (r, w') \<longrightarrow> readable w')
     \<and> (\<forall>w. readable w \<longrightarrow>
       (let kept = (\<lambda>w'. readable w' \<and> ahead w' \<le> ahead w \<and> left w' \<le> left w) in
        (\<exists>r w'. w_wait W EPOLL_EVENTS_LEN w = Some (r, w') \<and> kept w'
          \<and> (case r of
               Inl e \<Rightarrow> io_error_kind e = Interrupted \<and> left w' < left w
             | Inr events \<Rightarrow>
                 if ahead w < EPOLL_EVENTS_LEN
                 then \<forall>d. (c, d) \<in> regs \<longrightarrow> (\<exists>b. (b, d) \<in> set events \<and> w_known W b)
                 else ahead w' < ahead w))
        \<and> (\<exists>w'. w_num_queues W w = Some (n, w') \<and> kept w')
        \<and> (\<forall>f. \<exists>r w'. w_consume W f w = Some (r, w') \<and> kept w')
        \<and> (\<forall>e evset t. \<exists>r w'. w_handle_event W e evset t w = Some (r, w') \<and> kept w')))"

lemma exit_lawD:
  assumes "exit_law W n notify c nf regs readable ahead left"
  shows "notify nf w = Some (r, w') \<Longrightarrow> readable w'"
    and "readable w \<Longrightarrow> \<exists>r w'. w_wait W EPOLL_EVENTS_LEN w = Some (r, w') \<and> readable w' \<and> ahead w' \<le> ahead w \<and> left w' \<le> left w
          \<and> (case r of
               Inl e \<Rightarrow> io_error_kind e = Interrupted \<and> left w' < left w
             | Inr events \<Rightarrow>
                 if ahead w < EPOLL_EVENTS_LEN
                 then \<forall>d. (c, d) \<in> regs \<longrightarrow> (\<exists>b. (b, d) \<in> set events \<and> w_known W b)
                 else ahead w' < ahead w)"
    and "readable w \<Longrightarrow> \<exists>w'. w_num_queues W w = Some (n, w') \<and> readable w' \<and> ahead w' \<le> ahead w \<and> left w' \<le> left w"
    and "readable w \<Longrightarrow> \<exists>r w'. w_consume W f w = Some (r, w') \<and> readable w' \<and> ahead w' \<le> ahead w \<and> left w' \<le> left w"
    and "readable w \<Longrightarrow> \<exists>r w'. w_handle_event W e evset t w = Some (r, w') \<and> readable w' \<and> ahead w' \<le> ahead w \<and> left w' \<le> left w"
  using assms unfolding exit_law_def Let_def by blast+

definition device_failure :: "VringEpollError + 'a \<Rightarrow> bool" where
  "device_failure r \<longleftrightarrow>
     (\<exists>e. r = Inl (HandleEventReadKick e) \<or> r = Inl (HandleEventBackendHandling e))"

lemma device_failure_Inr [simp]: "\<not> device_failure (Inr x)"
  by (simp add: device_failure_def)

text \<open>The handling of events returns, and leaves the exit event and what the waits need of it.\<close>

lemma handle_vring_event_returns:
  assumes law: "exit_law W n notify c nf regs readable ahead left" and "readable w"
  shows "\<exists>r w'. handle_vring_event W v e evset w = Some (r, w')
    \<and> (readable w' \<and> ahead w' \<le> ahead w \<and> left w' \<le> left w) \<and> (r = Inr False \<or> device_failure r)"
proof -
  let ?k = "\<lambda>w'. readable w' \<and> ahead w' \<le> ahead w \<and> left w' \<le> left w"
  have dev: "\<exists>r w'. w_handle_event W e evset (veh_thread_id v) w1 = Some (r, w') \<and> ?k w'" if "?k w1" for w1
    using exit_lawD(5) [OF law, of w1 e evset "veh_thread_id v"] that by (meson le_trans)
  have kick: "\<exists>r w'. read_kick (w_consume W) vr w = Some (r, w') \<and> ?k w'" for vr
  proof (cases "vr_kick vr")
    case (Some f)
    from exit_lawD(4) [OF law assms(2)] obtain r w' where "w_consume W f w = Some (r, w')" "?k w'" by blast
    with Some show ?thesis by (cases r) (simp_all add: read_kick_def effect_defs)
  qed (simp add: read_kick_def retM_def assms(2))
  show ?thesis
  proof (cases "unat e < length (w_vrings W w)")
    case True
    from kick [of "w_vrings W w ! unat e"] obtain r w1 where
      k: "read_kick (w_consume W) (w_vrings W w ! unat e) w = Some (r, w1)" "?k w1" by blast
    from dev [OF k(2)] obtain r2 w2 where "w_handle_event W e evset (veh_thread_id v) w1 = Some (r2, w2)" "?k w2"
      by blast
    with True k show ?thesis
      by (cases r; cases r2) (auto simp: handle_vring_event_def effect_defs device_failure_def)
  next
    case False
    from dev [of w] assms(2) obtain r2 w2 where "w_handle_event W e evset (veh_thread_id v) w = Some (r2, w2)" "?k w2"
      by auto
    with False show ?thesis
      by (cases r2) (auto simp: handle_vring_event_def effect_defs device_failure_def)
  qed
qed

lemma handle_event_returns:
  assumes law: "exit_law W n notify c nf regs readable ahead left" and "readable w" and "veh_exit_event_fd v \<noteq> None"
  shows "\<exists>r w'. handle_event W v e evset w = Some (r, w')
    \<and> (readable w' \<and> ahead w' \<le> ahead w \<and> left w' \<le> left w)
    \<and> (if unat e = n then r = Inr True else r = Inr False \<or> device_failure r)"
proof -
  from exit_lawD(3) [OF law assms(2)] obtain w1 where
    w1: "w_num_queues W w = Some (n, w1)" "readable w1" "ahead w1 \<le> ahead w" "left w1 \<le> left w" by blast
  with assms(3) have exit: "is_exit_event W v e w = Some (Inr (unat e = n), w1)"
    by (auto simp: is_exit_event_def effect_defs)
  from handle_vring_event_returns [OF law w1(2), of v e evset] obtain r w2 where
    "handle_vring_event W v e evset w1 = Some (r, w2)" "readable w2" "ahead w2 \<le> ahead w1" "left w2 \<le> left w1"
    "r = Inr False \<or> device_failure r" by blast
  with exit w1 show ?thesis by (auto simp: handle_event_def bindM_def retM_def)
qed

lemma handle_events_returns:
  assumes law: "exit_law W n notify c nf regs readable ahead left" and "veh_exit_event_fd v \<noteq> None" and "readable w"
  shows "\<exists>r w'. handle_events W v events w = Some (r, w')
    \<and> (readable w' \<and> ahead w' \<le> ahead w \<and> left w' \<le> left w)
    \<and> (r = Inr True \<or> device_failure r \<or> r = Inr False \<and> (\<forall>(b, d) \<in> set events. w_known W b \<longrightarrow> unat (ucast d :: u16) \<noteq> n))"
  using assms(3)
proof (induction events arbitrary: w)
  case (Cons ev events)
  obtain b d where ev: "ev = (b, d)" by (cases ev)
  show ?case
  proof (cases "w_known W b")
    case False
    with Cons.IH [OF Cons.prems] ev show ?thesis by auto
  next
    case True
    from handle_event_returns [OF law Cons.prems assms(2), of "ucast d" b] obtain r w1 where
      h: "handle_event W v (ucast d) b w = Some (r, w1)" "readable w1" "ahead w1 \<le> ahead w" "left w1 \<le> left w"
        "if unat (ucast d :: u16) = n then r = Inr True else r = Inr False \<or> device_failure r" by blast
    show ?thesis
    proof (cases "r = Inr False")
      case r: True
      with h(5) have "unat (ucast d :: u16) \<noteq> n" by auto
      with Cons.IH [OF h(2)] h r True ev show ?thesis by (fastforce simp: bindM_def)
    next
      case False
      with h ev True show ?thesis
        by (cases r) (auto simp: bindM_def retM_def split: if_splits)
    qed
  qed
qed (simp add: retM_def)

lemma readable_ends_worker:
  assumes law: "exit_law W n notify c nf regs readable ahead left" and "veh_exit_event_fd v \<noteq> None"
    and "(c, word_of_nat n) \<in> regs" and "n < 65536" and "readable w"
  shows "\<exists>r w'. run W v w = Some (r, w') \<and> (r = Inr () \<or> device_failure r)"
  using assms(5)
proof (induction "left w + ahead w" arbitrary: w rule: less_induct)
  case less
  from exit_lawD(2) [OF law less.prems] obtain r w1 where
    wait: "w_wait W EPOLL_EVENTS_LEN w = Some (r, w1)" "readable w1" "ahead w1 \<le> ahead w" "left w1 \<le> left w"
    and r: "case r of
               Inl e \<Rightarrow> io_error_kind e = Interrupted \<and> left w1 < left w
             | Inr events \<Rightarrow>
                 if ahead w < EPOLL_EVENTS_LEN
                 then \<forall>d. (c, d) \<in> regs \<longrightarrow> (\<exists>b. (b, d) \<in> set events \<and> w_known W b)
                 else ahead w1 < ahead w" by blast
  show ?case
  proof (cases r)
    case (Inl e)
    with r wait less.hyps [of w1] show ?thesis by (simp add: run.simps [of W v w])
  next
    case (Inr events)
    from handle_events_returns [OF law assms(2) wait(2)] obtain r2 w2 where
      ev: "handle_events W v events w1 = Some (r2, w2)" "readable w2" "ahead w2 \<le> ahead w1" "left w2 \<le> left w1"
      and r2: "r2 = Inr True \<or> device_failure r2
        \<or> r2 = Inr False \<and> (\<forall>(b, d) \<in> set events. w_known W b \<longrightarrow> unat (ucast d :: u16) \<noteq> n)" by blast
    show ?thesis
    proof (cases "r2 = Inr False")
      case True
      have "unat (ucast (word_of_nat n :: u64) :: u16) = n"
        using assms(4) by (simp add: unat_of_nat unsigned_ucast_eq take_bit_nat_eq_self)
      with True r2 have "\<not> (\<exists>b. (b, word_of_nat n) \<in> set events \<and> w_known W b)" by fastforce
      with r Inr assms(3) have "ahead w1 < ahead w" by (auto split: if_splits)
      with less.hyps [of w2] ev wait Inr True show ?thesis by (simp add: run.simps [of W v w])
    next
      case False
      with r2 ev(1) wait(1) Inr show ?thesis
        by (cases r2) (auto simp: run.simps [of W v w] device_failure_def)
    qed
  qed
qed

lemma veh_new_exit_event:
  assumes "veh_new P D vrings t d = Some (Inr v, d')" and "d_exit_event D t d = Some (Some (c, nf), d1)"
    and "epoll_law P interest" and "num_queues_law D n"
  shows "veh_exit_event_fd v = Some nf" and "interest (veh_epoll v) = {(c, word_of_nat n)}"
proof -
  from assms(1,2) obtain p0 k d2 u p where p: "epoll_create P = Inr p0" "d_num_queues D d1 = Some (k, d2)"
    "epoll_add P c EVENTSET_IN (word_of_nat k) p0 = (Inr u, p)" "veh_epoll v = p" and nf: "veh_exit_event_fd v = Some nf"
    unfolding veh_new_def
    by (auto simp: callM_def bindM_def retM_def failM_def split: sum.splits option.splits prod.splits)
  show "veh_exit_event_fd v = Some nf" by (rule nf)
  have "k = n" using assms(4) p(2) by (auto simp: num_queues_law_def)
  then show "interest (veh_epoll v) = {(c, word_of_nat n)}"
    using epoll_law_add_ok [OF assms(3) p(3)] epoll_law_create [OF assms(3) p(1)] p(4) by simp
qed

text \<open>
  C17: the exit event ends a worker. Let a worker be created for a device that gives it an exit event,
  with fewer than 65536 queues. After \<open>send_exit_event\<close> the event loop returns, also when more events
  are ready than one wait reports: it returns \<open>Ok\<close>, unless reading a kick or the device failed for
  an event that was handled before the exit event.
\<close>

theorem exit_event_ends_worker:
  assumes "veh_new P D vrings t d = Some (Inr v, d')" and "d_exit_event D t d = Some (Some (c, nf), d1)"
    and "epoll_law P interest" and "num_queues_law D n" and "n < 65536"
    and "exit_law W n notify c nf (interest (veh_epoll v)) readable ahead left"
    and "send_exit_event notify v w = Some ((), w')"
  shows "\<exists>r w''. run W v w' = Some (r, w'') \<and> (r = Inr () \<or> device_failure r)"
proof -
  note new = veh_new_exit_event [OF assms(1-4)]
  from assms(7) new(1) obtain r where "notify nf w = Some (r, w')"
    by (auto simp: send_exit_event_def split: option.splits)
  then have "readable w'" by (rule exit_lawD(1) [OF assms(6)])
  with readable_ends_worker [OF assms(6) _ _ assms(5)] new show ?thesis by blast
qed

text \<open>
  A worker of a device with two queues: a write makes the exit event ready behind 150 events of
  vring 1, and the first wait is interrupted.
\<close>

definition stopping_worker :: "(bool \<times> nat \<times> nat, unit) worker_ops" where
  "stopping_worker =
     \<lparr>w_wait = (\<lambda>m (b, k, i). if i \<noteq> 0 then Some (Inl (RawOs EINTR), (b, k, i - 1))
         else if \<not> b then None
         else if k < m then Some (Inr (replicate k (1, 1) @ [(1, 2)]), (b, k, i))
         else Some (Inr (replicate m (1, 1)), (b, k - m, i))),
      w_known = (\<lambda>b. b < 0x20),
      w_vrings = (\<lambda>_. [\<lparr>vr_queue = (), vr_kick = Some 7, vr_call = None, vr_err = None, vr_enabled = False\<rparr>,
                       \<lparr>vr_queue = (), vr_kick = Some 8, vr_call = None, vr_err = None, vr_enabled = True\<rparr>]),
      w_consume = (\<lambda>_ w. Some (Inr (), w)),
      w_num_queues = returns 2,
      w_handle_event = (\<lambda>_ _ _ w. Some (Inr (), w))\<rparr>"

abbreviation stopping_device :: "(unit, unit, unit) VhostUserBackend" where
  "stopping_device \<equiv> idle_device_ops\<lparr>d_exit_event := (\<lambda>_. returns (Some (5, 9)))\<rparr>"

theorem exit_event_ends_worker_witness:
  "\<exists>v r w. veh_new list_epoll_ops stopping_device [0, 1] 0 () = Some (Inr v, ())
     \<and> send_exit_event (\<lambda>f (b, k, i). Some (Inr (), (True, k, i))) v (False, 150 :: nat, 1 :: nat) = Some ((), (True, 150, 1))
     \<and> run stopping_worker v (True, 150, 1) = Some (r, w) \<and> (r = Inr () \<or> device_failure r)"
proof -
  let ?v = "\<lparr>veh_epoll = [(5, 2)], veh_vrings = [0, 1], veh_thread_id = 0, veh_exit_event_fd = Some 9\<rparr>
    :: (fd \<times> u64) list VringEpollHandler"
  let ?notify = "\<lambda>(f :: fd) (b :: bool, k :: nat, i :: nat). Some (Inr () :: io_error + unit, (True, k, i))"
  have new: "veh_new list_epoll_ops stopping_device [0, 1] 0 () = Some (Inr ?v, ())"
    by (simp add: veh_new_def list_epoll_ops_def idle_device_ops_def returns_def effect_defs)
  have dev: "d_exit_event stopping_device 0 () = Some (Some (5, 9), ())" "num_queues_law stopping_device 2"
    by (simp_all add: idle_device_ops_def returns_def num_queues_law_def)
  have law: "exit_law stopping_worker 2 ?notify 5 9 (set (veh_epoll ?v)) (\<lambda>(b, k, i). b) (\<lambda>(b, k, i). k) (\<lambda>(b, k, i). i)"
    by (auto simp: exit_law_def stopping_worker_def returns_def errno_defs EPOLL_EVENTS_LEN_def Let_def)
  have sent: "send_exit_event ?notify ?v (False, 150, 1) = Some ((), (True, 150, 1))"
    by (simp add: send_exit_event_def)
  from exit_event_ends_worker [OF new dev(1) list_epoll_law dev(2) _ law sent] obtain r w where
    "run stopping_worker ?v (True, 150, 1) = Some (r, w)" "r = Inr () \<or> device_failure r" by auto
  with new sent show ?thesis by (intro exI [of _ ?v] exI [of _ r] exI [of _ w]) blast
qed

text \<open>
  C34: the data of a listener are not kept apart from the exit event: \<open>register_listener\<close> refuses
  data up to the number of queues, but the loop cuts the data of an event to 16 bits, so an event
  of a listener registered with 65536 more than the number of queues ends the worker as the exit
  event does.
\<close>

theorem listener_data_stops_worker:
  assumes "n < 65536" and "w_num_queues W w1 = Some (n, w2)" and "veh_exit_event_fd v \<noteq> None"
    and "w_wait W EPOLL_EVENTS_LEN w = Some (Inr ((evbits, 65536 + word_of_nat n) # events), w1)" and "w_known W evbits"
  shows "register_listener P n f ev_type (65536 + word_of_nat n) p
           = register_event P f ev_type (65536 + word_of_nat n) p
         \<and> run W v w = Some (Inr (), w2)"
proof -
  have n: "unat (word_of_nat n :: u64) = n" using assms(1) by (simp add: unat_of_nat)
  have sum: "unat (65536 + word_of_nat n :: u64) = 65536 + n"
    using assms(1) n by (subst unat_add_no_overflow) simp_all
  then have "register_listener P n f ev_type (65536 + word_of_nat n) p
      = register_event P f ev_type (65536 + word_of_nat n) p"
    using n by (simp add: register_listener_def word_le_nat_alt)
  moreover have "unat (ucast (65536 + word_of_nat n :: u64) :: u16) = n"
    using assms(1) sum by (simp add: unsigned_ucast_eq take_bit_eq_mod)
  ultimately show ?thesis
    using assms by (auto simp: run.simps [of W v w] handle_event_def is_exit_event_def effect_defs Let_def)
qed

theorem listener_data_stops_worker_witness:
  "(\<forall>(P :: unit epoll_ops) p.
      register_listener P 2 5 EVENTSET_IN 65538 p = register_event P 5 EVENTSET_IN 65538 p)
   \<and> run counting_worker exit_worker ([[(1, 65538)]], 0) = Some (Inr (), ([], 0))"
proof -
  have "register_listener P 2 5 EVENTSET_IN 65538 p = register_event P 5 EVENTSET_IN 65538 p
      \<and> run counting_worker exit_worker ([[(1, 65538)]], 0) = Some (Inr (), ([], 0))"
    for P :: "unit epoll_ops" and p
    using listener_data_stops_worker [of 2 counting_worker "([], 0)" "([], 0)" exit_worker "([[(1, 65538)]], 0)"
        1 "[]" P 5 EVENTSET_IN p]
    by (simp add: counting_worker_def exit_worker_def returns_def)
  then show ?thesis by blast
qed

end
