(* ===== verification/Bitmap.thy ===== *)
theory Bitmap
  imports Vhost_Error
begin

text \<open>
  The dirty page log of \<open>vhost-user-backend/src/bitmap.rs\<close>: the bitmap that the frontend shares
  with the backend, one bit for every 4096-byte page of guest memory, and the view that each
  memory region has of it.

  The mapped log memory is a list of bytes that all regions share; an access past its end is a
  panic, modelled as \<open>None\<close>. The atomic \<open>fetch_or\<close> is one step, so concurrent writers interleave
  at these steps. A log corresponds to the set of pages it marks (\<open>dirty_pages\<close>).
\<close>

definition LOG_PAGE_SIZE :: nat where "LOG_PAGE_SIZE = 0x1000"
definition LOG_WORD_SIZE :: nat where "LOG_WORD_SIZE = 8"

definition page_number :: "nat \<Rightarrow> nat" where
  "page_number addr = addr div LOG_PAGE_SIZE"

definition page_word :: "nat \<Rightarrow> nat" where
  "page_word page = page div LOG_WORD_SIZE"

definition page_bit :: "nat \<Rightarrow> nat" where
  "page_bit page = page mod LOG_WORD_SIZE"

lemmas page_defs = page_number_def page_word_def page_bit_def LOG_PAGE_SIZE_def LOG_WORD_SIZE_def

subsection \<open>The mapped log\<close>

type_synonym logmem = "u8 list"

definition log_load :: "logmem \<Rightarrow> nat \<Rightarrow> u8 option" where
  "log_load mem index = (if index < length mem then Some (mem ! index) else None)"

definition log_fetch_or :: "logmem \<Rightarrow> nat \<Rightarrow> u8 \<Rightarrow> logmem option" where
  "log_fetch_or mem index v =
     (if index < length mem then Some (mem[index := mem ! index OR v]) else None)"

text \<open>
  \<open>MmapLogReg::from_file\<close>: \<open>isize\<close> offsets and lengths above \<open>isize::MAX\<close> are refused before
  the mapping (\<open>mmap\<close> of \<open>libc\<close>, a parameter) is made.
\<close>

definition isize_max :: nat where "isize_max = 2 ^ 63 - 1"

definition from_file ::
    "(fd \<Rightarrow> nat \<Rightarrow> nat \<Rightarrow> io_error + logmem) \<Rightarrow> fd \<Rightarrow> u64 \<Rightarrow> u64 \<Rightarrow> io_error + logmem" where
  "from_file mmap f off len =
     (if unat off > isize_max then Inl (CustomIo InvalidData)
      else if unat len > isize_max then Inl (SimpleIo InvalidData)
      else mmap f (unat off) (unat len))"

subsection \<open>The bitmap of a region\<close>

record AtomicBitmapMmap =
  pages_before_region :: nat
  number_of_pages :: nat

text \<open>
  \<open>region_start\<close> and \<open>region_len\<close> are what the guest memory region reports; on a 64-bit target
  the conversions to \<open>usize\<close> always succeed.
\<close>

definition bitmap_new :: "nat \<Rightarrow> nat \<Rightarrow> logmem \<Rightarrow> io_error + AtomicBitmapMmap" where
  "bitmap_new region_start region_len mem =
     (if region_len = 0 then Inl (SimpleIo InvalidData)
      else (case usize_checked_add region_start (region_len - 1) of
          None \<Rightarrow> Inl (SimpleIo InvalidData)
        | Some region_end_addr \<Rightarrow>
            let region_end_log_word = page_word (page_number region_end_addr) in
            if region_end_log_word \<ge> length mem then Inl (SimpleIo InvalidData)
            else Inr \<lparr>pages_before_region = page_number region_start,
                      number_of_pages = page_number region_len\<rparr>))"

text \<open>The pages \<open>page ..= lastp\<close>, until one past the end of the region.\<close>

function mark_pages :: "AtomicBitmapMmap \<Rightarrow> nat \<Rightarrow> nat \<Rightarrow> logmem \<Rightarrow> logmem option" where
  "mark_pages bm page lastp mem =
     (if page > lastp then Some mem
      else if page \<ge> number_of_pages bm then Some mem
      else
        (let p = pages_before_region bm + page in
         case log_fetch_or mem (page_word p) (push_bit (page_bit p) 1) of
           None \<Rightarrow> None
         | Some mem' \<Rightarrow> mark_pages bm (Suc page) lastp mem'))"
  by pat_completeness auto

termination
  by (relation "measure (\<lambda>(bm, page, lastp, mem). Suc lastp - page)") auto

declare mark_pages.simps [simp del]

definition bitmap_mark_dirty :: "AtomicBitmapMmap \<Rightarrow> nat \<Rightarrow> nat \<Rightarrow> logmem \<Rightarrow> logmem option" where
  "bitmap_mark_dirty bm off len mem =
     (if len = 0 then Some mem
      else
        (let first_page = page_number off;
             last_page = page_number (usize_saturating_add off (len - 1)) in
         mark_pages bm first_page last_page mem))"

definition bitmap_dirty_at :: "AtomicBitmapMmap \<Rightarrow> nat \<Rightarrow> logmem \<Rightarrow> bool option" where
  "bitmap_dirty_at bm off mem =
     (let page = page_number off in
      if page \<ge> number_of_pages bm then Some False
      else
        (let p = pages_before_region bm + page in
         case log_load mem (page_word p) of
           None \<Rightarrow> None
         | Some w \<Rightarrow> Some (w AND push_bit (page_bit p) 1 \<noteq> 0)))"

subsection \<open>The replaceable bitmap of a memory slice\<close>

record BitmapMmapRegion =
  bm_inner :: "AtomicBitmapMmap option"
  bm_base_address :: nat

definition region_default :: BitmapMmapRegion where
  "region_default = \<lparr>bm_inner = None, bm_base_address = 0\<rparr>"

definition region_mark_dirty :: "BitmapMmapRegion \<Rightarrow> nat \<Rightarrow> nat \<Rightarrow> logmem \<Rightarrow> logmem option" where
  "region_mark_dirty r off len mem =
     (case bm_inner r of
        None \<Rightarrow> Some mem
      | Some bm \<Rightarrow> (case usize_checked_add (bm_base_address r) off of
            None \<Rightarrow> Some mem
          | Some absolute_offset \<Rightarrow> bitmap_mark_dirty bm absolute_offset len mem))"

definition region_dirty_at :: "BitmapMmapRegion \<Rightarrow> nat \<Rightarrow> logmem \<Rightarrow> bool option" where
  "region_dirty_at r off mem =
     (case bm_inner r of
        None \<Rightarrow> Some False
      | Some bm \<Rightarrow> bitmap_dirty_at bm (usize_saturating_add (bm_base_address r) off) mem)"

definition slice_at :: "BitmapMmapRegion \<Rightarrow> nat \<Rightarrow> BitmapMmapRegion" where
  "slice_at r off =
     \<lparr>bm_inner = bm_inner r, bm_base_address = usize_saturating_add (bm_base_address r) off\<rparr>"

definition replace_bitmap :: "AtomicBitmapMmap \<Rightarrow> BitmapMmapRegion \<Rightarrow> BitmapMmapRegion" where
  "replace_bitmap bm r = r\<lparr>bm_inner := Some bm\<rparr>"

subsection \<open>The set of pages a log marks\<close>

definition dirty_pages :: "logmem \<Rightarrow> nat set" where
  "dirty_pages mem = {p. page_word p < length mem \<and> bit (mem ! page_word p) (page_bit p)}"

lemma page_split: "page_word p = page_word q \<and> page_bit p = page_bit q \<longleftrightarrow> p = q"
  by (metis LOG_WORD_SIZE_def div_mult_mod_eq page_bit_def page_word_def)

lemma page_bit_less: "page_bit p < 8"
  by (simp add: page_defs)

lemma log_fetch_or_marks:
  assumes "page_word p < length mem"
  obtains mem' where "log_fetch_or mem (page_word p) (push_bit (page_bit p) 1) = Some mem'"
    and "length mem' = length mem" and "dirty_pages mem' = insert p (dirty_pages mem)"
proof
  let ?mem' = "mem[page_word p := mem ! page_word p OR push_bit (page_bit p) 1]"
  show "log_fetch_or mem (page_word p) (push_bit (page_bit p) 1) = Some ?mem'"
    using assms by (simp add: log_fetch_or_def)
  show "length ?mem' = length mem" by simp
  show "dirty_pages ?mem' = insert p (dirty_pages mem)"
    using assms page_bit_less [of p]
    by (auto simp: dirty_pages_def nth_list_update bit_simps dest: page_split [THEN iffD1, OF conjI])
qed

text \<open>A log is determined by its length and the pages it marks.\<close>

lemma dirty_pages_inject:
  assumes "length m = length m'" and "dirty_pages m = dirty_pages m'"
  shows "m = m'"
proof (rule nth_equalityI)
  fix i assume i: "i < length m"
  show "m ! i = m' ! i"
  proof (rule bit_word_eqI)
    fix k assume "k < LENGTH(8)"
    then have k: "k < 8" by simp
    have "page_word (8 * i + k) = i" "page_bit (8 * i + k) = k" using k by (simp_all add: page_defs)
    moreover have "8 * i + k \<in> dirty_pages m \<longleftrightarrow> 8 * i + k \<in> dirty_pages m'" using assms(2) by simp
    ultimately show "bit (m ! i) k \<longleftrightarrow> bit (m' ! i) k"
      using i assms(1) by (simp add: dirty_pages_def)
  qed
qed (rule assms(1))

text \<open>The pages that a write of \<open>len\<close> bytes at \<open>off\<close> touches, relative to the start of a region.\<close>

definition touched_pages :: "nat \<Rightarrow> nat \<Rightarrow> nat set" where
  "touched_pages off len =
     (if len = 0 then {}
      else {page_number off .. page_number (usize_saturating_add off (len - 1))})"

text \<open>A region's bitmap fits a log when the words of all its pages are in the log.\<close>

definition fits :: "AtomicBitmapMmap \<Rightarrow> logmem \<Rightarrow> bool" where
  "fits bm mem \<longleftrightarrow> (\<forall>page < number_of_pages bm. page_word (pages_before_region bm + page) < length mem)"

lemma bitmap_new_fits:
  assumes "bitmap_new start len mem = Inr bm"
  shows "fits bm mem"
proof -
  from assms have len: "0 < len"
    and bm: "bm = \<lparr>pages_before_region = page_number start, number_of_pages = page_number len\<rparr>"
    and top: "page_word (page_number (start + (len - 1))) < length mem"
    by (auto simp: bitmap_new_def usize_checked_add_def Let_def split: if_splits)
  have "page_word (page_number start + page) \<le> page_word (page_number (start + (len - 1)))"
    if "page < page_number len" for page
  proof -
    have "Suc page * 4096 \<le> len"
      using that by (simp add: page_defs Suc_le_eq [symmetric] less_eq_div_iff_mult_less_eq del: mult_Suc)
    moreover have "start div 4096 * 4096 \<le> start" by simp
    ultimately have "(start div 4096 + page) * 4096 \<le> start + (len - 1)" by simp
    then have "start div 4096 + page \<le> (start + (len - 1)) div 4096"
      by (simp add: less_eq_div_iff_mult_less_eq)
    then show ?thesis by (simp add: page_defs div_le_mono)
  qed
  with top bm show ?thesis by (fastforce simp: fits_def intro: le_less_trans)
qed

lemma mark_pages_marks:
  assumes "fits bm mem"
  shows "\<exists>mem'. mark_pages bm page lastp mem = Some mem' \<and> length mem' = length mem
    \<and> dirty_pages mem' = dirty_pages mem
        \<union> {pages_before_region bm + q | q. page \<le> q \<and> q \<le> lastp \<and> q < number_of_pages bm}"
  using assms
proof (induction bm page lastp mem rule: mark_pages.induct)
  case (1 bm page lastp mem)
  show ?case
  proof (cases "page \<le> lastp \<and> page < number_of_pages bm")
    case False
    then have "{pages_before_region bm + q | q. page \<le> q \<and> q \<le> lastp \<and> q < number_of_pages bm} = {}"
      by auto
    moreover have "mark_pages bm page lastp mem = Some mem"
      using False by (auto simp: mark_pages.simps [of bm page])
    ultimately show ?thesis by (metis Un_empty_right)
  next
    case True
    let ?p = "pages_before_region bm + page"
    from True 1(2) have "page_word ?p < length mem" by (simp add: fits_def)
    then obtain mem1 where m1: "log_fetch_or mem (page_word ?p) (push_bit (page_bit ?p) 1) = Some mem1"
      "length mem1 = length mem" "dirty_pages mem1 = insert ?p (dirty_pages mem)"
      by (rule log_fetch_or_marks)
    have "fits bm mem1" using 1(2) m1(2) by (simp add: fits_def)
    with 1(1) [OF _ _ refl m1(1)] True obtain mem' where m': "mark_pages bm (Suc page) lastp mem1 = Some mem'"
      "length mem' = length mem1" "dirty_pages mem' = dirty_pages mem1
        \<union> {pages_before_region bm + q | q. Suc page \<le> q \<and> q \<le> lastp \<and> q < number_of_pages bm}"
      by auto
    have "{pages_before_region bm + q | q. page \<le> q \<and> q \<le> lastp \<and> q < number_of_pages bm}
        = insert ?p {pages_before_region bm + q | q. Suc page \<le> q \<and> q \<le> lastp \<and> q < number_of_pages bm}"
      using True by (auto simp: Suc_le_eq order_le_less)
    moreover have "mark_pages bm page lastp mem = Some mem'"
      using True m1(1) m'(1) by (simp add: mark_pages.simps [of bm page])
    ultimately show ?thesis using m1 m' by auto
  qed
qed

text \<open>What marking adds to a log, for a region's bitmap that fits it.\<close>

definition marked_pages :: "AtomicBitmapMmap \<Rightarrow> nat \<Rightarrow> nat \<Rightarrow> nat set" where
  "marked_pages bm off len =
     {pages_before_region bm + q | q. q \<in> touched_pages off len \<and> q < number_of_pages bm}"

lemma bitmap_mark_dirty_marks:
  assumes "fits bm mem"
  shows "\<exists>mem'. bitmap_mark_dirty bm off len mem = Some mem' \<and> length mem' = length mem
    \<and> dirty_pages mem' = dirty_pages mem \<union> marked_pages bm off len"
proof (cases "len = 0")
  case True
  then show ?thesis by (simp add: bitmap_mark_dirty_def marked_pages_def touched_pages_def)
next
  case False
  with mark_pages_marks [OF assms] show ?thesis
    by (simp add: bitmap_mark_dirty_def marked_pages_def touched_pages_def Let_def)
qed

lemma bitmap_dirty_at_reads:
  assumes "fits bm mem"
  shows "bitmap_dirty_at bm off mem
    = Some (page_number off < number_of_pages bm
            \<and> pages_before_region bm + page_number off \<in> dirty_pages mem)"
proof -
  have "(w::u8) AND push_bit k 1 \<noteq> 0 \<longleftrightarrow> bit w k" for w k
    using and_pow2_nonzero_iff [of w k] by (simp add: push_bit_eq_mult)
  then show ?thesis
    using assms by (auto simp: bitmap_dirty_at_def fits_def log_load_def dirty_pages_def Let_def)
qed

subsection \<open>What the log records\<close>

text \<open>
  The pages of guest memory that marking adds, said of the region alone: those of the addresses in
  the range that lie in whole pages of the region.
\<close>

lemma bitmap_new_fields:
  "bitmap_new start rlen mem = Inr bm \<Longrightarrow>
     bm = \<lparr>pages_before_region = start div 4096, number_of_pages = rlen div 4096\<rparr> \<and> rlen \<le> Suc usize_max"
  by (auto simp: bitmap_new_def usize_checked_add_def Let_def page_defs split: if_splits)

lemma less_whole_pages_iff: "(a :: nat) < n - n mod 4096 \<longleftrightarrow> a div 4096 < n div 4096"
  by (metis div_less_iff_less_mult minus_mod_eq_div_mult zero_less_numeral)

lemma marked_pages_of_region:
  assumes "bitmap_new start rlen mem = Inr bm" and "4096 dvd start"
  shows "marked_pages bm off len
    = {(start + a) div 4096 | a. off \<le> a \<and> a < off + len \<and> a < rlen - rlen mod 4096}"
proof -
  have bm: "bm = \<lparr>pages_before_region = start div 4096, number_of_pages = rlen div 4096\<rparr>" "rlen \<le> Suc usize_max"
    using bitmap_new_fields [OF assms(1)] by auto
  have page: "(start + a) div 4096 = start div 4096 + a div 4096" for a
    using assms(2) by (simp add: div_plus_div_distrib_dvd_left)
  have "q \<in> touched_pages off len \<longleftrightarrow> (\<exists>a. q = a div 4096 \<and> off \<le> a \<and> a < off + len)"
    if "q < rlen div 4096" for q
  proof
    assume "\<exists>a. q = a div 4096 \<and> off \<le> a \<and> a < off + len"
    then obtain a where a: "q = a div 4096" "off \<le> a" "a < off + len" by blast
    then have "a < rlen" using that by (metis div_le_mono linorder_not_le)
    then have "a \<le> usize_saturating_add off (len - 1)"
      using a bm(2) by (auto simp: usize_saturating_add_def)
    with a show "q \<in> touched_pages off len" by (auto simp: touched_pages_def page_defs intro: div_le_mono)
  next
    assume q: "q \<in> touched_pages off len"
    then have "len \<noteq> 0" "off div 4096 \<le> q" "q \<le> usize_saturating_add off (len - 1) div 4096"
      by (auto simp: touched_pages_def page_defs split: if_splits)
    moreover have "usize_saturating_add off (len - 1) \<le> off + (len - 1)"
      by (auto simp: usize_saturating_add_def)
    ultimately have "q \<le> (off + (len - 1)) div 4096" "len \<noteq> 0" "off div 4096 \<le> q"
      by (meson div_le_mono le_trans)+
    then have "max off (q * 4096) div 4096 = q \<and> off \<le> max off (q * 4096) \<and> max off (q * 4096) < off + len"
      by (auto simp: max_def less_eq_div_iff_mult_less_eq div_le_mono not_le
          intro: le_antisym elim!: order_le_less_trans)
    then show "\<exists>a. q = a div 4096 \<and> off \<le> a \<and> a < off + len" by metis
  qed
  then show ?thesis
    unfolding marked_pages_def bm(1) by (auto simp: page less_whole_pages_iff)
qed

text \<open>
  C11: the log records writes. Let a bitmap be made for a region of guest memory that starts on a
  page. Marking a range of the region never leaves the log memory (no panic) and keeps its size; it
  adds to the pages of guest memory that the log marks exactly the pages of the addresses of the
  range, as far as these lie in whole pages of the region, and every other page is as before.
  Asking an offset back gives just whether its page is marked.
\<close>

theorem mark_dirty_refines:
  assumes "bitmap_new start rlen mem0 = Inr bm" and "length mem = length mem0" and "4096 dvd start"
  shows "\<exists>mem'. bitmap_mark_dirty bm off len mem = Some mem'
    \<and> length mem' = length mem
    \<and> dirty_pages mem' = dirty_pages mem
        \<union> {(start + a) div 4096 | a. off \<le> a \<and> a < off + len \<and> a < rlen - rlen mod 4096}
    \<and> bitmap_dirty_at bm off' mem'
      = Some (off' < rlen - rlen mod 4096 \<and> (start + off') div 4096 \<in> dirty_pages mem')"
proof -
  have fits: "fits bm mem" using bitmap_new_fits [OF assms(1)] assms(2) by (simp add: fits_def)
  obtain mem' where m: "bitmap_mark_dirty bm off len mem = Some mem'" "length mem' = length mem"
    "dirty_pages mem' = dirty_pages mem \<union> marked_pages bm off len"
    using bitmap_mark_dirty_marks [OF fits] by blast
  have "fits bm mem'" using fits m(2) by (simp add: fits_def)
  then have "bitmap_dirty_at bm off' mem'
      = Some (off' < rlen - rlen mod 4096 \<and> (start + off') div 4096 \<in> dirty_pages mem')"
    using bitmap_new_fields [OF assms(1)] assms(3)
    by (simp add: bitmap_dirty_at_reads less_whole_pages_iff page_defs div_plus_div_distrib_dvd_left)
  with m marked_pages_of_region [OF assms(1,3)] show ?thesis by metis
qed

text \<open>Seven bytes across the border of two pages, in a region whose last page is partial.\<close>

theorem mark_dirty_refines_witness:
  "\<exists>bm mem'. bitmap_new 0x1000 0x4001 [0] = Inr bm \<and> bitmap_mark_dirty bm 0x1ffe 7 [0] = Some mem'
     \<and> dirty_pages mem' = {2, 3} \<and> bitmap_dirty_at bm 0x2000 mem' = Some True"
proof -
  have new: "bitmap_new 0x1000 0x4001 [0] = Inr \<lparr>pages_before_region = 1, number_of_pages = 4\<rparr>"
    by (simp add: bitmap_new_def usize_checked_add_def usize_max_def page_defs Let_def)
  have "{(0x1000 + a) div 4096 | a. 0x1ffe \<le> a \<and> a < 0x1ffe + 7 \<and> a < 0x4001 - 0x4001 mod 4096} = {2, 3 :: nat}"
  proof (intro equalityI subsetI)
    fix p assume "p \<in> {2, 3 :: nat}"
    then have "p = (0x1000 + 0x1ffe) div 4096 \<or> p = (0x1000 + 0x2000) div 4096" by auto
    then show "p \<in> {(0x1000 + a) div 4096 | a. 0x1ffe \<le> a \<and> a < 0x1ffe + 7 \<and> a < 0x4001 - 0x4001 mod 4096}"
      by (elim disjE) (simp only: mem_Collect_eq, rule exI, rule conjI, rule refl, simp)+
  next
    fix p assume "p \<in> {(0x1000 + a) div 4096 | a. 0x1ffe \<le> a \<and> a < 0x1ffe + 7 \<and> a < 0x4001 - 0x4001 mod (4096 :: nat)}"
    then obtain a where "p = (0x1000 + a) div 4096" "0x1ffe \<le> a" "a < 0x2005" by auto
    then have "(0x1000 + 0x1ffe) div 4096 \<le> p" "p \<le> (0x1000 + 0x2004) div 4096"
      using div_le_mono [of "0x2ffe" "0x1000 + a" 4096] div_le_mono [of "0x1000 + a" "0x3004" 4096] by simp_all
    then have "2 \<le> p" "p \<le> 3" by simp_all
    then show "p \<in> {2, 3}" by auto
  qed
  moreover have "dirty_pages [0] = {}" by (auto simp: dirty_pages_def)
  ultimately show ?thesis
    using mark_dirty_refines [OF new, of "[0]" "0x1ffe" 7 "0x2000"] new by auto
qed

text \<open>
  For a region whose start and length are multiples of the page size, marking a range inside
  the region marks every page of guest memory the range overlaps, so no write is lost for the
  migration.
\<close>

theorem aligned_region_fully_logged:
  assumes "bitmap_new start rlen mem = Inr bm"
    and "4096 dvd start" and "4096 dvd rlen" and "off + len \<le> rlen" and "rlen \<le> usize_max"
    and "bitmap_mark_dirty bm off len mem = Some mem'" and "i < len"
  shows "(start + off + i) div 4096 \<in> dirty_pages mem'"
proof -
  have bm: "bm = \<lparr>pages_before_region = start div 4096, number_of_pages = rlen div 4096\<rparr>"
    using bitmap_new_fields [OF assms(1)] by simp
  have dirty: "dirty_pages mem' = dirty_pages mem \<union> marked_pages bm off len"
    using bitmap_mark_dirty_marks [OF bitmap_new_fits [OF assms(1)], of off len] assms(6) by auto
  have "(off + i) div 4096 \<in> touched_pages off len"
    using assms(4,5,7)
    by (auto simp: touched_pages_def page_defs usize_saturating_add_def div_le_mono)
  moreover have "(off + i) div 4096 < rlen div 4096"
  proof -
    obtain n where "rlen = n * 4096" using assms(3) by (auto elim: dvdE)
    with assms(4,7) show ?thesis by (simp add: div_less_iff_less_mult)
  qed
  moreover have "(start + off + i) div 4096 = start div 4096 + (off + i) div 4096"
    using assms(2) by (simp add: add.assoc div_plus_div_distrib_dvd_left)
  ultimately show ?thesis unfolding dirty marked_pages_def bm by auto
qed

theorem aligned_region_fully_logged_witness:
  "\<exists>mem'. bitmap_mark_dirty \<lparr>pages_before_region = 1, number_of_pages = 2\<rparr> 0x1000 8 [0] = Some mem'
     \<and> 2 \<in> dirty_pages mem'"
proof -
  have new: "bitmap_new 0x1000 0x2000 [0] = Inr \<lparr>pages_before_region = 1, number_of_pages = 2\<rparr>"
    by (simp add: bitmap_new_def usize_checked_add_def usize_max_def page_defs Let_def)
  obtain mem' where "bitmap_mark_dirty \<lparr>pages_before_region = 1, number_of_pages = 2\<rparr> 0x1000 8 [0] = Some mem'"
    using bitmap_mark_dirty_marks [OF bitmap_new_fits [OF new]] by blast
  with aligned_region_fully_logged [OF new _ _ _ _ this, of 0] show ?thesis
    by (simp add: usize_max_def)
qed

text \<open>
  Writers that mark ranges through any two bitmaps on the same log commute: in whichever
  order their marks reach the log, the result is the same, so no mark is lost.
\<close>

theorem mark_dirty_commutes:
  assumes "bitmap_new s1 l1 mem0 = Inr bm1" and "bitmap_new s2 l2 mem0 = Inr bm2"
    and "length mem = length mem0"
  shows "\<exists>a b mem'. bitmap_mark_dirty bm1 o1 n1 mem = Some a \<and> bitmap_mark_dirty bm2 o2 n2 a = Some mem'
    \<and> bitmap_mark_dirty bm2 o2 n2 mem = Some b \<and> bitmap_mark_dirty bm1 o1 n1 b = Some mem'"
proof -
  have fits: "fits bm1 m" "fits bm2 m" if "length m = length mem" for m
    using bitmap_new_fits [OF assms(1)] bitmap_new_fits [OF assms(2)] assms(3) that
    by (simp_all add: fits_def)
  obtain a where a: "bitmap_mark_dirty bm1 o1 n1 mem = Some a" "length a = length mem"
    "dirty_pages a = dirty_pages mem \<union> marked_pages bm1 o1 n1"
    using bitmap_mark_dirty_marks [OF fits(1)] by blast
  obtain b where b: "bitmap_mark_dirty bm2 o2 n2 mem = Some b" "length b = length mem"
    "dirty_pages b = dirty_pages mem \<union> marked_pages bm2 o2 n2"
    using bitmap_mark_dirty_marks [OF fits(2)] by blast
  obtain ab where ab: "bitmap_mark_dirty bm2 o2 n2 a = Some ab" "length ab = length mem"
    "dirty_pages ab = dirty_pages a \<union> marked_pages bm2 o2 n2"
    using bitmap_mark_dirty_marks [OF fits(2) [OF a(2)]] a(2) by metis
  obtain ba where ba: "bitmap_mark_dirty bm1 o1 n1 b = Some ba" "length ba = length mem"
    "dirty_pages ba = dirty_pages b \<union> marked_pages bm1 o1 n1"
    using bitmap_mark_dirty_marks [OF fits(1) [OF b(2)]] b(2) by metis
  have "ab = ba" using a b ab ba by (intro dirty_pages_inject) auto
  with a b ab ba show ?thesis by blast
qed

theorem mark_dirty_commutes_witness:
  "\<exists>a b mem'.
     bitmap_mark_dirty \<lparr>pages_before_region = 1, number_of_pages = 2\<rparr> 0 8 [0, 0] = Some a
     \<and> bitmap_mark_dirty \<lparr>pages_before_region = 3, number_of_pages = 1\<rparr> 0 8 a = Some mem'
     \<and> bitmap_mark_dirty \<lparr>pages_before_region = 3, number_of_pages = 1\<rparr> 0 8 [0, 0] = Some b
     \<and> bitmap_mark_dirty \<lparr>pages_before_region = 1, number_of_pages = 2\<rparr> 0 8 b = Some mem'"
proof -
  have "bitmap_new 0x1000 0x2000 [0, 0] = Inr \<lparr>pages_before_region = 1, number_of_pages = 2\<rparr>"
    "bitmap_new 0x3000 0x1000 [0, 0] = Inr \<lparr>pages_before_region = 3, number_of_pages = 1\<rparr>"
    by (simp_all add: bitmap_new_def usize_checked_add_def usize_max_def page_defs Let_def)
  from mark_dirty_commutes [OF this, of "[0, 0]" 0 8 0 8] show ?thesis by simp
qed

text \<open>
  C31: the last page of a region whose length is not a multiple of the page size has no bit of its
  own: no write to that page, through any range, is ever logged for it.
\<close>

theorem partial_last_page_unlogged:
  assumes "bitmap_new start rlen mem = Inr bm" and "4096 dvd start" and "\<not> 4096 dvd rlen"
    and "bitmap_mark_dirty bm off len mem = Some mem'"
    and "(start + rlen - 1) div 4096 \<notin> dirty_pages mem"
  shows "(start + rlen - 1) div 4096 \<notin> dirty_pages mem'"
proof -
  have bm: "bm = \<lparr>pages_before_region = start div 4096, number_of_pages = rlen div 4096\<rparr>"
    using bitmap_new_fields [OF assms(1)] by simp
  have dirty: "dirty_pages mem' = dirty_pages mem \<union> marked_pages bm off len"
    using bitmap_mark_dirty_marks [OF bitmap_new_fits [OF assms(1)], of off len] assms(4) by auto
  have pos: "0 < rlen mod 4096" using assms(3) by (simp add: dvd_eq_mod_eq_0)
  then have "rlen - 1 = 4096 * (rlen div 4096) + (rlen mod 4096 - 1)"
    using mult_div_mod_eq [of 4096 rlen] by linarith
  then have "(rlen - 1) div 4096 = rlen div 4096"
    by (simp add: less_imp_diff_less)
  moreover have "start + rlen - 1 = start + (rlen - 1)" using pos by (cases rlen) auto
  ultimately have "(start + rlen - 1) div 4096 = start div 4096 + rlen div 4096"
    using assms(2) by (simp add: div_plus_div_distrib_dvd_left)
  then show ?thesis using assms(5) unfolding dirty marked_pages_def bm by auto
qed

theorem partial_last_page_unlogged_witness:
  "\<exists>mem'. bitmap_mark_dirty \<lparr>pages_before_region = 0, number_of_pages = 1\<rparr> 0x1000 1 [0] = Some mem'
     \<and> 1 \<notin> dirty_pages mem'"
proof -
  have new: "bitmap_new 0 0x1001 [0] = Inr \<lparr>pages_before_region = 0, number_of_pages = 1\<rparr>"
    by (simp add: bitmap_new_def usize_checked_add_def usize_max_def page_defs Let_def)
  obtain mem' where run: "bitmap_mark_dirty \<lparr>pages_before_region = 0, number_of_pages = 1\<rparr> 0x1000 1 [0] = Some mem'"
    using bitmap_mark_dirty_marks [OF bitmap_new_fits [OF new]] by blast
  have "1 \<notin> dirty_pages [0]" by (simp add: dirty_pages_def page_defs)
  with partial_last_page_unlogged [OF new _ _ run] run show ?thesis by simp
qed

end
