(* ===== verification/Backend_Req_Handler.thy ===== *)
theory Backend_Req_Handler
  imports Connection
begin

text \<open>
  The server of the frontend channel, \<open>vhost/src/vhost_user/backend_req_handler.rs\<close> (with the
  \<open>postcopy\<close> feature, without \<open>xen\<close>): it receives one request, checks it, calls the backend
  device and sends the reply or the acknowledgement.

  The backend device (any implementation of \<open>VhostUserBackendReqHandler\<close>) is a dictionary of
  its operations on an arbitrary device state; the request socket and \<open>getsockopt\<close> are parameters
  too. Each arm of the request dispatch is a definition of its own.
\<close>

subsection \<open>The trait VhostUserBackendReqHandler\<close>

text \<open>The trait's first group of methods (up to the vring descriptors), and the rest.\<close>

record 'b VhostUserBackendReqHandlerBase =
  be_set_owner :: "('b, Error, unit) M"
  be_reset_owner :: "('b, Error, unit) M"
  be_reset_device :: "('b, Error, unit) M"
  be_get_features :: "('b, Error, u64) M"
  be_set_features :: "u64 \<Rightarrow> ('b, Error, unit) M"
  be_set_mem_table :: "VhostUserMemoryRegion list \<Rightarrow> fd list \<Rightarrow> ('b, Error, unit) M"
  be_set_vring_num :: "u32 \<Rightarrow> u32 \<Rightarrow> ('b, Error, unit) M"
  be_set_vring_addr :: "u32 \<Rightarrow> u32 \<Rightarrow> u64 \<Rightarrow> u64 \<Rightarrow> u64 \<Rightarrow> u64 \<Rightarrow> ('b, Error, unit) M"
  be_set_vring_base :: "u32 \<Rightarrow> u32 \<Rightarrow> ('b, Error, unit) M"
  be_get_vring_base :: "u32 \<Rightarrow> ('b, Error, VhostUserVringState) M"
  be_set_vring_kick :: "u8 \<Rightarrow> fd option \<Rightarrow> ('b, Error, unit) M"
  be_set_vring_call :: "u8 \<Rightarrow> fd option \<Rightarrow> ('b, Error, unit) M"
  be_set_vring_err :: "u8 \<Rightarrow> fd option \<Rightarrow> ('b, Error, unit) M"

record 'b VhostUserBackendReqHandler = "'b VhostUserBackendReqHandlerBase" +
  be_get_protocol_features :: "('b, Error, u64) M"
  be_set_protocol_features :: "u64 \<Rightarrow> ('b, Error, unit) M"
  be_get_queue_num :: "('b, Error, u64) M"
  be_set_vring_enable :: "u32 \<Rightarrow> bool \<Rightarrow> ('b, Error, unit) M"
  be_get_config :: "u32 \<Rightarrow> u32 \<Rightarrow> u32 \<Rightarrow> ('b, Error, u8 list) M"
  be_set_config :: "u32 \<Rightarrow> u8 list \<Rightarrow> u32 \<Rightarrow> ('b, Error, unit) M"
  be_set_backend_req_fd :: "fd \<Rightarrow> ('b, unit) call"
  be_set_gpu_socket :: "fd \<Rightarrow> ('b, Error, unit) M"
  be_get_shared_object :: "VhostUserSharedMsg \<Rightarrow> ('b, Error, fd) M"
  be_get_inflight_fd :: "VhostUserInflight \<Rightarrow> ('b, Error, VhostUserInflight \<times> fd) M"
  be_set_inflight_fd :: "VhostUserInflight \<Rightarrow> fd \<Rightarrow> ('b, Error, unit) M"
  be_get_max_mem_slots :: "('b, Error, u64) M"
  be_add_mem_region :: "VhostUserSingleMemoryRegion \<Rightarrow> fd \<Rightarrow> ('b, Error, unit) M"
  be_remove_mem_region :: "VhostUserSingleMemoryRegion \<Rightarrow> ('b, Error, unit) M"
  be_set_device_state_fd :: "VhostTransferStateDirection \<Rightarrow> VhostTransferStatePhase \<Rightarrow> fd \<Rightarrow> ('b, Error, fd option) M"
  be_check_device_state :: "('b, Error, unit) M"
  be_get_shmem_config :: "('b, Error, VhostUserShMemConfig) M"
  be_postcopy_advice :: "('b, Error, fd) M"
  be_postcopy_listen :: "('b, Error, unit) M"
  be_postcopy_end :: "('b, Error, unit) M"
  be_set_log_base :: "VhostUserLog \<Rightarrow> fd \<Rightarrow> ('b, Error, unit) M"

subsection \<open>The handler\<close>

record ('s, 'b) BackendReqHandler =
  bh_main_sock :: 's
  bh_backend :: 'b
  bh_virtio_features :: u64
  bh_acked_virtio_features :: u64
  bh_acked_protocol_features :: u64
  bh_reply_ack_enabled :: bool
  bh_error :: "int option"

type_synonym ('s, 'b, 'a) brh = "(('s, 'b) BackendReqHandler, Error, 'a) M"

definition brh_new :: "'s \<Rightarrow> 'b \<Rightarrow> ('s, 'b) BackendReqHandler" where
  "brh_new sock be =
     \<lparr>bh_main_sock = sock, bh_backend = be, bh_virtio_features = 0, bh_acked_virtio_features = 0,
      bh_acked_protocol_features = 0, bh_reply_ack_enabled = False, bh_error = None\<rparr>"

text \<open>Operations on the socket and on the backend device, as operations of the handler.\<close>

definition on_sock :: "('s, Error, 'a) M \<Rightarrow> ('s, 'b, 'a) brh" where
  "on_sock m = (\<lambda>h. case m (bh_main_sock h) of
       None \<Rightarrow> None
     | Some (r, s') \<Rightarrow> Some (r, h\<lparr>bh_main_sock := s'\<rparr>))"

definition on_backend :: "('b, Error, 'a) M \<Rightarrow> ('s, 'b, 'a) brh" where
  "on_backend m = (\<lambda>h. case m (bh_backend h) of
       None \<Rightarrow> None
     | Some (r, b') \<Rightarrow> Some (r, h\<lparr>bh_backend := b'\<rparr>))"

definition set_failed :: "int \<Rightarrow> ('s, 'b) BackendReqHandler \<Rightarrow> ('s, 'b) BackendReqHandler" where
  "set_failed e h = h\<lparr>bh_error := Some e\<rparr>"

definition check_state :: "('s, 'b, unit) brh" where
  "check_state = bindM (readM bh_error) (\<lambda>err. case err of
       Some e \<Rightarrow> failM (SocketBroken (RawOs e))
     | None \<Rightarrow> retM ())"

definition check_feature :: "VhostUserVirtioFeatures \<Rightarrow> ('s, 'b, unit) brh" where
  "check_feature feat = bindM (readM bh_acked_virtio_features) (\<lambda>acked.
     if acked AND vf_bits feat \<noteq> 0 then retM () else failM (InactiveFeature (vf_bits feat)))"

definition check_proto_feature :: "VhostUserProtocolFeatures \<Rightarrow> ('s, 'b, unit) brh" where
  "check_proto_feature feat = bindM (readM bh_acked_protocol_features) (\<lambda>acked.
     if acked AND pf_bits feat \<noteq> 0 then retM () else failM (InactiveOperation (pf_bits feat)))"

definition check_request_size :: "VhostUserMsgHeader \<Rightarrow> nat \<Rightarrow> nat \<Rightarrow> Error + unit" where
  "check_request_size hdr sz expected =
     (if unat (get_size hdr) \<noteq> expected \<or> is_reply hdr \<or> get_version hdr \<noteq> 0x1 \<or> sz \<noteq> expected
      then Inl InvalidMessage else Inr ())"

fun may_attach_files :: "FrontendReq \<Rightarrow> bool" where
  "may_attach_files SET_MEM_TABLE = True"
| "may_attach_files SET_VRING_CALL = True"
| "may_attach_files SET_VRING_KICK = True"
| "may_attach_files SET_VRING_ERR = True"
| "may_attach_files SET_LOG_BASE = True"
| "may_attach_files SET_LOG_FD = True"
| "may_attach_files SET_BACKEND_REQ_FD = True"
| "may_attach_files SET_INFLIGHT_FD = True"
| "may_attach_files ADD_MEM_REG = True"
| "may_attach_files SET_DEVICE_STATE_FD = True"
| "may_attach_files GPU_SET_SOCKET = True"
| "may_attach_files _ = False"

definition check_attached_files :: "VhostUserMsgHeader \<Rightarrow> fd list option \<Rightarrow> Error + unit" where
  "check_attached_files hdr files =
     (if (case get_code FrontendReq_Req hdr of Inr c \<Rightarrow> may_attach_files c | Inl _ \<Rightarrow> False)
      then Inr ()
      else if files \<noteq> None then Inl InvalidMessage
      else Inr ())"

definition extract_request_body ::
    "'t msg_type \<Rightarrow> VhostUserMsgHeader \<Rightarrow> nat \<Rightarrow> u8 list \<Rightarrow> Error + 't" where
  "extract_request_body T hdr sz buf =
     (case check_request_size hdr sz (size_of T) of
        Inl e \<Rightarrow> Inl e
      | Inr _ \<Rightarrow>
          let msg = from_slice T (take (size_of T) buf) in
          if \<not> is_valid T msg then Inl InvalidMessage else Inr msg)"

definition update_reply_ack_flag :: "('s, 'b, unit) brh" where
  "update_reply_ack_flag = modifyM (\<lambda>h.
     let vflag = vf_bits VF_PROTOCOL_FEATURES; pflag = pf_bits PF_REPLY_ACK in
     h\<lparr>bh_reply_ack_enabled :=
         bh_virtio_features h AND vflag \<noteq> 0 \<and> bh_acked_protocol_features h AND pflag \<noteq> 0\<rparr>)"

subsection \<open>Replies\<close>

definition new_reply_header ::
    "nat \<Rightarrow> VhostUserMsgHeader \<Rightarrow> nat \<Rightarrow> ('s, 'b, VhostUserMsgHeader) brh" where
  "new_reply_header body_size req payload_size =
     (if body_size > MAX_MSG_SIZE \<or> payload_size > MAX_MSG_SIZE
         \<or> body_size + payload_size > MAX_MSG_SIZE
      then failM InvalidParam
      else thenM check_state
        (bindM (liftR (get_code FrontendReq_Req req)) (\<lambda>code.
          retM (hdr_new FrontendReq_Req code HDR_REPLY (word_of_nat (body_size + payload_size))))))"

definition send_ack_message ::
    "'s sock_ops \<Rightarrow> VhostUserMsgHeader \<Rightarrow> Error + unit \<Rightarrow> ('s, 'b, unit) brh" where
  "send_ack_message so req res =
     bindM (readM bh_reply_ack_enabled) (\<lambda>enabled.
       if enabled \<and> is_need_reply req
       then bindM (new_reply_header (size_of VhostUserU64_T) req 0) (\<lambda>hdr.
         let val = (case res of Inr _ \<Rightarrow> 0 | Inl _ \<Rightarrow> 1);
             msg = VhostUserU64_new val in
         thenM (on_sock (send_message FH VhostUserU64_T so hdr msg None)) (liftR res))
       else liftR res)"

definition send_reply_message ::
    "'t msg_type \<Rightarrow> 's sock_ops \<Rightarrow> VhostUserMsgHeader \<Rightarrow> 't \<Rightarrow> ('s, 'b, unit) brh" where
  "send_reply_message T so req msg =
     bindM (new_reply_header (size_of T) req 0) (\<lambda>hdr.
       on_sock (send_message FH T so hdr msg None))"

definition send_reply_with_payload ::
    "'t msg_type \<Rightarrow> 's sock_ops \<Rightarrow> VhostUserMsgHeader \<Rightarrow> 't \<Rightarrow> u8 list \<Rightarrow> ('s, 'b, unit) brh" where
  "send_reply_with_payload T so req msg payload =
     bindM (new_reply_header (size_of T) req (length payload)) (\<lambda>hdr.
       on_sock (send_message_with_payload FH T so hdr msg payload None))"

subsection \<open>Validation of a received socket\<close>

definition SO_TYPE :: int where "SO_TYPE = 3"
definition SO_DOMAIN :: int where "SO_DOMAIN = 39"
definition AF_UNIX :: int where "AF_UNIX = 1"
definition SOCK_STREAM :: int where "SOCK_STREAM = 1"

text \<open>\<open>sockopt fd option\<close> is the outcome of \<open>getsockopt\<close> at the level \<open>SOL_SOCKET\<close>.\<close>

type_synonym sockopt = "fd \<Rightarrow> int \<Rightarrow> io_error + int"

definition validate_unix_stream_socket_fd :: "sockopt \<Rightarrow> fd \<Rightarrow> Error + unit" where
  "validate_unix_stream_socket_fd opt f =
     (case opt f SO_DOMAIN of
        Inl e \<Rightarrow> Inl (InvalidSocketFd e)
      | Inr domain \<Rightarrow>
          if domain \<noteq> AF_UNIX then Inl NotUnixSocket
          else (case opt f SO_TYPE of
                  Inl e \<Rightarrow> Inl (InvalidSocketFd e)
                | Inr sock_type \<Rightarrow>
                    if sock_type \<noteq> SOCK_STREAM then Inl NotStreamSocket else Inr ()))"

subsection \<open>The arms of the dispatch\<close>

definition handle_SET_OWNER ::
    "'b VhostUserBackendReqHandler \<Rightarrow> 's sock_ops \<Rightarrow> VhostUserMsgHeader \<Rightarrow> nat \<Rightarrow> u8 list \<Rightarrow> ('s, 'b, unit) brh" where
  "handle_SET_OWNER B so hdr sz buf =
     thenM (liftR (check_request_size hdr sz 0))
       (bindM (catchM (on_backend (be_set_owner B))) (\<lambda>res. send_ack_message so hdr res))"

definition handle_RESET_OWNER ::
    "'b VhostUserBackendReqHandler \<Rightarrow> 's sock_ops \<Rightarrow> VhostUserMsgHeader \<Rightarrow> nat \<Rightarrow> u8 list \<Rightarrow> ('s, 'b, unit) brh" where
  "handle_RESET_OWNER B so hdr sz buf =
     thenM (liftR (check_request_size hdr sz 0))
       (bindM (catchM (on_backend (be_reset_owner B))) (\<lambda>res. send_ack_message so hdr res))"

definition handle_RESET_DEVICE ::
    "'b VhostUserBackendReqHandler \<Rightarrow> 's sock_ops \<Rightarrow> VhostUserMsgHeader \<Rightarrow> nat \<Rightarrow> u8 list \<Rightarrow> ('s, 'b, unit) brh" where
  "handle_RESET_DEVICE B so hdr sz buf =
     thenM (check_proto_feature PF_RESET_DEVICE)
     (thenM (liftR (check_request_size hdr sz 0))
       (bindM (catchM (on_backend (be_reset_device B))) (\<lambda>res. send_ack_message so hdr res)))"

definition handle_GET_FEATURES ::
    "'b VhostUserBackendReqHandler \<Rightarrow> 's sock_ops \<Rightarrow> VhostUserMsgHeader \<Rightarrow> nat \<Rightarrow> u8 list \<Rightarrow> ('s, 'b, unit) brh" where
  "handle_GET_FEATURES B so hdr sz buf =
     thenM (liftR (check_request_size hdr sz 0))
       (bindM (on_backend (be_get_features B)) (\<lambda>features.
         let msg = VhostUserU64_new features in
         thenM (send_reply_message VhostUserU64_T so hdr msg)
         (thenM (modifyM (\<lambda>h. h\<lparr>bh_virtio_features := features\<rparr>))
           update_reply_ack_flag)))"

definition handle_SET_FEATURES ::
    "'b VhostUserBackendReqHandler \<Rightarrow> 's sock_ops \<Rightarrow> VhostUserMsgHeader \<Rightarrow> nat \<Rightarrow> u8 list \<Rightarrow> ('s, 'b, unit) brh" where
  "handle_SET_FEATURES B so hdr sz buf =
     bindM (liftR (extract_request_body VhostUserU64_T hdr sz buf)) (\<lambda>msg.
       bindM (catchM (on_backend (be_set_features B (u64_value msg)))) (\<lambda>res.
         thenM (modifyM (\<lambda>h. h\<lparr>bh_acked_virtio_features := u64_value msg\<rparr>))
         (thenM update_reply_ack_flag
           (send_ack_message so hdr res))))"

definition set_mem_table ::
    "'b VhostUserBackendReqHandler \<Rightarrow> VhostUserMsgHeader \<Rightarrow> nat \<Rightarrow> u8 list \<Rightarrow> fd list option
     \<Rightarrow> ('s, 'b, unit) brh" where
  "set_mem_table B hdr sz buf files =
     thenM (liftR (check_request_size hdr sz (unat (get_size hdr))))
       (let hdrsize = size_of VhostUserMemory_T in
        if sz < hdrsize then failM InvalidMessage
        else
          (let msg = from_slice VhostUserMemory_T (take hdrsize buf);
               n = unat (num_regions msg) in
           if \<not> is_valid VhostUserMemory_T msg then failM InvalidMessage
           else if sz \<noteq> hdrsize + n * size_of VhostUserMemoryRegion_T then failM InvalidMessage
           else (case files of
               None \<Rightarrow> failM InvalidMessage
             | Some fs \<Rightarrow>
                 if length fs \<noteq> n then failM InvalidMessage
                 else
                   (let regions = map (from_slice VhostUserMemoryRegion_T)
                          (chunks (size_of VhostUserMemoryRegion_T) n (drop hdrsize buf)) in
                    if \<not> list_all (is_valid VhostUserMemoryRegion_T) regions
                    then failM InvalidMessage
                    else on_backend (be_set_mem_table B regions fs)))))"

definition handle_SET_MEM_TABLE ::
    "'b VhostUserBackendReqHandler \<Rightarrow> 's sock_ops \<Rightarrow> VhostUserMsgHeader \<Rightarrow> nat \<Rightarrow> u8 list \<Rightarrow> fd list option
     \<Rightarrow> ('s, 'b, unit) brh" where
  "handle_SET_MEM_TABLE B so hdr sz buf files =
     bindM (catchM (set_mem_table B hdr sz buf files)) (\<lambda>res. send_ack_message so hdr res)"

definition handle_SET_VRING_NUM ::
    "'b VhostUserBackendReqHandler \<Rightarrow> 's sock_ops \<Rightarrow> VhostUserMsgHeader \<Rightarrow> nat \<Rightarrow> u8 list \<Rightarrow> ('s, 'b, unit) brh" where
  "handle_SET_VRING_NUM B so hdr sz buf =
     bindM (liftR (extract_request_body VhostUserVringState_T hdr sz buf)) (\<lambda>msg.
       bindM (catchM (on_backend (be_set_vring_num B (vs_index msg) (vs_num msg)))) 
         (\<lambda>res. send_ack_message so hdr res))"

definition handle_SET_VRING_ADDR ::
    "'b VhostUserBackendReqHandler \<Rightarrow> 's sock_ops \<Rightarrow> VhostUserMsgHeader \<Rightarrow> nat \<Rightarrow> u8 list \<Rightarrow> ('s, 'b, unit) brh" where
  "handle_SET_VRING_ADDR B so hdr sz buf =
     bindM (liftR (extract_request_body VhostUserVringAddr_T hdr sz buf)) (\<lambda>msg.
       case vring_addr_flags_from_bits (va_flags msg) of
         None \<Rightarrow> failM InvalidMessage
       | Some flags \<Rightarrow>
           bindM (catchM (on_backend (be_set_vring_addr B (va_index msg) flags (va_descriptor msg)
                    (va_used msg) (va_available msg) (va_log msg))))
             (\<lambda>res. send_ack_message so hdr res))"

definition handle_SET_VRING_BASE ::
    "'b VhostUserBackendReqHandler \<Rightarrow> 's sock_ops \<Rightarrow> VhostUserMsgHeader \<Rightarrow> nat \<Rightarrow> u8 list \<Rightarrow> ('s, 'b, unit) brh" where
  "handle_SET_VRING_BASE B so hdr sz buf =
     bindM (liftR (extract_request_body VhostUserVringState_T hdr sz buf)) (\<lambda>msg.
       bindM (catchM (on_backend (be_set_vring_base B (vs_index msg) (vs_num msg)))) 
         (\<lambda>res. send_ack_message so hdr res))"

definition handle_GET_VRING_BASE ::
    "'b VhostUserBackendReqHandler \<Rightarrow> 's sock_ops \<Rightarrow> VhostUserMsgHeader \<Rightarrow> nat \<Rightarrow> u8 list \<Rightarrow> ('s, 'b, unit) brh" where
  "handle_GET_VRING_BASE B so hdr sz buf =
     bindM (liftR (extract_request_body VhostUserVringState_T hdr sz buf)) (\<lambda>msg.
       bindM (on_backend (be_get_vring_base B (vs_index msg))) (\<lambda>reply.
         send_reply_message VhostUserVringState_T so hdr reply))"

definition handle_vring_fd_request :: "u8 list \<Rightarrow> fd list option \<Rightarrow> Error + (u8 \<times> fd option)" where
  "handle_vring_fd_request buf files =
     (if length buf > MAX_MSG_SIZE \<or> length buf < size_of VhostUserU64_T then Inl InvalidMessage
      else
        (let msg = from_slice VhostUserU64_T (take (size_of VhostUserU64_T) buf) in
         if \<not> is_valid VhostUserU64_T msg then Inl InvalidMessage
         else
           (let has_fd = (u64_value msg AND 0x100 = 0);
                file = take_single_file files in
            if has_fd \<and> file = None \<or> \<not> has_fd \<and> file \<noteq> None then Inl InvalidMessage
            else Inr (ucast (u64_value msg), file))))"

definition handle_SET_VRING_CALL ::
    "'b VhostUserBackendReqHandler \<Rightarrow> 's sock_ops \<Rightarrow> VhostUserMsgHeader \<Rightarrow> nat \<Rightarrow> u8 list \<Rightarrow> fd list option
     \<Rightarrow> ('s, 'b, unit) brh" where
  "handle_SET_VRING_CALL B so hdr sz buf files =
     thenM (liftR (check_request_size hdr sz (size_of VhostUserU64_T)))
       (bindM (liftR (handle_vring_fd_request buf files)) (\<lambda>(index, file).
         bindM (catchM (on_backend (be_set_vring_call B index file))) (\<lambda>res.
           send_ack_message so hdr res)))"

definition handle_SET_VRING_KICK ::
    "'b VhostUserBackendReqHandler \<Rightarrow> 's sock_ops \<Rightarrow> VhostUserMsgHeader \<Rightarrow> nat \<Rightarrow> u8 list \<Rightarrow> fd list option
     \<Rightarrow> ('s, 'b, unit) brh" where
  "handle_SET_VRING_KICK B so hdr sz buf files =
     thenM (liftR (check_request_size hdr sz (size_of VhostUserU64_T)))
       (bindM (liftR (handle_vring_fd_request buf files)) (\<lambda>(index, file).
         bindM (catchM (on_backend (be_set_vring_kick B index file))) (\<lambda>res.
           send_ack_message so hdr res)))"

definition handle_SET_VRING_ERR ::
    "'b VhostUserBackendReqHandler \<Rightarrow> 's sock_ops \<Rightarrow> VhostUserMsgHeader \<Rightarrow> nat \<Rightarrow> u8 list \<Rightarrow> fd list option
     \<Rightarrow> ('s, 'b, unit) brh" where
  "handle_SET_VRING_ERR B so hdr sz buf files =
     thenM (liftR (check_request_size hdr sz (size_of VhostUserU64_T)))
       (bindM (liftR (handle_vring_fd_request buf files)) (\<lambda>(index, file).
         bindM (catchM (on_backend (be_set_vring_err B index file))) (\<lambda>res.
           send_ack_message so hdr res)))"

definition handle_GET_PROTOCOL_FEATURES ::
    "'b VhostUserBackendReqHandler \<Rightarrow> 's sock_ops \<Rightarrow> VhostUserMsgHeader \<Rightarrow> nat \<Rightarrow> u8 list \<Rightarrow> ('s, 'b, unit) brh" where
  "handle_GET_PROTOCOL_FEATURES B so hdr sz buf =
     thenM (liftR (check_request_size hdr sz 0))
       (bindM (on_backend (be_get_protocol_features B)) (\<lambda>pf.
         let features = pf OR pf_bits PF_REPLY_ACK;
             msg = VhostUserU64_new features in
         thenM (send_reply_message VhostUserU64_T so hdr msg)
           update_reply_ack_flag))"

definition handle_SET_PROTOCOL_FEATURES ::
    "'b VhostUserBackendReqHandler \<Rightarrow> 's sock_ops \<Rightarrow> VhostUserMsgHeader \<Rightarrow> nat \<Rightarrow> u8 list \<Rightarrow> ('s, 'b, unit) brh" where
  "handle_SET_PROTOCOL_FEATURES B so hdr sz buf =
     bindM (liftR (extract_request_body VhostUserU64_T hdr sz buf)) (\<lambda>msg.
       bindM (catchM (on_backend (be_set_protocol_features B (u64_value msg)))) (\<lambda>res.
         thenM (modifyM (\<lambda>h. h\<lparr>bh_acked_protocol_features := u64_value msg\<rparr>))
         (thenM update_reply_ack_flag
           (send_ack_message so hdr res))))"

definition handle_GET_QUEUE_NUM ::
    "'b VhostUserBackendReqHandler \<Rightarrow> 's sock_ops \<Rightarrow> VhostUserMsgHeader \<Rightarrow> nat \<Rightarrow> u8 list \<Rightarrow> ('s, 'b, unit) brh" where
  "handle_GET_QUEUE_NUM B so hdr sz buf =
     thenM (check_proto_feature PF_MQ)
     (thenM (liftR (check_request_size hdr sz 0))
       (bindM (on_backend (be_get_queue_num B)) (\<lambda>num.
         send_reply_message VhostUserU64_T so hdr (VhostUserU64_new num))))"

definition handle_SET_VRING_ENABLE ::
    "'b VhostUserBackendReqHandler \<Rightarrow> 's sock_ops \<Rightarrow> VhostUserMsgHeader \<Rightarrow> nat \<Rightarrow> u8 list \<Rightarrow> ('s, 'b, unit) brh" where
  "handle_SET_VRING_ENABLE B so hdr sz buf =
     bindM (liftR (extract_request_body VhostUserVringState_T hdr sz buf)) (\<lambda>msg.
       thenM (check_feature VF_PROTOCOL_FEATURES)
         (bindM (if vs_num msg = 1 then retM True
                 else if vs_num msg = 0 then retM False
                 else failM InvalidParam) (\<lambda>enable.
           bindM (catchM (on_backend (be_set_vring_enable B (vs_index msg) enable))) (\<lambda>res.
             send_ack_message so hdr res))))"

definition get_config ::
    "'b VhostUserBackendReqHandler \<Rightarrow> 's sock_ops \<Rightarrow> VhostUserMsgHeader \<Rightarrow> u8 list \<Rightarrow> ('s, 'b, unit) brh" where
  "get_config B so hdr buf =
     (let payload_offset = size_of VhostUserConfig_T in
      if length buf > MAX_MSG_SIZE \<or> length buf < payload_offset then failM InvalidMessage
      else
        (let msg = from_slice VhostUserConfig_T (take payload_offset buf) in
         if \<not> is_valid VhostUserConfig_T msg then failM InvalidMessage
         else if length buf - payload_offset \<noteq> unat (cfg_size msg) then failM InvalidMessage
         else (case config_flags_from_bits (cfg_flags msg) of
             None \<Rightarrow> failM InvalidMessage
           | Some flags \<Rightarrow>
               bindM (catchM (on_backend (be_get_config B (cfg_offset msg) (cfg_size msg) flags)))
                 (\<lambda>res. case res of
                    Inr data \<Rightarrow>
                      if length data = unat (cfg_size msg)
                      then send_reply_with_payload VhostUserConfig_T so hdr
                             (VhostUserConfig_new (cfg_offset msg) (word_of_nat (length data)) flags)
                             data
                      else send_reply_message VhostUserConfig_T so hdr
                             (VhostUserConfig_new (cfg_offset msg) 0 flags)
                  | Inl _ \<Rightarrow>
                      send_reply_message VhostUserConfig_T so hdr
                        (VhostUserConfig_new (cfg_offset msg) 0 flags)))))"

definition handle_GET_CONFIG ::
    "'b VhostUserBackendReqHandler \<Rightarrow> 's sock_ops \<Rightarrow> VhostUserMsgHeader \<Rightarrow> nat \<Rightarrow> u8 list \<Rightarrow> ('s, 'b, unit) brh" where
  "handle_GET_CONFIG B so hdr sz buf =
     thenM (check_proto_feature PF_CONFIG)
     (thenM (liftR (check_request_size hdr sz (unat (get_size hdr))))
       (get_config B so hdr buf))"

definition set_config ::
    "'b VhostUserBackendReqHandler \<Rightarrow> nat \<Rightarrow> u8 list \<Rightarrow> ('s, 'b, unit) brh" where
  "set_config B sz buf =
     (let cs = size_of VhostUserConfig_T in
      if sz > MAX_MSG_SIZE \<or> sz < cs then failM InvalidMessage
      else
        (let msg = from_slice VhostUserConfig_T (take cs buf) in
         if \<not> is_valid VhostUserConfig_T msg then failM InvalidMessage
         else if sz - cs \<noteq> unat (cfg_size msg) then failM InvalidMessage
         else (case config_flags_from_bits (cfg_flags msg) of
             None \<Rightarrow> failM InvalidMessage
           | Some flags \<Rightarrow> on_backend (be_set_config B (cfg_offset msg) (drop cs buf) flags))))"

definition handle_SET_CONFIG ::
    "'b VhostUserBackendReqHandler \<Rightarrow> 's sock_ops \<Rightarrow> VhostUserMsgHeader \<Rightarrow> nat \<Rightarrow> u8 list \<Rightarrow> ('s, 'b, unit) brh" where
  "handle_SET_CONFIG B so hdr sz buf =
     thenM (check_proto_feature PF_CONFIG)
     (thenM (liftR (check_request_size hdr sz (unat (get_size hdr))))
       (bindM (catchM (set_config B sz buf)) (\<lambda>res. send_ack_message so hdr res)))"

definition set_backend_req_fd ::
    "'b VhostUserBackendReqHandler \<Rightarrow> sockopt \<Rightarrow> fd list option \<Rightarrow> ('s, 'b, unit) brh" where
  "set_backend_req_fd B opt files =
     (case take_single_file files of
        None \<Rightarrow> failM InvalidMessage
      | Some file \<Rightarrow>
          thenM (liftR (validate_unix_stream_socket_fd opt file))
            (on_backend (callM (be_set_backend_req_fd B file))))"

definition handle_SET_BACKEND_REQ_FD ::
    "'b VhostUserBackendReqHandler \<Rightarrow> 's sock_ops \<Rightarrow> sockopt \<Rightarrow> VhostUserMsgHeader \<Rightarrow> nat \<Rightarrow> fd list option
     \<Rightarrow> ('s, 'b, unit) brh" where
  "handle_SET_BACKEND_REQ_FD B so opt hdr sz files =
     thenM (check_proto_feature PF_BACKEND_REQ)
     (thenM (liftR (check_request_size hdr sz (unat (get_size hdr))))
       (bindM (catchM (set_backend_req_fd B opt files)) (\<lambda>res. send_ack_message so hdr res)))"

definition handle_GET_SHARED_OBJECT ::
    "'b VhostUserBackendReqHandler \<Rightarrow> 's sock_ops \<Rightarrow> VhostUserMsgHeader \<Rightarrow> nat \<Rightarrow> u8 list \<Rightarrow> ('s, 'b, unit) brh" where
  "handle_GET_SHARED_OBJECT B so hdr sz buf =
     thenM (check_proto_feature PF_SHARED_OBJECT)
     (thenM (liftR (check_request_size hdr sz (unat (get_size hdr))))
     (bindM (liftR (extract_request_body VhostUserSharedMsg_T hdr sz buf)) (\<lambda>msg.
       bindM (new_reply_header (size_of VhostUserEmpty_T) hdr 0) (\<lambda>reply_hdr.
         bindM (catchM (on_backend (be_get_shared_object B msg))) (\<lambda>res. case res of
             Inr file \<Rightarrow> on_sock (send_message FH VhostUserEmpty_T so reply_hdr () (Some [file]))
           | Inl _ \<Rightarrow> on_sock (send_message FH VhostUserEmpty_T so reply_hdr () None))))))"

definition handle_GET_INFLIGHT_FD ::
    "'b VhostUserBackendReqHandler \<Rightarrow> 's sock_ops \<Rightarrow> VhostUserMsgHeader \<Rightarrow> nat \<Rightarrow> u8 list \<Rightarrow> ('s, 'b, unit) brh" where
  "handle_GET_INFLIGHT_FD B so hdr sz buf =
     thenM (check_proto_feature PF_INFLIGHT_SHMFD)
     (bindM (liftR (extract_request_body VhostUserInflight_T hdr sz buf)) (\<lambda>msg.
       bindM (on_backend (be_get_inflight_fd B msg)) (\<lambda>(inflight, file).
         bindM (new_reply_header (size_of VhostUserInflight_T) hdr 0) (\<lambda>reply_hdr.
           on_sock (send_message FH VhostUserInflight_T so reply_hdr inflight (Some [file]))))))"

definition handle_SET_INFLIGHT_FD ::
    "'b VhostUserBackendReqHandler \<Rightarrow> 's sock_ops \<Rightarrow> VhostUserMsgHeader \<Rightarrow> nat \<Rightarrow> u8 list \<Rightarrow> fd list option
     \<Rightarrow> ('s, 'b, unit) brh" where
  "handle_SET_INFLIGHT_FD B so hdr sz buf files =
     thenM (check_proto_feature PF_INFLIGHT_SHMFD)
     (case take_single_file files of
        None \<Rightarrow> failM IncorrectFds
      | Some file \<Rightarrow>
          bindM (liftR (extract_request_body VhostUserInflight_T hdr sz buf)) (\<lambda>msg.
            bindM (catchM (on_backend (be_set_inflight_fd B msg file))) (\<lambda>res.
              send_ack_message so hdr res)))"

definition set_gpu_socket ::
    "'b VhostUserBackendReqHandler \<Rightarrow> sockopt \<Rightarrow> fd list option \<Rightarrow> ('s, 'b, unit) brh" where
  "set_gpu_socket B opt files =
     (case take_single_file files of
        None \<Rightarrow> failM InvalidMessage
      | Some file \<Rightarrow>
          thenM (liftR (validate_unix_stream_socket_fd opt file))
            (on_backend (be_set_gpu_socket B file)))"

definition handle_GPU_SET_SOCKET ::
    "'b VhostUserBackendReqHandler \<Rightarrow> 's sock_ops \<Rightarrow> sockopt \<Rightarrow> VhostUserMsgHeader \<Rightarrow> fd list option
     \<Rightarrow> ('s, 'b, unit) brh" where
  "handle_GPU_SET_SOCKET B so opt hdr files =
     bindM (catchM (set_gpu_socket B opt files)) (\<lambda>res. send_ack_message so hdr res)"

definition handle_GET_MAX_MEM_SLOTS ::
    "'b VhostUserBackendReqHandler \<Rightarrow> 's sock_ops \<Rightarrow> VhostUserMsgHeader \<Rightarrow> nat \<Rightarrow> u8 list \<Rightarrow> ('s, 'b, unit) brh" where
  "handle_GET_MAX_MEM_SLOTS B so hdr sz buf =
     thenM (check_proto_feature PF_CONFIGURE_MEM_SLOTS)
     (thenM (liftR (check_request_size hdr sz 0))
       (bindM (on_backend (be_get_max_mem_slots B)) (\<lambda>num.
         send_reply_message VhostUserU64_T so hdr (VhostUserU64_new num))))"

definition handle_ADD_MEM_REG ::
    "'b VhostUserBackendReqHandler \<Rightarrow> 's sock_ops \<Rightarrow> VhostUserMsgHeader \<Rightarrow> nat \<Rightarrow> u8 list \<Rightarrow> fd list option
     \<Rightarrow> ('s, 'b, unit) brh" where
  "handle_ADD_MEM_REG B so hdr sz buf files =
     thenM (check_proto_feature PF_CONFIGURE_MEM_SLOTS)
     (case files of
        None \<Rightarrow> failM InvalidParam
      | Some fs \<Rightarrow>
          if length fs \<noteq> 1 then failM InvalidParam
          else
            bindM (liftR (extract_request_body VhostUserSingleMemoryRegion_T hdr sz buf)) (\<lambda>msg.
              bindM (catchM (on_backend (be_add_mem_region B msg (fs ! 0)))) (\<lambda>res.
                send_ack_message so hdr res)))"

definition handle_REM_MEM_REG ::
    "'b VhostUserBackendReqHandler \<Rightarrow> 's sock_ops \<Rightarrow> VhostUserMsgHeader \<Rightarrow> nat \<Rightarrow> u8 list \<Rightarrow> ('s, 'b, unit) brh" where
  "handle_REM_MEM_REG B so hdr sz buf =
     thenM (check_proto_feature PF_CONFIGURE_MEM_SLOTS)
     (bindM (liftR (extract_request_body VhostUserSingleMemoryRegion_T hdr sz buf)) (\<lambda>msg.
       bindM (catchM (on_backend (be_remove_mem_region B msg))) (\<lambda>res.
         send_ack_message so hdr res)))"

definition handle_SET_DEVICE_STATE_FD ::
    "'b VhostUserBackendReqHandler \<Rightarrow> 's sock_ops \<Rightarrow> VhostUserMsgHeader \<Rightarrow> nat \<Rightarrow> u8 list \<Rightarrow> fd list option
     \<Rightarrow> ('s, 'b, unit) brh" where
  "handle_SET_DEVICE_STATE_FD B so hdr sz buf files =
     (case take_single_file files of
        None \<Rightarrow> failM IncorrectFds
      | Some file \<Rightarrow>
          bindM (liftR (extract_request_body VhostUserTransferDeviceState_T hdr sz buf)) (\<lambda>msg.
          bindM (new_reply_header (size_of VhostUserU64_T) hdr 0) (\<lambda>reply_hdr.
            case direction_try_from (tds_direction msg) of
              None \<Rightarrow> failM InvalidMessage
            | Some direction \<Rightarrow> (case phase_try_from (tds_phase msg) of
                None \<Rightarrow> failM InvalidMessage
              | Some phase \<Rightarrow>
                  bindM (catchM (on_backend (be_set_device_state_fd B direction phase file)))
                    (\<lambda>res. case res of
                       Inr None \<Rightarrow>
                         on_sock (send_message FH VhostUserU64_T so reply_hdr
                                    (VhostUserU64_new 0x100) None)
                     | Inr (Some f) \<Rightarrow>
                         on_sock (send_message FH VhostUserU64_T so reply_hdr
                                    (VhostUserU64_new 0) (Some [f]))
                     | Inl _ \<Rightarrow>
                         on_sock (send_message FH VhostUserU64_T so reply_hdr
                                    (VhostUserU64_new 0x101) None))))))"

definition handle_CHECK_DEVICE_STATE ::
    "'b VhostUserBackendReqHandler \<Rightarrow> 's sock_ops \<Rightarrow> VhostUserMsgHeader \<Rightarrow> nat \<Rightarrow> u8 list \<Rightarrow> ('s, 'b, unit) brh" where
  "handle_CHECK_DEVICE_STATE B so hdr sz buf =
     bindM (catchM (on_backend (be_check_device_state B))) (\<lambda>res.
       let msg = (case res of Inr _ \<Rightarrow> VhostUserU64_new 0 | Inl _ \<Rightarrow> VhostUserU64_new 1) in
       send_reply_message VhostUserU64_T so hdr msg)"

definition handle_GET_SHMEM_CONFIG ::
    "'b VhostUserBackendReqHandler \<Rightarrow> 's sock_ops \<Rightarrow> VhostUserMsgHeader \<Rightarrow> nat \<Rightarrow> u8 list \<Rightarrow> ('s, 'b, unit) brh" where
  "handle_GET_SHMEM_CONFIG B so hdr sz buf =
     thenM (check_proto_feature PF_SHMEM)
     (bindM (on_backend (be_get_shmem_config B)) (\<lambda>msg.
       send_reply_message VhostUserShMemConfig_T so hdr msg))"

definition handle_POSTCOPY_ADVISE ::
    "'b VhostUserBackendReqHandler \<Rightarrow> 's sock_ops \<Rightarrow> VhostUserMsgHeader \<Rightarrow> nat \<Rightarrow> u8 list \<Rightarrow> ('s, 'b, unit) brh" where
  "handle_POSTCOPY_ADVISE B so hdr sz buf =
     thenM (check_proto_feature PF_PAGEFAULT)
     (bindM (new_reply_header (size_of VhostUserEmpty_T) hdr 0) (\<lambda>reply_hdr.
       bindM (catchM (on_backend (be_postcopy_advice B))) (\<lambda>res. case res of
           Inr uffd_file \<Rightarrow>
             on_sock (send_message FH VhostUserEmpty_T so reply_hdr () (Some [uffd_file]))
         | Inl _ \<Rightarrow> on_sock (send_message FH VhostUserEmpty_T so reply_hdr () None))))"

definition handle_POSTCOPY_LISTEN ::
    "'b VhostUserBackendReqHandler \<Rightarrow> 's sock_ops \<Rightarrow> VhostUserMsgHeader \<Rightarrow> nat \<Rightarrow> u8 list \<Rightarrow> ('s, 'b, unit) brh" where
  "handle_POSTCOPY_LISTEN B so hdr sz buf =
     thenM (check_proto_feature PF_PAGEFAULT)
     (bindM (catchM (on_backend (be_postcopy_listen B))) (\<lambda>res. send_ack_message so hdr res))"

definition handle_POSTCOPY_END ::
    "'b VhostUserBackendReqHandler \<Rightarrow> 's sock_ops \<Rightarrow> VhostUserMsgHeader \<Rightarrow> nat \<Rightarrow> u8 list \<Rightarrow> ('s, 'b, unit) brh" where
  "handle_POSTCOPY_END B so hdr sz buf =
     thenM (check_proto_feature PF_PAGEFAULT)
     (bindM (catchM (on_backend (be_postcopy_end B))) (\<lambda>res. send_ack_message so hdr res))"

definition handle_SET_LOG_BASE ::
    "'b VhostUserBackendReqHandler \<Rightarrow> 's sock_ops \<Rightarrow> VhostUserMsgHeader \<Rightarrow> nat \<Rightarrow> u8 list \<Rightarrow> fd list option
     \<Rightarrow> ('s, 'b, unit) brh" where
  "handle_SET_LOG_BASE B so hdr sz buf files =
     thenM (check_proto_feature PF_LOG_SHMFD)
     (case take_single_file files of
        None \<Rightarrow> failM IncorrectFds
      | Some file \<Rightarrow>
          bindM (liftR (extract_request_body VhostUserLog_T hdr sz buf)) (\<lambda>msg.
            thenM (on_backend (be_set_log_base B msg file))
              (send_reply_message VhostUserLog_T so hdr msg)))"

fun dispatch ::
    "'b VhostUserBackendReqHandler \<Rightarrow> 's sock_ops \<Rightarrow> sockopt \<Rightarrow> VhostUserMsgHeader \<Rightarrow> nat \<Rightarrow> u8 list
     \<Rightarrow> fd list option \<Rightarrow> FrontendReq \<Rightarrow> ('s, 'b, unit) brh" where
  "dispatch B so opt hdr sz buf files SET_OWNER =
     handle_SET_OWNER B so hdr sz buf"
| "dispatch B so opt hdr sz buf files RESET_OWNER =
     handle_RESET_OWNER B so hdr sz buf"
| "dispatch B so opt hdr sz buf files RESET_DEVICE =
     handle_RESET_DEVICE B so hdr sz buf"
| "dispatch B so opt hdr sz buf files GET_FEATURES =
     handle_GET_FEATURES B so hdr sz buf"
| "dispatch B so opt hdr sz buf files SET_FEATURES =
     handle_SET_FEATURES B so hdr sz buf"
| "dispatch B so opt hdr sz buf files SET_MEM_TABLE =
     handle_SET_MEM_TABLE B so hdr sz buf files"
| "dispatch B so opt hdr sz buf files SET_VRING_NUM =
     handle_SET_VRING_NUM B so hdr sz buf"
| "dispatch B so opt hdr sz buf files SET_VRING_ADDR =
     handle_SET_VRING_ADDR B so hdr sz buf"
| "dispatch B so opt hdr sz buf files SET_VRING_BASE =
     handle_SET_VRING_BASE B so hdr sz buf"
| "dispatch B so opt hdr sz buf files GET_VRING_BASE =
     handle_GET_VRING_BASE B so hdr sz buf"
| "dispatch B so opt hdr sz buf files SET_VRING_CALL =
     handle_SET_VRING_CALL B so hdr sz buf files"
| "dispatch B so opt hdr sz buf files SET_VRING_KICK =
     handle_SET_VRING_KICK B so hdr sz buf files"
| "dispatch B so opt hdr sz buf files SET_VRING_ERR =
     handle_SET_VRING_ERR B so hdr sz buf files"
| "dispatch B so opt hdr sz buf files GET_PROTOCOL_FEATURES =
     handle_GET_PROTOCOL_FEATURES B so hdr sz buf"
| "dispatch B so opt hdr sz buf files SET_PROTOCOL_FEATURES =
     handle_SET_PROTOCOL_FEATURES B so hdr sz buf"
| "dispatch B so opt hdr sz buf files GET_QUEUE_NUM =
     handle_GET_QUEUE_NUM B so hdr sz buf"
| "dispatch B so opt hdr sz buf files SET_VRING_ENABLE =
     handle_SET_VRING_ENABLE B so hdr sz buf"
| "dispatch B so opt hdr sz buf files GET_CONFIG =
     handle_GET_CONFIG B so hdr sz buf"
| "dispatch B so opt hdr sz buf files SET_CONFIG =
     handle_SET_CONFIG B so hdr sz buf"
| "dispatch B so opt hdr sz buf files SET_BACKEND_REQ_FD =
     handle_SET_BACKEND_REQ_FD B so opt hdr sz files"
| "dispatch B so opt hdr sz buf files GET_SHARED_OBJECT =
     handle_GET_SHARED_OBJECT B so hdr sz buf"
| "dispatch B so opt hdr sz buf files GET_INFLIGHT_FD =
     handle_GET_INFLIGHT_FD B so hdr sz buf"
| "dispatch B so opt hdr sz buf files SET_INFLIGHT_FD =
     handle_SET_INFLIGHT_FD B so hdr sz buf files"
| "dispatch B so opt hdr sz buf files GPU_SET_SOCKET =
     handle_GPU_SET_SOCKET B so opt hdr files"
| "dispatch B so opt hdr sz buf files GET_MAX_MEM_SLOTS =
     handle_GET_MAX_MEM_SLOTS B so hdr sz buf"
| "dispatch B so opt hdr sz buf files ADD_MEM_REG =
     handle_ADD_MEM_REG B so hdr sz buf files"
| "dispatch B so opt hdr sz buf files REM_MEM_REG =
     handle_REM_MEM_REG B so hdr sz buf"
| "dispatch B so opt hdr sz buf files SET_DEVICE_STATE_FD =
     handle_SET_DEVICE_STATE_FD B so hdr sz buf files"
| "dispatch B so opt hdr sz buf files CHECK_DEVICE_STATE =
     handle_CHECK_DEVICE_STATE B so hdr sz buf"
| "dispatch B so opt hdr sz buf files GET_SHMEM_CONFIG =
     handle_GET_SHMEM_CONFIG B so hdr sz buf"
| "dispatch B so opt hdr sz buf files POSTCOPY_ADVISE =
     handle_POSTCOPY_ADVISE B so hdr sz buf"
| "dispatch B so opt hdr sz buf files POSTCOPY_LISTEN =
     handle_POSTCOPY_LISTEN B so hdr sz buf"
| "dispatch B so opt hdr sz buf files POSTCOPY_END =
     handle_POSTCOPY_END B so hdr sz buf"
| "dispatch B so opt hdr sz buf files SET_LOG_BASE =
     handle_SET_LOG_BASE B so hdr sz buf files"
| "dispatch B so opt hdr sz buf files _ = failM InvalidMessage"

definition recv_request_body ::
    "'s sock_ops \<Rightarrow> VhostUserMsgHeader \<Rightarrow> ('s, 'b, nat \<times> u8 list) brh" where
  "recv_request_body so hdr =
     (if get_size hdr = 0 then retM (0, [])
      else
        (let len = unat (get_size hdr) in
         bindM (on_sock (recv_data so len)) (\<lambda>(size2, rbuf).
           if size2 \<noteq> len then failM InvalidMessage else retM (size2, rbuf))))"

definition handle_request ::
    "'b VhostUserBackendReqHandler \<Rightarrow> 's sock_ops \<Rightarrow> sockopt \<Rightarrow> ('s, 'b, unit) brh" where
  "handle_request B so opt =
     thenM check_state
     (bindM (on_sock (recv_header FH so)) (\<lambda>(hdr, files).
       thenM (liftR (check_attached_files hdr files))
       (bindM (recv_request_body so hdr) (\<lambda>(sz, buf).
         case get_code FrontendReq_Req hdr of
           Inr code \<Rightarrow> dispatch B so opt hdr sz buf files code
         | Inl _ \<Rightarrow> failM InvalidMessage))))"


subsection \<open>Facts shared by the arms\<close>

lemmas arm_defs = handle_SET_OWNER_def handle_RESET_OWNER_def handle_RESET_DEVICE_def
  handle_GET_FEATURES_def handle_SET_FEATURES_def handle_SET_MEM_TABLE_def
  handle_SET_VRING_NUM_def handle_SET_VRING_ADDR_def handle_SET_VRING_BASE_def
  handle_GET_VRING_BASE_def handle_SET_VRING_CALL_def handle_SET_VRING_KICK_def
  handle_SET_VRING_ERR_def handle_GET_PROTOCOL_FEATURES_def handle_SET_PROTOCOL_FEATURES_def
  handle_GET_QUEUE_NUM_def handle_SET_VRING_ENABLE_def handle_GET_CONFIG_def handle_SET_CONFIG_def
  handle_SET_BACKEND_REQ_FD_def handle_GET_SHARED_OBJECT_def handle_GET_INFLIGHT_FD_def
  handle_SET_INFLIGHT_FD_def handle_GPU_SET_SOCKET_def handle_GET_MAX_MEM_SLOTS_def
  handle_ADD_MEM_REG_def handle_REM_MEM_REG_def handle_SET_DEVICE_STATE_FD_def
  handle_CHECK_DEVICE_STATE_def handle_GET_SHMEM_CONFIG_def handle_POSTCOPY_ADVISE_def
  handle_POSTCOPY_LISTEN_def handle_POSTCOPY_END_def handle_SET_LOG_BASE_def

lemma check_proto_feature_apply:
  "check_proto_feature f h =
     Some (if bh_acked_protocol_features h AND pf_bits f \<noteq> 0 then Inr ()
           else Inl (InactiveOperation (pf_bits f)), h)"
  by (simp add: check_proto_feature_def effect_defs)

lemma check_feature_apply:
  "check_feature f h =
     Some (if bh_acked_virtio_features h AND vf_bits f \<noteq> 0 then Inr ()
           else Inl (InactiveFeature (vf_bits f)), h)"
  by (simp add: check_feature_def effect_defs)

lemma check_state_apply:
  "check_state h =
     Some (case bh_error h of None \<Rightarrow> Inr () | Some e \<Rightarrow> Inl (SocketBroken (RawOs e)), h)"
  by (simp add: check_state_def effect_defs split: option.splits)

lemma thenM_fail: "m h = Some (Inl e, h') \<Longrightarrow> thenM m n h = Some (Inl e, h')"
  by (simp add: thenM_def bindM_def)

lemma thenM_ok: "m h = Some (Inr x, h') \<Longrightarrow> thenM m n h = n h'"
  by (simp add: thenM_def bindM_def)

text \<open>A predicate that does not look at the socket or at the device is kept by their operations.\<close>

lemma preserves_on_sock:
  "(\<And>h s'. P h \<Longrightarrow> P (h\<lparr>bh_main_sock := s'\<rparr>)) \<Longrightarrow> preserves P (on_sock m)"
  by (auto simp: preserves_def on_sock_def split: option.splits)

lemma preserves_on_backend:
  "(\<And>h b'. P h \<Longrightarrow> P (h\<lparr>bh_backend := b'\<rparr>)) \<Longrightarrow> preserves P (on_backend m)"
  by (auto simp: preserves_def on_backend_def split: option.splits)

subsection \<open>The acknowledgement flag\<close>

text \<open>
  The flag is on exactly when the protocol features were offered and \<open>REPLY_ACK\<close> was acked.
\<close>

definition ack_inv :: "('s, 'b) BackendReqHandler \<Rightarrow> bool" where
  "ack_inv h \<longleftrightarrow> (bh_reply_ack_enabled h \<longleftrightarrow>
     bh_virtio_features h AND vf_bits VF_PROTOCOL_FEATURES \<noteq> 0
     \<and> bh_acked_protocol_features h AND pf_bits PF_REPLY_ACK \<noteq> 0)"

lemma ack_inv_frame [simp]:
  "ack_inv (h\<lparr>bh_main_sock := s\<rparr>) = ack_inv h"
  "ack_inv (h\<lparr>bh_backend := b\<rparr>) = ack_inv h"
  "ack_inv (h\<lparr>bh_acked_virtio_features := v\<rparr>) = ack_inv h"
  "ack_inv (h\<lparr>bh_error := e\<rparr>) = ack_inv h"
  by (simp_all add: ack_inv_def)

lemma preserves_ack_inv [preserve_intros]:
  "preserves ack_inv (on_sock m)"
  "preserves ack_inv (on_backend m')"
  "preserves ack_inv check_state"
  "preserves ack_inv (check_feature f)"
  "preserves ack_inv (check_proto_feature pf)"
  "preserves ack_inv update_reply_ack_flag"
  by (simp_all add: preserves_on_sock preserves_on_backend)
    (auto simp: preserves_def check_state_apply check_feature_apply check_proto_feature_apply
      update_reply_ack_flag_def modifyM_def ack_inv_def Let_def)

lemma update_reply_ack_flag_establishes:
  "update_reply_ack_flag h = Some (r, h') \<Longrightarrow> ack_inv h'"
  by (auto simp: update_reply_ack_flag_def modifyM_def ack_inv_def Let_def)

lemma establish_ack_inv [preserve_intros]:
  "preserves ack_inv (thenM (modifyM f) update_reply_ack_flag)"
  "preserves ack_inv n \<Longrightarrow> preserves ack_inv (thenM (modifyM f) (thenM update_reply_ack_flag n))"
  unfolding preserves_def
  by (auto elim!: thenM_SomeE simp: modifyM_apply dest: update_reply_ack_flag_establishes)

lemma preserves_replies [preserve_intros]:
  "preserves ack_inv (new_reply_header n hdr k)"
  "preserves ack_inv (send_ack_message so hdr res)"
  "preserves ack_inv (send_reply_message T so hdr msg)"
  "preserves ack_inv (send_reply_with_payload T so hdr msg pl)"
  unfolding new_reply_header_def send_ack_message_def send_reply_message_def
    send_reply_with_payload_def Let_def
  by (intro preserve_intros)+

lemma preserves_helpers [preserve_intros]:
  "preserves ack_inv (set_mem_table B hdr sz buf files)"
  "preserves ack_inv (get_config B so hdr buf)"
  "preserves ack_inv (set_config B sz buf)"
  "preserves ack_inv (set_backend_req_fd B opt files)"
  "preserves ack_inv (set_gpu_socket B opt files)"
  "preserves ack_inv (recv_request_body so hdr)"
  unfolding set_mem_table_def get_config_def set_config_def set_backend_req_fd_def
    set_gpu_socket_def recv_request_body_def Let_def
  by (intro preserve_intros preserves_modifyM; simp)+

lemma preserves_dispatch [preserve_intros]:
  "preserves ack_inv (dispatch B so opt hdr sz buf files code)"
  by (cases code; simp only: dispatch.simps arm_defs Let_def; intro preserve_intros)

lemma preserves_handle_request: "preserves ack_inv (handle_request B so opt)"
  unfolding handle_request_def by (intro preserve_intros)

text \<open>
  The states of a handler: a new one, those after each request, whatever the outcome, and those
  after it was marked as failed.
\<close>

inductive serving ::
    "'b VhostUserBackendReqHandler \<Rightarrow> 's sock_ops \<Rightarrow> sockopt \<Rightarrow> ('s, 'b) BackendReqHandler \<Rightarrow> bool"
  for B so opt where
  serving_new: "serving B so opt (brh_new sock be)"
| serving_request: "serving B so opt h \<Longrightarrow> handle_request B so opt h = Some (r, h') \<Longrightarrow>
    serving B so opt h'"
| serving_failed: "serving B so opt h \<Longrightarrow> serving B so opt (set_failed e h)"

text \<open>
  C13: in every state a handler can reach, acknowledgements are enabled exactly when the device
  has offered the protocol features and the frontend has acked \<open>REPLY_ACK\<close>, whatever requests
  were received, in whatever order, and whether they succeeded or failed half way.
\<close>

theorem reply_ack_flag_invariant:
  assumes "serving B so opt h"
  shows "bh_reply_ack_enabled h \<longleftrightarrow>
     bh_virtio_features h AND vf_bits VF_PROTOCOL_FEATURES \<noteq> 0
     \<and> bh_acked_protocol_features h AND pf_bits PF_REPLY_ACK \<noteq> 0"
proof -
  from assms have "ack_inv h"
  proof induction
    case (serving_new sock be)
    then show ?case by (simp add: ack_inv_def brh_new_def)
  next
    case (serving_request h r h')
    then show ?case using preservesD [OF preserves_handle_request] by blast
  next
    case (serving_failed h e)
    then show ?case by (simp add: set_failed_def)
  qed
  then show ?thesis by (simp add: ack_inv_def)
qed

subsection \<open>Requests that are refused\<close>

lemma on_sock_keeps_backend: "on_sock m h = Some (r, h') \<Longrightarrow> bh_backend h' = bh_backend h"
  by (auto simp: on_sock_def split: option.splits)

lemma new_reply_header_keeps: "new_reply_header n req k h = Some (r, h') \<Longrightarrow> h' = h"
  by (auto simp: new_reply_header_def check_state_apply effect_defs split: if_splits sum.splits
      option.splits)

text \<open>
  C22: a request of a protocol feature that the frontend has not acked is refused before the device is
  called, anything is sent or any field of the handler changes: for every request of the protocol
  that belongs to a feature, except \<open>SET_DEVICE_STATE_FD\<close> and \<open>CHECK_DEVICE_STATE\<close>, which the server
  does not check. The error names the feature, or says that the server has no such request.
\<close>

theorem unacked_feature_refused:
  assumes "protocol_feature code = Some f" and "bh_acked_protocol_features h AND pf_bits f = 0"
    and "code \<notin> {SET_DEVICE_STATE_FD, CHECK_DEVICE_STATE}"
  shows "dispatch B so opt hdr sz buf files code h
    = Some (Inl (if code \<in> {SEND_RARP, NET_SET_MTU, SET_VRING_ENDIAN, CREATE_CRYPTO_SESSION, CLOSE_CRYPTO_SESSION,
                            VRING_KICK, SET_STATUS, GET_STATUS}
                 then InvalidMessage else InactiveOperation (pf_bits f)), h)"
  using assms
  by (cases code) (auto simp: arm_defs check_proto_feature_apply failM_apply intro!: thenM_fail)

theorem unacked_feature_refused_witness:
  "\<forall>B so opt. dispatch B so opt (hdr_new FrontendReq_Req GET_CONFIG 0 0) 0 [] None GET_CONFIG
       (brh_new (0::nat) (0::nat))
     = Some (Inl (InactiveOperation 0x200), brh_new (0::nat) (0::nat))"
  using unacked_feature_refused [of GET_CONFIG PF_CONFIG "brh_new (0::nat) (0::nat)"]
  by (simp add: brh_new_def)

text \<open>
  C40: the requests that transfer the state of a device are served although their protocol feature was
  not acked: \<open>CHECK_DEVICE_STATE\<close> calls the device whatever was acked, and so does
  \<open>SET_DEVICE_STATE_FD\<close> for a message with one file and a valid body.
\<close>

theorem device_state_not_gated:
  assumes "bh_error h = None" and "get_code FrontendReq_Req hdr = Inr code"
  shows "(dispatch B so opt hdr sz buf files CHECK_DEVICE_STATE h = Some (r, h') \<longrightarrow>
        (\<exists>res. be_check_device_state B (bh_backend h) = Some (res, bh_backend h')))
    \<and> (dispatch B so opt hdr sz buf (Some [f]) SET_DEVICE_STATE_FD h = Some (r, h') \<longrightarrow>
        extract_request_body VhostUserTransferDeviceState_T hdr sz buf = Inr msg \<longrightarrow>
        direction_try_from (tds_direction msg) = Some direction \<longrightarrow> phase_try_from (tds_phase msg) = Some phase \<longrightarrow>
        (\<exists>res. be_set_device_state_fd B direction phase f (bh_backend h) = Some (res, bh_backend h')))"
proof (intro conjI impI)
  assume "dispatch B so opt hdr sz buf files CHECK_DEVICE_STATE h = Some (r, h')"
  then show "\<exists>res. be_check_device_state B (bh_backend h) = Some (res, bh_backend h')"
    by (auto simp: handle_CHECK_DEVICE_STATE_def send_reply_message_def catchM_def on_backend_def Let_def
        elim!: bindM_SomeE dest!: new_reply_header_keeps on_sock_keeps_backend split: option.splits)
next
  assume "dispatch B so opt hdr sz buf (Some [f]) SET_DEVICE_STATE_FD h = Some (r, h')"
    and "extract_request_body VhostUserTransferDeviceState_T hdr sz buf = Inr msg"
    and "direction_try_from (tds_direction msg) = Some direction" and "phase_try_from (tds_phase msg) = Some phase"
  with assms show "\<exists>res. be_set_device_state_fd B direction phase f (bh_backend h) = Some (res, bh_backend h')"
    by (auto simp: handle_SET_DEVICE_STATE_FD_def catchM_def on_backend_def Let_def liftR_apply
        new_reply_header_def check_state_apply retM_apply MAX_MSG_SIZE_def VhostUserU64_T_def
        simp del: direction_try_from_Some_iff phase_try_from_Some_iff elim!: bindM_SomeE thenM_SomeE dest!: on_sock_keeps_backend split: option.splits sum.splits if_splits)
qed

text \<open>
  Once a handler is marked as failed, every further request fails with that error number and
  leaves the handler, its socket and the device untouched.
\<close>

theorem failed_handler_refuses:
  "handle_request B so opt (set_failed e h)
     = Some (Inl (SocketBroken (RawOs e)), set_failed e h)"
  unfolding handle_request_def
  by (rule thenM_fail) (simp add: check_state_apply set_failed_def)

text \<open>
  An operation refuses when it ends with an error, if it ends, and leaves the device alone.
\<close>

definition refuses :: "('s, 'b, 'a) brh \<Rightarrow> bool" where
  "refuses m \<longleftrightarrow> (\<forall>h r h'. m h = Some (r, h') \<longrightarrow> isl r \<and> bh_backend h' = bh_backend h)"

named_theorems refuse_intros \<open>operations that refuse\<close>

lemma refuses_failM [refuse_intros]: "refuses (failM e)"
  by (simp add: refuses_def failM_def)

lemma refuses_liftR [refuse_intros]: "refuses (liftR (Inl e))"
  by (simp add: refuses_def liftR_def)

lemma refuses_thenM [refuse_intros]: "refuses m \<Longrightarrow> refuses (thenM m n)"
  unfolding refuses_def by (fastforce elim: thenM_SomeE)

lemma refuses_bindM [refuse_intros]: "refuses m \<Longrightarrow> refuses (bindM m f)"
  unfolding refuses_def by (fastforce elim: bindM_SomeE)

lemma refuses_check [refuse_intros]: "refuses n \<Longrightarrow> refuses (thenM (check_proto_feature f) n)"
  unfolding refuses_def
  by (fastforce elim: thenM_SomeE simp: check_proto_feature_apply split: if_splits)

lemma refuses_if [refuse_intros]: "refuses m \<Longrightarrow> refuses n \<Longrightarrow> refuses (if b then m else n)"
  by simp

lemma refuses_case_option [refuse_intros]:
  "refuses m \<Longrightarrow> (\<And>x. refuses (n x)) \<Longrightarrow> refuses (case v of None \<Rightarrow> m | Some x \<Rightarrow> n x)"
  by (cases v) auto

lemma refuses_ack:
  "refuses m \<Longrightarrow> refuses (bindM (catchM m) (\<lambda>res. send_ack_message so hdr res))"
  unfolding refuses_def
proof (intro allI impI)
  fix h r h'
  assume m: "\<forall>h r h'. m h = Some (r, h') \<longrightarrow> isl r \<and> bh_backend h' = bh_backend h"
    and "bindM (catchM m) (\<lambda>res. send_ack_message so hdr res) h = Some (r, h')"
  then obtain e t where e: "m h = Some (Inl e, t)" "send_ack_message so hdr (Inl e) t = Some (r, h')"
    by (auto elim!: bindM_SomeE simp: catchM_def isl_def split: option.splits) blast
  then have "isl r \<and> bh_backend h' = bh_backend t"
    by (auto simp: send_ack_message_def Let_def readM_apply liftR_apply elim!: bindM_SomeE thenM_SomeE
        dest!: new_reply_header_keeps on_sock_keeps_backend split: if_splits)
  with m e show "isl r \<and> bh_backend h' = bh_backend h" by auto
qed

lemma check_request_size_reply: "is_reply hdr \<Longrightarrow> check_request_size hdr sz n = Inl InvalidMessage"
  by (simp add: check_request_size_def)

lemma extract_request_body_reply:
  "is_reply hdr \<Longrightarrow> extract_request_body T hdr sz buf = Inl InvalidMessage"
  by (simp add: extract_request_body_def check_request_size_reply)

lemma new_reply_header_set_reply [simp]:
  "new_reply_header n (set_reply b hdr) k = new_reply_header n hdr k"
  by (simp add: new_reply_header_def get_code_def)

lemma replies_ignore_reply_flag [simp]:
  "send_ack_message so (set_reply b hdr) res = send_ack_message so hdr res"
  "send_reply_message T so (set_reply b hdr) msg = send_reply_message T so hdr msg"
  by (simp_all add: send_ack_message_def send_reply_message_def cong: if_cong)

text \<open>
  C23: which messages with the reply flag are executed as a request. \<open>GPU_SET_SOCKET\<close>,
  \<open>CHECK_DEVICE_STATE\<close>, \<open>GET_SHMEM_CONFIG\<close> and the three postcopy requests do not look at the flag:
  they do what they do for the request. Every other message with the flag ends with an error, and
  the device is not called.
\<close>

theorem reply_flag_checked:
  assumes "is_reply hdr"
  shows "if code \<in> {GPU_SET_SOCKET, CHECK_DEVICE_STATE, GET_SHMEM_CONFIG, POSTCOPY_ADVISE, POSTCOPY_LISTEN, POSTCOPY_END}
    then dispatch B so opt hdr sz buf files code h = dispatch B so opt (set_reply False hdr) sz buf files code h
    else (\<forall>r h'. dispatch B so opt hdr sz buf files code h = Some (r, h') \<longrightarrow> isl r \<and> bh_backend h' = bh_backend h)"
proof (cases "code \<in> {GPU_SET_SOCKET, CHECK_DEVICE_STATE, GET_SHMEM_CONFIG, POSTCOPY_ADVISE, POSTCOPY_LISTEN, POSTCOPY_END}")
  case True
  then show ?thesis by (auto simp: arm_defs set_gpu_socket_def)
next
  case False
  then have "refuses (dispatch B so opt hdr sz buf files code)"
    using assms
    by (cases code; simp only: dispatch.simps arm_defs insert_iff HOL.simp_thms set_mem_table_def
        check_request_size_reply extract_request_body_reply; intro refuse_intros refuses_ack)
  with False show ?thesis unfolding refuses_def by auto
qed

theorem reply_flag_checked_witness:
  "\<forall>B so opt. \<exists>r h'. dispatch B so opt (hdr_new FrontendReq_Req SET_OWNER HDR_REPLY 0) 0 [] None
      SET_OWNER (brh_new (0::nat) (7::nat)) = Some (r, h') \<and> isl r \<and> bh_backend h' = 7"
proof (intro allI)
  fix B :: "nat VhostUserBackendReqHandler" and so :: "nat sock_ops" and opt
  let ?h = "hdr_new FrontendReq_Req SET_OWNER HDR_REPLY 0"
  have run: "dispatch B so opt ?h 0 [] None SET_OWNER (brh_new (0::nat) (7::nat))
      = Some (Inl InvalidMessage, brh_new (0::nat) (7::nat))"
    by (simp add: handle_SET_OWNER_def check_request_size_reply HDR_REPLY_def liftR_def thenM_fail)
  have "is_reply ?h" by (simp add: HDR_REPLY_def)
  from reply_flag_checked [OF this, of SET_OWNER B so opt 0 "[]" None "brh_new 0 7"] run
  show "\<exists>r h'. dispatch B so opt ?h 0 [] None SET_OWNER (brh_new (0::nat) (7::nat)) = Some (r, h')
      \<and> isl r \<and> bh_backend h' = 7"
    by (simp add: brh_new_def)
qed

subsection \<open>A device for the witnesses\<close>

text \<open>A device that accepts every request and counts them.\<close>

definition tick :: "'a \<Rightarrow> (nat, Error, 'a) M" where
  "tick x = (\<lambda>n. Some (Inr x, Suc n))"

definition counting_device :: "nat VhostUserBackendReqHandler" where
  "counting_device =
     \<lparr>be_set_owner = tick (),
      be_reset_owner = tick (),
      be_reset_device = tick (),
      be_get_features = tick 0,
      be_set_features = (\<lambda>_. tick ()),
      be_set_mem_table = (\<lambda>_ _. tick ()),
      be_set_vring_num = (\<lambda>_ _. tick ()),
      be_set_vring_addr = (\<lambda>_ _ _ _ _ _. tick ()),
      be_set_vring_base = (\<lambda>_ _. tick ()),
      be_get_vring_base = (\<lambda>_. tick (VhostUserVringState_new 0 0)),
      be_set_vring_kick = (\<lambda>_ _. tick ()),
      be_set_vring_call = (\<lambda>_ _. tick ()),
      be_set_vring_err = (\<lambda>_ _. tick ()),
      be_get_protocol_features = tick 0,
      be_set_protocol_features = (\<lambda>_. tick ()),
      be_get_queue_num = tick 0,
      be_set_vring_enable = (\<lambda>_ _. tick ()),
      be_get_config = (\<lambda>_ _ _. tick []),
      be_set_config = (\<lambda>_ _ _. tick ()),
      be_set_backend_req_fd = (\<lambda>_ n. Some ((), Suc n)),
      be_set_gpu_socket = (\<lambda>_. tick ()),
      be_get_shared_object = (\<lambda>_. tick 5),
      be_get_inflight_fd = (\<lambda>_. tick (\<lparr>infl_mmap_size = 1, infl_mmap_offset = 0, infl_num_queues = 1, infl_queue_size = 1\<rparr>, 5)),
      be_set_inflight_fd = (\<lambda>_ _. tick ()),
      be_get_max_mem_slots = tick 0,
      be_add_mem_region = (\<lambda>_ _. tick ()),
      be_remove_mem_region = (\<lambda>_. tick ()),
      be_set_device_state_fd = (\<lambda>_ _ _. tick None),
      be_check_device_state = tick (),
      be_get_shmem_config = tick VhostUserShMemConfig_default,
      be_postcopy_advice = tick 5,
      be_postcopy_listen = tick (),
      be_postcopy_end = tick (),
      be_set_log_base = (\<lambda>_ _. tick ())\<rparr>"

text \<open>A new server, with nothing acked, whose peer has gone: the device checks its state.\<close>

definition broken_sock :: "nat sock_ops" where
  "broken_sock = \<lparr>send_with_fds = (\<lambda>s iovs fds. Some (Inl EPIPE, s)), recv_with_fds = (\<lambda>s lens cap. None)\<rparr>"

theorem device_state_not_gated_witness:
  "\<exists>h'. dispatch counting_device broken_sock (\<lambda>f n. Inr 0) (hdr_new FrontendReq_Req CHECK_DEVICE_STATE 0 0) 0 [] None
        CHECK_DEVICE_STATE (brh_new 0 3) = Some (Inl (SocketBroken (RawOs EPIPE)), h')
    \<and> bh_backend h' = 4"
proof -
  let ?hdr = "hdr_new FrontendReq_Req CHECK_DEVICE_STATE 0 0" and ?h = "brh_new (0::nat) (3::nat)"
  have run: "dispatch counting_device broken_sock (\<lambda>f n. Inr 0) ?hdr 0 [] None CHECK_DEVICE_STATE ?h
      = Some (Inl (SocketBroken (RawOs EPIPE)), brh_new 0 4)"
    by (simp add: handle_CHECK_DEVICE_STATE_def counting_device_def tick_def send_reply_message_def new_reply_header_def
        on_backend_def on_sock_def check_state_apply brh_new_def effect_defs Let_def MAX_MSG_SIZE_def VhostUserU64_T_def
        send_message_def send_iovec_all_def send_iovec_loop.simps send_chunk_def send_iovec_def broken_sock_def
        error_from_errno_def errno_defs hdr_size_of_def VhostUserMsgHeader_H_def)
  have "bh_error ?h = None" by (simp add: brh_new_def)
  from device_state_not_gated [OF this, of ?hdr CHECK_DEVICE_STATE counting_device broken_sock "\<lambda>f n. Inr 0" 0 "[]" None] run
  show ?thesis by (auto simp: counting_device_def tick_def brh_new_def)
qed

subsection \<open>What reaches the device\<close>

lemma memory_valid_count:
  "is_valid VhostUserMemory_T m \<Longrightarrow> 1 \<le> unat (num_regions m) \<and> unat (num_regions m) \<le> 32"
  by (auto simp: VhostUserMemory_T_def VhostUserMemory_is_valid_def MAX_ATTACHED_FD_ENTRIES_def
      unat_gt_0 Suc_le_eq split: if_splits)

lemma region_bytes:
  assumes "length bs = 32"
  shows "as_slice VhostUserMemoryRegion_T (from_slice VhostUserMemoryRegion_T bs) = bs"
  using assms take_add [of 8 8 bs] take_add [of 16 8 bs] take_add [of 24 8 bs]
  by (simp add: VhostUserMemoryRegion_T_def slice_def le_bytes_of_le_bytes)

lemma memory_bytes:
  assumes "length bs = 8"
  shows "as_slice VhostUserMemory_T (from_slice VhostUserMemory_T bs) = bs"
  using assms take_add [of 4 4 bs]
  by (simp add: VhostUserMemory_T_def slice_def le_bytes_of_le_bytes)

lemma regions_bytes:
  assumes "length buf = 32 * n"
  shows "concat (map (as_slice VhostUserMemoryRegion_T)
           (map (from_slice VhostUserMemoryRegion_T) (chunks 32 n buf))) = buf"
  using assms
proof (induction n arbitrary: buf)
  case 0
  then show ?case by simp
next
  case (Suc n)
  then show ?case by (simp add: region_bytes)
qed

text \<open>
  C6: a memory table reaches the device only if the message is well formed: the body is a table
  header followed by just the regions it announces, between 1 and 32 of them, with one file for
  each, and every region is valid. Otherwise the request ends with \<open>InvalidMessage\<close> and nothing
  has changed.
\<close>

theorem set_mem_table_validated:
  assumes "set_mem_table B hdr sz buf files h = Some (r, h')" and "length buf = sz"
  shows "(r = Inl InvalidMessage \<and> h' = h)
    \<or> (\<exists>mem regions fs. files = Some fs \<and> length fs = length regions
         \<and> 1 \<le> length regions \<and> length regions \<le> 32
         \<and> (\<forall>x \<in> set regions. is_valid_common x)
         \<and> buf = as_slice VhostUserMemory_T mem
                 @ concat (map (as_slice VhostUserMemoryRegion_T) regions)
         \<and> unat (num_regions mem) = length regions
         \<and> on_backend (be_set_mem_table B regions fs) h = Some (r, h'))"
proof (cases "r = Inl InvalidMessage \<and> h' = h")
  case False
  define mem where "mem = from_slice VhostUserMemory_T (take 8 buf)"
  define regions where "regions = map (from_slice VhostUserMemoryRegion_T)
    (chunks 32 (unat (num_regions mem)) (drop 8 buf))"
  have sizes: "size_of VhostUserMemory_T = 8" "size_of VhostUserMemoryRegion_T = 32"
    by (simp_all add: VhostUserMemory_T_def VhostUserMemoryRegion_T_def)
  from assms(1) False obtain fs where
    ok: "8 \<le> sz" "is_valid VhostUserMemory_T mem" "sz = 8 + unat (num_regions mem) * 32"
    "files = Some fs" "length fs = unat (num_regions mem)"
    "list_all (is_valid VhostUserMemoryRegion_T) regions"
    "on_backend (be_set_mem_table B regions fs) h = Some (r, h')"
    unfolding set_mem_table_def sizes Let_def mem_def [symmetric] regions_def [symmetric]
    by (auto elim!: thenM_SomeE simp: liftR_apply failM_apply check_request_size_def
        split: if_splits option.splits)
  have count: "1 \<le> unat (num_regions mem)" "unat (num_regions mem) \<le> 32"
    "length regions = unat (num_regions mem)"
    using memory_valid_count [OF ok(2)] by (simp_all add: regions_def)
  have valid: "\<forall>x \<in> set regions. is_valid_common x"
    using ok(6) by (simp add: list_all_iff VhostUserMemoryRegion_T_def)
  have "length (drop 8 buf) = 32 * unat (num_regions mem)" "length (take 8 buf) = 8"
    using ok(3) assms(2) by simp_all
  then have buf: "buf = as_slice VhostUserMemory_T mem
      @ concat (map (as_slice VhostUserMemoryRegion_T) regions)"
    unfolding regions_def by (simp only: regions_bytes) (simp add: mem_def memory_bytes)
  show ?thesis
    using ok(4,5,7) count valid buf by metis
qed simp

theorem set_mem_table_validated_witness:
  "let mem = VhostUserMemory_new 1;
       region = VhostUserMemoryRegion_new 0x1000 0x2000 0x7000 0;
       buf = as_slice VhostUserMemory_T mem @ as_slice VhostUserMemoryRegion_T region
   in \<exists>r h'. set_mem_table counting_device (hdr_new FrontendReq_Req SET_MEM_TABLE 0 40) 40 buf
          (Some [9]) (brh_new (0::nat) 0) = Some (r, h')
     \<and> (r = Inl InvalidMessage \<and> h' = brh_new 0 0
        \<or> (\<exists>mem regions fs. Some [9] = Some fs \<and> length fs = length regions
              \<and> buf = as_slice VhostUserMemory_T mem
                      @ concat (map (as_slice VhostUserMemoryRegion_T) regions)))
     \<and> bh_backend h' = 1"
proof -
  define buf where "buf = as_slice VhostUserMemory_T (VhostUserMemory_new 1)
    @ as_slice VhostUserMemoryRegion_T (VhostUserMemoryRegion_new 0x1000 0x2000 0x7000 0)"
  let ?h = "hdr_new FrontendReq_Req SET_MEM_TABLE 0 40"
  have len: "length buf = 40"
    by (simp add: buf_def VhostUserMemory_T_def VhostUserMemoryRegion_T_def)
  have run: "set_mem_table counting_device ?h 40 buf (Some [9]) (brh_new (0::nat) 0)
      = Some (Inr (), (brh_new 0 0)\<lparr>bh_backend := 1\<rparr>)"
    by (simp add: set_mem_table_def check_request_size_def hdr_new_def buf_def counting_device_def
        tick_def brh_new_def on_backend_def effect_defs Let_def get_size_def is_reply_def
        get_version_def hdr_flag_defs body_defs VhostUserMemory_new_def slice_def
        VhostUserMemory_is_valid_def MAX_ATTACHED_FD_ENTRIES_def is_valid_common_def
        VhostUserMemoryRegion_new_def checked_add_def)
  from set_mem_table_validated [OF run len] run show ?thesis
    unfolding Let_def buf_def [symmetric] by (auto simp: brh_new_def)
qed

text \<open>
  C28: a request that sets a vring descriptor is accepted exactly when the announcement in bit 8
  of its value agrees with the attached files: bit 8 clear and just one file, or bit 8 set and
  not just one file. The vring index is the low byte of the value.
\<close>

theorem vring_fd_request_agrees:
  assumes "length buf = 8"
  shows "handle_vring_fd_request buf files = Inr (index, file) \<longleftrightarrow>
    (let v = (of_le_bytes buf :: u64) in
       index = ucast v \<and> file = take_single_file files
       \<and> (bit v 8 \<longleftrightarrow> take_single_file files = None))"
proof -
  have "(of_le_bytes buf :: u64) AND 0x100 = 0 \<longleftrightarrow> \<not> bit (of_le_bytes buf :: u64) 8"
    using and_pow2_nonzero_iff [of "of_le_bytes buf :: u64" 8] by auto
  then show ?thesis
    using assms
    by (cases "take_single_file files")
      (auto simp: handle_vring_fd_request_def VhostUserU64_T_def slice_def MAX_MSG_SIZE_def Let_def)
qed

theorem vring_fd_request_agrees_witness:
  "handle_vring_fd_request [2, 0, 0, 0, 0, 0, 0, 0] (Some [9]) = Inr (2, Some 9)
   \<and> handle_vring_fd_request [2, 1, 0, 0, 0, 0, 0, 0] None = Inr (2, None)"
  using vring_fd_request_agrees [of "[2, 0, 0, 0, 0, 0, 0, 0]" "Some [9]" 2 "Some 9"]
    vring_fd_request_agrees [of "[2, 1, 0, 0, 0, 0, 0, 0]" None 2 None]
  by (simp add: Let_def take_single_file_def bit_simps)

subsection \<open>What the frontend is told\<close>

lemma FH_msg_header: "msg_header FH"
  by (rule vhost_user_header.msg_header_axioms)

lemma new_reply_header_ok:
  assumes "body_size + payload \<le> MAX_MSG_SIZE" and "bh_error h = None"
    and "get_code FrontendReq_Req req = Inr code"
  shows "new_reply_header body_size req payload h
    = Some (Inr (hdr_new FrontendReq_Req code HDR_REPLY (word_of_nat (body_size + payload))), h)"
  using assms by (simp add: new_reply_header_def check_state_apply effect_defs)

lemma ack_sent:
  assumes "send_law so tx" and "send_progress so budget"
    and "bh_error h = None" and "get_code FrontendReq_Req hdr = Inr code"
  shows "\<exists>s' cs. send_ack_message so hdr res h = Some (res, h\<lparr>bh_main_sock := s'\<rparr>)
    \<and> tx s' = tx (bh_main_sock h) @ cs
    \<and> concat (map fst cs) =
        (if bh_reply_ack_enabled h \<and> is_need_reply hdr
         then hdr_as_slice (hdr_new FrontendReq_Req code HDR_REPLY 8)
              @ le_bytes 8 (if isl res then 1 else 0 :: u64)
         else [])
    \<and> concat (map snd cs) = []"
proof (cases "bh_reply_ack_enabled h \<and> is_need_reply hdr")
  case True
  let ?hdr = "hdr_new FrontendReq_Req code HDR_REPLY 8"
  define v :: u64 where "v = (case res of Inr _ \<Rightarrow> 0 | Inl _ \<Rightarrow> 1)"
  obtain s' cs where sent:
    "send_message FH VhostUserU64_T so ?hdr (VhostUserU64_new v) None (bh_main_sock h) = Some (Inr (), s')"
    "tx s' = tx (bh_main_sock h) @ cs"
    "concat (map fst cs) = hdr_as_slice ?hdr @ as_slice VhostUserU64_T (VhostUserU64_new v)"
    "map snd cs = map (chunk_fds None) [0..<length cs]"
    using msg_header.send_message_completes [OF FH_msg_header u64_body.byte_valued_axioms _ _ assms(1,2),
        of ?hdr "VhostUserU64_new v" None "bh_main_sock h"]
    by (auto simp: VhostUserU64_T_def MAX_MSG_SIZE_def)
  have "concat (map snd cs) = []" unfolding sent(4) by (auto simp: chunk_fds_def)
  moreover have "send_ack_message so hdr res h = Some (res, h\<lparr>bh_main_sock := s'\<rparr>)"
    using True sent(1) new_reply_header_ok [OF _ assms(3,4), of 8 0]
    by (simp add: send_ack_message_def readM_apply bindM_def thenM_def on_sock_def liftR_def
        MAX_MSG_SIZE_def v_def VhostUserU64_T_def)
  moreover have "as_slice VhostUserU64_T (VhostUserU64_new v) = le_bytes 8 (if isl res then 1 else 0 :: u64)"
    by (cases res) (simp_all add: VhostUserU64_T_def VhostUserU64_new_def v_def)
  ultimately show ?thesis using sent(2,3) True by auto
next
  case False
  then show ?thesis
    by (intro exI [of _ "bh_main_sock h"] exI [of _ "[]"])
      (auto simp: send_ack_message_def readM_apply bindM_def liftR_def)
qed

text \<open>
  C24: the frontend is sent an acknowledgement exactly when both sides have negotiated it and this
  request asks for one: a reply header with the code of the request and the value 0 for success
  or 1 for an error of the device, with no descriptor. Otherwise nothing is sent. In both cases
  the outcome of the request is returned as it is, and only the socket changes.
\<close>

theorem send_ack_message_sends:
  assumes "send_law so tx" and "send_progress so budget"
    and "bh_error h = None" and "get_code FrontendReq_Req hdr = Inr code"
  shows "\<exists>s' cs. send_ack_message so hdr res h = Some (res, h\<lparr>bh_main_sock := s'\<rparr>)
    \<and> tx s' = tx (bh_main_sock h) @ cs
    \<and> concat (map fst cs) =
        (if bh_reply_ack_enabled h \<and> is_need_reply hdr
         then hdr_as_slice (hdr_new FrontendReq_Req code HDR_REPLY 8)
              @ le_bytes 8 (if isl res then 1 else 0 :: u64)
         else [])
    \<and> concat (map snd cs) = []"
  using assms by (rule ack_sent)

theorem send_ack_message_sends_witness:
  "\<exists>s' cs. send_ack_message (pipe_sock 9) (hdr_new FrontendReq_Req SET_OWNER HDR_NEED_REPLY 0)
       (Inl InvalidParam)
       ((brh_new \<lparr>p_budget = 1, p_tx = [], p_rx = [], p_rxf = []\<rparr> (0::nat))\<lparr>bh_reply_ack_enabled := True\<rparr>)
     = Some (Inl InvalidParam, (brh_new s' 0)\<lparr>bh_reply_ack_enabled := True\<rparr>)
     \<and> p_tx s' = cs
     \<and> concat (map fst cs) = hdr_as_slice (hdr_new FrontendReq_Req SET_OWNER HDR_REPLY 8)
                              @ le_bytes 8 (1 :: u64)"
  using send_ack_message_sends [of "pipe_sock 9" p_tx p_budget
      "(brh_new \<lparr>p_budget = 1, p_tx = [], p_rx = [], p_rxf = []\<rparr> (0::nat))\<lparr>bh_reply_ack_enabled := True\<rparr>"
      "hdr_new FrontendReq_Req SET_OWNER HDR_NEED_REPLY 0" SET_OWNER "Inl InvalidParam"]
  by (auto simp: brh_new_def HDR_NEED_REPLY_def)

text \<open>
  A message with files attached whose request does not take files is refused right after its
  header, with \<open>InvalidMessage\<close>: the body is not read and the device is not called.
\<close>

theorem stray_files_refused:
  assumes "bh_error h = None" and "recv_header FH so (bh_main_sock h) = Some (Inr (hdr, Some fs), s')"
    and "get_code FrontendReq_Req hdr = Inr code" and "\<not> may_attach_files code"
  shows "handle_request B so opt h = Some (Inl InvalidMessage, h\<lparr>bh_main_sock := s'\<rparr>)"
  using assms
  by (simp add: handle_request_def check_state_apply check_attached_files_def thenM_def bindM_def
      liftR_def on_sock_def)

text \<open>A socket that delivers one header with a file attached, for the witness.\<close>

definition one_header_sock :: "VhostUserMsgHeader \<Rightarrow> nat sock_ops" where
  "one_header_sock h =
     \<lparr>send_with_fds = (\<lambda>s iovs fds. None),
      recv_with_fds = (\<lambda>s lens cap. Some (Inr (hdr_as_slice h, [4]), Suc s))\<rparr>"

theorem stray_files_refused_witness:
  "\<forall>opt. handle_request counting_device
      (one_header_sock (hdr_new FrontendReq_Req SET_OWNER 0 0)) opt (brh_new 0 0)
    = Some (Inl InvalidMessage, brh_new 1 0)"
proof -
  let ?hdr = "hdr_new FrontendReq_Req SET_OWNER 0 0"
  have "hdr_as_slice ?hdr \<noteq> []"
    using length_hdr_as_slice [of ?hdr] by (auto simp: hdr_size_of_def simp del: length_hdr_as_slice)
  then have "recv_header FH (one_header_sock ?hdr) 0 = Some (Inr (?hdr, Some [4]), 1)"
    by (simp add: recv_header_def recv_into_iovec_all_def recv_iovec_loop.simps recv_into_iovec_def
        hdr_size_of_def sub_lens_def one_header_sock_def fill_at_def Let_def effect_defs
        frontend_req.hdr_new_valid_iff length_hdr_as_slice [unfolded hdr_size_of_def])
  then show ?thesis
    using stray_files_refused [of "brh_new 0 0" "one_header_sock ?hdr" ?hdr "[4]" 1 SET_OWNER
        counting_device]
    by (simp add: brh_new_def)
qed

text \<open>
  A frontend that asks for the features and acks \<open>REPLY_ACK\<close>, for the witness of the acknowledgement
  flag: the socket delivers its two requests.
\<close>

definition acking_frontend :: "nat sock_ops" where
  "acking_frontend =
     \<lparr>send_with_fds = (\<lambda>s iovs fds. Some (Inr (sum_list (map length iovs)), s)),
      recv_with_fds = (\<lambda>s lens cap. Some (Inr (
        if s = 0 then hdr_as_slice (hdr_new FrontendReq_Req GET_FEATURES 0 0)
        else if s = 1 then hdr_as_slice (hdr_new FrontendReq_Req SET_PROTOCOL_FEATURES 0 8)
        else le_bytes 8 (8 :: u64), []), Suc s))\<rparr>"

abbreviation offering_device :: "nat VhostUserBackendReqHandler" where
  "offering_device \<equiv> counting_device\<lparr>be_get_features := tick (vf_bits VF_PROTOCOL_FEATURES)\<rparr>"

lemma acking_header:
  assumes "s = 0 \<and> hdr = hdr_new FrontendReq_Req GET_FEATURES 0 0
    \<or> s = 1 \<and> hdr = hdr_new FrontendReq_Req SET_PROTOCOL_FEATURES 0 8"
  shows "recv_header FH acking_frontend s = Some (Inr (hdr, None), Suc s)"
proof -
  have "hdr_as_slice h \<noteq> []" for h
    using length_hdr_as_slice [of h] by (auto simp: hdr_size_of_def simp del: length_hdr_as_slice)
  with assms show ?thesis
    by (auto simp: recv_header_def recv_into_iovec_all_def recv_iovec_loop.simps recv_into_iovec_def
        hdr_size_of_def sub_lens_def acking_frontend_def fill_at_def Let_def effect_defs MAX_MSG_SIZE_def
        frontend_req.hdr_new_valid_iff length_hdr_as_slice [unfolded hdr_size_of_def])
qed

lemma acking_send: "send_message FH VhostUserU64_T acking_frontend hdr msg None s = Some (Inr (), s)"
proof -
  have len: "length (hdr_as_slice hdr) = 12" by (simp add: hdr_size_of_def)
  show ?thesis
    by (simp add: send_message_def send_iovec_all_def send_iovec_loop.simps send_chunk_def send_iovec_def sub_iovs_def
        acking_frontend_def len VhostUserU64_T_def VhostUserMsgHeader_H_def hdr_size_of_def MAX_MSG_SIZE_def
        effect_defs Let_def get_sub_iovs_offset.simps)
qed

lemma acking_sizes [simp]:
  "get_size (hdr_new FrontendReq_Req code 0 n) = n"
  "check_request_size (hdr_new FrontendReq_Req code 0 n) (unat n) (unat n) = Inr ()"
  by (simp_all add: get_size_def check_request_size_def get_version_def is_reply_def hdr_new_def Let_def hdr_flag_defs)

lemma acking_get_features:
  "handle_request offering_device acking_frontend opt (brh_new 0 0)
     = Some (Inr (), (brh_new 1 1)\<lparr>bh_virtio_features := vf_bits VF_PROTOCOL_FEATURES\<rparr>)"
  using acking_header [of 0] acking_sizes(2) [of GET_FEATURES 0]
  by (simp add: handle_request_def handle_GET_FEATURES_def check_state_apply brh_new_def on_sock_def on_backend_def
      check_attached_files_def recv_request_body_def tick_def MAX_MSG_SIZE_def VhostUserU64_T_def
      send_reply_message_def new_reply_header_def acking_send [unfolded VhostUserU64_T_def] update_reply_ack_flag_def effect_defs Let_def)

lemma acking_set_protocol_features:
  "handle_request offering_device acking_frontend opt ((brh_new 1 1)\<lparr>bh_virtio_features := vf_bits VF_PROTOCOL_FEATURES\<rparr>)
     = Some (Inr (), (brh_new 3 2)\<lparr>bh_virtio_features := vf_bits VF_PROTOCOL_FEATURES,
         bh_acked_protocol_features := 8, bh_reply_ack_enabled := True\<rparr>)"
proof -
  have body: "recv_data acking_frontend 8 (Suc (Suc 0)) = Some (Inr (8, le_bytes 8 (8 :: u64)), 3)"
    by (simp add: recv_data_def acking_frontend_def fill_at_def)
  show ?thesis
    using acking_header [of 1] acking_sizes(2) [of SET_PROTOCOL_FEATURES 8] body
    by (simp add: handle_request_def handle_SET_PROTOCOL_FEATURES_def check_state_apply brh_new_def on_sock_def on_backend_def
        check_attached_files_def recv_request_body_def extract_request_body_def VhostUserU64_T_def tick_def counting_device_def
        update_reply_ack_flag_def send_ack_message_def effect_defs Let_def slice_def)
qed

theorem reply_ack_flag_invariant_witness:
  "\<exists>h. serving offering_device acking_frontend (\<lambda>f n. Inr 0) h \<and> bh_reply_ack_enabled h
     \<and> bh_virtio_features h AND vf_bits VF_PROTOCOL_FEATURES \<noteq> 0"
proof -
  let ?h = "(brh_new 3 2)\<lparr>bh_virtio_features := vf_bits VF_PROTOCOL_FEATURES,
         bh_acked_protocol_features := 8, bh_reply_ack_enabled := True\<rparr> :: (nat, nat) BackendReqHandler"
  have "serving offering_device acking_frontend (\<lambda>f n. Inr 0) ?h"
    using serving_request [OF serving_request [OF serving_new acking_get_features] acking_set_protocol_features] .
  with reply_ack_flag_invariant [OF this] show ?thesis by auto
qed

end
