(* ===== verification/Handler.thy ===== *)
theory Handler
  imports Event_Loop Bitmap Backend_Channel Backend_Req_Handler
begin

text \<open>
  The device-independent part of a vhost-user backend, \<open>vhost-user-backend/src/handler.rs\<close>: the
  state \<open>VhostUserHandler\<close> that the request handler drives, with its vrings, its memory mappings
  and the epoll instances of its worker threads, and its implementation of the trait
  \<open>VhostUserBackendReqHandler\<close> (\<open>handler_device\<close>).

  Parameters, each a dictionary of the operations the code calls: the queue (\<open>queue_ops\<close>), the
  epoll instance of a worker thread (\<open>epoll_ops\<close>), the guest memory of \<open>vm-memory\<close>
  (\<open>guest_ops\<close>), the device (the trait \<open>VhostUserBackend\<close>) and the userfault descriptor
  (\<open>uffd_ops\<close>).
\<close>

subsection \<open>Parameters\<close>

record ('m, 'r) guest_ops =
  mmap_from_file :: "fd \<Rightarrow> u64 \<Rightarrow> u64 \<Rightarrow> 'r option"
  guest_region_new :: "'r \<Rightarrow> u64 \<Rightarrow> 'r option"
  region_ptr :: "'r \<Rightarrow> u64"
  from_regions :: "'r list \<Rightarrow> 'm option"
  insert_region :: "'r \<Rightarrow> 'm \<Rightarrow> 'm option"
  remove_region :: "u64 \<Rightarrow> u64 \<Rightarrow> 'm \<Rightarrow> 'm option"
  region_ranges :: "'m \<Rightarrow> (nat \<times> nat) list"
  replace_bitmaps :: "logmem \<Rightarrow> AtomicBitmapMmap list \<Rightarrow> 'm \<Rightarrow> 'm"
  map_log :: "fd \<Rightarrow> nat \<Rightarrow> nat \<Rightarrow> io_error + logmem"

text \<open>
  Creating a userfault descriptor gives it and its duplicate, or an error; registering a range
  with it may fail.
\<close>

record uffd_ops =
  uffd_create :: "io_error + fd"
  uffd_dup :: "fd \<Rightarrow> io_error + fd"
  uffd_register :: "fd \<Rightarrow> u64 \<Rightarrow> u64 \<Rightarrow> bool"

record ('d, 'p, 'm, 'r, 'q, 'e) handler_env =
  eq :: "('q, 'm, 'e) queue_ops"
  ep :: "'p epoll_ops"
  eg :: "('m, 'r) guest_ops"
  ed :: "('d, 'm, 'q VringState) VhostUserBackend"
  eu :: uffd_ops

subsection \<open>The handler\<close>

record AddrMapping =
  am_local_addr :: u64
  am_vmm_addr :: u64
  am_size :: u64
  am_gpa_base :: u64

record ('d, 'p, 'm, 'q) VhostUserHandler =
  vh_backend :: 'd
  vh_handlers :: "'p VringEpollHandler list"
  vh_owned :: bool
  vh_features_acked :: bool
  vh_acked_features :: u64
  vh_acked_protocol_features :: u64
  vh_num_queues :: nat
  vh_max_queue_size :: nat
  vh_queues_per_thread :: "u64 list"
  vh_mappings :: "AddrMapping list"
  vh_atomic_mem :: 'm
  vh_vrings :: "'q VringState list"
  vh_uffd :: "fd option"
  vh_worker_threads :: "nat list"

text \<open>
  A worker thread is named by its index. The handlers are shared with the worker threads, but only
  their epoll instances ever change.
\<close>

definition vh_epolls :: "('d, 'p, 'm, 'q) VhostUserHandler \<Rightarrow> 'p list" where
  "vh_epolls h = map veh_epoll (vh_handlers h)"

definition set_epoll :: "nat \<Rightarrow> 'p \<Rightarrow> ('d, 'p, 'm, 'q) VhostUserHandler \<Rightarrow> ('d, 'p, 'm, 'q) VhostUserHandler" where
  "set_epoll t p h = h\<lparr>vh_handlers := (vh_handlers h)[t := (vh_handlers h ! t)\<lparr>veh_epoll := p\<rparr>]\<rparr>"

definition map_epolls :: "('p \<Rightarrow> 'p) \<Rightarrow> ('d, 'p, 'm, 'q) VhostUserHandler \<Rightarrow> ('d, 'p, 'm, 'q) VhostUserHandler" where
  "map_epolls f h = h\<lparr>vh_handlers := map (\<lambda>v. v\<lparr>veh_epoll := f (veh_epoll v)\<rparr>) (vh_handlers h)\<rparr>"

type_synonym ('d, 'p, 'm, 'q, 'a) vh = "(('d, 'p, 'm, 'q) VhostUserHandler, Error, 'a) M"

definition MAX_MEM_SLOTS :: u64 where "MAX_MEM_SLOTS = 509"

definition VIRTIO_RING_F_EVENT_IDX :: nat where "VIRTIO_RING_F_EVENT_IDX = 29"

definition count_ones :: "u64 \<Rightarrow> nat" where
  "count_ones w = length (filter (bit w) [0..<64])"

text \<open>A shift by 64 or more takes the amount modulo 64.\<close>

definition shr64 :: "u64 \<Rightarrow> nat \<Rightarrow> u64" where
  "shr64 w n = drop_bit (n mod 64) w"

subsection \<open>A new handler and its worker threads\<close>

datatype 'e VhostUserHandlerError =
    CreateVring 'e
  | CreateEpollHandler VringEpollError
  | SpawnVringWorker io_error
  | MissingMemoryMapping

text \<open>The vrings a worker thread gets, by their indices, and the vring list that \<open>new\<close> creates.\<close>

definition thread_vrings :: "nat \<Rightarrow> u64 \<Rightarrow> nat list" where
  "thread_vrings num_queues queues_mask =
     filter (\<lambda>index. shr64 queues_mask index AND 1 = 1) [0..<num_queues]"

fun new_vrings :: "('q, 'm, 'e) queue_ops \<Rightarrow> u16 \<Rightarrow> nat \<Rightarrow> 'e + 'q VringState list" where
  "new_vrings Q max_queue_size 0 = Inr []"
| "new_vrings Q max_queue_size (Suc n) =
     (case vring_new Q max_queue_size of
        Inl e \<Rightarrow> Inl e
      | Inr v \<Rightarrow> (case new_vrings Q max_queue_size n of
          Inl e \<Rightarrow> Inl e
        | Inr vs \<Rightarrow> Inr (v # vs)))"

text \<open>
  The handlers of the worker threads from \<open>thread_id\<close> on, each with its thread started;
  \<open>spawn\<close> tells whether starting a thread succeeds.
\<close>

fun new_workers ::
    "'p epoll_ops \<Rightarrow> ('d, 'm, 'v) VhostUserBackend \<Rightarrow> (nat \<Rightarrow> io_error + unit) \<Rightarrow> nat \<Rightarrow> nat \<Rightarrow> u64 list
     \<Rightarrow> ('d, 'e VhostUserHandlerError, 'p VringEpollHandler list) M" where
  "new_workers P D spawn num_vrings thread_id [] = retM []"
| "new_workers P D spawn num_vrings thread_id (queues_mask # masks) =
     bindM (mapErrM CreateEpollHandler
              (veh_new P D (thread_vrings num_vrings queues_mask) thread_id)) (\<lambda>handler.
       case spawn thread_id of
         Inl e \<Rightarrow> failM (SpawnVringWorker e)
       | Inr _ \<Rightarrow> bindM (new_workers P D spawn num_vrings (Suc thread_id) masks) (\<lambda>handlers.
           retM (handler # handlers)))"

text \<open>The handler gets the device as the calls of \<open>new\<close> leave it.\<close>

definition vh_new ::
    "('d, 'p, 'm, 'r, 'q, 'e) handler_env \<Rightarrow> (nat \<Rightarrow> io_error + unit) \<Rightarrow> 'm \<Rightarrow> 'd
     \<Rightarrow> ('e VhostUserHandlerError + ('d, 'p, 'm, 'q) VhostUserHandler) option" where
  "vh_new E spawn atomic_mem backend =
     (case bindM (callM (d_num_queues (ed E))) (\<lambda>num_queues.
           bindM (callM (d_max_queue_size (ed E))) (\<lambda>max_queue_size.
           bindM (callM (d_queues_per_thread (ed E))) (\<lambda>queues_per_thread.
           case new_vrings (eq E) (word_of_nat max_queue_size) num_queues of
             Inl e \<Rightarrow> failM (CreateVring e)
           | Inr vrings \<Rightarrow>
               bindM (new_workers (ep E) (ed E) spawn (length vrings) 0 queues_per_thread) (\<lambda>handlers.
                 readM (\<lambda>d.
                   \<lparr>vh_backend = d, vh_handlers = handlers, vh_owned = False, vh_features_acked = False,
                    vh_acked_features = 0, vh_acked_protocol_features = 0, vh_num_queues = num_queues,
                    vh_max_queue_size = max_queue_size, vh_queues_per_thread = queues_per_thread,
                    vh_mappings = [], vh_atomic_mem = atomic_mem, vh_vrings = vrings, vh_uffd = None,
                    vh_worker_threads = [0..<length queues_per_thread]\<rparr>))))) backend of
        None \<Rightarrow> None
      | Some (r, _) \<Rightarrow> Some r)"

text \<open>Sending the exit event to every worker, and the end of the handler, which then waits for them.\<close>

fun send_exit_events ::
    "(fd \<Rightarrow> ('w, io_error + unit) call) \<Rightarrow> 'p VringEpollHandler list \<Rightarrow> ('w, unit) call" where
  "send_exit_events notify [] = returns ()"
| "send_exit_events notify (v # vs) = (\<lambda>w. case send_exit_event notify v w of
      None \<Rightarrow> None
    | Some (_, w') \<Rightarrow> send_exit_events notify vs w')"

definition vh_send_exit_event ::
    "(fd \<Rightarrow> ('w, io_error + unit) call) \<Rightarrow> ('d, 'p, 'm, 'q) VhostUserHandler \<Rightarrow> ('w, unit) call" where
  "vh_send_exit_event notify h = send_exit_events notify (vh_handlers h)"

definition get_epoll_handlers :: "('d, 'p, 'm, 'q) VhostUserHandler \<Rightarrow> 'p VringEpollHandler list" where
  "get_epoll_handlers h = vh_handlers h"

text \<open>
  \<open>join\<close> waits for a thread; it gives an error when the thread panicked, which is only logged.
\<close>

fun join_all :: "(nat \<Rightarrow> ('w, unit + 'x) call) \<Rightarrow> nat list \<Rightarrow> ('w, unit) call" where
  "join_all join [] = returns ()"
| "join_all join (t # ts) = (\<lambda>w. case join t w of
      None \<Rightarrow> None
    | Some (_, w') \<Rightarrow> join_all join ts w')"

definition vh_drop ::
    "(fd \<Rightarrow> ('w, io_error + unit) call) \<Rightarrow> (nat \<Rightarrow> ('w, unit + 'x) call)
     \<Rightarrow> ('d, 'p, 'm, 'q) VhostUserHandler \<Rightarrow> ('w, unit) call" where
  "vh_drop notify join h = (\<lambda>w. case vh_send_exit_event notify h w of
      None \<Rightarrow> None
    | Some (_, w') \<Rightarrow> join_all join (vh_worker_threads h) w')"

text \<open>\<open>io::Error::other\<close>.\<close>

definition other_error :: Error where
  "other_error = ReqHandlerError (CustomIo OtherKind)"

fun vmm_va_to_gpa :: "AddrMapping list \<Rightarrow> u64 \<Rightarrow> u64 option" where
  "vmm_va_to_gpa [] vmm_va = None"
| "vmm_va_to_gpa (m # ms) vmm_va =
     (if vmm_va \<ge> am_vmm_addr m \<and> vmm_va < am_vmm_addr m + am_size m
      then Some (vmm_va - am_vmm_addr m + am_gpa_base m)
      else vmm_va_to_gpa ms vmm_va)"

text \<open>Calls of the device: one that cannot fail, and one whose error is converted.\<close>

definition call_device :: "('d, 'a) call \<Rightarrow> ('d, 'p, 'm, 'q, 'a) vh" where
  "call_device c = (\<lambda>h. case c (vh_backend h) of
       None \<Rightarrow> None
     | Some (x, d') \<Rightarrow> Some (Inr x, h\<lparr>vh_backend := d'\<rparr>))"

definition on_device :: "('d, io_error + 'a) call \<Rightarrow> (io_error \<Rightarrow> Error) \<Rightarrow> ('d, 'p, 'm, 'q, 'a) vh" where
  "on_device c err = bindM (call_device c) (\<lambda>r. case r of
       Inl e \<Rightarrow> failM (err e)
     | Inr x \<Rightarrow> retM x)"

definition modify_vring :: "nat \<Rightarrow> ('q VringState \<Rightarrow> 'q VringState) \<Rightarrow> ('d, 'p, 'm, 'q, unit) vh" where
  "modify_vring i f = modifyM (\<lambda>h. h\<lparr>vh_vrings := (vh_vrings h)[i := f (vh_vrings h ! i)]\<rparr>)"

text \<open>\<open>self.vrings.get(index).ok_or(InvalidParam)?\<close>\<close>

definition get_vring :: "nat \<Rightarrow> ('d, 'p, 'm, 'q, 'q VringState) vh" where
  "get_vring i = (\<lambda>h. if i < length (vh_vrings h) then Some (Inr (vh_vrings h ! i), h)
                      else Some (Inl InvalidParam, h))"

subsection \<open>Registration of the kick descriptors\<close>

definition vring_needs_init :: "('q, 'm, 'e) queue_ops \<Rightarrow> 'q VringState \<Rightarrow> bool" where
  "vring_needs_init Q v \<longleftrightarrow> \<not> q_ready Q (vr_queue v) \<and> vr_kick v \<noteq> None"

text \<open>The thread that serves a vring: the first whose mask has its bit; with the event index there.\<close>

fun find_thread :: "u64 list \<Rightarrow> nat \<Rightarrow> u8 \<Rightarrow> (nat \<times> u64) option" where
  "find_thread [] t index = None"
| "find_thread (queues_mask # masks) t index =
     (let shifted_queues_mask = shr64 queues_mask (unat index) in
      if shifted_queues_mask AND 1 = 1
      then (let evt_idx = count_ones queues_mask - count_ones shifted_queues_mask in
            Some (t, word_of_nat evt_idx))
      else find_thread masks (Suc t) index)"

definition update_vring_registration ::
    "('d, 'p, 'm, 'r, 'q, 'e) handler_env \<Rightarrow> nat \<Rightarrow> u8 \<Rightarrow> ('d, 'p, 'm, 'q, unit) vh" where
  "update_vring_registration E i index = (\<lambda>h.
     let v = vh_vrings h ! i in
     case vr_kick v of
       None \<Rightarrow> Some (Inr (), h)
     | Some f \<Rightarrow> (case find_thread (vh_queues_per_thread h) 0 index of
         None \<Rightarrow> Some (Inr (), h)
       | Some (t, evt_idx) \<Rightarrow>
           if q_ready (eq E) (vr_queue v) \<and> vr_enabled v
           then (case register_event (ep E) f EVENTSET_IN evt_idx (vh_epolls h ! t) of
                   (Inl e, p') \<Rightarrow>
                     if io_error_kind e \<noteq> AlreadyExists
                     then Some (Inl (ReqHandlerError e), set_epoll t p' h)
                     else Some (Inr (), set_epoll t p' h)
                 | (Inr _, p') \<Rightarrow> Some (Inr (), set_epoll t p' h))
           else (case unregister_event (ep E) f EVENTSET_IN evt_idx (vh_epolls h ! t) of
                   (_, p') \<Rightarrow> Some (Inr (), set_epoll t p' h))))"

definition initialize_vring ::
    "('d, 'p, 'm, 'r, 'q, 'e) handler_env \<Rightarrow> nat \<Rightarrow> u8 \<Rightarrow> ('d, 'p, 'm, 'q, unit) vh" where
  "initialize_vring E i index =
     thenM (modify_vring i (set_queue_ready (eq E) True)) (update_vring_registration E i index)"

definition vh_check_feature :: "VhostUserVirtioFeatures \<Rightarrow> ('d, 'p, 'm, 'q, unit) vh" where
  "vh_check_feature feat = bindM (readM vh_acked_features) (\<lambda>acked.
     if acked AND vf_bits feat \<noteq> 0 then retM () else failM (InactiveFeature (vf_bits feat)))"

subsection \<open>Ownership and features\<close>

definition vh_set_owner :: "('d, 'p, 'm, 'q, unit) vh" where
  "vh_set_owner = bindM (readM vh_owned) (\<lambda>owned.
     if owned then failM (InvalidOperation ''already claimed'')
     else modifyM (\<lambda>h. h\<lparr>vh_owned := True\<rparr>))"

definition vh_reset_owner :: "('d, 'p, 'm, 'q, unit) vh" where
  "vh_reset_owner = modifyM (\<lambda>h. h\<lparr>vh_owned := False, vh_features_acked := False,
     vh_acked_features := 0, vh_acked_protocol_features := 0\<rparr>)"

text \<open>\<open>for (index, vring) in self.vrings.iter().enumerate()\<close>, enabling or disabling each.\<close>

definition enable_all_vrings ::
    "('d, 'p, 'm, 'r, 'q, 'e) handler_env \<Rightarrow> bool \<Rightarrow> ('d, 'p, 'm, 'q, unit) vh" where
  "enable_all_vrings E enable = bindM (readM (\<lambda>h. length (vh_vrings h))) (\<lambda>n.
     forM [0..<n] (\<lambda>i. thenM (modify_vring i (set_enabled enable))
                          (update_vring_registration E i (word_of_nat i))))"

definition vh_reset_device ::
    "('d, 'p, 'm, 'r, 'q, 'e) handler_env \<Rightarrow> ('d, 'p, 'm, 'q, unit) vh" where
  "vh_reset_device E =
     thenM (enable_all_vrings E False)
     (thenM (modifyM (\<lambda>h. h\<lparr>vh_features_acked := False, vh_acked_features := 0\<rparr>))
       (call_device (d_reset_device (ed E))))"

definition vh_get_features ::
    "('d, 'p, 'm, 'r, 'q, 'e) handler_env \<Rightarrow> ('d, 'p, 'm, 'q, u64) vh" where
  "vh_get_features E = call_device (d_features (ed E))"

definition vh_set_features ::
    "('d, 'p, 'm, 'r, 'q, 'e) handler_env \<Rightarrow> u64 \<Rightarrow> ('d, 'p, 'm, 'q, unit) vh" where
  "vh_set_features E features = bindM (call_device (d_features (ed E))) (\<lambda>offered.
     if features AND NOT offered \<noteq> 0 then failM InvalidParam
     else
       thenM (modifyM (\<lambda>h. h\<lparr>vh_acked_features := features, vh_features_acked := True\<rparr>))
       (thenM (if features AND vf_bits VF_PROTOCOL_FEATURES = 0 then enable_all_vrings E True else retM ())
         (let event_idx = (features AND push_bit VIRTIO_RING_F_EVENT_IDX 1 \<noteq> 0) in
          thenM (modifyM (\<lambda>h. h\<lparr>vh_vrings := map (set_queue_event_idx (eq E) event_idx) (vh_vrings h)\<rparr>))
          (thenM (call_device (d_set_event_idx (ed E) event_idx))
            (call_device (d_acked_features (ed E) features))))))"

definition vh_get_protocol_features ::
    "('d, 'p, 'm, 'r, 'q, 'e) handler_env \<Rightarrow> ('d, 'p, 'm, 'q, u64) vh" where
  "vh_get_protocol_features E = call_device (d_protocol_features (ed E))"

definition vh_set_protocol_features :: "u64 \<Rightarrow> ('d, 'p, 'm, 'q, unit) vh" where
  "vh_set_protocol_features features = modifyM (\<lambda>h. h\<lparr>vh_acked_protocol_features := features\<rparr>)"

definition vh_get_queue_num :: "('d, 'p, 'm, 'q, u64) vh" where
  "vh_get_queue_num = readM (\<lambda>h. word_of_nat (vh_num_queues h))"

definition vh_get_max_mem_slots :: "('d, 'p, 'm, 'q, u64) vh" where
  "vh_get_max_mem_slots = retM MAX_MEM_SLOTS"

subsection \<open>Guest memory\<close>

text \<open>\<open>VhostUserMemoryRegion::mmap_region\<close> and the guest region made from it, with its mapping.\<close>

definition map_region ::
    "('m, 'r) guest_ops \<Rightarrow> VhostUserMemoryRegion \<Rightarrow> fd \<Rightarrow> Error + 'r \<times> AddrMapping" where
  "map_region G region f =
     (case mmap_from_file G f (mmap_offset region) (memory_size region) of
        None \<Rightarrow> Inl other_error
      | Some r \<Rightarrow> (case guest_region_new G r (guest_phys_addr region) of
          None \<Rightarrow> Inl (ReqHandlerError (SimpleIo InvalidInput))
        | Some guest_region \<Rightarrow> Inr (guest_region,
            \<lparr>am_local_addr = region_ptr G guest_region, am_vmm_addr = user_addr region,
             am_size = memory_size region, am_gpa_base = guest_phys_addr region\<rparr>)))"

fun map_regions ::
    "('m, 'r) guest_ops \<Rightarrow> (VhostUserMemoryRegion \<times> fd) list \<Rightarrow> Error + ('r \<times> AddrMapping) list" where
  "map_regions G [] = Inr []"
| "map_regions G ((region, f) # rest) =
     (case map_region G region f of
        Inl e \<Rightarrow> Inl e
      | Inr rm \<Rightarrow> (case map_regions G rest of
          Inl e \<Rightarrow> Inl e
        | Inr rms \<Rightarrow> Inr (rm # rms)))"

text \<open>
  The new memory is visible to the vrings before the device is told; the mappings change last, and
  only when the device accepts.
\<close>

definition replace_memory ::
    "('d, 'p, 'm, 'r, 'q, 'e) handler_env \<Rightarrow> 'm \<Rightarrow> (AddrMapping list \<Rightarrow> AddrMapping list) \<Rightarrow>
       ('d, 'p, 'm, 'q, unit) vh" where
  "replace_memory E mem new_mappings =
     thenM (modifyM (\<lambda>h. h\<lparr>vh_atomic_mem := mem\<rparr>))
     (thenM (on_device (d_update_memory (ed E) mem) (\<lambda>_. other_error))
       (modifyM (\<lambda>h. h\<lparr>vh_mappings := new_mappings (vh_mappings h)\<rparr>)))"

definition vh_set_mem_table ::
    "('d, 'p, 'm, 'r, 'q, 'e) handler_env \<Rightarrow> VhostUserMemoryRegion list \<Rightarrow> fd list \<Rightarrow> ('d, 'p, 'm, 'q, unit) vh" where
  "vh_set_mem_table E ctx files =
     bindM (liftR (map_regions (eg E) (zip ctx files))) (\<lambda>rms.
       case from_regions (eg E) (map fst rms) of
         None \<Rightarrow> failM other_error
       | Some mem \<Rightarrow> replace_memory E mem (\<lambda>_. map snd rms))"

definition vh_add_mem_region ::
    "('d, 'p, 'm, 'r, 'q, 'e) handler_env \<Rightarrow> VhostUserSingleMemoryRegion \<Rightarrow> fd \<Rightarrow> ('d, 'p, 'm, 'q, unit) vh" where
  "vh_add_mem_region E region f =
     bindM (liftR (map_region (eg E) (smr_region region) f)) (\<lambda>(guest_region, addr_mapping).
     bindM (readM vh_atomic_mem) (\<lambda>old.
       case insert_region (eg E) guest_region old of
         None \<Rightarrow> failM other_error
       | Some mem \<Rightarrow> replace_memory E mem (\<lambda>ms. ms @ [addr_mapping])))"

definition vh_remove_mem_region ::
    "('d, 'p, 'm, 'r, 'q, 'e) handler_env \<Rightarrow> VhostUserSingleMemoryRegion \<Rightarrow> ('d, 'p, 'm, 'q, unit) vh" where
  "vh_remove_mem_region E region =
     bindM (readM vh_atomic_mem) (\<lambda>old.
       case remove_region (eg E) (guest_phys_addr (smr_region region)) (memory_size (smr_region region)) old of
         None \<Rightarrow> failM other_error
       | Some mem \<Rightarrow> replace_memory E mem
           (filter (\<lambda>mapping. am_gpa_base mapping \<noteq> guest_phys_addr (smr_region region))))"

fun new_bitmaps :: "(nat \<times> nat) list \<Rightarrow> logmem \<Rightarrow> io_error + AtomicBitmapMmap list" where
  "new_bitmaps [] mem = Inr []"
| "new_bitmaps ((region_start, region_len) # rest) mem =
     (case bitmap_new region_start region_len mem of
        Inl e \<Rightarrow> Inl e
      | Inr bm \<Rightarrow> (case new_bitmaps rest mem of
          Inl e \<Rightarrow> Inl e
        | Inr bms \<Rightarrow> Inr (bm # bms)))"

definition vh_set_log_base ::
    "('d, 'p, 'm, 'r, 'q, 'e) handler_env \<Rightarrow> VhostUserLog \<Rightarrow> fd \<Rightarrow> ('d, 'p, 'm, 'q, unit) vh" where
  "vh_set_log_base E log f =
     bindM (readM vh_atomic_mem) (\<lambda>mem.
       case from_file (map_log (eg E)) f (log_mmap_offset log) (log_mmap_size log) of
         Inl e \<Rightarrow> failM (ReqHandlerError e)
       | Inr lm \<Rightarrow> (case new_bitmaps (region_ranges (eg E) mem) lm of
           Inl e \<Rightarrow> failM (ReqHandlerError e)
         | Inr bitmaps \<Rightarrow> modifyM (\<lambda>h. h\<lparr>vh_atomic_mem := replace_bitmaps (eg E) lm bitmaps mem\<rparr>)))"

subsection \<open>Vrings\<close>

definition vh_set_vring_num ::
    "('d, 'p, 'm, 'r, 'q, 'e) handler_env \<Rightarrow> u32 \<Rightarrow> u32 \<Rightarrow> ('d, 'p, 'm, 'q, unit) vh" where
  "vh_set_vring_num E index num =
     thenM (get_vring (unat index))
     (bindM (readM vh_max_queue_size) (\<lambda>max_queue_size.
       if num = 0 \<or> unat num > max_queue_size then failM InvalidParam
       else modify_vring (unat index) (set_queue_size (eq E) (ucast num))))"

definition va_to_gpa :: "u64 \<Rightarrow> ('d, 'p, 'm, 'q, u64) vh" where
  "va_to_gpa va = bindM (readM vh_mappings) (\<lambda>ms.
     case vmm_va_to_gpa ms va of None \<Rightarrow> failM other_error | Some gpa \<Rightarrow> retM gpa)"

definition vh_set_queue_info ::
    "('d, 'p, 'm, 'r, 'q, 'e) handler_env \<Rightarrow> nat \<Rightarrow> u64 \<Rightarrow> u64 \<Rightarrow> u64 \<Rightarrow> ('d, 'p, 'm, 'q, unit) vh" where
  "vh_set_queue_info E i desc_table avail_ring used_ring = (\<lambda>h.
     case set_queue_info (eq E) desc_table avail_ring used_ring (vh_vrings h ! i) of
       (r, v') \<Rightarrow> Some (case r of Inl _ \<Rightarrow> Inl InvalidParam | Inr _ \<Rightarrow> Inr (),
                        h\<lparr>vh_vrings := (vh_vrings h)[i := v']\<rparr>))"

definition vh_set_vring_addr ::
    "('d, 'p, 'm, 'r, 'q, 'e) handler_env \<Rightarrow> u32 \<Rightarrow> u32 \<Rightarrow> u64 \<Rightarrow> u64 \<Rightarrow> u64 \<Rightarrow> u64 \<Rightarrow> ('d, 'p, 'm, 'q, unit) vh" where
  "vh_set_vring_addr E index flags descriptor used available log =
     thenM (get_vring (unat index))
     (bindM (readM vh_mappings) (\<lambda>mappings.
       if mappings \<noteq> [] then
         bindM (va_to_gpa descriptor) (\<lambda>desc_table.
         bindM (va_to_gpa available) (\<lambda>avail_ring.
         bindM (va_to_gpa used) (\<lambda>used_ring.
         thenM (vh_set_queue_info E (unat index) desc_table avail_ring used_ring)
         (bindM (readM (\<lambda>h. queue_used_idx (eq E) (vh_atomic_mem h) (vh_vrings h ! unat index))) (\<lambda>r.
            case r of
              Inl _ \<Rightarrow> failM BackendInternalError
            | Inr idx \<Rightarrow> modify_vring (unat index) (set_queue_next_used (eq E) idx))))))
       else failM InvalidParam))"

definition vh_set_vring_base ::
    "('d, 'p, 'm, 'r, 'q, 'e) handler_env \<Rightarrow> u32 \<Rightarrow> u32 \<Rightarrow> ('d, 'p, 'm, 'q, unit) vh" where
  "vh_set_vring_base E index base =
     thenM (get_vring (unat index))
       (modify_vring (unat index) (set_queue_next_avail (eq E) (ucast base)))"

text \<open>
  \<open>set_kick\<close> drops the previous file, which closes the descriptor of the backend. It stays
  registered with an epoll instance as long as the frontend has its own copy open
  (\<open>epoll_closed\<close>).
\<close>

definition replace_kick ::
    "('d, 'p, 'm, 'r, 'q, 'e) handler_env \<Rightarrow> nat \<Rightarrow> fd option \<Rightarrow> ('d, 'p, 'm, 'q, unit) vh" where
  "replace_kick E i f = modifyM (\<lambda>h.
     (case vr_kick (vh_vrings h ! i) of
        None \<Rightarrow> h
      | Some old \<Rightarrow> map_epolls (epoll_closed (ep E) old) h)
     \<lparr>vh_vrings := (vh_vrings h)[i := set_kick f (vh_vrings h ! i)]\<rparr>)"

definition vh_get_vring_base ::
    "('d, 'p, 'm, 'r, 'q, 'e) handler_env \<Rightarrow> u32 \<Rightarrow> ('d, 'p, 'm, 'q, VhostUserVringState) vh" where
  "vh_get_vring_base E index =
     (let i = unat index in
      thenM (get_vring i)
      (thenM (modify_vring i (set_queue_ready (eq E) False))
      (thenM (update_vring_registration E i (ucast index))
      (bindM (readM (\<lambda>h. queue_next_avail (eq E) (vh_vrings h ! i))) (\<lambda>next_avail.
       thenM (replace_kick E i None)
      (thenM (modify_vring i (set_call None))
        (retM (VhostUserVringState_new index (ucast next_avail)))))))))"

definition init_if_needed ::
    "('d, 'p, 'm, 'r, 'q, 'e) handler_env \<Rightarrow> u8 \<Rightarrow> ('d, 'p, 'm, 'q, unit) vh" where
  "init_if_needed E index =
     bindM (readM (\<lambda>h. vring_needs_init (eq E) (vh_vrings h ! unat index))) (\<lambda>b.
       if b then initialize_vring E (unat index) index else retM ())"

definition vh_set_vring_kick ::
    "('d, 'p, 'm, 'r, 'q, 'e) handler_env \<Rightarrow> u8 \<Rightarrow> fd option \<Rightarrow> ('d, 'p, 'm, 'q, unit) vh" where
  "vh_set_vring_kick E index f =
     thenM (get_vring (unat index)) (thenM (replace_kick E (unat index) f) (init_if_needed E index))"

definition vh_set_vring_call ::
    "('d, 'p, 'm, 'r, 'q, 'e) handler_env \<Rightarrow> u8 \<Rightarrow> fd option \<Rightarrow> ('d, 'p, 'm, 'q, unit) vh" where
  "vh_set_vring_call E index f =
     thenM (get_vring (unat index)) (thenM (modify_vring (unat index) (set_call f)) (init_if_needed E index))"

definition vh_set_vring_err :: "u8 \<Rightarrow> fd option \<Rightarrow> ('d, 'p, 'm, 'q, unit) vh" where
  "vh_set_vring_err index f =
     thenM (get_vring (unat index)) (modify_vring (unat index) (set_err f))"

definition vh_set_vring_enable ::
    "('d, 'p, 'm, 'r, 'q, 'e) handler_env \<Rightarrow> u32 \<Rightarrow> bool \<Rightarrow> ('d, 'p, 'm, 'q, unit) vh" where
  "vh_set_vring_enable E index enable =
     thenM (vh_check_feature VF_PROTOCOL_FEATURES)
     (thenM (get_vring (unat index))
     (thenM (modify_vring (unat index) (set_enabled enable))
       (update_vring_registration E (unat index) (ucast index))))"

subsection \<open>Requests passed to the device\<close>

definition vh_get_config ::
    "('d, 'p, 'm, 'r, 'q, 'e) handler_env \<Rightarrow> u32 \<Rightarrow> u32 \<Rightarrow> u32 \<Rightarrow> ('d, 'p, 'm, 'q, u8 list) vh" where
  "vh_get_config E off sz flags = call_device (d_get_config (ed E) off sz)"

definition vh_set_config ::
    "('d, 'p, 'm, 'r, 'q, 'e) handler_env \<Rightarrow> u32 \<Rightarrow> u8 list \<Rightarrow> u32 \<Rightarrow> ('d, 'p, 'm, 'q, unit) vh" where
  "vh_set_config E off buf flags = on_device (d_set_config (ed E) off buf) ReqHandlerError"

definition vh_set_backend_req_fd ::
    "('d, 'p, 'm, 'r, 'q, 'e) handler_env \<Rightarrow> fd BackendInternal \<Rightarrow> (('d, 'p, 'm, 'q) VhostUserHandler, unit) call" where
  "vh_set_backend_req_fd E backend = (\<lambda>h.
     let acked = vh_acked_protocol_features h;
         b1 = (if acked AND pf_bits PF_REPLY_ACK \<noteq> 0 then set_reply_ack_flag True backend else backend);
         b2 = (if acked AND pf_bits PF_SHARED_OBJECT \<noteq> 0 then set_shared_object_flag True b1 else b1);
         b3 = (if acked AND pf_bits PF_SHMEM \<noteq> 0 then set_shmem_flag True b2 else b2) in
     case d_set_backend_req_fd (ed E) b3 (vh_backend h) of
       None \<Rightarrow> None
     | Some (_, d') \<Rightarrow> Some ((), h\<lparr>vh_backend := d'\<rparr>))"

definition vh_set_gpu_socket ::
    "('d, 'p, 'm, 'r, 'q, 'e) handler_env \<Rightarrow> fd \<Rightarrow> ('d, 'p, 'm, 'q, unit) vh" where
  "vh_set_gpu_socket E f = on_device (d_set_gpu_socket (ed E) f) ReqHandlerError"

definition vh_get_shared_object ::
    "('d, 'p, 'm, 'r, 'q, 'e) handler_env \<Rightarrow> VhostUserSharedMsg \<Rightarrow> ('d, 'p, 'm, 'q, fd) vh" where
  "vh_get_shared_object E u = on_device (d_get_shared_object (ed E) u) (\<lambda>_. other_error)"

definition vh_get_inflight_fd :: "VhostUserInflight \<Rightarrow> ('d, 'p, 'm, 'q, VhostUserInflight \<times> fd) vh" where
  "vh_get_inflight_fd inflight = failM (InvalidOperation ''not supported'')"

definition vh_set_inflight_fd :: "VhostUserInflight \<Rightarrow> fd \<Rightarrow> ('d, 'p, 'm, 'q, unit) vh" where
  "vh_set_inflight_fd inflight f = failM (InvalidOperation ''not supported'')"

definition vh_set_device_state_fd ::
    "('d, 'p, 'm, 'r, 'q, 'e) handler_env \<Rightarrow> VhostTransferStateDirection \<Rightarrow> VhostTransferStatePhase \<Rightarrow> fd \<Rightarrow>
       ('d, 'p, 'm, 'q, fd option) vh" where
  "vh_set_device_state_fd E direction phase f =
     on_device (d_set_device_state_fd (ed E) direction phase f) ReqHandlerError"

definition vh_check_device_state ::
    "('d, 'p, 'm, 'r, 'q, 'e) handler_env \<Rightarrow> ('d, 'p, 'm, 'q, unit) vh" where
  "vh_check_device_state E = on_device (d_check_device_state (ed E)) ReqHandlerError"

definition vh_get_shmem_config ::
    "('d, 'p, 'm, 'r, 'q, 'e) handler_env \<Rightarrow> ('d, 'p, 'm, 'q, VhostUserShMemConfig) vh" where
  "vh_get_shmem_config E = on_device (d_get_shmem_config (ed E)) ReqHandlerError"

subsection \<open>Postcopy migration\<close>

definition vh_postcopy_advice ::
    "('d, 'p, 'm, 'r, 'q, 'e) handler_env \<Rightarrow> ('d, 'p, 'm, 'q, fd) vh" where
  "vh_postcopy_advice E =
     (case uffd_create (eu E) of
        Inl _ \<Rightarrow> failM other_error
      | Inr uffd \<Rightarrow> (case uffd_dup (eu E) uffd of
          Inl e \<Rightarrow> failM (ReqHandlerError e)
        | Inr dup \<Rightarrow> thenM (modifyM (\<lambda>h. h\<lparr>vh_uffd := Some uffd\<rparr>)) (retM dup)))"

definition vh_postcopy_listen ::
    "('d, 'p, 'm, 'r, 'q, 'e) handler_env \<Rightarrow> ('d, 'p, 'm, 'q, unit) vh" where
  "vh_postcopy_listen E =
     bindM (readM vh_uffd) (\<lambda>u. case u of
       None \<Rightarrow> failM other_error
     | Some uffd \<Rightarrow> bindM (readM vh_mappings) (\<lambda>ms.
         forM ms (\<lambda>mapping.
           guardM (uffd_register (eu E) uffd (am_local_addr mapping) (am_size mapping)) other_error)))"

definition vh_postcopy_end :: "('d, 'p, 'm, 'q, unit) vh" where
  "vh_postcopy_end = modifyM (\<lambda>h. h\<lparr>vh_uffd := None\<rparr>)"

subsection \<open>The handler as a device of the request server\<close>

definition handler_device ::
    "('d, 'p, 'm, 'r, 'q, 'e) handler_env \<Rightarrow>
       ('d, 'p, 'm, 'q) VhostUserHandler VhostUserBackendReqHandler" where
  "handler_device E =
     \<lparr>be_set_owner = vh_set_owner,
      be_reset_owner = vh_reset_owner,
      be_reset_device = vh_reset_device E,
      be_get_features = vh_get_features E,
      be_set_features = vh_set_features E,
      be_set_mem_table = vh_set_mem_table E,
      be_set_vring_num = vh_set_vring_num E,
      be_set_vring_addr = vh_set_vring_addr E,
      be_set_vring_base = vh_set_vring_base E,
      be_get_vring_base = vh_get_vring_base E,
      be_set_vring_kick = vh_set_vring_kick E,
      be_set_vring_call = vh_set_vring_call E,
      be_set_vring_err = vh_set_vring_err,
      be_get_protocol_features = vh_get_protocol_features E,
      be_set_protocol_features = vh_set_protocol_features,
      be_get_queue_num = vh_get_queue_num,
      be_set_vring_enable = vh_set_vring_enable E,
      be_get_config = vh_get_config E,
      be_set_config = vh_set_config E,
      be_set_backend_req_fd = (\<lambda>f. vh_set_backend_req_fd E (bc_new f)),
      be_set_gpu_socket = vh_set_gpu_socket E,
      be_get_shared_object = vh_get_shared_object E,
      be_get_inflight_fd = vh_get_inflight_fd,
      be_set_inflight_fd = vh_set_inflight_fd,
      be_get_max_mem_slots = vh_get_max_mem_slots,
      be_add_mem_region = vh_add_mem_region E,
      be_remove_mem_region = vh_remove_mem_region E,
      be_set_device_state_fd = vh_set_device_state_fd E,
      be_check_device_state = vh_check_device_state E,
      be_get_shmem_config = vh_get_shmem_config E,
      be_postcopy_advice = vh_postcopy_advice E,
      be_postcopy_listen = vh_postcopy_listen E,
      be_postcopy_end = vh_postcopy_end,
      be_set_log_base = vh_set_log_base E\<rparr>"

subsection \<open>The epoll instances of a handler\<close>

lemma vh_epolls_update [simp]:
  "vh_epolls (h\<lparr>vh_backend := x0\<rparr>) = vh_epolls h"
  "vh_epolls (h\<lparr>vh_owned := x1\<rparr>) = vh_epolls h"
  "vh_epolls (h\<lparr>vh_features_acked := x2\<rparr>) = vh_epolls h"
  "vh_epolls (h\<lparr>vh_acked_features := x3\<rparr>) = vh_epolls h"
  "vh_epolls (h\<lparr>vh_acked_protocol_features := x4\<rparr>) = vh_epolls h"
  "vh_epolls (h\<lparr>vh_num_queues := x5\<rparr>) = vh_epolls h"
  "vh_epolls (h\<lparr>vh_max_queue_size := x6\<rparr>) = vh_epolls h"
  "vh_epolls (h\<lparr>vh_queues_per_thread := x7\<rparr>) = vh_epolls h"
  "vh_epolls (h\<lparr>vh_mappings := x8\<rparr>) = vh_epolls h"
  "vh_epolls (h\<lparr>vh_atomic_mem := x9\<rparr>) = vh_epolls h"
  "vh_epolls (h\<lparr>vh_vrings := x10\<rparr>) = vh_epolls h"
  "vh_epolls (h\<lparr>vh_uffd := x11\<rparr>) = vh_epolls h"
  "vh_epolls (h\<lparr>vh_worker_threads := x12\<rparr>) = vh_epolls h"
  by (simp_all add: vh_epolls_def)

lemma set_epoll_sel [simp]:
  "vh_epolls (set_epoll t p h) = (vh_epolls h)[t := p]"
  "vh_backend (set_epoll t p h) = vh_backend h"
  "vh_owned (set_epoll t p h) = vh_owned h"
  "vh_features_acked (set_epoll t p h) = vh_features_acked h"
  "vh_acked_features (set_epoll t p h) = vh_acked_features h"
  "vh_acked_protocol_features (set_epoll t p h) = vh_acked_protocol_features h"
  "vh_num_queues (set_epoll t p h) = vh_num_queues h"
  "vh_max_queue_size (set_epoll t p h) = vh_max_queue_size h"
  "vh_queues_per_thread (set_epoll t p h) = vh_queues_per_thread h"
  "vh_mappings (set_epoll t p h) = vh_mappings h"
  "vh_atomic_mem (set_epoll t p h) = vh_atomic_mem h"
  "vh_vrings (set_epoll t p h) = vh_vrings h"
  "vh_uffd (set_epoll t p h) = vh_uffd h"
  "vh_worker_threads (set_epoll t p h) = vh_worker_threads h"
  by (simp_all add: vh_epolls_def set_epoll_def map_update)

lemma map_epolls_sel [simp]:
  "vh_epolls (map_epolls f h) = map f (vh_epolls h)"
  "vh_backend (map_epolls f h) = vh_backend h"
  "vh_owned (map_epolls f h) = vh_owned h"
  "vh_features_acked (map_epolls f h) = vh_features_acked h"
  "vh_acked_features (map_epolls f h) = vh_acked_features h"
  "vh_acked_protocol_features (map_epolls f h) = vh_acked_protocol_features h"
  "vh_num_queues (map_epolls f h) = vh_num_queues h"
  "vh_max_queue_size (map_epolls f h) = vh_max_queue_size h"
  "vh_queues_per_thread (map_epolls f h) = vh_queues_per_thread h"
  "vh_mappings (map_epolls f h) = vh_mappings h"
  "vh_atomic_mem (map_epolls f h) = vh_atomic_mem h"
  "vh_vrings (map_epolls f h) = vh_vrings h"
  "vh_uffd (map_epolls f h) = vh_uffd h"
  "vh_worker_threads (map_epolls f h) = vh_worker_threads h"
  by (simp_all add: vh_epolls_def map_epolls_def)

subsection \<open>The event index of a vring\<close>

lemma filter_upt_nth:
  assumes "i < n" and "P i"
  shows "filter P [0..<n] ! length (filter P [0..<i]) = i"
    and "length (filter P [0..<i]) < length (filter P [0..<n])"
proof -
  have "[0..<n] = [0..<i] @ i # [Suc i..<n]"
    using assms(1) upt_add_eq_append [of 0 i "n - i"] by (simp add: upt_conv_Cons)
  with assms(2) show "filter P [0..<n] ! length (filter P [0..<i]) = i"
    and "length (filter P [0..<i]) < length (filter P [0..<n])"
    by (simp_all add: nth_append)
qed

lemma count_ones_shift:
  assumes "i < 64"
  shows "count_ones (w :: u64) - count_ones (drop_bit i w) = length (filter (bit w) [0..<i])"
proof -
  have split: "[0..<64] = [0..<i] @ [i..<64]"
    using assms upt_add_eq_append [of 0 i "64 - i"] by simp
  have high: "\<not> bit w k" if "64 \<le> k" for k
    using that bit_imp_le_length [of w k] by auto
  have "filter (bit (drop_bit i w)) [0..<64] = filter (\<lambda>k. bit w (i + k)) [0..<64]"
    by (simp add: bit_drop_bit_eq comp_def)
  then have "count_ones (drop_bit i w) = length (filter (bit w) (map ((+) i) [0..<64]))"
    by (simp add: count_ones_def filter_map comp_def)
  also have "map ((+) i) [0..<64] = [i..<64] @ [64..<64 + i]"
    using assms map_add_upt [of i 64] upt_add_eq_append [of i 64 i]
    by (simp add: add.commute [of i] fun_eq_iff [of "(+) i"] ext [of "(+) i" "\<lambda>k. k + i"])
  also have "filter (bit w) ([i..<64] @ [64..<64 + i]) = filter (bit w) [i..<64]"
    using high by simp
  finally have "count_ones (drop_bit i w) = length (filter (bit w) [i..<64])" .
  then show ?thesis unfolding count_ones_def split by simp
qed

lemma find_threadD:
  assumes "find_thread masks t0 index = Some (t, d)"
  shows "t0 \<le> t \<and> t - t0 < length masks \<and> shr64 (masks ! (t - t0)) (unat index) AND 1 = 1
    \<and> d = word_of_nat (count_ones (masks ! (t - t0)) - count_ones (shr64 (masks ! (t - t0)) (unat index)))"
  using assms
proof (induction masks arbitrary: t0)
  case (Cons m masks)
  show ?case
  proof (cases "shr64 m (unat index) AND 1 = 1")
    case True
    with Cons.prems show ?thesis by (auto simp: Let_def)
  next
    case False
    with Cons.prems have "find_thread masks (Suc t0) index = Some (t, d)" by (simp add: Let_def)
    from Cons.IH [OF this] show ?thesis by (auto simp: nth_Cons' Suc_le_eq)
  qed
qed simp

lemma shr64_and_1: "i < 64 \<Longrightarrow> shr64 m i AND 1 = 1 \<longleftrightarrow> bit m i"
  by (simp add: shr64_def and_one_eq bit_iff_odd_drop_bit odd_iff_mod_2_eq_one)

text \<open>
  The event data of a registration are the position of the vring in the list that the thread was
  created with.
\<close>

lemma event_index_position:
  assumes "find_thread masks 0 (word_of_nat i) = Some (t, d)" and "i < n" and "n \<le> 64"
  shows "t < length masks" and "thread_vrings n (masks ! t) ! unat d = i"
    and "unat d < length (thread_vrings n (masks ! t))"
proof -
  from assms(2,3) have i: "i < 64" "unat (word_of_nat i :: u8) = i" by (simp_all add: unat_of_nat)
  from find_threadD [OF assms(1)] i show "t < length masks" by simp
  from find_threadD [OF assms(1)] i have b: "bit (masks ! t) i"
    and d: "d = word_of_nat (count_ones (masks ! t) - count_ones (drop_bit i (masks ! t)))"
    by (simp_all add: shr64_and_1) (simp add: shr64_def)
  have "length (filter (bit (masks ! t)) [0..<i]) \<le> i"
    using length_filter_le [of "bit (masks ! t)" "[0..<i]"] by simp
  with i(1) have "length (filter (bit (masks ! t)) [0..<i]) < 2 ^ 64" by simp
  with d count_ones_shift [OF i(1)] have "unat d = length (filter (bit (masks ! t)) [0..<i])"
    by (simp add: unat_of_nat)
  moreover have "thread_vrings n (masks ! t) = filter (bit (masks ! t)) [0..<n]"
    unfolding thread_vrings_def using assms(3) by (intro filter_cong) (auto simp: shr64_and_1)
  ultimately show "thread_vrings n (masks ! t) ! unat d = i" and "unat d < length (thread_vrings n (masks ! t))"
    using filter_upt_nth [where P = "bit (masks ! t)", OF assms(2) b] by simp_all
qed

subsection \<open>The registration invariant\<close>

text \<open>
  With \<open>n\<close> vrings: their kick descriptors are different, and a registered kick descriptor is
  registered with the thread and the data of its vring; the vring is started and enabled unless
  its index is in \<open>S\<close>, the set of vrings whose registration is yet to be brought up to date.
\<close>

definition kicks_inv ::
    "('d, 'p, 'm, 'r, 'q, 'e) handler_env \<Rightarrow> ('p \<Rightarrow> (fd \<times> u64) set) \<Rightarrow> nat \<Rightarrow> nat set \<Rightarrow>
       ('d, 'p, 'm, 'q) VhostUserHandler \<Rightarrow> bool" where
  "kicks_inv E interest n S h \<longleftrightarrow>
     length (vh_vrings h) = n \<and> length (vh_epolls h) = length (vh_queues_per_thread h)
     \<and> (\<forall>i < n. \<forall>j < n. \<forall>f. vr_kick (vh_vrings h ! i) = Some f \<longrightarrow> vr_kick (vh_vrings h ! j) = Some f \<longrightarrow> i = j)
     \<and> (\<forall>i < n. \<forall>t < length (vh_epolls h). \<forall>f d.
          vr_kick (vh_vrings h ! i) = Some f \<longrightarrow> (f, d) \<in> interest (vh_epolls h ! t) \<longrightarrow>
            find_thread (vh_queues_per_thread h) 0 (word_of_nat i) = Some (t, d)
            \<and> (i \<notin> S \<longrightarrow> active (eq E) (vh_vrings h ! i)))"

lemma kicks_inv_fields [simp]:
  "kicks_inv E N n S (h\<lparr>vh_backend := x1\<rparr>) = kicks_inv E N n S h"
  "kicks_inv E N n S (h\<lparr>vh_owned := x2\<rparr>) = kicks_inv E N n S h"
  "kicks_inv E N n S (h\<lparr>vh_features_acked := x2\<rparr>) = kicks_inv E N n S h"
  "kicks_inv E N n S (h\<lparr>vh_acked_features := x3\<rparr>) = kicks_inv E N n S h"
  "kicks_inv E N n S (h\<lparr>vh_acked_protocol_features := x3\<rparr>) = kicks_inv E N n S h"
  "kicks_inv E N n S (h\<lparr>vh_mappings := x4\<rparr>) = kicks_inv E N n S h"
  "kicks_inv E N n S (h\<lparr>vh_atomic_mem := x5\<rparr>) = kicks_inv E N n S h"
  "kicks_inv E N n S (h\<lparr>vh_uffd := x6\<rparr>) = kicks_inv E N n S h"
  by (simp_all add: kicks_inv_def)

lemma kicks_inv_mono: "kicks_inv E N n S h \<Longrightarrow> S \<subseteq> T \<Longrightarrow> kicks_inv E N n T h"
  unfolding kicks_inv_def by blast

lemma kicks_inv_position:
  assumes "kicks_inv E N n S h" and "i < n" and "t < length (vh_epolls h)"
    and "vr_kick (vh_vrings h ! i) = Some f" and "(f, d) \<in> N (vh_epolls h ! t)"
  shows "find_thread (vh_queues_per_thread h) 0 (word_of_nat i) = Some (t, d)"
    and "i \<notin> S \<Longrightarrow> active (eq E) (vh_vrings h ! i)"
  using assms unfolding kicks_inv_def by blast+

lemma kicks_inv_discharge:
  assumes "kicks_inv E N n {i} h"
    and "\<And>f t d. vr_kick (vh_vrings h ! i) = Some f \<Longrightarrow> t < length (vh_epolls h) \<Longrightarrow>
      (f, d) \<in> N (vh_epolls h ! t) \<Longrightarrow> i < n \<Longrightarrow> active (eq E) (vh_vrings h ! i)"
  shows "kicks_inv E N n {} h"
  using assms unfolding kicks_inv_def by blast

lemma preserves_call_device [preserve_intros]: "preserves (kicks_inv E N n S) (call_device c)"
  by (auto simp: preserves_def call_device_def split: option.splits)

lemma preserves_on_device [preserve_intros]: "preserves (kicks_inv E N n S) (on_device c err)"
  unfolding on_device_def by (intro preserve_intros)

text \<open>Replacing a vring by one with the same kick descriptor.\<close>

lemma kicks_inv_update:
  assumes "kicks_inv E N n S h" and "vr_kick v = vr_kick (vh_vrings h ! i)"
  shows "kicks_inv E N n (insert i S) (h\<lparr>vh_vrings := (vh_vrings h)[i := v]\<rparr>)"
    and "active (eq E) v = active (eq E) (vh_vrings h ! i) \<Longrightarrow>
      kicks_inv E N n S (h\<lparr>vh_vrings := (vh_vrings h)[i := v]\<rparr>)"
proof -
  have kick: "vr_kick ((vh_vrings h)[i := v] ! j) = vr_kick (vh_vrings h ! j)" if "j < length (vh_vrings h)" for j
    using that assms(2) by (cases "j = i") simp_all
  have act: "active (eq E) ((vh_vrings h)[i := v] ! j) = active (eq E) (vh_vrings h ! j)" if "j \<noteq> i" for j
    using that by simp
  show "kicks_inv E N n (insert i S) (h\<lparr>vh_vrings := (vh_vrings h)[i := v]\<rparr>)"
    using assms(1) by (simp add: kicks_inv_def kick act)
  assume "active (eq E) v = active (eq E) (vh_vrings h ! i)"
  then have "active (eq E) ((vh_vrings h)[i := v] ! j) = active (eq E) (vh_vrings h ! j)"
    if "j < length (vh_vrings h)" for j
    using that by (cases "j = i") simp_all
  with assms(1) show "kicks_inv E N n S (h\<lparr>vh_vrings := (vh_vrings h)[i := v]\<rparr>)"
    by (simp add: kicks_inv_def kick)
qed

lemma preserves_modify_vring:
  assumes "\<And>v. vr_kick (g v) = vr_kick v" and "\<And>v. active (eq E) (g v) = active (eq E) v"
  shows "preserves (kicks_inv E N n S) (modify_vring i g)"
  unfolding modify_vring_def by (intro preserves_modifyM kicks_inv_update(2)) (simp_all add: assms)

text \<open>Bringing the registration of a vring up to date restores the invariant for it, also on failure.\<close>

lemma update_vring_registration_restores:
  assumes law: "epoll_law (ep E) N" and inv: "kicks_inv E N n {i} h" and i: "i < n"
    and run: "update_vring_registration E i (word_of_nat i) h = Some (r, h')"
  shows "kicks_inv E N n {} h'"
proof (cases "vr_kick (vh_vrings h ! i)")
  case None
  with run have "h' = h" by (simp add: update_vring_registration_def)
  with None show ?thesis by (auto intro: kicks_inv_discharge [OF inv])
next
  case (Some f)
  show ?thesis
  proof (cases "find_thread (vh_queues_per_thread h) 0 (word_of_nat i)")
    case None
    with run Some have "h' = h" by (simp add: update_vring_registration_def)
    with None kicks_inv_position(1) [OF inv] show ?thesis by (auto intro: kicks_inv_discharge [OF inv])
  next
    case (Some td)
    obtain t d where td: "td = (t, d)" by (cases td)
    note kick = \<open>vr_kick (vh_vrings h ! i) = Some f\<close>
    have other: "vr_kick (vh_vrings h ! j) \<noteq> Some f" if "j < n" "j \<noteq> i" for j
      using inv i kick that unfolding kicks_inv_def by blast
    have set_t: "kicks_inv E N n {} (set_epoll t p' h)"
      if p': "(active (eq E) (vh_vrings h ! i) \<and> N p' \<subseteq> insert (f, d) (N (vh_epolls h ! t)))
          \<or> (N p' = {x \<in> N (vh_epolls h ! t). fst x \<noteq> f})" for p'
    proof -
      have pos: "find_thread (vh_queues_per_thread h) 0 (word_of_nat i) = Some (t, d)" using Some td by simp
      have "find_thread (vh_queues_per_thread h) 0 (word_of_nat j) = Some (t', d')
            \<and> active (eq E) (vh_vrings h ! j)"
        if j: "j < n" "t' < length (vh_epolls h)" "vr_kick (vh_vrings h ! j) = Some g"
          "(g, d') \<in> N ((vh_epolls h)[t := p'] ! t')" for j t' g d'
      proof (cases "j = i")
        case False
        with other j have "g \<noteq> f" by auto
        with j p' have "(g, d') \<in> N (vh_epolls h ! t')" by (cases "t' = t") auto
        with kicks_inv_position [OF inv j(1,2,3)] False show ?thesis by simp
      next
        case True
        with j kick have g: "g = f" by simp
        show ?thesis
        proof (cases "t' = t")
          case False
          with j have "(f, d') \<in> N (vh_epolls h ! t')" by (simp add: g)
          with kicks_inv_position(1) [OF inv i j(2) kick]
          have "find_thread (vh_queues_per_thread h) 0 (word_of_nat i) = Some (t', d')" by simp
          with pos False show ?thesis by simp
        next
          case t': True
          with j p' g have act: "active (eq E) (vh_vrings h ! i)"
            and "(f, d') = (f, d) \<or> (f, d') \<in> N (vh_epolls h ! t)" by auto
          with kicks_inv_position(1) [OF inv i j(2) kick] True t' pos show ?thesis by auto
        qed
      qed
      with inv show ?thesis by (simp add: kicks_inv_def)
    qed
    show ?thesis
    proof (cases "active (eq E) (vh_vrings h ! i)")
      case True
      obtain a p' where add: "register_event (ep E) f EVENTSET_IN d (vh_epolls h ! t) = (a, p')"
        by (cases "register_event (ep E) f EVENTSET_IN d (vh_epolls h ! t)")
      with run kick Some td True have "h' = set_epoll t p' h"
        by (auto simp: update_vring_registration_def active_def split: sum.splits if_splits)
      moreover have "N p' \<subseteq> insert (f, d) (N (vh_epolls h ! t))"
        using epoll_law_add(1) [OF law add [unfolded register_event_def]] .
      ultimately show ?thesis using True set_t by simp
    next
      case False
      obtain a p' where del: "unregister_event (ep E) f EVENTSET_IN d (vh_epolls h ! t) = (a, p')"
        by (cases "unregister_event (ep E) f EVENTSET_IN d (vh_epolls h ! t)")
      with run kick Some td False have "h' = set_epoll t p' h"
        by (auto simp: update_vring_registration_def active_def)
      moreover have "N p' = {x \<in> N (vh_epolls h ! t). fst x \<noteq> f}"
        using epoll_law_del [OF law del [unfolded unregister_event_def]] .
      ultimately show ?thesis using set_t by simp
    qed
  qed
qed

text \<open>A change of one vring that keeps its kick descriptor, followed by its registration.\<close>

lemma modify_and_register_preserves:
  assumes "epoll_law (ep E) N" and "i < n" and "\<And>v. vr_kick (g v) = vr_kick v"
    and "x = word_of_nat i"
  shows "preserves (kicks_inv E N n {}) (thenM (modify_vring i g) (update_vring_registration E i x))"
  unfolding preserves_def
proof (intro allI impI)
  fix h r h'
  assume inv: "kicks_inv E N n {} h"
    and run: "thenM (modify_vring i g) (update_vring_registration E i x) h = Some (r, h')"
  let ?h = "h\<lparr>vh_vrings := (vh_vrings h)[i := g (vh_vrings h ! i)]\<rparr>"
  from run assms(4) have "update_vring_registration E i (word_of_nat i) ?h = Some (r, h')"
    by (simp add: thenM_def modify_vring_def modifyM_def bindM_def)
  moreover have "kicks_inv E N n {i} ?h" using kicks_inv_update(1) [OF inv] assms(3) by simp
  ultimately show "kicks_inv E N n {} h'"
    using update_vring_registration_restores [OF assms(1) _ assms(2)] by blast
qed

lemma preserves_in_range:
  assumes "\<And>h. P h \<Longrightarrow> length (vh_vrings h) = n" and "i < n \<Longrightarrow> preserves P m"
  shows "preserves P (thenM (get_vring i) m)"
  unfolding preserves_def
proof (intro allI impI)
  fix h r h'
  assume inv: "P h" and run: "thenM (get_vring i) m h = Some (r, h')"
  show "P h'"
  proof (cases "i < length (vh_vrings h)")
    case True
    with assms(1) [OF inv] have "i < n" by simp
    moreover from run True have "m h = Some (r, h')"
      by (simp add: thenM_def bindM_def get_vring_def)
    ultimately show ?thesis using preservesD [OF assms(2) inv] by blast
  next
    case False
    with run inv show ?thesis by (simp add: thenM_def bindM_def get_vring_def)
  qed
qed

lemma preserves_get_vring:
  assumes "i < n \<Longrightarrow> preserves (kicks_inv E N n S) m"
  shows "preserves (kicks_inv E N n S) (thenM (get_vring i) m)"
  by (rule preserves_in_range [where n = n]) (simp_all add: assms, simp add: kicks_inv_def)

text \<open>
  A kick descriptor that the backend does not use yet: no epoll instance has it registered and no
  vring has it.
\<close>

definition fresh_kick ::
    "('p \<Rightarrow> (fd \<times> u64) set) \<Rightarrow> u8 \<Rightarrow> fd option \<Rightarrow> ('d, 'p, 'm, 'q) VhostUserHandler \<Rightarrow> bool" where
  "fresh_kick interest index fo h \<longleftrightarrow> (\<forall>f. fo = Some f \<longrightarrow>
     (\<forall>p \<in> set (vh_epolls h). f \<notin> fst ` interest p) \<and> (\<forall>v \<in> set (vh_vrings h). vr_kick v \<noteq> Some f))"

lemma kicks_inv_replace_kick:
  assumes law: "epoll_law (ep E) N" and inv: "kicks_inv E N n S h" and i: "i < n"
    and fresh: "fresh_kick N x fo h" and run: "replace_kick E i fo h = Some (r, h')"
  shows "kicks_inv E N n S h'"
proof -
  have len: "length (vh_vrings h) = n" using inv by (simp add: kicks_inv_def)
  have vr: "vh_vrings h' = (vh_vrings h)[i := set_kick fo (vh_vrings h ! i)]"
    and qpt: "vh_queues_per_thread h' = vh_queues_per_thread h"
    and lene: "length (vh_epolls h') = length (vh_epolls h)"
    using run by (auto simp: replace_kick_def modifyM_def split: option.splits)
  have sub: "N (vh_epolls h' ! t) \<subseteq> N (vh_epolls h ! t)" if "t < length (vh_epolls h)" for t
    using run that by (auto simp: replace_kick_def modifyM_def split: option.splits dest: subsetD [OF epoll_law_closed(1) [OF law]])
  have unused: "vr_kick (vh_vrings h ! j) \<noteq> fo \<or> fo = None" if "j < n" for j
    using fresh that len by (cases fo) (auto simp: fresh_kick_def)
  have new: "(f, d) \<notin> N (vh_epolls h ! t)" if "fo = Some f" "t < length (vh_epolls h)" for f d t
    using fresh that by (force simp: fresh_kick_def)
  have other: "vh_vrings h' ! j = vh_vrings h ! j" if "j \<noteq> i" for j using that vr by simp
  have this_kick: "vr_kick (vh_vrings h' ! i) = fo" using vr i len by simp
  show ?thesis unfolding kicks_inv_def
  proof (intro conjI allI impI)
    show "length (vh_vrings h') = n" using vr len by simp
    show "length (vh_epolls h') = length (vh_queues_per_thread h')"
      using lene qpt inv by (simp add: kicks_inv_def)
  next
    fix j k f assume "j < n" "k < n" "vr_kick (vh_vrings h' ! j) = Some f" "vr_kick (vh_vrings h' ! k) = Some f"
    then show "j = k"
      using inv unused [of j] unused [of k] this_kick
      by (cases "j = i"; cases "k = i") (auto simp: other kicks_inv_def)
  next
    fix j t f d
    assume j: "j < n" and t: "t < length (vh_epolls h')" and kick: "vr_kick (vh_vrings h' ! j) = Some f"
      and reg: "(f, d) \<in> N (vh_epolls h' ! t)"
    from reg sub t lene have reg': "(f, d) \<in> N (vh_epolls h ! t)" by auto
    have "j \<noteq> i" using kick this_kick new reg' t lene by auto
    with kick have "vr_kick (vh_vrings h ! j) = Some f" by (simp add: other)
    note pos = kicks_inv_position [OF inv j _ this reg']
    show "find_thread (vh_queues_per_thread h') 0 (word_of_nat j) = Some (t, d)"
      using pos t lene qpt by simp
    assume "j \<notin> S"
    with pos t lene show "active (eq E) (vh_vrings h' ! j)" using \<open>j \<noteq> i\<close> by (simp add: other)
  qed
qed

lemma preserves_initialize_vring:
  assumes "epoll_law (ep E) N" and "unat index < n"
  shows "preserves (kicks_inv E N n {}) (init_if_needed E index)"
  unfolding init_if_needed_def initialize_vring_def using assms
  by (intro preserve_intros modify_and_register_preserves) simp_all

text \<open>Every operation of the handler keeps the invariant.\<close>

lemma ucast_u8_word_of_nat: "(ucast (x :: u32) :: u8) = word_of_nat (unat x)"
  by simp

lemmas vh_keeps_defs = vh_set_owner_def vh_reset_owner_def vh_get_features_def vh_get_protocol_features_def
  vh_set_protocol_features_def vh_get_queue_num_def vh_get_max_mem_slots_def vh_set_mem_table_def
  vh_add_mem_region_def vh_remove_mem_region_def vh_set_log_base_def replace_memory_def
  vh_get_config_def vh_set_config_def vh_set_gpu_socket_def vh_get_shared_object_def vh_get_inflight_fd_def
  vh_set_inflight_fd_def vh_set_device_state_fd_def vh_check_device_state_def vh_get_shmem_config_def
  vh_postcopy_advice_def vh_postcopy_listen_def vh_postcopy_end_def

lemma preserves_other_ops [preserve_intros]:
  "preserves (kicks_inv E N n S) vh_set_owner"
  "preserves (kicks_inv E N n S) vh_reset_owner"
  "preserves (kicks_inv E N n S) (vh_get_features E)"
  "preserves (kicks_inv E N n S) (vh_get_protocol_features E)"
  "preserves (kicks_inv E N n S) (vh_set_protocol_features f)"
  "preserves (kicks_inv E N n S) vh_get_queue_num"
  "preserves (kicks_inv E N n S) vh_get_max_mem_slots"
  "preserves (kicks_inv E N n S) (vh_set_mem_table E ctx fs)"
  "preserves (kicks_inv E N n S) (vh_add_mem_region E region x)"
  "preserves (kicks_inv E N n S) (vh_remove_mem_region E region)"
  "preserves (kicks_inv E N n S) (vh_set_log_base E log x)"
  "preserves (kicks_inv E N n S) (vh_get_config E off sz flags)"
  "preserves (kicks_inv E N n S) (vh_set_config E off buf flags)"
  "preserves (kicks_inv E N n S) (vh_set_gpu_socket E x)"
  "preserves (kicks_inv E N n S) (vh_get_shared_object E u)"
  "preserves (kicks_inv E N n S) (vh_get_inflight_fd infl)"
  "preserves (kicks_inv E N n S) (vh_set_inflight_fd infl x)"
  "preserves (kicks_inv E N n S) (vh_set_device_state_fd E dir ph x)"
  "preserves (kicks_inv E N n S) (vh_check_device_state E)"
  "preserves (kicks_inv E N n S) (vh_get_shmem_config E)"
  "preserves (kicks_inv E N n S) (vh_postcopy_advice E)"
  "preserves (kicks_inv E N n S) (vh_postcopy_listen E)"
  "preserves (kicks_inv E N n S) vh_postcopy_end"
  unfolding vh_keeps_defs by (intro preserve_intros preserves_modifyM; simp)+

lemma preserves_every_vring:
  assumes "\<And>h. P h \<Longrightarrow> length (vh_vrings h) = n"
    and "\<And>i. i < n \<Longrightarrow> preserves P (thenM (modify_vring i (set_enabled b)) (update_vring_registration E i (word_of_nat i)))"
  shows "preserves P (enable_all_vrings E b)"
  unfolding preserves_def
proof (intro allI impI)
  fix h r h'
  assume inv: "P h" and run: "enable_all_vrings E b h = Some (r, h')"
  have "preserves P (forM [0..<n] (\<lambda>i. thenM (modify_vring i (set_enabled b))
      (update_vring_registration E i (word_of_nat i))))"
    using assms(2) by (intro preserves_forM) auto
  moreover from assms(1) [OF inv] run have "forM [0..<n] (\<lambda>i. thenM (modify_vring i (set_enabled b))
      (update_vring_registration E i (word_of_nat i))) h = Some (r, h')"
    by (simp add: enable_all_vrings_def bindM_def readM_def)
  ultimately show "P h'" using inv by (blast dest: preservesD)
qed

lemma preserves_enable_all_vrings:
  assumes "epoll_law (ep E) N"
  shows "preserves (kicks_inv E N n {}) (enable_all_vrings E b)"
  using assms by (intro preserves_every_vring [where n = n] modify_and_register_preserves) (simp_all add: kicks_inv_def)

lemma kicks_inv_map:
  assumes "kicks_inv E N n S h" and "\<And>v. vr_kick (g v) = vr_kick v"
    and "\<And>v. active (eq E) (g v) = active (eq E) v"
  shows "kicks_inv E N n S (h\<lparr>vh_vrings := map g (vh_vrings h)\<rparr>)"
  using assms by (simp add: kicks_inv_def)

lemma preserves_set_features:
  assumes "epoll_law (ep E) N" and "queue_law (eq E)"
  shows "preserves (kicks_inv E N n {}) (vh_set_features E features)"
  unfolding vh_set_features_def Let_def
  by (intro preserve_intros preserves_enable_all_vrings [OF assms(1)] preserves_modifyM kicks_inv_map)
    (simp_all add: active_setters [OF assms(2)])

lemma preserves_reset_device:
  assumes "epoll_law (ep E) N"
  shows "preserves (kicks_inv E N n {}) (vh_reset_device E)"
  unfolding vh_reset_device_def
  by (intro preserve_intros preserves_enable_all_vrings [OF assms] preserves_modifyM) simp

lemma preserves_vring_ops:
  assumes "epoll_law (ep E) N" and "queue_law (eq E)"
  shows "preserves (kicks_inv E N n {}) (vh_set_vring_num E index num)"
    and "preserves (kicks_inv E N n {}) (vh_set_vring_base E index base)"
    and "preserves (kicks_inv E N n {}) (vh_set_vring_call E x fo)"
    and "preserves (kicks_inv E N n {}) (vh_set_vring_err x fo)"
    and "preserves (kicks_inv E N n {}) (vh_set_vring_enable E index b)"
proof -
  note act = active_setters [OF assms(2)]
  show "preserves (kicks_inv E N n {}) (vh_set_vring_num E index num)"
    unfolding vh_set_vring_num_def
    by (intro preserves_get_vring preserve_intros preserves_modify_vring) (simp_all add: act)
  show "preserves (kicks_inv E N n {}) (vh_set_vring_base E index base)"
    unfolding vh_set_vring_base_def
    by (intro preserves_get_vring preserve_intros preserves_modify_vring) (simp_all add: act)
  show "preserves (kicks_inv E N n {}) (vh_set_vring_call E x fo)"
    unfolding vh_set_vring_call_def
    by (intro preserves_get_vring preserves_thenM preserves_modify_vring preserves_initialize_vring [OF assms(1)])
      (simp_all add: act)
  show "preserves (kicks_inv E N n {}) (vh_set_vring_err x fo)"
    unfolding vh_set_vring_err_def
    by (intro preserves_get_vring preserves_modify_vring) (simp_all add: act)
  have "preserves (kicks_inv E N n {}) (vh_check_feature f)" for f
    unfolding vh_check_feature_def by (intro preserve_intros)
  then show "preserves (kicks_inv E N n {}) (vh_set_vring_enable E index b)"
    unfolding vh_set_vring_enable_def
    by (intro preserves_thenM [of _ "vh_check_feature _"] preserves_get_vring
        modify_and_register_preserves [OF assms(1)]) simp_all
qed

lemma preserves_set_vring_addr:
  assumes "queue_law (eq E)"
  shows "preserves (kicks_inv E N n S) (vh_set_vring_addr E index flags d u a l)"
proof -
  have "preserves (kicks_inv E N n S) (va_to_gpa va)" for va
    unfolding va_to_gpa_def by (intro preserve_intros)
  moreover have "preserves (kicks_inv E N n S) (vh_set_queue_info E i x y z)" for i x y z
    unfolding preserves_def vh_set_queue_info_def
    by (auto split: prod.splits intro!: kicks_inv_update(2) dest: set_queue_info_keeps [OF assms])
  ultimately show ?thesis
    unfolding vh_set_vring_addr_def
    by (intro preserves_get_vring preserve_intros preserves_modify_vring)
      (simp_all add: active_setters [OF assms])
qed

lemma fresh_None [simp]: "fresh_kick N x None h"
  by (simp add: fresh_kick_def)

lemma preserves_replace_kick_None:
  assumes "epoll_law (ep E) N" and "i < n"
  shows "preserves (kicks_inv E N n S) (replace_kick E i None)"
  using kicks_inv_replace_kick [OF assms(1) _ assms(2) fresh_None] unfolding preserves_def by blast

lemma preserves_get_vring_base:
  assumes "epoll_law (ep E) N" and "queue_law (eq E)"
  shows "preserves (kicks_inv E N n {}) (vh_get_vring_base E index)"
proof -
  let ?i = "unat index"
  let ?rest = "bindM (readM (\<lambda>h. queue_next_avail (eq E) (vh_vrings h ! ?i))) (\<lambda>next_avail.
       thenM (replace_kick E ?i None)
      (thenM (modify_vring ?i (set_call None))
        (retM (VhostUserVringState_new index (ucast next_avail)))))"
  have "preserves (kicks_inv E N n {}) ?rest" if "?i < n"
    using that by (intro preserve_intros preserves_replace_kick_None [OF assms(1)] preserves_modify_vring)
      (simp_all add: active_setters [OF assms(2)])
  moreover have "preserves (kicks_inv E N n {}) (thenM (modify_vring ?i (set_queue_ready (eq E) False))
      (update_vring_registration E ?i (ucast index)))" if "?i < n"
    using that by (intro modify_and_register_preserves [OF assms(1)]) simp_all
  moreover have "vh_get_vring_base E index = thenM (get_vring ?i)
      (thenM (thenM (modify_vring ?i (set_queue_ready (eq E) False))
        (update_vring_registration E ?i (ucast index))) ?rest)"
    unfolding vh_get_vring_base_def Let_def thenM_def by (simp add: bindM_assoc)
  ultimately show ?thesis by (simp add: preserves_get_vring preserves_thenM)
qed

lemma set_vring_kick_keeps:
  assumes law: "epoll_law (ep E) N" and inv: "kicks_inv E N n {} h" and fresh: "fresh_kick N x fo h"
    and run: "vh_set_vring_kick E index fo h = Some (r, h')"
  shows "kicks_inv E N n {} h'"
proof (cases "unat index < length (vh_vrings h)")
  case False
  with run inv show ?thesis by (simp add: vh_set_vring_kick_def thenM_def bindM_def get_vring_def)
next
  case True
  with inv have i: "unat index < n" by (simp add: kicks_inv_def)
  from run True obtain h1 where h1: "replace_kick E (unat index) fo h = Some (Inr (), h1)"
    and init: "init_if_needed E index h1 = Some (r, h')"
    by (auto simp: vh_set_vring_kick_def thenM_def bindM_def get_vring_def replace_kick_def modifyM_def)
  from kicks_inv_replace_kick [OF law inv i fresh h1] preserves_initialize_vring [OF law i] init
  show ?thesis by (blast dest: preservesD)
qed

lemma set_backend_req_fd_keeps:
  assumes "vh_set_backend_req_fd E b h = Some (x, h')" and "kicks_inv E N n S h"
  shows "kicks_inv E N n S h'"
  using assms by (auto simp: vh_set_backend_req_fd_def Let_def split: option.splits)

subsection \<open>The requests as a state machine\<close>

text \<open>
  One call of a device by the request server; \<open>fresh\<close> tells which kick descriptor a request may
  bring for a vring in a state. The states that requests can lead to.
\<close>

inductive device_step ::
    "'b VhostUserBackendReqHandler \<Rightarrow> (u8 \<Rightarrow> fd option \<Rightarrow> 'b \<Rightarrow> bool) \<Rightarrow> 'b \<Rightarrow> 'b \<Rightarrow> bool"
    for B :: "'b VhostUserBackendReqHandler" and fresh :: "u8 \<Rightarrow> fd option \<Rightarrow> 'b \<Rightarrow> bool" where
  step_set_owner: "be_set_owner B h = Some (r, h') \<Longrightarrow> device_step B fresh h h'"
| step_reset_owner: "be_reset_owner B h = Some (r, h') \<Longrightarrow> device_step B fresh h h'"
| step_reset_device: "be_reset_device B h = Some (r, h') \<Longrightarrow> device_step B fresh h h'"
| step_get_features: "be_get_features B h = Some (r, h') \<Longrightarrow> device_step B fresh h h'"
| step_set_features: "be_set_features B a h = Some (r, h') \<Longrightarrow> device_step B fresh h h'"
| step_set_mem_table: "be_set_mem_table B ctx fs h = Some (r, h') \<Longrightarrow> device_step B fresh h h'"
| step_set_vring_num: "be_set_vring_num B i n h = Some (r, h') \<Longrightarrow> device_step B fresh h h'"
| step_set_vring_addr: "be_set_vring_addr B i fl d u a l h = Some (r, h') \<Longrightarrow> device_step B fresh h h'"
| step_set_vring_base: "be_set_vring_base B i n h = Some (r, h') \<Longrightarrow> device_step B fresh h h'"
| step_get_vring_base: "be_get_vring_base B i h = Some (r, h') \<Longrightarrow> device_step B fresh h h'"
| step_set_vring_call: "be_set_vring_call B x fo h = Some (r, h') \<Longrightarrow> device_step B fresh h h'"
| step_set_vring_err: "be_set_vring_err B x fo h = Some (r, h') \<Longrightarrow> device_step B fresh h h'"
| step_get_protocol_features: "be_get_protocol_features B h = Some (r, h') \<Longrightarrow> device_step B fresh h h'"
| step_set_protocol_features: "be_set_protocol_features B a h = Some (r, h') \<Longrightarrow> device_step B fresh h h'"
| step_get_queue_num: "be_get_queue_num B h = Some (r, h') \<Longrightarrow> device_step B fresh h h'"
| step_set_vring_enable: "be_set_vring_enable B i b h = Some (r, h') \<Longrightarrow> device_step B fresh h h'"
| step_get_config: "be_get_config B off sz fl h = Some (r, h') \<Longrightarrow> device_step B fresh h h'"
| step_set_config: "be_set_config B off buf fl h = Some (r, h') \<Longrightarrow> device_step B fresh h h'"
| step_set_gpu_socket: "be_set_gpu_socket B f h = Some (r, h') \<Longrightarrow> device_step B fresh h h'"
| step_get_shared_object: "be_get_shared_object B u h = Some (r, h') \<Longrightarrow> device_step B fresh h h'"
| step_get_inflight_fd: "be_get_inflight_fd B infl h = Some (r, h') \<Longrightarrow> device_step B fresh h h'"
| step_set_inflight_fd: "be_set_inflight_fd B infl f h = Some (r, h') \<Longrightarrow> device_step B fresh h h'"
| step_get_max_mem_slots: "be_get_max_mem_slots B h = Some (r, h') \<Longrightarrow> device_step B fresh h h'"
| step_add_mem_region: "be_add_mem_region B reg f h = Some (r, h') \<Longrightarrow> device_step B fresh h h'"
| step_remove_mem_region: "be_remove_mem_region B reg h = Some (r, h') \<Longrightarrow> device_step B fresh h h'"
| step_set_device_state_fd: "be_set_device_state_fd B dir ph f h = Some (r, h') \<Longrightarrow> device_step B fresh h h'"
| step_check_device_state: "be_check_device_state B h = Some (r, h') \<Longrightarrow> device_step B fresh h h'"
| step_get_shmem_config: "be_get_shmem_config B h = Some (r, h') \<Longrightarrow> device_step B fresh h h'"
| step_postcopy_advice: "be_postcopy_advice B h = Some (r, h') \<Longrightarrow> device_step B fresh h h'"
| step_postcopy_listen: "be_postcopy_listen B h = Some (r, h') \<Longrightarrow> device_step B fresh h h'"
| step_postcopy_end: "be_postcopy_end B h = Some (r, h') \<Longrightarrow> device_step B fresh h h'"
| step_set_log_base: "be_set_log_base B log f h = Some (r, h') \<Longrightarrow> device_step B fresh h h'"
| step_set_vring_kick: "fresh x fo h \<Longrightarrow> be_set_vring_kick B x fo h = Some (r, h') \<Longrightarrow> device_step B fresh h h'"
| step_set_backend_req_fd: "be_set_backend_req_fd B f h = Some (x, h') \<Longrightarrow> device_step B fresh h h'"

inductive device_reaches ::
    "'b VhostUserBackendReqHandler \<Rightarrow> (u8 \<Rightarrow> fd option \<Rightarrow> 'b \<Rightarrow> bool) \<Rightarrow> 'b \<Rightarrow> 'b \<Rightarrow> bool"
    for B :: "'b VhostUserBackendReqHandler" and fresh :: "u8 \<Rightarrow> fd option \<Rightarrow> 'b \<Rightarrow> bool" and h0 :: 'b where
  reaches_start: "device_reaches B fresh h0 h0"
| reaches_step: "device_reaches B fresh h0 h \<Longrightarrow> device_step B fresh h h' \<Longrightarrow> device_reaches B fresh h0 h'"

lemma handler_device_sel [simp]:
  "be_set_owner (handler_device E) = vh_set_owner"
  "be_reset_owner (handler_device E) = vh_reset_owner"
  "be_reset_device (handler_device E) = vh_reset_device E"
  "be_get_features (handler_device E) = vh_get_features E"
  "be_set_features (handler_device E) = vh_set_features E"
  "be_set_mem_table (handler_device E) = vh_set_mem_table E"
  "be_set_vring_num (handler_device E) = vh_set_vring_num E"
  "be_set_vring_addr (handler_device E) = vh_set_vring_addr E"
  "be_set_vring_base (handler_device E) = vh_set_vring_base E"
  "be_get_vring_base (handler_device E) = vh_get_vring_base E"
  "be_set_vring_call (handler_device E) = vh_set_vring_call E"
  "be_set_vring_err (handler_device E) = vh_set_vring_err"
  "be_get_protocol_features (handler_device E) = vh_get_protocol_features E"
  "be_set_protocol_features (handler_device E) = vh_set_protocol_features"
  "be_get_queue_num (handler_device E) = vh_get_queue_num"
  "be_set_vring_enable (handler_device E) = vh_set_vring_enable E"
  "be_get_config (handler_device E) = vh_get_config E"
  "be_set_config (handler_device E) = vh_set_config E"
  "be_set_gpu_socket (handler_device E) = vh_set_gpu_socket E"
  "be_get_shared_object (handler_device E) = vh_get_shared_object E"
  "be_get_inflight_fd (handler_device E) = vh_get_inflight_fd"
  "be_set_inflight_fd (handler_device E) = vh_set_inflight_fd"
  "be_get_max_mem_slots (handler_device E) = vh_get_max_mem_slots"
  "be_add_mem_region (handler_device E) = vh_add_mem_region E"
  "be_remove_mem_region (handler_device E) = vh_remove_mem_region E"
  "be_set_device_state_fd (handler_device E) = vh_set_device_state_fd E"
  "be_check_device_state (handler_device E) = vh_check_device_state E"
  "be_get_shmem_config (handler_device E) = vh_get_shmem_config E"
  "be_postcopy_advice (handler_device E) = vh_postcopy_advice E"
  "be_postcopy_listen (handler_device E) = vh_postcopy_listen E"
  "be_postcopy_end (handler_device E) = vh_postcopy_end"
  "be_set_log_base (handler_device E) = vh_set_log_base E"
  "be_set_vring_kick (handler_device E) = vh_set_vring_kick E"
  "be_set_backend_req_fd (handler_device E) = (\<lambda>f. vh_set_backend_req_fd E (bc_new f))"
  by (simp_all add: handler_device_def)

lemma device_step_keeps_kicks_inv:
  assumes "device_step (handler_device E) (fresh_kick N) h h'"
    and law: "epoll_law (ep E) N" "queue_law (eq E)" and inv: "kicks_inv E N n {} h"
  shows "kicks_inv E N n {} h'"
  using assms(1)
proof cases
  case (step_set_vring_kick fo x r)
  with set_vring_kick_keeps [OF law(1) inv] show ?thesis by simp
next
  case (step_set_backend_req_fd f x)
  with set_backend_req_fd_keeps [OF _ inv] show ?thesis by simp
qed (simp_all, (erule preservesD [where P = "kicks_inv E N n {}" and s = h, OF _ inv, rotated], intro preserves_other_ops preserves_vring_ops [OF law]
    preserves_get_vring_base [OF law] preserves_set_vring_addr [OF law(2)]
    preserves_reset_device [OF law(1)] preserves_set_features [OF law])+)

lemma new_workers_length:
  assumes "new_workers P D spawn n t masks d = Some (Inr vs, d')"
  shows "length vs = length masks"
  using assms
proof (induction masks arbitrary: t d vs)
  case (Cons m masks)
  then show ?case
    by (auto simp: retM_apply failM_apply split: sum.splits elim!: bindM_InrE)
qed (simp add: retM_apply)

lemma new_vrings_stopped:
  assumes "new_vrings Q sz n = Inr vs"
  shows "length vs = n \<and> (\<forall>v \<in> set vs. vr_kick v = None)"
  using assms
  by (induction n arbitrary: vs) (auto simp: vring_new_def split: sum.splits)

text \<open>What a new handler looks like, whatever the device does.\<close>

lemma vh_new_fields:
  assumes "vh_new E spawn mem d = Some (Inr h0)"
  shows "length (vh_vrings h0) = vh_num_queues h0"
    and "length (vh_epolls h0) = length (vh_queues_per_thread h0)"
    and "v \<in> set (vh_vrings h0) \<Longrightarrow> vr_kick v = None"
  using assms new_vrings_stopped [of "eq E"]
  by (auto simp: vh_new_def callM_def readM_apply failM_apply vh_epolls_def split: option.splits prod.splits sum.splits
      elim!: bindM_InrE dest!: new_workers_length)

text \<open>What the invariant says of a registered kick descriptor.\<close>

lemma kicks_inv_registered:
  assumes inv: "kicks_inv E interest n {} h" and "n \<le> 64"
    and "i < length (vh_vrings h)" and "vr_kick (vh_vrings h ! i) = Some f"
    and "t < length (vh_epolls h)" and "(f, d) \<in> interest (vh_epolls h ! t)"
  shows "active (eq E) (vh_vrings h ! i)
    \<and> thread_vrings (length (vh_vrings h)) (vh_queues_per_thread h ! t) ! unat d = i
    \<and> unat d < length (thread_vrings (length (vh_vrings h)) (vh_queues_per_thread h ! t))"
proof -
  have len: "length (vh_vrings h) = n" using inv by (simp add: kicks_inv_def)
  note pos = kicks_inv_position [OF inv assms(3) [unfolded len] assms(5,4,6)]
  from pos(1) have "thread_vrings n (vh_queues_per_thread h ! t) ! unat d = i
      \<and> unat d < length (thread_vrings n (vh_queues_per_thread h ! t))"
    using event_index_position(2,3) assms(2,3) len by metis
  with pos(2) len show ?thesis by simp
qed

text \<open>
  Kicks are waited for only while a vring is active, and they reach the right vring: an invariant of
  every sequence of requests. \<open>Threads\<close> has it for the interleavings with the workers.
\<close>

lemma registered_kick:
  assumes "vh_new E spawn mem backend = Some (Inr h0)" and "vh_num_queues h0 \<le> 64"
    and "epoll_law (ep E) interest" and "queue_law (eq E)"
    and "device_reaches (handler_device E) (fresh_kick interest) h0 h"
    and "i < length (vh_vrings h)" and "vr_kick (vh_vrings h ! i) = Some f"
    and "t < length (vh_epolls h)" and "(f, d) \<in> interest (vh_epolls h ! t)"
  shows "active (eq E) (vh_vrings h ! i)
    \<and> thread_vrings (length (vh_vrings h)) (vh_queues_per_thread h ! t) ! unat d = i
    \<and> unat d < length (thread_vrings (length (vh_vrings h)) (vh_queues_per_thread h ! t))"
proof -
  have "kicks_inv E interest (vh_num_queues h0) {} h0"
    using vh_new_fields [OF assms(1)] by (fastforce simp: kicks_inv_def)
  with assms(5) have "kicks_inv E interest (vh_num_queues h0) {} h"
    by (induction rule: device_reaches.induct) (blast intro: device_step_keeps_kicks_inv assms(3,4))+
  from kicks_inv_registered [OF this assms(2,6-9)] show ?thesis .
qed

subsection \<open>A backend for the witnesses\<close>

text \<open>Two queues served by one thread.\<close>

definition flat_guest_ops :: "(unit, unit) guest_ops" where
  "flat_guest_ops =
     \<lparr>mmap_from_file = (\<lambda>_ _ _. Some ()), guest_region_new = (\<lambda>_ _. Some ()), region_ptr = (\<lambda>_. 0),
      from_regions = (\<lambda>_. Some ()), insert_region = (\<lambda>_ _. Some ()), remove_region = (\<lambda>_ _ _. Some ()),
      region_ranges = (\<lambda>_. []), replace_bitmaps = (\<lambda>_ _ m. m), map_log = (\<lambda>_ _ n. Inr (replicate n 0))\<rparr>"

definition simple_env :: "(unit, (fd \<times> u64) list, unit, unit, simple_queue, unit) handler_env" where
  "simple_env =
     \<lparr>eq = simple_queue_ops, ep = list_epoll_ops, eg = flat_guest_ops, ed = idle_device_ops,
      eu = \<lparr>uffd_create = Inr 3, uffd_dup = (\<lambda>f. Inr (f + 1)), uffd_register = (\<lambda>_ _ _. True)\<rparr>\<rparr>"

lemma simple_env_sel [simp]:
  "eq simple_env = simple_queue_ops" "ep simple_env = list_epoll_ops" "eg simple_env = flat_guest_ops"
  "ed simple_env = idle_device_ops"
  by (simp_all add: simple_env_def)

definition simple_ring :: "bool \<Rightarrow> fd option \<Rightarrow> bool \<Rightarrow> simple_queue VringState" where
  "simple_ring ready kick en =
     \<lparr>vr_queue = \<lparr>sq_ready = ready, sq_next_avail = 0\<rparr>, vr_kick = kick, vr_call = None, vr_err = None,
      vr_enabled = en\<rparr>"

definition simple_handler ::
    "(fd \<times> u64) list \<Rightarrow> bool \<Rightarrow> u64 \<Rightarrow> simple_queue VringState list \<Rightarrow>
       (unit, (fd \<times> u64) list, unit, simple_queue) VhostUserHandler" where
  "simple_handler p acked features vrings =
     \<lparr>vh_backend = (),
      vh_handlers = [\<lparr>veh_epoll = p, veh_vrings = [0, 1], veh_thread_id = 0, veh_exit_event_fd = None\<rparr>],
      vh_owned = False, vh_features_acked = acked,
      vh_acked_features = features, vh_acked_protocol_features = 0, vh_num_queues = 2,
      vh_max_queue_size = 256, vh_queues_per_thread = [3], vh_mappings = [], vh_atomic_mem = (),
      vh_vrings = vrings, vh_uffd = None, vh_worker_threads = [0]\<rparr>"

lemmas simple_defs = simple_handler_def simple_ring_def idle_device_ops_def simple_queue_ops_def
  list_epoll_ops_def returns_def call_device_def vh_epolls_def set_epoll_def map_epolls_def

lemma simple_handler_sel [simp]:
  "vh_epolls (simple_handler p a ft vs) = [p]" "vh_vrings (simple_handler p a ft vs) = vs"
  "vh_num_queues (simple_handler p a ft vs) = 2" "vh_queues_per_thread (simple_handler p a ft vs) = [3]"
  by (simp_all add: simple_handler_def vh_epolls_def)

lemma simple_new:
  "vh_new simple_env (\<lambda>_. Inr ()) () () = Some (Inr (simple_handler [] False 0 [simple_ring False None False, simple_ring False None False]))"
proof -
  have "thread_vrings (Suc (Suc 0)) 3 = [0, 1]" by (simp add: thread_vrings_def shr64_def upt_rec)
  moreover have "new_vrings simple_queue_ops sz 2 = Inr [simple_ring False None False, simple_ring False None False]" for sz
    by (simp add: numeral_2_eq_2 vring_new_def simple_queue_ops_def simple_ring_def)
  ultimately show ?thesis
    by (simp add: vh_new_def simple_handler_def idle_device_ops_def list_epoll_ops_def returns_def
        effect_defs veh_new_def)
qed

lemma simple_set_features:
  "vh_set_features simple_env 0 (simple_handler [] False 0 [simple_ring False None False, simple_ring False None False])
     = Some (Inr (), simple_handler [] True 0 [simple_ring False None True, simple_ring False None True])"
  by (simp add: vh_set_features_def enable_all_vrings_def simple_defs effect_defs upt_rec
      modify_vring_def update_vring_registration_def vring_defs Let_def)

lemma simple_set_vring_kick:
  "vh_set_vring_kick simple_env 1 (Some 7) (simple_handler [] True 0 [simple_ring False None True, simple_ring False None True])
     = Some (Inr (), simple_handler [(7, 1)] True 0 [simple_ring False None True, simple_ring True (Some 7) True])"
  by (simp add: vh_set_vring_kick_def simple_defs effect_defs get_vring_def replace_kick_def
      init_if_needed_def vring_needs_init_def initialize_vring_def
      modify_vring_def update_vring_registration_def vring_defs Let_def register_event_def
      count_ones_def shr64_def upt_rec bit_numeral_rec)

lemma simple_reaches:
  "device_reaches (handler_device simple_env) (fresh_kick set)
     (simple_handler [] False 0 [simple_ring False None False, simple_ring False None False])
     (simple_handler [(7, 1)] True 0 [simple_ring False None True, simple_ring True (Some 7) True])"
proof -
  let ?h1 = "simple_handler [] True 0 [simple_ring False None True, simple_ring False None True]"
  let ?h2 = "simple_handler [(7, 1)] True 0 [simple_ring False None True, simple_ring True (Some 7) True]"
  have "device_step (handler_device simple_env) (fresh_kick set)
      (simple_handler [] False 0 [simple_ring False None False, simple_ring False None False]) ?h1"
    using simple_set_features by (intro step_set_features) simp
  moreover have "device_step (handler_device simple_env) (fresh_kick set) ?h1 ?h2"
    using simple_set_vring_kick
    by (intro step_set_vring_kick [where fo = "Some 7" and x = 1])
      (simp_all add: fresh_kick_def simple_ring_def)
  ultimately show ?thesis by (blast intro: device_reaches.intros)
qed

subsection \<open>Enabling a vring, and replacing the kick of a running one\<close>

text \<open>
  C25: enabling or disabling a vring takes effect at the worker: when \<open>SET_VRING_ENABLE\<close> succeeds
  for a vring with a kick descriptor that a thread serves, the vring has the requested state, and
  its descriptor is registered with this thread exactly when the vring is started and enabled.
\<close>

theorem set_vring_enable_registers:
  assumes "epoll_law (ep E) interest" and "vh_set_vring_enable E index enable h = Some (Inr (), h')"
    and "vr_kick (vh_vrings h ! unat index) = Some f"
    and "find_thread (vh_queues_per_thread h) 0 (ucast index) = Some (t, d)" and "t < length (vh_epolls h)"
  shows "unat index < length (vh_vrings h)
    \<and> vh_vrings h' ! unat index = set_enabled enable (vh_vrings h ! unat index)
    \<and> (f \<in> fst ` interest (vh_epolls h' ! t) \<longleftrightarrow> active (eq E) (vh_vrings h' ! unat index))"
proof -
  let ?i = "unat index"
  let ?h = "h\<lparr>vh_vrings := (vh_vrings h)[?i := set_enabled enable (vh_vrings h ! ?i)]\<rparr>"
  from assms(2) have i: "?i < length (vh_vrings h)"
    and upd: "update_vring_registration E ?i (ucast index) ?h = Some (Inr (), h')"
    by (auto simp: vh_set_vring_enable_def vh_check_feature_def get_vring_def modify_vring_def effect_defs
        split: if_splits)
  have kick: "vr_kick (vh_vrings ?h ! ?i) = Some f"
    and thr: "find_thread (vh_queues_per_thread ?h) 0 (ucast index) = Some (t, d)"
    using i assms(3,4) by simp_all
  show ?thesis
  proof (cases "active (eq E) (vh_vrings ?h ! ?i)")
    case True
    obtain a p' where add: "epoll_add (ep E) f EVENTSET_IN d (vh_epolls ?h ! t) = (a, p')"
      by (cases "epoll_add (ep E) f EVENTSET_IN d (vh_epolls ?h ! t)")
    with upd kick thr True have h': "h' = set_epoll t p' ?h"
      and a: "\<forall>e. a = Inl e \<longrightarrow> io_error_kind e = AlreadyExists"
      by (auto simp: update_vring_registration_def register_event_def active_def split: sum.splits if_splits)
    have "f \<in> fst ` interest p'"
      using epoll_law_add(2) [OF assms(1) add] a by blast
    with True h' i assms(5) show ?thesis by simp
  next
    case False
    obtain a p' where del: "epoll_del (ep E) f EVENTSET_IN d (vh_epolls ?h ! t) = (a, p')"
      by (cases "epoll_del (ep E) f EVENTSET_IN d (vh_epolls ?h ! t)")
    with upd kick thr False have h': "h' = set_epoll t p' ?h"
      by (auto simp: update_vring_registration_def unregister_event_def active_def)
    have "interest p' = {x \<in> interest (vh_epolls ?h ! t). fst x \<noteq> f}"
      by (rule epoll_law_del [OF assms(1) del])
    with False h' i assms(5) show ?thesis by auto
  qed
qed

lemma simple_set_vring_enable:
  "vh_set_vring_enable simple_env 1 False (simple_handler [(7, 1)] True 0x40000000 [simple_ring False None True, simple_ring True (Some 7) True])
     = Some (Inr (), simple_handler [] True 0x40000000 [simple_ring False None True, simple_ring True (Some 7) False])"
  by (simp add: vh_set_vring_enable_def vh_check_feature_def simple_defs effect_defs get_vring_def
      modify_vring_def update_vring_registration_def vring_defs Let_def unregister_event_def
      count_ones_def shr64_def upt_rec bit_numeral_rec)

theorem set_vring_enable_registers_witness:
  "\<exists>h'. vh_set_vring_enable simple_env 1 False
        (simple_handler [(7, 1)] True 0x40000000 [simple_ring False None True, simple_ring True (Some 7) True])
      = Some (Inr (), h')
    \<and> \<not> active simple_queue_ops (vh_vrings h' ! 1) \<and> 7 \<notin> fst ` set (vh_epolls h' ! 0)"
  by (intro exI conjI, rule simple_set_vring_enable)
    (insert set_vring_enable_registers [OF _ simple_set_vring_enable, of set 7 0 1],
      simp_all add: simple_defs Let_def count_ones_def shr64_def upt_rec bit_numeral_rec
        set_enabled_def active_def)

text \<open>
  C35: a new kick descriptor for a vring that is already started is not waited for: the request
  succeeds and the vring has the new descriptor, but no worker thread has it registered, even when
  the vring is enabled, until the vring is enabled again.
\<close>

theorem replaced_kick_not_registered:
  assumes "epoll_law (ep E) interest" and "unat index < length (vh_vrings h)"
    and "q_ready (eq E) (vr_queue (vh_vrings h ! unat index))" and "fresh_kick interest index (Some f) h"
  shows "\<exists>h'. vh_set_vring_kick E index (Some f) h = Some (Inr (), h')
    \<and> vr_kick (vh_vrings h' ! unat index) = Some f
    \<and> (active (eq E) (vh_vrings h' ! unat index) \<longleftrightarrow> active (eq E) (vh_vrings h ! unat index))
    \<and> (\<forall>p d. p \<in> set (vh_epolls h') \<longrightarrow> (f, d) \<notin> interest p)"
proof -
  obtain h' where run: "replace_kick E (unat index) (Some f) h = Some (Inr (), h')"
    by (simp add: replace_kick_def modifyM_def)
  have v: "vh_vrings h' ! unat index = set_kick (Some f) (vh_vrings h ! unat index)"
    using run assms(2) by (auto simp: replace_kick_def modifyM_def split: option.splits)
  have ep: "vh_epolls h' = vh_epolls h \<or> (\<exists>g. vh_epolls h' = map (epoll_closed (ep E) g) (vh_epolls h))"
    using run by (auto simp: replace_kick_def modifyM_def split: option.splits)
  have "(f, d) \<notin> interest p" if "p \<in> set (vh_epolls h')" for p d
  proof -
    from ep that epoll_law_closed(1) [OF assms(1)] obtain q where "q \<in> set (vh_epolls h)" "interest p \<subseteq> interest q"
      by auto
    with assms(4) show ?thesis by (force simp: fresh_kick_def)
  qed
  moreover have "vh_set_vring_kick E index (Some f) h = Some (Inr (), h')"
    using run assms(2,3) v
    by (simp add: vh_set_vring_kick_def get_vring_def init_if_needed_def vring_needs_init_def set_kick_def effect_defs)
  ultimately show ?thesis using v by (auto simp: active_def set_kick_def)
qed

theorem replaced_kick_not_registered_witness:
  "\<exists>h'. vh_set_vring_kick simple_env 1 (Some 8)
         (simple_handler [(7, 1)] True 0 [simple_ring False None True, simple_ring True (Some 7) True]) = Some (Inr (), h')
     \<and> active simple_queue_ops (vh_vrings h' ! 1) \<and> (8, 1) \<notin> set (vh_epolls h' ! 0)"
proof -
  let ?h = "simple_handler [(7, 1)] True 0 [simple_ring False None True, simple_ring True (Some 7) True]"
  have "active simple_queue_ops (vh_vrings ?h ! 1)"
    by (simp add: simple_handler_def simple_ring_def active_def simple_queue_ops_def)
  moreover obtain h' where "vh_set_vring_kick simple_env 1 (Some 8) ?h = Some (Inr (), h')"
    and "active simple_queue_ops (vh_vrings h' ! 1) \<longleftrightarrow> active simple_queue_ops (vh_vrings ?h ! 1)"
    and "\<forall>p d. p \<in> set (vh_epolls h') \<longrightarrow> (8, d) \<notin> set p"
    using replaced_kick_not_registered [of simple_env set 1 ?h 8]
    by (auto simp: simple_ring_def fresh_kick_def simple_queue_ops_def)
  moreover have "length (vh_epolls h') = 1"
    using calculation(2)
    by (auto simp: vh_set_vring_kick_def simple_defs effect_defs get_vring_def replace_kick_def
        init_if_needed_def vring_needs_init_def set_kick_def)
  ultimately show ?thesis by (metis less_one nth_mem)
qed

text \<open>Stopping a vring takes only the registration of its own kick descriptor away.\<close>

lemma get_vring_base_keeps_others:
  assumes law: "epoll_law (ep E) N" and queue: "queue_law (eq E)" and i: "unat index < length (vh_vrings h)"
    and other: "vr_kick (vh_vrings h ! unat index) \<noteq> Some f"
    and t: "t < length (vh_epolls h)" and reg: "(f, d) \<in> N (vh_epolls h ! t)"
  shows "\<exists>state h'. vh_get_vring_base E index h = Some (Inr state, h')
    \<and> (f, d) \<in> N (vh_epolls h' ! t)
    \<and> vh_vrings h' = (vh_vrings h)[unat index :=
        set_call None (set_kick None (set_queue_ready (eq E) False (vh_vrings h ! unat index)))]"
proof -
  let ?i = "unat index"
  let ?v = "set_queue_ready (eq E) False (vh_vrings h ! ?i)"
  let ?h1 = "h\<lparr>vh_vrings := (vh_vrings h)[?i := ?v]\<rparr>"
  have stopped: "\<not> q_ready (eq E) (vr_queue ?v)" using queue by (simp add: vring_defs queue_law_def)
  obtain h2 where h2: "update_vring_registration E ?i (ucast index) ?h1 = Some (Inr (), h2)"
    and reg2: "(f, d) \<in> N (vh_epolls h2 ! t)" and t2: "t < length (vh_epolls h2)" and vr2: "vh_vrings h2 = (vh_vrings h)[?i := ?v]"
  proof (cases "vr_kick (vh_vrings h ! ?i)")
    case None
    then have "update_vring_registration E ?i (ucast index) ?h1 = Some (Inr (), ?h1)"
      using i by (simp add: update_vring_registration_def)
    then show thesis by (rule that) (simp_all add: t reg)
  next
    case (Some g)
    show thesis
    proof (cases "find_thread (vh_queues_per_thread h) 0 (ucast index)")
      case None
      then have "update_vring_registration E ?i (ucast index) ?h1 = Some (Inr (), ?h1)"
        using i Some by (simp add: update_vring_registration_def)
      then show thesis by (rule that) (simp_all add: t reg)
    next
      case (Some td)
      obtain t' e where td: "td = (t', e)" by (cases td)
      obtain a p' where del: "epoll_del (ep E) g EVENTSET_IN e (vh_epolls h ! t') = (a, p')"
        by (cases "epoll_del (ep E) g EVENTSET_IN e (vh_epolls h ! t')")
      have "update_vring_registration E ?i (ucast index) ?h1 = Some (Inr (), set_epoll t' p' ?h1)"
        using i Some td del \<open>vr_kick (vh_vrings h ! ?i) = Some g\<close> stopped
        by (simp add: update_vring_registration_def unregister_event_def)
      moreover have "(f, d) \<in> N (vh_epolls (set_epoll t' p' ?h1) ! t)"
        using epoll_law_del [OF law del] reg t other \<open>vr_kick (vh_vrings h ! ?i) = Some g\<close>
        by (cases "t = t'") auto
      ultimately show thesis by (rule that) (simp_all add: t)
    qed
  qed
  obtain h3 where h3: "replace_kick E ?i None h2 = Some (Inr (), h3)"
    and reg3: "(f, d) \<in> N (vh_epolls h3 ! t)" and vr3: "vh_vrings h3 = (vh_vrings h)[?i := set_kick None ?v]"
    using reg2 t2 vr2 i other epoll_law_closed(2) [OF law reg2]
    by (cases "vr_kick (vh_vrings h ! ?i)") (auto simp: replace_kick_def modifyM_def)
  show ?thesis
    using h2 h3 reg3 vr3 i
    by (auto simp: vh_get_vring_base_def Let_def thenM_def bindM_def get_vring_def modify_vring_def modifyM_def
        readM_def retM_def)
qed

text \<open>
  C39: a worker goes on waiting for a kick descriptor that was replaced. Let a started vring have a
  kick descriptor \<open>f\<close> that worker \<open>t\<close> has registered, let no other vring have it, and let the frontend keep
  its own copy of the descriptor open. \<open>SET_VRING_KICK\<close> with another descriptor, or with none,
  succeeds and leaves the registration of \<open>f\<close> at the worker; \<open>GET_VRING_BASE\<close>, which stops the
  vring, succeeds and leaves it as well: the worker waits for a descriptor that no vring has.
\<close>

theorem replaced_kick_stays_registered:
  assumes "epoll_law (ep E) interest" and "queue_law (eq E)" and "unat index < length (vh_vrings h)"
    and "q_ready (eq E) (vr_queue (vh_vrings h ! unat index))"
    and "\<forall>i < length (vh_vrings h). vr_kick (vh_vrings h ! i) = Some f \<longleftrightarrow> i = unat index"
    and "t < length (vh_epolls h)" and "(f, d) \<in> interest (epoll_closed (ep E) f (vh_epolls h ! t))"
    and "fo \<noteq> Some f"
  shows "\<exists>h' state h''. vh_set_vring_kick E index fo h = Some (Inr (), h')
    \<and> (f, d) \<in> interest (vh_epolls h' ! t)
    \<and> vh_get_vring_base E (ucast index) h' = Some (Inr state, h'')
    \<and> (f, d) \<in> interest (vh_epolls h'' ! t)
    \<and> \<not> q_ready (eq E) (vr_queue (vh_vrings h'' ! unat index))
    \<and> (\<forall>v \<in> set (vh_vrings h''). vr_kick v \<noteq> Some f)"
proof -
  let ?i = "unat index"
  have "unat index < 2 ^ LENGTH(8)" by (rule unsigned_less)
  then have [simp]: "unat (ucast index :: u32) = ?i" by (simp add: unsigned_ucast_eq take_bit_nat_eq_self_iff)
  obtain h' where h': "replace_kick E ?i fo h = Some (Inr (), h')"
    and reg: "(f, d) \<in> interest (vh_epolls h' ! t)" and t: "t < length (vh_epolls h')"
    and vr: "vh_vrings h' = (vh_vrings h)[?i := set_kick fo (vh_vrings h ! ?i)]"
    using assms(3,5,6,7) by (auto simp: replace_kick_def modifyM_def)
  have run: "vh_set_vring_kick E index fo h = Some (Inr (), h')"
    using h' vr assms(3,4)
    by (simp add: vh_set_vring_kick_def get_vring_def init_if_needed_def vring_needs_init_def set_kick_def effect_defs)
  obtain state h'' where base: "vh_get_vring_base E (ucast index) h' = Some (Inr state, h'')"
    "(f, d) \<in> interest (vh_epolls h'' ! t)" and vr': "vh_vrings h'' = (vh_vrings h')[?i :=
        set_call None (set_kick None (set_queue_ready (eq E) False (vh_vrings h' ! ?i)))]"
    using get_vring_base_keeps_others [OF assms(1,2) _ _ t reg, of "ucast index"] vr assms(3,8)
    by (auto simp: set_kick_def)
  have "vr_kick (vh_vrings h'' ! j) \<noteq> Some f" if "j < length (vh_vrings h)" for j
    using vr vr' assms(3,5) that by (cases "j = ?i") (auto simp: set_kick_def set_call_def)
  moreover have "length (vh_vrings h'') = length (vh_vrings h)" using vr vr' by simp
  ultimately have "\<forall>v \<in> set (vh_vrings h''). vr_kick v \<noteq> Some f" by (auto simp: in_set_conv_nth)
  moreover have "\<not> q_ready (eq E) (vr_queue (vh_vrings h'' ! ?i))"
    using vr vr' assms(2,3) by (simp add: vring_defs queue_law_def)
  ultimately show ?thesis using run reg base by blast
qed

theorem replaced_kick_stays_registered_witness:
  "\<exists>h' state h''. vh_set_vring_kick simple_env 1 (Some 8)
         (simple_handler [(7, 1)] True 0 [simple_ring False None True, simple_ring True (Some 7) True]) = Some (Inr (), h')
     \<and> vh_get_vring_base simple_env 1 h' = Some (Inr state, h'')
     \<and> (7, 1) \<in> set (vh_epolls h'' ! 0) \<and> (\<forall>v \<in> set (vh_vrings h''). vr_kick v \<noteq> Some 7)"
proof -
  let ?h = "simple_handler [(7, 1)] True 0 [simple_ring False None True, simple_ring True (Some 7) True]"
  have "\<forall>i < length (vh_vrings ?h). vr_kick (vh_vrings ?h ! i) = Some 7 \<longleftrightarrow> i = unat (1 :: u8)"
    by (auto simp: simple_ring_def less_Suc_eq)
  moreover have "epoll_closed (ep simple_env) 7 (vh_epolls ?h ! 0) = [(7, 1)]" "unat (1 :: u8) < length (vh_vrings ?h)"
    "q_ready (eq simple_env) (vr_queue (vh_vrings ?h ! unat (1 :: u8)))"
    by (simp_all add: list_epoll_ops_def simple_ring_def simple_queue_ops_def)
  ultimately show ?thesis
    using replaced_kick_stays_registered [of simple_env set 1 ?h 7 0 1 "Some 8"] by auto
qed

subsection \<open>Address translation\<close>

definition in_range :: "u64 \<Rightarrow> u64 \<Rightarrow> u64 \<Rightarrow> bool" where
  "in_range start len a \<longleftrightarrow> unat start \<le> unat a \<and> unat a < unat start + unat len"

text \<open>A translation step on a mapping that does not wrap around is the one on unbounded numbers.\<close>

lemma mapping_step:
  assumes "unat (am_vmm_addr m) + unat (am_size m) < 2 ^ 64" and "unat (am_gpa_base m) + unat (am_size m) < 2 ^ 64"
  shows "(va \<ge> am_vmm_addr m \<and> va < am_vmm_addr m + am_size m) = in_range (am_vmm_addr m) (am_size m) va"
    and "in_range (am_vmm_addr m) (am_size m) va \<Longrightarrow>
      unat (va - am_vmm_addr m + am_gpa_base m) = unat (am_gpa_base m) + (unat va - unat (am_vmm_addr m))"
proof -
  show "(va \<ge> am_vmm_addr m \<and> va < am_vmm_addr m + am_size m) = in_range (am_vmm_addr m) (am_size m) va"
    using assms(1) by (simp add: in_range_def word_le_nat_alt word_less_nat_alt unat_add_no_overflow)
  assume r: "in_range (am_vmm_addr m) (am_size m) va"
  then have "unat (va - am_vmm_addr m) = unat va - unat (am_vmm_addr m)"
    by (simp add: in_range_def unat_sub word_le_nat_alt)
  with r assms(2) show "unat (va - am_vmm_addr m + am_gpa_base m) = unat (am_gpa_base m) + (unat va - unat (am_vmm_addr m))"
    by (subst unat_add_no_overflow) (auto simp: in_range_def)
qed

lemma vmm_va_to_gpa_Some_iff:
  assumes "\<And>m. m \<in> set ms \<Longrightarrow> unat (am_vmm_addr m) + unat (am_size m) < 2 ^ 64
        \<and> unat (am_gpa_base m) + unat (am_size m) < 2 ^ 64"
    and "\<And>m m'. m \<in> set ms \<Longrightarrow> m' \<in> set ms \<Longrightarrow> in_range (am_vmm_addr m) (am_size m) va \<Longrightarrow>
      in_range (am_vmm_addr m') (am_size m') va \<Longrightarrow> am_vmm_addr m = am_vmm_addr m' \<and> am_gpa_base m = am_gpa_base m'"
  shows "vmm_va_to_gpa ms va = Some gpa \<longleftrightarrow> (\<exists>m \<in> set ms. in_range (am_vmm_addr m) (am_size m) va
       \<and> unat gpa = unat (am_gpa_base m) + (unat va - unat (am_vmm_addr m)))"
  using assms
proof (induction ms)
  case (Cons m ms)
  have m: "unat (am_vmm_addr m) + unat (am_size m) < 2 ^ 64" "unat (am_gpa_base m) + unat (am_size m) < 2 ^ 64"
    using Cons.prems(1) [of m] by simp_all
  note step = mapping_step [OF m, of va]
  have IH: "vmm_va_to_gpa ms va = Some gpa \<longleftrightarrow> (\<exists>m \<in> set ms. in_range (am_vmm_addr m) (am_size m) va
       \<and> unat gpa = unat (am_gpa_base m) + (unat va - unat (am_vmm_addr m)))"
    by (rule Cons.IH; (rule Cons.prems)?) (auto intro: Cons.prems(1))
  show ?case
  proof (cases "in_range (am_vmm_addr m) (am_size m) va")
    case True
    have "am_vmm_addr m' = am_vmm_addr m \<and> am_gpa_base m' = am_gpa_base m"
      if "m' \<in> set ms" "in_range (am_vmm_addr m') (am_size m') va" for m'
      using Cons.prems(2) [of m' m] that True by simp
    with True step show ?thesis by (auto simp: word_unat_eq_iff)
  next
    case False
    with step(1) have "vmm_va_to_gpa (m # ms) va = vmm_va_to_gpa ms va" by auto
    with False IH show ?thesis by simp
  qed
qed simp

lemma map_regions_mappings:
  assumes "map_regions G (zip ctx fs) = Inr rms" and "length fs = length ctx"
  shows "map (\<lambda>m. (am_vmm_addr m, am_size m, am_gpa_base m)) (map snd rms)
    = map (\<lambda>r. (user_addr r, memory_size r, guest_phys_addr r)) ctx"
  using assms(2,1)
  by (induction fs ctx arbitrary: rms rule: list_induct2)
    (auto simp: map_region_def split: sum.splits option.splits)

lemma set_mem_table_mappings:
  assumes "vh_set_mem_table E ctx fs h = Some (Inr (), h')"
  obtains rms where "map_regions (eg E) (zip ctx fs) = Inr rms" and "vh_mappings h' = map snd rms"
proof (cases "map_regions (eg E) (zip ctx fs)")
  case (Inl e)
  with assms show thesis by (simp add: vh_set_mem_table_def effect_defs)
next
  case (Inr rms)
  with assms obtain mem where "replace_memory E mem (\<lambda>_. map snd rms) h = Some (Inr (), h')"
    by (auto simp: vh_set_mem_table_def effect_defs split: option.splits)
  then have "vh_mappings h' = map snd rms"
    unfolding replace_memory_def by (auto simp: modifyM_def elim!: thenM_SomeE)
  with Inr that show thesis by blast
qed

text \<open>
  C9: after a memory table of valid regions has been set, with one file for each region and
  user addresses that do not overlap, the addresses of the frontend are translated as the table
  says, in unbounded arithmetic: an address has a translation exactly when it is in a region, and
  then it is the guest address at the same offset.
\<close>

theorem set_mem_table_translates:
  assumes "vh_set_mem_table E ctx fs h = Some (Inr (), h')" and "length fs = length ctx"
    and "\<forall>r \<in> set ctx. is_valid VhostUserMemoryRegion_T r"
    and "pairwise (\<lambda>r r'. \<not> (in_range (user_addr r) (memory_size r) va \<and> in_range (user_addr r') (memory_size r') va)) (set ctx)"
  shows "vmm_va_to_gpa (vh_mappings h') va = Some gpa \<longleftrightarrow>
    (\<exists>r \<in> set ctx. in_range (user_addr r) (memory_size r) va
       \<and> unat gpa = unat (guest_phys_addr r) + (unat va - unat (user_addr r)))"
proof -
  obtain rms where rms: "map_regions (eg E) (zip ctx fs) = Inr rms" and ms: "vh_mappings h' = map snd rms"
    using assms(1) by (rule set_mem_table_mappings)
  note eq = map_regions_mappings [OF rms assms(2), folded ms]
  let ?m = "\<lambda>m. (am_vmm_addr m, am_size m, am_gpa_base m)"
  let ?r = "\<lambda>r. (user_addr r, memory_size r, guest_phys_addr r)"
  from arg_cong [OF eq, of set] have img: "?m ` set (vh_mappings h') = ?r ` set ctx"
    by (simp only: set_map)
  have to_r: "\<exists>r \<in> set ctx. user_addr r = am_vmm_addr m \<and> memory_size r = am_size m \<and> guest_phys_addr r = am_gpa_base m"
    if "m \<in> set (vh_mappings h')" for m
  proof -
    have "?m m \<in> ?r ` set ctx" unfolding img [symmetric] by (rule imageI) (rule that)
    then show ?thesis by auto
  qed
  have to_m: "\<exists>m \<in> set (vh_mappings h'). user_addr r = am_vmm_addr m \<and> memory_size r = am_size m \<and> guest_phys_addr r = am_gpa_base m"
    if "r \<in> set ctx" for r
  proof -
    have "?r r \<in> ?m ` set (vh_mappings h')" unfolding img by (rule imageI) (rule that)
    then show ?thesis by auto
  qed
  have valid: "unat (user_addr r) + unat (memory_size r) < 2 ^ 64
      \<and> unat (guest_phys_addr r) + unat (memory_size r) < 2 ^ 64" if "r \<in> set ctx" for r
    using assms(3) that
    by (auto simp: VhostUserMemoryRegion_T_def is_valid_common_def checked_add_def split: if_splits)
  have "vmm_va_to_gpa (vh_mappings h') va = Some gpa \<longleftrightarrow>
      (\<exists>m \<in> set (vh_mappings h'). in_range (am_vmm_addr m) (am_size m) va
        \<and> unat gpa = unat (am_gpa_base m) + (unat va - unat (am_vmm_addr m)))"
  proof (rule vmm_va_to_gpa_Some_iff)
    show "unat (am_vmm_addr m) + unat (am_size m) < 2 ^ 64 \<and> unat (am_gpa_base m) + unat (am_size m) < 2 ^ 64"
      if "m \<in> set (vh_mappings h')" for m
      using to_r [OF that] valid by metis
    fix m m' assume mm: "m \<in> set (vh_mappings h')" "m' \<in> set (vh_mappings h')"
      "in_range (am_vmm_addr m) (am_size m) va" "in_range (am_vmm_addr m') (am_size m') va"
    from to_r [OF mm(1)] to_r [OF mm(2)] obtain r r' where "r \<in> set ctx" "r' \<in> set ctx"
      "user_addr r = am_vmm_addr m" "memory_size r = am_size m" "guest_phys_addr r = am_gpa_base m"
      "user_addr r' = am_vmm_addr m'" "memory_size r' = am_size m'" "guest_phys_addr r' = am_gpa_base m'"
      by blast
    with mm(3,4) assms(4) show "am_vmm_addr m = am_vmm_addr m' \<and> am_gpa_base m = am_gpa_base m'"
      unfolding pairwise_def by metis
  qed
  with to_r to_m show ?thesis by metis
qed

theorem set_mem_table_translates_witness:
  "\<exists>h'. vh_set_mem_table simple_env [VhostUserMemoryRegion_new 0x1000 0x2000 0x7000 0] [5]
          (simple_handler [] False 0 []) = Some (Inr (), h')
     \<and> vmm_va_to_gpa (vh_mappings h') 0x7010 = Some 0x1010"
proof -
  let ?r = "VhostUserMemoryRegion_new 0x1000 0x2000 0x7000 0"
  obtain h' where run: "vh_set_mem_table simple_env [?r] [5] (simple_handler [] False 0 []) = Some (Inr (), h')"
    by (simp add: vh_set_mem_table_def map_region_def flat_guest_ops_def replace_memory_def on_device_def
        idle_device_ops_def call_device_def returns_def effect_defs)
  have "vmm_va_to_gpa (vh_mappings h') 0x7010 = Some 0x1010"
    using set_mem_table_translates [OF run, of "0x7010" "0x1010"]
    by (simp add: VhostUserMemoryRegion_new_def VhostUserMemoryRegion_T_def is_valid_common_def
        checked_add_def in_range_def)
  with run show ?thesis by blast
qed

end
