(* ===== verification/Daemon.thy ===== *)
theory Daemon
  imports Handler
begin

text \<open>
  The daemon that runs a backend, \<open>vhost-user-backend/src/lib.rs\<close>, with the listeners it accepts
  its connection from: \<open>Listener\<close> of \<open>vhost/src/vhost_user/connection.rs\<close> and \<open>BackendListener\<close>
  of \<open>vhost/src/vhost_user/backend.rs\<close>.

  The daemon's thread serves requests until one of them fails; meanwhile any other thread may ask
  for a shutdown and the peer may act on the socket. \<open>daemon_step\<close> is one step of any of the three,
  and \<open>daemon_run\<close> their interleavings; \<open>run_thread\<close> is the thread running to its end alone.
  The handler is shared through a mutex: the thread works on the daemon's value of it and writes
  it back after each request. A panic and an operation that never returns are \<open>None\<close>; a request
  panics in a method of the handler, which is called with the mutex locked, so the mutex is
  poisoned then.

  Parameters: \<open>accept_sys\<close> is the \<open>accept\<close> system call of a listening socket, \<open>shut\<close> is
  \<open>shutdown(Both)\<close> of a connected socket, and the results of binding, connecting, duplicating a
  socket and spawning a thread are arguments.
\<close>

subsection \<open>Errors\<close>

datatype 'e DaemonError =
    NewVhostUserHandler "'e VhostUserHandlerError"
  | CreateBackendListener Error
  | CreateBackendReqHandler Error
  | CreateVhostUserListener Error
  | StartDaemon io_error
  | WaitDaemon
  | HandleRequest Error

subsection \<open>Listeners\<close>

type_synonym ('l, 's) accept_sys = "'l \<Rightarrow> (io_error + 's) \<times> 'l"

definition listener_new :: "io_error + 'l \<Rightarrow> Error + 'l" where
  "listener_new bound = (case bound of Inl e \<Rightarrow> Inl (SocketError e) | Inr l \<Rightarrow> Inr l)"

partial_function (option) listener_accept ::
    "('l, 's) accept_sys \<Rightarrow> 'l \<Rightarrow> ((Error + 's option) \<times> 'l) option" where
  "listener_accept A l =
     (case A l of (res, l') \<Rightarrow>
        (case res of
           Inr sock \<Rightarrow> Some (Inr (Some sock), l')
         | Inl e \<Rightarrow>
             if io_error_kind e = WouldBlock then Some (Inr None, l')
             else if io_error_kind e = ConnectionAborted then Some (Inr None, l')
             else if io_error_kind e = Interrupted then listener_accept A l'
             else Some (Inl (SocketError e), l')))"

record ('l, 'b) BackendListener =
  bl_listener :: 'l
  bl_backend :: "'b option"

definition bl_new :: "'l \<Rightarrow> 'b \<Rightarrow> ('l, 'b) BackendListener" where
  "bl_new l be = \<lparr>bl_listener = l, bl_backend = Some be\<rparr>"

text \<open>\<open>self.backend.take().unwrap()\<close> panics when the backend was given to a connection before.\<close>

definition bl_accept ::
    "('l, 's) accept_sys \<Rightarrow> (('l, 'b) BackendListener, Error, ('s, 'b) BackendReqHandler option) M" where
  "bl_accept A = (\<lambda>bl. case listener_accept A (bl_listener bl) of
       None \<Rightarrow> None
     | Some (Inl e, l') \<Rightarrow> Some (Inl e, bl\<lparr>bl_listener := l'\<rparr>)
     | Some (Inr None, l') \<Rightarrow> Some (Inr None, bl\<lparr>bl_listener := l'\<rparr>)
     | Some (Inr (Some sock), l') \<Rightarrow>
         (case bl_backend bl of
            None \<Rightarrow> None
          | Some be \<Rightarrow> Some (Inr (Some (brh_new sock be)), \<lparr>bl_listener = l', bl_backend = None\<rparr>)))"

subsection \<open>The daemon\<close>

record 's ConnectionState =
  cs_conn :: 's
  cs_shutdown_requested :: bool

text \<open>The thread behind the join handle: still serving, ended with its result, or panicked.\<close>

datatype ('s, 'b, 'e) main_thread =
    Serving "('s, 'b) BackendReqHandler"
  | Ended "'e DaemonError"
  | Panicked

text \<open>
  \<open>dm_notified\<close> collects the exit descriptors that were notified; \<open>dm_poisoned\<close> tells whether the
  mutex around the handler is poisoned.
\<close>

record ('s, 'b, 'p, 'e) VhostUserDaemon =
  dm_name :: string
  dm_handler :: 'b
  dm_epoll_handlers :: "'p VringEpollHandler list"
  dm_main_thread :: "('s, 'b, 'e) main_thread option"
  dm_conn_state :: "'s ConnectionState option"
  dm_notified :: "fd list"
  dm_poisoned :: bool

type_synonym ('s, 'b, 'p, 'e, 'a) dm = "(('s, 'b, 'p, 'e) VhostUserDaemon, 'e DaemonError, 'a) M"

definition daemon_new ::
    "string \<Rightarrow> ('d, 'p, 'm, 'r, 'q, 'e) handler_env \<Rightarrow> (nat \<Rightarrow> io_error + unit) \<Rightarrow> 'd \<Rightarrow> 'm
     \<Rightarrow> ('e DaemonError + ('s, ('d, 'p, 'm, 'q) VhostUserHandler, 'p, 'e) VhostUserDaemon) option" where
  "daemon_new name E spawn backend atomic_mem =
     (case vh_new E spawn atomic_mem backend of
        None \<Rightarrow> None
      | Some (Inl e) \<Rightarrow> Some (Inl (NewVhostUserHandler e))
      | Some (Inr handler) \<Rightarrow> Some (Inr
          \<lparr>dm_name = name, dm_handler = handler, dm_epoll_handlers = get_epoll_handlers handler,
           dm_main_thread = None, dm_conn_state = None, dm_notified = [], dm_poisoned = False\<rparr>))"

definition reset_connection_state :: "('s, 'b, 'p, 'e, unit) dm" where
  "reset_connection_state = modifyM (\<lambda>d. d\<lparr>dm_conn_state := None\<rparr>)"

definition start_daemon ::
    "io_error + unit \<Rightarrow> io_error + unit \<Rightarrow> ('s, 'b) BackendReqHandler \<Rightarrow> ('s, 'b, 'p, 'e, unit) dm" where
  "start_daemon cloned spawned handler =
     (case cloned of
        Inl e \<Rightarrow> failM (StartDaemon e)
      | Inr _ \<Rightarrow> (case spawned of
          Inl e \<Rightarrow> failM (StartDaemon e)
        | Inr _ \<Rightarrow> modifyM (\<lambda>d. d
            \<lparr>dm_conn_state := Some \<lparr>cs_conn = bh_main_sock handler, cs_shutdown_requested = False\<rparr>,
             dm_main_thread := Some (Serving handler)\<rparr>)))"

definition start_client ::
    "Error + 's \<Rightarrow> io_error + unit \<Rightarrow> io_error + unit \<Rightarrow> ('s, 'b, 'p, 'e, unit) dm" where
  "start_client connected cloned spawned = (case connected of
       Inl e \<Rightarrow> failM (CreateBackendReqHandler e)
     | Inr sock \<Rightarrow> bindM (readM dm_handler) (\<lambda>handler.
         start_daemon cloned spawned (brh_new sock handler)))"

partial_function (option) daemon_accept ::
    "('l, 's) accept_sys \<Rightarrow> ('l, 'b) BackendListener
     \<Rightarrow> (('e DaemonError + ('s, 'b) BackendReqHandler) \<times> ('l, 'b) BackendListener) option" where
  "daemon_accept A bl =
     (case bl_accept A bl of
        None \<Rightarrow> None
      | Some r \<Rightarrow> (case r of (res, bl') \<Rightarrow>
          (case res of
             Inl e \<Rightarrow> Some (Inl (CreateBackendListener e), bl')
           | Inr v \<Rightarrow> (case v of
               Some h \<Rightarrow> Some (Inr h, bl')
             | None \<Rightarrow> daemon_accept A bl'))))"

definition daemon_start ::
    "('l, 's) accept_sys \<Rightarrow> 'l \<Rightarrow> io_error + unit \<Rightarrow> io_error + unit \<Rightarrow> ('s, 'b, 'p, 'e, unit) dm" where
  "daemon_start A l cloned spawned =
     (\<lambda>d. case daemon_accept A (bl_new l (dm_handler d)) of
        None \<Rightarrow> None
      | Some (Inl e, _) \<Rightarrow> Some (Inl e, d)
      | Some (Inr backend_handler, _) \<Rightarrow> start_daemon cloned spawned backend_handler d)"

subsection \<open>The thread\<close>

text \<open>The body of the thread: the loop over requests, until one of them fails.\<close>

partial_function (option) daemon_loop ::
    "'b VhostUserBackendReqHandler \<Rightarrow> 's sock_ops \<Rightarrow> sockopt \<Rightarrow> ('s, 'b) BackendReqHandler
     \<Rightarrow> (Error \<times> ('s, 'b) BackendReqHandler) option" where
  "daemon_loop B so opt h =
     (case handle_request B so opt h of
        None \<Rightarrow> None
      | Some r \<Rightarrow> (case r of (res, h') \<Rightarrow>
          (case res of
             Inl e \<Rightarrow> Some (e, h')
           | Inr _ \<Rightarrow> daemon_loop B so opt h')))"

text \<open>The handler of the thread with the shared socket and the shared device as they are now.\<close>

definition attach ::
    "('s, 'b, 'p, 'e) VhostUserDaemon \<Rightarrow> 's ConnectionState \<Rightarrow> ('s, 'b) BackendReqHandler
     \<Rightarrow> ('s, 'b) BackendReqHandler" where
  "attach d cs h = h\<lparr>bh_main_sock := cs_conn cs, bh_backend := dm_handler d\<rparr>"

text \<open>What the thread leaves behind after a request was served, and after one failed.\<close>

definition after_request ::
    "'s ConnectionState \<Rightarrow> ('s, 'b) BackendReqHandler \<Rightarrow> ('s, 'b, 'p, 'e) VhostUserDaemon
     \<Rightarrow> ('s, 'b, 'p, 'e) VhostUserDaemon" where
  "after_request cs h' d = d
     \<lparr>dm_handler := bh_backend h', dm_main_thread := Some (Serving h'),
      dm_conn_state := Some (cs\<lparr>cs_conn := bh_main_sock h'\<rparr>)\<rparr>"

definition after_failure ::
    "('s \<Rightarrow> 's) \<Rightarrow> Error \<Rightarrow> 's ConnectionState \<Rightarrow> ('s, 'b) BackendReqHandler
     \<Rightarrow> ('s, 'b, 'p, 'e) VhostUserDaemon \<Rightarrow> ('s, 'b, 'p, 'e) VhostUserDaemon" where
  "after_failure shut e cs h' d = d
     \<lparr>dm_handler := bh_backend h', dm_main_thread := Some (Ended (HandleRequest e)),
      dm_conn_state := Some (cs\<lparr>cs_conn := shut (bh_main_sock h')\<rparr>)\<rparr>"

definition run_thread ::
    "'b VhostUserBackendReqHandler \<Rightarrow> 's sock_ops \<Rightarrow> sockopt \<Rightarrow> ('s \<Rightarrow> 's) \<Rightarrow> ('s, 'b, 'p, 'e, unit) dm" where
  "run_thread B so opt shut = (\<lambda>d.
     case (dm_main_thread d, dm_conn_state d) of
       (Some (Serving h), Some cs) \<Rightarrow>
         (case daemon_loop B so opt (attach d cs h) of
            None \<Rightarrow> None
          | Some (e, h') \<Rightarrow> Some (Inr (), after_failure shut e cs h' d))
     | _ \<Rightarrow> Some (Inr (), d))"

subsection \<open>Shutdown and wait\<close>

definition handle_shutdown :: "('s \<Rightarrow> 's) \<Rightarrow> 's ConnectionState \<Rightarrow> 's ConnectionState" where
  "handle_shutdown shut state = state\<lparr>cs_shutdown_requested := True, cs_conn := shut (cs_conn state)\<rparr>"

text \<open>
  \<open>shutdown_handle\<close> gives the connection state, if there is one, and \<open>request_shutdown\<close> shuts it down.
\<close>

definition shutdown_handle :: "('s, 'b, 'p, 'e) VhostUserDaemon \<Rightarrow> 's ConnectionState option" where
  "shutdown_handle d = dm_conn_state d"

definition request_shutdown ::
    "('s \<Rightarrow> 's) \<Rightarrow> ('s, 'b, 'p, 'e) VhostUserDaemon \<Rightarrow> ('s, 'b, 'p, 'e) VhostUserDaemon" where
  "request_shutdown shut d = (case shutdown_handle d of
       None \<Rightarrow> d
     | Some cs \<Rightarrow> d\<lparr>dm_conn_state := Some (handle_shutdown shut cs)\<rparr>)"

definition shutdown_was_requested :: "('s, 'b, 'p, 'e) VhostUserDaemon \<Rightarrow> bool" where
  "shutdown_was_requested d = (case dm_conn_state d of
       None \<Rightarrow> False
     | Some s \<Rightarrow> cs_shutdown_requested s)"

text \<open>\<open>join\<close> blocks while the thread is serving.\<close>

definition wait :: "('s, 'b, 'p, 'e, unit) dm" where
  "wait = bindM (readM dm_main_thread) (\<lambda>main_thread.
     thenM (modifyM (\<lambda>d. d\<lparr>dm_main_thread := None\<rparr>))
     (case main_thread of
        None \<Rightarrow> reset_connection_state
      | Some (Serving _) \<Rightarrow> (\<lambda>d. None)
      | Some Panicked \<Rightarrow> failM WaitDaemon
      | Some (Ended error) \<Rightarrow> bindM (readM shutdown_was_requested) (\<lambda>requested.
          thenM reset_connection_state
          (case error of
             HandleRequest (SocketBroken _) \<Rightarrow> retM ()
           | HandleRequest _ \<Rightarrow> if requested then retM () else failM error
           | _ \<Rightarrow> failM error))))"

text \<open>
  \<open>send_exit_event\<close> of the handler, behind \<open>lock().unwrap()\<close>, and the epoll handlers that the
  daemon hands out.
\<close>

definition dm_send_exit_event :: "('s, 'b, 'p, 'e, unit) dm" where
  "dm_send_exit_event = (\<lambda>d. if dm_poisoned d then None else Some (Inr (), d
     \<lparr>dm_notified := dm_notified d @ List.map_filter veh_exit_event_fd (dm_epoll_handlers d)\<rparr>))"

definition dm_get_epoll_handlers :: "('s, 'b, 'p, 'e, 'p VringEpollHandler list) dm" where
  "dm_get_epoll_handlers = (\<lambda>d. if dm_poisoned d then None else Some (Inr (dm_epoll_handlers d), d))"

definition serve ::
    "'b VhostUserBackendReqHandler \<Rightarrow> 's sock_ops \<Rightarrow> sockopt \<Rightarrow> ('s \<Rightarrow> 's) \<Rightarrow> ('l, 's) accept_sys
     \<Rightarrow> io_error + 'l \<Rightarrow> io_error + unit \<Rightarrow> io_error + unit \<Rightarrow> ('s, 'b, 'p, 'e, unit) dm" where
  "serve B so opt shut A bound cloned spawned = (case listener_new bound of
       Inl e \<Rightarrow> failM (CreateVhostUserListener e)
     | Inr l \<Rightarrow>
         thenM (daemon_start A l cloned spawned)
         (thenM (run_thread B so opt shut)
         (bindM (catchM wait) (\<lambda>result.
            thenM dm_send_exit_event
            (case result of
               Inl (HandleRequest Disconnected) \<Rightarrow> retM ()
             | Inl (HandleRequest PartialMessage) \<Rightarrow> retM ()
             | _ \<Rightarrow> liftR result)))))"

definition daemon_drop :: "('s \<Rightarrow> 's) \<Rightarrow> ('s, 'b, 'p, 'e) VhostUserDaemon \<Rightarrow> 's option" where
  "daemon_drop shut d = map_option (shut \<circ> cs_conn) (dm_conn_state d)"

text \<open>The exit descriptors that sending the exit event to each worker notifies, in their order.\<close>

lemma send_exit_events_notifies:
  "send_exit_events (\<lambda>f ns. Some (Inr (), ns @ [f])) vs ns
     = Some ((), ns @ List.map_filter veh_exit_event_fd vs)"
  by (induction vs arbitrary: ns)
    (auto simp: returns_def send_exit_event_def map_filter_simps split: option.split)

subsection \<open>Interleavings\<close>

datatype daemon_event = Request | Shutdown | Peer

text \<open>\<open>peer s s'\<close>: what the other end of the socket can do to it.\<close>

inductive daemon_step ::
    "'b VhostUserBackendReqHandler \<Rightarrow> 's sock_ops \<Rightarrow> sockopt \<Rightarrow> ('s \<Rightarrow> 's) \<Rightarrow> ('s \<Rightarrow> 's \<Rightarrow> bool)
     \<Rightarrow> ('s, 'b, 'p, 'e) VhostUserDaemon \<Rightarrow> daemon_event \<Rightarrow> ('s, 'b, 'p, 'e) VhostUserDaemon \<Rightarrow> bool"
  for B so opt shut peer where
  request_served: "dm_main_thread d = Some (Serving h) \<Longrightarrow> dm_conn_state d = Some cs \<Longrightarrow>
    handle_request B so opt (attach d cs h) = Some (Inr (), h') \<Longrightarrow>
    daemon_step B so opt shut peer d Request (after_request cs h' d)"
| request_failed: "dm_main_thread d = Some (Serving h) \<Longrightarrow> dm_conn_state d = Some cs \<Longrightarrow>
    handle_request B so opt (attach d cs h) = Some (Inl e, h') \<Longrightarrow>
    daemon_step B so opt shut peer d Request (after_failure shut e cs h' d)"
| request_panics: "dm_main_thread d = Some (Serving h) \<Longrightarrow> dm_conn_state d = Some cs \<Longrightarrow>
    handle_request B so opt (attach d cs h) = None \<Longrightarrow>
    daemon_step B so opt shut peer d Request (d\<lparr>dm_main_thread := Some Panicked, dm_poisoned := True\<rparr>)"
| shutdown_requested: "daemon_step B so opt shut peer d Shutdown (request_shutdown shut d)"
| peer_acts: "dm_conn_state d = Some cs \<Longrightarrow> peer (cs_conn cs) s' \<Longrightarrow>
    daemon_step B so opt shut peer d Peer (d\<lparr>dm_conn_state := Some (cs\<lparr>cs_conn := s'\<rparr>)\<rparr>)"

inductive_cases daemon_stepE: "daemon_step B so opt shut peer d ev d'"

text \<open>A run and the events of it, the last one first.\<close>

inductive daemon_run ::
    "'b VhostUserBackendReqHandler \<Rightarrow> 's sock_ops \<Rightarrow> sockopt \<Rightarrow> ('s \<Rightarrow> 's) \<Rightarrow> ('s \<Rightarrow> 's \<Rightarrow> bool)
     \<Rightarrow> ('s, 'b, 'p, 'e) VhostUserDaemon \<Rightarrow> daemon_event list \<Rightarrow> ('s, 'b, 'p, 'e) VhostUserDaemon \<Rightarrow> bool"
  for B so opt shut peer d0 where
  run_start: "daemon_run B so opt shut peer d0 [] d0"
| run_step: "daemon_run B so opt shut peer d0 evs d \<Longrightarrow> daemon_step B so opt shut peer d ev d' \<Longrightarrow>
    daemon_run B so opt shut peer d0 (ev # evs) d'"

subsection \<open>Facts about waiting\<close>

lemma run_connection:
  assumes "daemon_run B so opt shut peer d0 evs d"
    and "dm_conn_state d0 = Some cs0" and "\<not> cs_shutdown_requested cs0"
    and "dm_main_thread d0 = Some (Serving h0)"
  shows "(\<exists>cs. dm_conn_state d = Some cs \<and> (cs_shutdown_requested cs \<longleftrightarrow> Shutdown \<in> set evs))
    \<and> (\<forall>error. dm_main_thread d = Some (Ended error) \<longrightarrow> (\<exists>e. error = HandleRequest e))"
  using assms
proof (induction rule: daemon_run.induct)
  case run_start
  then show ?case by simp
next
  case (run_step evs d ev d')
  from run_step.hyps(2) run_step.IH [OF run_step.prems] show ?case
    by (elim daemon_stepE) (auto simp: after_request_def after_failure_def request_shutdown_def
        shutdown_handle_def handle_shutdown_def)
qed

lemma wait_ended:
  "dm_main_thread d = Some (Ended (HandleRequest e)) \<Longrightarrow>
     wait d = Some (if shutdown_was_requested d \<or> (\<exists>io. e = SocketBroken io) then Inr ()
                    else Inl (HandleRequest e), d\<lparr>dm_main_thread := None, dm_conn_state := None\<rparr>)"
  by (cases e) (simp_all add: wait_def effect_defs reset_connection_state_def
      shutdown_was_requested_def)

lemma wait_without_thread:
  "dm_main_thread d = None \<Longrightarrow> wait d = Some (Inr (), d\<lparr>dm_main_thread := None, dm_conn_state := None\<rparr>)"
  by (simp add: wait_def effect_defs reset_connection_state_def)

text \<open>
  C18: however the thread, the requests for a shutdown and the peer are interleaved after the daemon
  was started, once the thread has ended \<open>wait\<close> succeeds if a shutdown was requested at any time
  or the socket broke, and returns the error that ended the thread otherwise; the connection is
  then forgotten, and waiting again succeeds and changes nothing.
\<close>

theorem wait_reports_thread_error:
  assumes "start_daemon (Inr ()) (Inr ()) h d = Some (Inr (), d0)"
    and "daemon_run B so opt shut peer d0 evs d1" and "dm_main_thread d1 = Some (Ended error)"
  shows "\<exists>e d2. error = HandleRequest e
    \<and> wait d1 = Some (if Shutdown \<in> set evs \<or> (\<exists>io. e = SocketBroken io) then Inr ()
                      else Inl (HandleRequest e), d2)
    \<and> dm_conn_state d2 = None \<and> wait d2 = Some (Inr (), d2)"
proof -
  have "dm_main_thread d0 = Some (Serving h)"
    "dm_conn_state d0 = Some \<lparr>cs_conn = bh_main_sock h, cs_shutdown_requested = False\<rparr>"
    using assms(1) by (auto simp: start_daemon_def modifyM_def)
  from run_connection [OF assms(2) this(2) _ this(1)] assms(3)
  obtain e cs where "error = HandleRequest e" "dm_conn_state d1 = Some cs"
    "cs_shutdown_requested cs \<longleftrightarrow> Shutdown \<in> set evs" by auto
  with wait_ended [of d1 e] assms(3) show ?thesis
    by (auto simp: shutdown_was_requested_def wait_without_thread)
qed

text \<open>
  A socket whose peer has hung up: every receive gives nothing, and a request fails with
  \<open>Disconnected\<close>; and a daemon without a connection, for the witnesses.
\<close>

definition hung_up_sock :: "unit sock_ops" where
  "hung_up_sock =
     \<lparr>send_with_fds = (\<lambda>s iovs fds. Some (Inl EPIPE, s)),
      recv_with_fds = (\<lambda>s lens cap. Some (Inr ([], []), s))\<rparr>"

lemma request_hung_up:
  "handle_request B hung_up_sock opt h =
     Some (case bh_error h of None \<Rightarrow> Inl Disconnected | Some e \<Rightarrow> Inl (SocketBroken (RawOs e)), h)"
  by (simp add: handle_request_def check_state_apply recv_header_def recv_into_iovec_all_def
      recv_iovec_loop.simps recv_into_iovec_def hung_up_sock_def hdr_size_of_def
      on_sock_def Let_def effect_defs split: option.split)

definition idle_daemon :: "(unit, nat, unit, unit) VhostUserDaemon" where
  "idle_daemon =
     \<lparr>dm_name = ''d'', dm_handler = 0,
      dm_epoll_handlers = [\<lparr>veh_epoll = (), veh_vrings = [], veh_thread_id = 0, veh_exit_event_fd = Some 7\<rparr>],
      dm_main_thread = None, dm_conn_state = None, dm_notified = [], dm_poisoned = False\<rparr>"

text \<open>The daemon after its thread ended with \<open>Disconnected\<close>, where a shutdown was requested before.\<close>

definition disconnected_daemon :: "bool \<Rightarrow> (unit, nat, unit, unit) VhostUserDaemon" where
  "disconnected_daemon requested = idle_daemon
     \<lparr>dm_main_thread := Some (Ended (HandleRequest Disconnected)),
      dm_conn_state := Some \<lparr>cs_conn = (), cs_shutdown_requested = requested\<rparr>\<rparr>"

lemma started_run_disconnects:
  assumes "start_daemon (Inr ()) (Inr ()) (brh_new () 0) idle_daemon = Some (Inr (), d0)"
  shows "daemon_run B hung_up_sock opt id peer d0 [Request] (disconnected_daemon False)"
    and "daemon_run B hung_up_sock opt id peer d0 [Request, Shutdown] (disconnected_daemon True)"
proof -
  have req: "daemon_step B hung_up_sock opt id peer d Request (after_failure id Disconnected cs (brh_new () 0) d)"
    if "dm_main_thread d = Some (Serving (brh_new () 0))" "dm_conn_state d = Some cs"
       "dm_handler d = 0" for d :: "(unit, nat, unit, unit) VhostUserDaemon" and cs
    using that request_hung_up [of B opt "brh_new () 0"]
    by (intro request_failed) (auto simp: attach_def brh_new_def)
  define cs :: "bool \<Rightarrow> unit ConnectionState"
    where "cs = (\<lambda>r. \<lparr>cs_conn = (), cs_shutdown_requested = r\<rparr>)"
  have d0: "d0 = idle_daemon\<lparr>dm_main_thread := Some (Serving (brh_new () 0)), dm_conn_state := Some (cs False)\<rparr>"
    using assms by (auto simp: start_daemon_def modifyM_def brh_new_def cs_def idle_daemon_def)
  have final: "after_failure id Disconnected (cs r) (brh_new () 0) (d0\<lparr>dm_conn_state := Some (cs r)\<rparr>)
      = disconnected_daemon r" for r
    by (simp add: after_failure_def d0 cs_def disconnected_daemon_def idle_daemon_def brh_new_def)
  have "d0\<lparr>dm_conn_state := Some (cs False)\<rparr> = d0" by (simp add: d0)
  then show "daemon_run B hung_up_sock opt id peer d0 [Request] (disconnected_daemon False)"
    using run_step [OF run_start req [of d0 "cs False"]] final [of False] by (simp add: d0 idle_daemon_def)
  have "request_shutdown id d0 = d0\<lparr>dm_conn_state := Some (cs True)\<rparr>"
    by (simp add: request_shutdown_def shutdown_handle_def handle_shutdown_def d0 cs_def)
  then have "daemon_run B hung_up_sock opt id peer d0 [Shutdown] (d0\<lparr>dm_conn_state := Some (cs True)\<rparr>)"
    using run_step [OF run_start shutdown_requested] by metis
  from run_step [OF this req [of _ "cs True"]]
  show "daemon_run B hung_up_sock opt id peer d0 [Request, Shutdown] (disconnected_daemon True)"
    using final [of True] by (simp add: d0 idle_daemon_def)
qed

theorem wait_reports_thread_error_witness:
  "(\<exists>d2. wait (disconnected_daemon False) = Some (Inl (HandleRequest Disconnected), d2))
   \<and> (\<exists>d2. wait (disconnected_daemon True) = Some (Inr (), d2))"
proof -
  obtain d0 where d0: "start_daemon (Inr ()) (Inr ()) (brh_new () 0) idle_daemon = Some (Inr (), d0)"
    by (simp add: start_daemon_def modifyM_def)
  have "dm_main_thread (disconnected_daemon r) = Some (Ended (HandleRequest Disconnected))" for r
    by (simp add: disconnected_daemon_def)
  with wait_reports_thread_error [OF d0 started_run_disconnects(1) [OF d0]]
    wait_reports_thread_error [OF d0 started_run_disconnects(2) [OF d0]]
  show ?thesis by auto
qed

subsection \<open>The thread ends with the stream\<close>

definition unread_le :: "('s \<Rightarrow> u8 list) \<Rightarrow> nat \<Rightarrow> ('s, 'b) BackendReqHandler \<Rightarrow> bool" where
  "unread_le rx n h \<longleftrightarrow> length (rx (bh_main_sock h)) \<le> n"

lemma unread_le_frame [simp]:
  "unread_le rx n (h\<lparr>bh_backend := b\<rparr>) = unread_le rx n h"
  "unread_le rx n (h\<lparr>bh_virtio_features := v\<rparr>) = unread_le rx n h"
  "unread_le rx n (h\<lparr>bh_acked_virtio_features := v\<rparr>) = unread_le rx n h"
  "unread_le rx n (h\<lparr>bh_acked_protocol_features := v\<rparr>) = unread_le rx n h"
  "unread_le rx n (h\<lparr>bh_reply_ack_enabled := f\<rparr>) = unread_le rx n h"
  by (simp_all add: unread_le_def)

lemma preserves_unread [preserve_intros]:
  "preserves (unread_le rx n) (on_backend m)"
  "preserves (unread_le rx n) check_state"
  "preserves (unread_le rx n) (check_feature f)"
  "preserves (unread_le rx n) (check_proto_feature pf)"
  "preserves (unread_le rx n) update_reply_ack_flag"
  by (simp_all add: preserves_on_backend)
    (auto simp: preserves_def check_state_apply check_feature_apply check_proto_feature_apply
      update_reply_ack_flag_def modifyM_def Let_def)

text \<open>A socket operation that leaves the unread data alone, or takes some of it.\<close>

lemma preserves_unread_on_sock:
  "(\<And>s r s'. m s = Some (r, s') \<Longrightarrow> length (rx s') \<le> length (rx s)) \<Longrightarrow>
     preserves (unread_le rx n) (on_sock m)"
  by (fastforce simp: preserves_def on_sock_def unread_le_def split: option.splits)

lemma sends_keep_unread:
  assumes "duplex_law so tx rx rxf"
  shows "preserves (unread_le rx n) (on_sock (send_message H T so hdr body fds))"
    and "preserves (unread_le rx n) (on_sock (send_message_with_payload H T so hdr body payload fds))"
  unfolding send_message_def send_message_with_payload_def Let_def
  by (rule preserves_unread_on_sock,
      auto simp: failM_apply guardM_apply retM_apply send_all_keeps_rx [OF assms]
        split: if_splits elim!: bindM_SomeE)+

lemma recv_data_keeps_unread:
  assumes "recv_law so rx rxf"
  shows "preserves (unread_le rx n) (on_sock (recv_data so len))"
proof (rule preserves_unread_on_sock)
  fix s r s'
  assume "recv_data so len s = Some (r, s')"
  then obtain r' where "recv_with_fds so s [len] 0 = Some (r', s')"
    by (auto simp: recv_data_def split: option.splits sum.splits)
  from assms [unfolded recv_law_def, rule_format, OF this]
  show "length (rx s') \<le> length (rx s)" by (cases r') auto
qed

lemma replies_keep_unread:
  assumes "duplex_law so tx rx rxf"
  shows "preserves (unread_le rx n) (new_reply_header k hdr j)"
    and "preserves (unread_le rx n) (send_ack_message so hdr res)"
    and "preserves (unread_le rx n) (send_reply_message T so hdr msg)"
    and "preserves (unread_le rx n) (send_reply_with_payload T so hdr msg pl)"
  unfolding new_reply_header_def send_ack_message_def send_reply_message_def
    send_reply_with_payload_def Let_def
  by (intro preserve_intros sends_keep_unread [OF assms])+

lemma helpers_keep_unread:
  assumes "duplex_law so tx rx rxf"
  shows "preserves (unread_le rx n) (set_mem_table B hdr sz buf files)"
    and "preserves (unread_le rx n) (get_config B so hdr buf)"
    and "preserves (unread_le rx n) (set_config B sz buf)"
    and "preserves (unread_le rx n) (set_backend_req_fd B opt files)"
    and "preserves (unread_le rx n) (set_gpu_socket B opt files)"
  unfolding set_mem_table_def get_config_def set_config_def set_backend_req_fd_def
    set_gpu_socket_def Let_def
  by (intro preserve_intros preserves_modifyM replies_keep_unread [OF assms]; simp)+

lemma dispatch_keeps_unread:
  assumes "duplex_law so tx rx rxf"
  shows "preserves (unread_le rx n) (dispatch B so opt hdr sz buf files code)"
  by (cases code; simp only: dispatch.simps arm_defs Let_def;
      intro preserve_intros preserves_modifyM sends_keep_unread [OF assms]
        replies_keep_unread [OF assms] helpers_keep_unread [OF assms]; simp)

lemma header_takes:
  assumes "recv_law so rx rxf" and "recv_header FH so s = Some (Inr x, s')"
  shows "length (rx s') < length (rx s)"
proof -
  from assms(2) obtain n bufs files where "0 < n"
    "recv_into_iovec_all so [replicate (size_of (hdr_T FH)) 0] s = Some (Inr (n, bufs, files), s')"
    unfolding recv_header_def
    by (auto simp: Let_def failM_apply retM_apply split: if_splits elim!: bindM_InrE)
  from recv_all_outcome [OF assms(1) this(2)] this(1) show ?thesis by auto
qed

text \<open>Every request that is served takes at least its header from the stream.\<close>

lemma request_takes:
  assumes "recv_law so rx rxf" and "duplex_law so tx rx rxf"
    and "handle_request B so opt h = Some (Inr (), h')"
  shows "length (rx (bh_main_sock h')) < length (rx (bh_main_sock h))"
proof -
  define rest where "rest = (\<lambda>(hdr, files).
     thenM (liftR (check_attached_files hdr files))
       (bindM (recv_request_body so hdr) (\<lambda>(sz, buf).
         case get_code FrontendReq_Req hdr of
           Inr code \<Rightarrow> dispatch B so opt hdr sz buf files code
         | Inl _ \<Rightarrow> (failM InvalidMessage :: ('a, 'b, unit) brh))))"
  have rest: "preserves (unread_le rx n) (rest x)" for n x
    unfolding rest_def recv_request_body_def Let_def
    by (cases x; simp only: prod.case;
        intro preserve_intros recv_data_keeps_unread [OF assms(1)] dispatch_keeps_unread [OF assms(2)])
  from assms(3) obtain x s' where "recv_header FH so (bh_main_sock h) = Some (Inr x, s')"
    "rest x (h\<lparr>bh_main_sock := s'\<rparr>) = Some (Inr (), h')"
    unfolding handle_request_def rest_def [symmetric]
    by (auto simp: check_state_apply on_sock_def split: option.splits elim!: thenM_SomeE bindM_InrE)
  from header_takes [OF assms(1) this(1)] preservesD [OF rest _ this(2), of "length (rx s')"]
  show ?thesis by (simp add: unread_le_def)
qed

lemma daemon_loop_ends:
  assumes "recv_law so rx rxf" and "duplex_law so tx rx rxf"
    and "\<forall>h. handle_request B so opt h \<noteq> None"
  shows "\<exists>e h'. daemon_loop B so opt h = Some (e, h')"
proof (induction "length (rx (bh_main_sock h))" arbitrary: h rule: less_induct)
  case less
  from assms(3) obtain r h' where req: "handle_request B so opt h = Some (r, h')" by fastforce
  show ?case
  proof (cases r)
    case (Inl e)
    with req show ?thesis by (simp add: daemon_loop.simps)
  next
    case (Inr u)
    with req less [OF request_takes [OF assms(1,2)]] show ?thesis
      by (subst daemon_loop.simps) simp
  qed
qed

text \<open>
  The thread alone is one of the interleavings: where the loop ends is where a run of requests ends.
\<close>

lemma attach_after_request [simp]:
  "attach (after_request cs h d) (cs\<lparr>cs_conn := bh_main_sock h\<rparr>) h = h"
  by (simp add: attach_def after_request_def)

lemma after_request_sel [simp]:
  "dm_main_thread (after_request cs h d) = Some (Serving h)"
  "dm_conn_state (after_request cs h d) = Some (cs\<lparr>cs_conn := bh_main_sock h\<rparr>)"
  by (simp_all add: after_request_def)

lemma after_failure_after_request [simp]:
  "after_failure shut e (cs\<lparr>cs_conn := s\<rparr>) h' (after_request cs h d) = after_failure shut e cs h' d"
  by (simp add: after_failure_def after_request_def)

lemma daemon_loop_induct [consumes 1, case_names err more]:
  assumes run: "daemon_loop B so opt h = Some (e, h')"
    and err: "\<And>h e h'. handle_request B so opt h = Some (Inl e, h') \<Longrightarrow> P h e h'"
    and more: "\<And>h h1 e h'. handle_request B so opt h = Some (Inr (), h1) \<Longrightarrow> P h1 e h' \<Longrightarrow> P h e h'"
  shows "P h e h'"
proof -
  have "B' = B \<longrightarrow> so' = so \<longrightarrow> opt' = opt \<longrightarrow> P h (fst y) (snd y)"
    if "daemon_loop B' so' opt' h = Some y" for B' so' opt' h y
    using that
  proof (rule daemon_loop.raw_induct [rotated], goal_cases)
    case (1 loop B' so' opt' h y)
    then show ?case
      by (fastforce intro: err more split: option.splits prod.splits sum.splits)
  qed
  from this [OF run] show ?thesis by simp
qed

lemma daemon_loop_runs:
  assumes "daemon_loop B so opt g = Some (e, h')" and "g = attach d cs h"
    and "dm_main_thread d = Some (Serving h)" and "dm_conn_state d = Some cs"
    and "daemon_run B so opt shut peer d0 evs d"
  shows "\<exists>evs'. set evs' = {Request}
    \<and> daemon_run B so opt shut peer d0 (evs' @ evs) (after_failure shut e cs h' d)"
  using assms
proof (induction arbitrary: d cs h evs rule: daemon_loop_induct)
  case (err g e h')
  then have "daemon_run B so opt shut peer d0 ([Request] @ evs) (after_failure shut e cs h' d)"
    by (auto intro: run_step request_failed)
  then show ?case by (intro exI [of _ "[Request]"]) simp
next
  case (more g h1 e h')
  then have "daemon_run B so opt shut peer d0 (Request # evs) (after_request cs h1 d)"
    by (auto intro: run_step request_served)
  from more.IH [OF _ _ _ this, of "cs\<lparr>cs_conn := bh_main_sock h1\<rparr>" h1] obtain evs' where
    "set evs' = {Request}"
    "daemon_run B so opt shut peer d0 (evs' @ Request # evs) (after_failure shut e cs h' d)"
    by auto
  then show ?case by (intro exI [of _ "evs' @ [Request]"]) simp
qed

text \<open>
  C14: \<open>serve\<close> comes back: when a connection was accepted, the peer sends finitely many bytes and no
  single request hangs or panics, and the mutex of the handler is not poisoned, the thread ends with the error of some request. \<open>serve\<close> then
  succeeds for the errors of a peer that went away (\<open>Disconnected\<close>, \<open>PartialMessage\<close>,
  \<open>SocketBroken\<close>) and returns any other error, and in both cases it has notified the exit descriptor
  of every worker and forgotten the connection.
\<close>

theorem serve_ends:
  fixes d :: "('s, 'b, 'p, 'e) VhostUserDaemon"
  assumes "recv_law so rx rxf" and "duplex_law so tx rx rxf"
    and "\<forall>h. handle_request B so opt h \<noteq> None" and "\<not> dm_poisoned d"
    and "daemon_accept A (bl_new l (dm_handler d)) = Some (Inr h :: 'e DaemonError + ('s, 'b) BackendReqHandler, bl)"
  shows "\<exists>e h' d'. daemon_loop B so opt (h\<lparr>bh_backend := dm_handler d\<rparr>) = Some (e, h')
    \<and> serve B so opt shut A (Inr l) (Inr ()) (Inr ()) d =
        Some (if e \<in> {Disconnected, PartialMessage} \<union> range SocketBroken then Inr ()
              else Inl (HandleRequest e), d')
    \<and> dm_handler d' = bh_backend h' \<and> dm_main_thread d' = None \<and> dm_conn_state d' = None
    \<and> dm_notified d' = dm_notified d @ List.map_filter veh_exit_event_fd (dm_epoll_handlers d)"
proof -
  obtain e h' where loop: "daemon_loop B so opt (h\<lparr>bh_backend := dm_handler d\<rparr>) = Some (e, h')"
    using daemon_loop_ends [OF assms(1-3)] by blast
  define cs where "cs = \<lparr>cs_conn = bh_main_sock h, cs_shutdown_requested = False\<rparr>"
  define d1 where "d1 = d\<lparr>dm_conn_state := Some cs, dm_main_thread := Some (Serving h)\<rparr>"
  have start: "daemon_start A l (Inr ()) (Inr ()) d = Some (Inr (), d1)"
    using assms(5) by (simp add: daemon_start_def start_daemon_def modifyM_def d1_def cs_def)
  have "attach d1 cs h = h\<lparr>bh_backend := dm_handler d\<rparr>"
    by (simp add: attach_def d1_def cs_def)
  then have run: "run_thread B so opt shut d1 = Some (Inr (), after_failure shut e cs h' d1)"
    using loop by (simp add: run_thread_def d1_def)
  have requested: "\<not> shutdown_was_requested (after_failure shut e cs h' d1)"
    by (simp add: shutdown_was_requested_def after_failure_def cs_def)
  have wait: "wait (after_failure shut e cs h' d1) = Some (if e \<in> range SocketBroken then Inr ()
      else Inl (HandleRequest e),
      (after_failure shut e cs h' d1)\<lparr>dm_main_thread := None, dm_conn_state := None\<rparr>)"
    using requested by (subst wait_ended [of _ e]) (auto simp: after_failure_def)
  show ?thesis
    using loop start run wait assms(4)
    by (cases e) (auto simp: serve_def listener_new_def effect_defs dm_send_exit_event_def
        after_failure_def d1_def)
qed

text \<open>
  When a request panics instead, \<open>wait\<close> gives its error and leaves the connection in place, and
  sending the exit event to the workers panics as well, because of the poisoned mutex.
\<close>

lemma panic_loses_exit_event:
  assumes "dm_main_thread d = Some (Serving h)" and "dm_conn_state d = Some cs"
    and "handle_request B so opt (attach d cs h) = None"
  shows "\<exists>d1 d2. daemon_step B so opt shut peer d Request d1 \<and> wait d1 = Some (Inl WaitDaemon, d2)
    \<and> dm_conn_state d2 = Some cs \<and> dm_send_exit_event d2 = None"
proof -
  let ?d1 = "d\<lparr>dm_main_thread := Some Panicked, dm_poisoned := True\<rparr>"
  have "daemon_step B so opt shut peer d Request ?d1" using assms by (rule request_panics)
  moreover have "wait ?d1 = Some (Inl WaitDaemon, ?d1\<lparr>dm_main_thread := None\<rparr>)"
    by (simp add: wait_def effect_defs)
  ultimately show ?thesis using assms(2)
    by (intro exI [of _ ?d1] exI [of _ "?d1\<lparr>dm_main_thread := None\<rparr>"]) (simp add: dm_send_exit_event_def)
qed

text \<open>A listener that has nobody waiting in its first \<open>l\<close> calls, for the witness.\<close>

definition late_peer :: "nat \<Rightarrow> (io_error + unit) \<times> nat" where
  "late_peer l = (if l = 0 then (Inr (), 0) else (Inl (RawOs EAGAIN), l - 1))"

lemma late_peer_accepted:
  "daemon_accept late_peer (bl_new 1 (0::nat)) = Some (Inr (brh_new () 0), \<lparr>bl_listener = 0, bl_backend = None\<rparr>)"
  by (simp add: daemon_accept.simps bl_accept_def listener_accept.simps late_peer_def bl_new_def
      errno_defs)

theorem serve_ends_witness:
  "\<exists>d'. serve counting_device hung_up_sock (\<lambda>f n. Inr 0) id late_peer (Inr 1) (Inr ()) (Inr ()) idle_daemon
      = Some (Inr (), d') \<and> dm_notified d' = [7]"
proof -
  have "recv_law hung_up_sock (\<lambda>s. []) (\<lambda>s. [])" "duplex_law hung_up_sock (\<lambda>s. []) (\<lambda>s. []) (\<lambda>s. [])"
    by (simp_all add: recv_law_def duplex_law_def hung_up_sock_def)
  moreover have "\<forall>h. handle_request counting_device hung_up_sock (\<lambda>f n. Inr 0) h \<noteq> None"
    by (simp add: request_hung_up)
  moreover have "daemon_accept late_peer (bl_new 1 (dm_handler idle_daemon))
      = Some (Inr (brh_new () 0), \<lparr>bl_listener = 0, bl_backend = None\<rparr>)"
    using late_peer_accepted by (simp add: idle_daemon_def)
  moreover have "daemon_loop counting_device hung_up_sock (\<lambda>f n. Inr 0) ((brh_new () 0)\<lparr>bh_backend := 0\<rparr>)
      = Some (Disconnected, brh_new () 0)"
    by (simp add: daemon_loop.simps request_hung_up brh_new_def)
  ultimately show ?thesis
    using serve_ends [of hung_up_sock "\<lambda>s. []" "\<lambda>s. []" "\<lambda>s. []" counting_device "\<lambda>f n. Inr 0"
        idle_daemon late_peer 1 "brh_new () 0" "\<lparr>bl_listener = 0, bl_backend = None\<rparr>" id]
    by (auto simp: idle_daemon_def map_filter_simps)
qed

end
