(* ===== verification/Error_Text.thy ===== *)
theory Error_Text
  imports Daemon
begin

text \<open>
  The texts of the errors: the implementations of \<open>Display\<close> in \<open>vhost/src/vhost_user/mod.rs\<close>,
  \<open>vhost/src/lib.rs\<close>, and \<open>event_loop.rs\<close>, \<open>handler.rs\<close> and \<open>lib.rs\<close> of \<open>vhost-user-backend/src\<close>. The
  text of \<open>std::io::Error\<close> depends on the system and that of a queue error is of \<open>virtio-queue\<close>: both are
  parameters.
\<close>

subsection \<open>Numbers\<close>

text \<open>\<open>Display\<close> of an unsigned integer: its decimal digits.\<close>

fun decimal :: "nat \<Rightarrow> string" where
  "decimal n = (if n < 10 then [char_of (48 + n)] else decimal (n div 10) @ [char_of (48 + n mod 10)])"

declare decimal.simps [simp del]

definition undecimal :: "string \<Rightarrow> nat" where
  "undecimal cs = foldl (\<lambda>n c. 10 * n + (of_char c - 48)) 0 cs"

lemma undecimal_snoc: "undecimal (cs @ [c]) = 10 * undecimal cs + (of_char c - 48)"
  by (simp add: undecimal_def)

text \<open>The digits of a number determine it.\<close>

lemma undecimal_decimal [simp]: "undecimal (decimal n) = n"
proof (induction n rule: decimal.induct)
  case (1 n)
  have digit: "of_char (char_of (48 + d) :: char) - 48 = d" if "d < 10" for d :: nat
    using that by (simp add: of_char_of)
  show ?case
  proof (cases "n < 10")
    case True
    then show ?thesis by (subst decimal.simps) (simp add: undecimal_def digit)
  next
    case False
    with 1 have "undecimal (decimal (n div 10)) = n div 10" by simp
    then show ?thesis
      using False by (subst decimal.simps) (simp only: if_False undecimal_snoc, simp add: digit)
  qed
qed

subsection \<open>The texts\<close>

fun display_Error :: "(io_error \<Rightarrow> string) \<Rightarrow> Error \<Rightarrow> string" where
  "display_Error io InvalidParam = ''invalid parameters''"
| "display_Error io (InvalidOperation reason) = ''invalid operation: '' @ reason"
| "display_Error io (InactiveFeature bits) = ''inactive feature: '' @ decimal (unat bits)"
| "display_Error io (InactiveOperation bits) = ''inactive protocol operation: '' @ decimal (unat bits)"
| "display_Error io InvalidMessage = ''invalid message''"
| "display_Error io (InvalidSocketFd e) = ''invalid AF_UNIX SOCK_STREAM socket fd: '' @ io e"
| "display_Error io NotUnixSocket = ''socket is not AF_UNIX''"
| "display_Error io NotStreamSocket = ''socket is not SOCK_STREAM''"
| "display_Error io PartialMessage = ''partial message''"
| "display_Error io Disconnected = ''peer disconnected''"
| "display_Error io OversizedMsg = ''oversized message''"
| "display_Error io IncorrectFds = ''wrong number of attached fds''"
| "display_Error io (SocketError e) = ''socket error: '' @ io e"
| "display_Error io (SocketConnect e) = ''can'' @ [CHR 0x27] @ ''t connect to peer: '' @ io e"
| "display_Error io (SocketBroken e) = ''socket is broken: '' @ io e"
| "display_Error io (SocketRetry e) = ''temporary socket error: '' @ io e"
| "display_Error io BackendInternalError = ''backend internal error''"
| "display_Error io FrontendInternalError = ''Frontend internal error''"
| "display_Error io FeatureMismatch = ''virtio/protocol features mismatch''"
| "display_Error io (ReqHandlerError e) = ''handler failed to handle request: '' @ io e"
| "display_Error io MemFdCreateError = ''handler failed to allocate memfd during get_inflight_fd''"
| "display_Error io FileTruncateError = ''handler failed to truncate memfd during get_inflight_fd''"
| "display_Error io MemFdSealError = ''handler failed to apply seals to memfd during get_inflight_fd''"

fun display_VhostError :: "(io_error \<Rightarrow> string) \<Rightarrow> VhostError \<Rightarrow> string" where
  "display_VhostError io VInvalidOperation = ''invalid vhost operations''"
| "display_VhostError io InvalidGuestMemory = ''invalid guest memory object''"
| "display_VhostError io InvalidGuestMemoryRegion = ''invalid guest memory region''"
| "display_VhostError io InvalidIotlbMsg = ''invalid IOTLB message''"
| "display_VhostError io InvalidQueue = ''invalid virtqueue''"
| "display_VhostError io DescriptorTableAddress = ''invalid virtqueue descriptor table address''"
| "display_VhostError io UsedAddress = ''invalid virtqueue used table address''"
| "display_VhostError io AvailAddress = ''invalid virtqueue available table address''"
| "display_VhostError io LogAddress = ''invalid virtqueue log address''"
| "display_VhostError io (IOError e) = ''IO error: '' @ io e"
| "display_VhostError io (VhostOpen e) = ''failure in opening vhost file: '' @ io e"
| "display_VhostError io (IoctlError e) = ''failure in vhost ioctl: '' @ io e"
| "display_VhostError io (VhostUserProtocol e) = ''vhost-user: '' @ display_Error io e"

fun display_VringEpollError :: "(io_error \<Rightarrow> string) \<Rightarrow> VringEpollError \<Rightarrow> string" where
  "display_VringEpollError io (EpollCreateFd e) = ''cannot create epoll fd: '' @ io e"
| "display_VringEpollError io (EpollWait e) = ''failed to wait for epoll event: '' @ io e"
| "display_VringEpollError io (RegisterExitEvent e) = ''cannot register exit event: '' @ io e"
| "display_VringEpollError io (HandleEventReadKick e) = ''cannot read vring kick event: '' @ io e"
| "display_VringEpollError io (HandleEventBackendHandling e) = ''failed to handle epoll event: '' @ io e"

fun display_VhostUserHandlerError :: "(io_error \<Rightarrow> string) \<Rightarrow> ('e \<Rightarrow> string) \<Rightarrow> 'e VhostUserHandlerError \<Rightarrow> string" where
  "display_VhostUserHandlerError io q (CreateVring e) = ''failed to create vring: '' @ q e"
| "display_VhostUserHandlerError io q (CreateEpollHandler e) =
     ''failed to create vring epoll handler: '' @ display_VringEpollError io e"
| "display_VhostUserHandlerError io q (SpawnVringWorker e) = ''failed spawning the vring worker: '' @ io e"
| "display_VhostUserHandlerError io q MissingMemoryMapping = ''Missing memory mapping''"

fun display_DaemonError :: "(io_error \<Rightarrow> string) \<Rightarrow> ('e \<Rightarrow> string) \<Rightarrow> 'e DaemonError \<Rightarrow> string" where
  "display_DaemonError io q (NewVhostUserHandler e) =
     ''cannot create vhost user handler: '' @ display_VhostUserHandlerError io q e"
| "display_DaemonError io q (CreateBackendListener e) = ''cannot create backend listener: '' @ display_Error io e"
| "display_DaemonError io q (CreateBackendReqHandler e) =
     ''cannot create backend req handler: '' @ display_Error io e"
| "display_DaemonError io q (CreateVhostUserListener e) =
     ''cannot create vhost-user listener: '' @ display_Error io e"
| "display_DaemonError io q (StartDaemon e) = ''failed to start daemon: '' @ io e"
| "display_DaemonError io q WaitDaemon = ''failed to wait for daemon exit''"
| "display_DaemonError io q (HandleRequest e) = ''failed to handle request: '' @ display_Error io e"

subsection \<open>What a text tells\<close>

text \<open>
  The text of an error tells the error, as far as the texts of the system errors tell those: no two
  errors have the same text.
\<close>

lemma decimal_inject [simp]: "decimal m = decimal n \<longleftrightarrow> m = n"
  by (metis undecimal_decimal)

lemma display_Error_inject:
  assumes "inj io"
  shows "display_Error io e = display_Error io e' \<longleftrightarrow> e = e'"
  using assms by (cases e; cases e') (auto dest: injD simp: word_unat_eq_iff)

lemma display_VhostError_inject:
  assumes "inj io"
  shows "display_VhostError io e = display_VhostError io e' \<longleftrightarrow> e = e'"
  using assms by (cases e; cases e') (auto dest: injD simp: display_Error_inject)

lemma display_VringEpollError_inject:
  assumes "inj io"
  shows "display_VringEpollError io e = display_VringEpollError io e' \<longleftrightarrow> e = e'"
  using assms by (cases e; cases e') (auto dest: injD)

lemma display_handler_error_inject:
  assumes "inj io" and "inj q"
  shows "display_VhostUserHandlerError io q e = display_VhostUserHandlerError io q e' \<longleftrightarrow> e = e'"
  using assms by (cases e; cases e') (auto dest: injD simp: display_VringEpollError_inject)

lemma daemon_error_text:
  assumes "inj io" and "inj q"
  shows "display_DaemonError io q e = display_DaemonError io q e' \<longleftrightarrow> e = e'"
  using assms by (cases e; cases e') (auto simp: display_Error_inject display_handler_error_inject dest: injD)

end
