(* ===== verification/Shared_Handler.thy ===== *)
theory Shared_Handler
  imports Handler
begin

text \<open>
  The handler behind its mutex. \<open>VhostUserDaemon\<close> gives the request server an
  \<open>Arc<Mutex<VhostUserHandler>>\<close>, through the implementation of \<open>VhostUserBackendReqHandler\<close> for
  \<open>Mutex\<close> in \<open>vhost/src/vhost_user/backend_req_handler.rs\<close>, and the handler has a device that is
  usually behind a lock of its own (\<open>vhost-user-backend/src/backend.rs\<close>).

  \<open>transparent_handler\<close> is the contract of a wrapper of a request handler; its client is the
  request server, which then answers as with the bare handler. A transparent wrapper of the device
  makes the handler around it a transparent wrapper (the \<open>sublocale\<close>), so all the theorems about
  bare devices and handlers are theorems about the locked ones.
\<close>

subsection \<open>The trait for Mutex\<close>

definition mutex_handler :: "'b VhostUserBackendReqHandler \<Rightarrow> 'b Mutex VhostUserBackendReqHandler" where
  "mutex_handler B =
     \<lparr>be_set_owner = lock_unwrap (be_set_owner B),
      be_reset_owner = lock_unwrap (be_reset_owner B),
      be_reset_device = lock_unwrap (be_reset_device B),
      be_get_features = lock_unwrap (be_get_features B),
      be_set_features = (\<lambda>x. lock_unwrap (be_set_features B x)),
      be_set_mem_table = (\<lambda>x y. lock_unwrap (be_set_mem_table B x y)),
      be_set_vring_num = (\<lambda>x y. lock_unwrap (be_set_vring_num B x y)),
      be_set_vring_addr = (\<lambda>i n d u a l. lock_unwrap (be_set_vring_addr B i n d u a l)),
      be_set_vring_base = (\<lambda>x y. lock_unwrap (be_set_vring_base B x y)),
      be_get_vring_base = (\<lambda>x. lock_unwrap (be_get_vring_base B x)),
      be_set_vring_kick = (\<lambda>x y. lock_unwrap (be_set_vring_kick B x y)),
      be_set_vring_call = (\<lambda>x y. lock_unwrap (be_set_vring_call B x y)),
      be_set_vring_err = (\<lambda>x y. lock_unwrap (be_set_vring_err B x y)),
      be_get_protocol_features = lock_unwrap (be_get_protocol_features B),
      be_set_protocol_features = (\<lambda>x. lock_unwrap (be_set_protocol_features B x)),
      be_get_queue_num = lock_unwrap (be_get_queue_num B),
      be_set_vring_enable = (\<lambda>x y. lock_unwrap (be_set_vring_enable B x y)),
      be_get_config = (\<lambda>x y z. lock_unwrap (be_get_config B x y z)),
      be_set_config = (\<lambda>x y z. lock_unwrap (be_set_config B x y z)),
      be_set_backend_req_fd = (\<lambda>x. lock_unwrap (be_set_backend_req_fd B x)),
      be_set_gpu_socket = (\<lambda>x. lock_unwrap (be_set_gpu_socket B x)),
      be_get_shared_object = (\<lambda>x. lock_unwrap (be_get_shared_object B x)),
      be_get_inflight_fd = (\<lambda>x. lock_unwrap (be_get_inflight_fd B x)),
      be_set_inflight_fd = (\<lambda>x y. lock_unwrap (be_set_inflight_fd B x y)),
      be_get_max_mem_slots = lock_unwrap (be_get_max_mem_slots B),
      be_add_mem_region = (\<lambda>x y. lock_unwrap (be_add_mem_region B x y)),
      be_remove_mem_region = (\<lambda>x. lock_unwrap (be_remove_mem_region B x)),
      be_set_device_state_fd = (\<lambda>x y z. lock_unwrap (be_set_device_state_fd B x y z)),
      be_check_device_state = lock_unwrap (be_check_device_state B),
      be_get_shmem_config = lock_unwrap (be_get_shmem_config B),
      be_postcopy_advice = lock_unwrap (be_postcopy_advice B),
      be_postcopy_listen = lock_unwrap (be_postcopy_listen B),
      be_postcopy_end = lock_unwrap (be_postcopy_end B),
      be_set_log_base = (\<lambda>x y. lock_unwrap (be_set_log_base B x y))\<rparr>"

subsection \<open>Transparent wrappers of a request handler\<close>

text \<open>The request server around a wrapped handler.\<close>

definition wrap_server :: "('b \<Rightarrow> 'c) \<Rightarrow> ('s, 'b) BackendReqHandler \<Rightarrow> ('s, 'c) BackendReqHandler" where
  "wrap_server g h =
     \<lparr>bh_main_sock = bh_main_sock h, bh_backend = g (bh_backend h),
      bh_virtio_features = bh_virtio_features h, bh_acked_virtio_features = bh_acked_virtio_features h,
      bh_acked_protocol_features = bh_acked_protocol_features h,
      bh_reply_ack_enabled = bh_reply_ack_enabled h, bh_error = bh_error h\<rparr>"

lemma wrap_server_sel [simp]:
  "bh_main_sock (wrap_server g h) = bh_main_sock h" "bh_backend (wrap_server g h) = g (bh_backend h)"
  "bh_virtio_features (wrap_server g h) = bh_virtio_features h"
  "bh_acked_virtio_features (wrap_server g h) = bh_acked_virtio_features h"
  "bh_acked_protocol_features (wrap_server g h) = bh_acked_protocol_features h"
  "bh_reply_ack_enabled (wrap_server g h) = bh_reply_ack_enabled h" "bh_error (wrap_server g h) = bh_error h"
  by (simp_all add: wrap_server_def)

lemma wrap_server_update [simp]:
  "(wrap_server g h)\<lparr>bh_main_sock := s\<rparr> = wrap_server g (h\<lparr>bh_main_sock := s\<rparr>)"
  "(wrap_server g h)\<lparr>bh_backend := g b\<rparr> = wrap_server g (h\<lparr>bh_backend := b\<rparr>)"
  "(wrap_server g h)\<lparr>bh_virtio_features := v\<rparr> = wrap_server g (h\<lparr>bh_virtio_features := v\<rparr>)"
  "(wrap_server g h)\<lparr>bh_acked_virtio_features := v\<rparr> = wrap_server g (h\<lparr>bh_acked_virtio_features := v\<rparr>)"
  "(wrap_server g h)\<lparr>bh_acked_protocol_features := v\<rparr> = wrap_server g (h\<lparr>bh_acked_protocol_features := v\<rparr>)"
  "(wrap_server g h)\<lparr>bh_reply_ack_enabled := r\<rparr> = wrap_server g (h\<lparr>bh_reply_ack_enabled := r\<rparr>)"
  by (simp_all add: wrap_server_def)

lemma lifts_on_sock [lift_intros]: "lifts (wrap_server g) (on_sock m) (on_sock m)"
  by (auto simp: lifts_def on_sock_def split: option.split)

lemma lifts_on_backend [lift_intros]:
  "lifts g m m' \<Longrightarrow> lifts (wrap_server g) (on_backend m) (on_backend m')"
  by (auto simp: lifts_def on_backend_def split: option.split)

lemma lifts_checks [lift_intros]:
  "lifts (wrap_server g) check_state check_state"
  "lifts (wrap_server g) (check_feature vf) (check_feature vf)"
  "lifts (wrap_server g) (check_proto_feature pf) (check_proto_feature pf)"
  "lifts (wrap_server g) update_reply_ack_flag update_reply_ack_flag"
  unfolding check_state_def check_feature_def check_proto_feature_def update_reply_ack_flag_def
  by (intro lift_intros lifts_readM lifts_modifyM; simp add: Let_def)+

lemma lifts_replies [lift_intros]:
  "lifts (wrap_server g) (new_reply_header n hdr k) (new_reply_header n hdr k)"
  "lifts (wrap_server g) (send_ack_message so hdr res) (send_ack_message so hdr res)"
  "lifts (wrap_server g) (send_reply_message T so hdr msg) (send_reply_message T so hdr msg)"
  "lifts (wrap_server g) (send_reply_with_payload T so hdr msg pl) (send_reply_with_payload T so hdr msg pl)"
  "lifts (wrap_server g) (recv_request_body so hdr) (recv_request_body so hdr)"
  unfolding new_reply_header_def send_ack_message_def send_reply_message_def
    send_reply_with_payload_def recv_request_body_def Let_def
  by (intro lift_intros lifts_readM; simp)+

locale transparent_handler =
  fixes g :: "'b \<Rightarrow> 'c" and B :: "'b VhostUserBackendReqHandler" and B' :: "'c VhostUserBackendReqHandler"
  assumes lift_be_set_owner: "lifts g (be_set_owner B) (be_set_owner B')"
    and lift_be_reset_owner: "lifts g (be_reset_owner B) (be_reset_owner B')"
    and lift_be_reset_device: "lifts g (be_reset_device B) (be_reset_device B')"
    and lift_be_get_features: "lifts g (be_get_features B) (be_get_features B')"
    and lift_be_set_features: "\<And>x. lifts g (be_set_features B x) (be_set_features B' x)"
    and lift_be_set_mem_table: "\<And>x y. lifts g (be_set_mem_table B x y) (be_set_mem_table B' x y)"
    and lift_be_set_vring_num: "\<And>x y. lifts g (be_set_vring_num B x y) (be_set_vring_num B' x y)"
    and lift_be_set_vring_addr: "\<And>i n d u a l. lifts g (be_set_vring_addr B i n d u a l) (be_set_vring_addr B' i n d u a l)"
    and lift_be_set_vring_base: "\<And>x y. lifts g (be_set_vring_base B x y) (be_set_vring_base B' x y)"
    and lift_be_get_vring_base: "\<And>x. lifts g (be_get_vring_base B x) (be_get_vring_base B' x)"
    and lift_be_set_vring_kick: "\<And>x y. lifts g (be_set_vring_kick B x y) (be_set_vring_kick B' x y)"
    and lift_be_set_vring_call: "\<And>x y. lifts g (be_set_vring_call B x y) (be_set_vring_call B' x y)"
    and lift_be_set_vring_err: "\<And>x y. lifts g (be_set_vring_err B x y) (be_set_vring_err B' x y)"
    and lift_be_get_protocol_features: "lifts g (be_get_protocol_features B) (be_get_protocol_features B')"
    and lift_be_set_protocol_features: "\<And>x. lifts g (be_set_protocol_features B x) (be_set_protocol_features B' x)"
    and lift_be_get_queue_num: "lifts g (be_get_queue_num B) (be_get_queue_num B')"
    and lift_be_set_vring_enable: "\<And>x y. lifts g (be_set_vring_enable B x y) (be_set_vring_enable B' x y)"
    and lift_be_get_config: "\<And>x y z. lifts g (be_get_config B x y z) (be_get_config B' x y z)"
    and lift_be_set_config: "\<And>x y z. lifts g (be_set_config B x y z) (be_set_config B' x y z)"
    and lift_be_set_backend_req_fd: "\<And>x. lifts g (be_set_backend_req_fd B x) (be_set_backend_req_fd B' x)"
    and lift_be_set_gpu_socket: "\<And>x. lifts g (be_set_gpu_socket B x) (be_set_gpu_socket B' x)"
    and lift_be_get_shared_object: "\<And>x. lifts g (be_get_shared_object B x) (be_get_shared_object B' x)"
    and lift_be_get_inflight_fd: "\<And>x. lifts g (be_get_inflight_fd B x) (be_get_inflight_fd B' x)"
    and lift_be_set_inflight_fd: "\<And>x y. lifts g (be_set_inflight_fd B x y) (be_set_inflight_fd B' x y)"
    and lift_be_get_max_mem_slots: "lifts g (be_get_max_mem_slots B) (be_get_max_mem_slots B')"
    and lift_be_add_mem_region: "\<And>x y. lifts g (be_add_mem_region B x y) (be_add_mem_region B' x y)"
    and lift_be_remove_mem_region: "\<And>x. lifts g (be_remove_mem_region B x) (be_remove_mem_region B' x)"
    and lift_be_set_device_state_fd: "\<And>x y z. lifts g (be_set_device_state_fd B x y z) (be_set_device_state_fd B' x y z)"
    and lift_be_check_device_state: "lifts g (be_check_device_state B) (be_check_device_state B')"
    and lift_be_get_shmem_config: "lifts g (be_get_shmem_config B) (be_get_shmem_config B')"
    and lift_be_postcopy_advice: "lifts g (be_postcopy_advice B) (be_postcopy_advice B')"
    and lift_be_postcopy_listen: "lifts g (be_postcopy_listen B) (be_postcopy_listen B')"
    and lift_be_postcopy_end: "lifts g (be_postcopy_end B) (be_postcopy_end B')"
    and lift_be_set_log_base: "\<And>x y. lifts g (be_set_log_base B x y) (be_set_log_base B' x y)"
begin

lemmas lift_methods = lift_be_set_owner lift_be_reset_owner lift_be_reset_device lift_be_get_features
  lift_be_set_features lift_be_set_mem_table lift_be_set_vring_num lift_be_set_vring_addr
  lift_be_set_vring_base lift_be_get_vring_base lift_be_set_vring_kick lift_be_set_vring_call
  lift_be_set_vring_err lift_be_get_protocol_features lift_be_set_protocol_features lift_be_get_queue_num
  lift_be_set_vring_enable lift_be_get_config lift_be_set_config lift_be_set_backend_req_fd
  lift_be_set_gpu_socket lift_be_get_shared_object lift_be_get_inflight_fd lift_be_set_inflight_fd
  lift_be_get_max_mem_slots lift_be_add_mem_region lift_be_remove_mem_region lift_be_set_device_state_fd
  lift_be_check_device_state lift_be_get_shmem_config lift_be_postcopy_advice lift_be_postcopy_listen
  lift_be_postcopy_end lift_be_set_log_base

lemma lift_helpers:
  "lifts (wrap_server g) (set_mem_table B hdr sz buf files) (set_mem_table B' hdr sz buf files)"
  "lifts (wrap_server g) (get_config B so hdr buf) (get_config B' so hdr buf)"
  "lifts (wrap_server g) (set_config B sz buf) (set_config B' sz buf)"
  "lifts (wrap_server g) (set_backend_req_fd B opt files) (set_backend_req_fd B' opt files)"
  "lifts (wrap_server g) (set_gpu_socket B opt files) (set_gpu_socket B' opt files)"
  unfolding set_mem_table_def get_config_def set_config_def set_backend_req_fd_def
    set_gpu_socket_def Let_def
  by (intro lift_intros lift_methods)+

lemma lift_dispatch:
  "lifts (wrap_server g) (dispatch B so opt hdr sz buf files code) (dispatch B' so opt hdr sz buf files code)"
  by (cases code; simp only: dispatch.simps arm_defs Let_def;
      intro lift_intros lift_methods lift_helpers lifts_modifyM; simp)

lemma lift_handle_request:
  "lifts (wrap_server g) (handle_request B so opt) (handle_request B' so opt)"
  unfolding handle_request_def by (intro lift_intros lift_dispatch)

end

interpretation mutex_hdl: transparent_handler mutex_new B "mutex_handler B" for B
  by unfold_locales (simp_all add: mutex_handler_def lift_intros)

subsection \<open>Transparent wrappers of the device\<close>

text \<open>The environment of a handler with another device, and the handler around a wrapped device.\<close>

definition with_device ::
    "('d, 'p, 'm, 'r, 'q, 'e) handler_env \<Rightarrow> ('l, 'm, 'q VringState) VhostUserBackend \<Rightarrow>
       ('l, 'p, 'm, 'r, 'q, 'e) handler_env" where
  "with_device E D = \<lparr>eq = eq E, ep = ep E, eg = eg E, ed = D, eu = eu E\<rparr>"

lemma with_device_sel [simp]:
  "eq (with_device E D) = eq E" "ep (with_device E D) = ep E" "eg (with_device E D) = eg E"
  "ed (with_device E D) = D" "eu (with_device E D) = eu E"
  by (simp_all add: with_device_def)

definition wrap_handler :: "('d \<Rightarrow> 'l) \<Rightarrow> ('d, 'p, 'm, 'q) VhostUserHandler \<Rightarrow> ('l, 'p, 'm, 'q) VhostUserHandler" where
  "wrap_handler g h =
     \<lparr>vh_backend = g (vh_backend h), vh_handlers = vh_handlers h, vh_owned = vh_owned h, vh_features_acked = vh_features_acked h,
      vh_acked_features = vh_acked_features h, vh_acked_protocol_features = vh_acked_protocol_features h, vh_num_queues = vh_num_queues h,
      vh_max_queue_size = vh_max_queue_size h, vh_queues_per_thread = vh_queues_per_thread h, vh_mappings = vh_mappings h,
      vh_atomic_mem = vh_atomic_mem h, vh_vrings = vh_vrings h,
      vh_uffd = vh_uffd h, vh_worker_threads = vh_worker_threads h\<rparr>"

lemma wrap_handler_sel [simp]:
  "vh_backend (wrap_handler g h) = g (vh_backend h)"
  "vh_handlers (wrap_handler g h) = vh_handlers h"
  "vh_owned (wrap_handler g h) = vh_owned h"
  "vh_features_acked (wrap_handler g h) = vh_features_acked h"
  "vh_acked_features (wrap_handler g h) = vh_acked_features h"
  "vh_acked_protocol_features (wrap_handler g h) = vh_acked_protocol_features h"
  "vh_num_queues (wrap_handler g h) = vh_num_queues h"
  "vh_max_queue_size (wrap_handler g h) = vh_max_queue_size h"
  "vh_queues_per_thread (wrap_handler g h) = vh_queues_per_thread h"
  "vh_mappings (wrap_handler g h) = vh_mappings h"
  "vh_atomic_mem (wrap_handler g h) = vh_atomic_mem h"
  "vh_vrings (wrap_handler g h) = vh_vrings h"
  "vh_uffd (wrap_handler g h) = vh_uffd h"
  "vh_worker_threads (wrap_handler g h) = vh_worker_threads h"
  "vh_epolls (wrap_handler g h) = vh_epolls h"
  by (simp_all add: wrap_handler_def vh_epolls_def)

lemma wrap_handler_update [simp]:
  "(wrap_handler g h)\<lparr>vh_backend := g d\<rparr> = wrap_handler g (h\<lparr>vh_backend := d\<rparr>)"
  "(wrap_handler g h)\<lparr>vh_handlers := x_handlers\<rparr> = wrap_handler g (h\<lparr>vh_handlers := x_handlers\<rparr>)"
  "(wrap_handler g h)\<lparr>vh_owned := x_owned\<rparr> = wrap_handler g (h\<lparr>vh_owned := x_owned\<rparr>)"
  "(wrap_handler g h)\<lparr>vh_features_acked := x_features_acked\<rparr> = wrap_handler g (h\<lparr>vh_features_acked := x_features_acked\<rparr>)"
  "(wrap_handler g h)\<lparr>vh_acked_features := x_acked_features\<rparr> = wrap_handler g (h\<lparr>vh_acked_features := x_acked_features\<rparr>)"
  "(wrap_handler g h)\<lparr>vh_acked_protocol_features := x_acked_protocol_features\<rparr> = wrap_handler g (h\<lparr>vh_acked_protocol_features := x_acked_protocol_features\<rparr>)"
  "(wrap_handler g h)\<lparr>vh_num_queues := x_num_queues\<rparr> = wrap_handler g (h\<lparr>vh_num_queues := x_num_queues\<rparr>)"
  "(wrap_handler g h)\<lparr>vh_max_queue_size := x_max_queue_size\<rparr> = wrap_handler g (h\<lparr>vh_max_queue_size := x_max_queue_size\<rparr>)"
  "(wrap_handler g h)\<lparr>vh_queues_per_thread := x_queues_per_thread\<rparr> = wrap_handler g (h\<lparr>vh_queues_per_thread := x_queues_per_thread\<rparr>)"
  "(wrap_handler g h)\<lparr>vh_mappings := x_mappings\<rparr> = wrap_handler g (h\<lparr>vh_mappings := x_mappings\<rparr>)"
  "(wrap_handler g h)\<lparr>vh_atomic_mem := x_atomic_mem\<rparr> = wrap_handler g (h\<lparr>vh_atomic_mem := x_atomic_mem\<rparr>)"
  "(wrap_handler g h)\<lparr>vh_vrings := x_vrings\<rparr> = wrap_handler g (h\<lparr>vh_vrings := x_vrings\<rparr>)"
  "(wrap_handler g h)\<lparr>vh_uffd := x_uffd\<rparr> = wrap_handler g (h\<lparr>vh_uffd := x_uffd\<rparr>)"
  "(wrap_handler g h)\<lparr>vh_worker_threads := x_worker_threads\<rparr> = wrap_handler g (h\<lparr>vh_worker_threads := x_worker_threads\<rparr>)"
  "set_epoll t p (wrap_handler g h) = wrap_handler g (set_epoll t p h)"
  "map_epolls f (wrap_handler g h) = wrap_handler g (map_epolls f h)"
  by (simp_all add: wrap_handler_def set_epoll_def map_epolls_def)

lemma lifts_call_device [lift_intros]:
  "lifts g c c' \<Longrightarrow> lifts (wrap_handler g) (call_device c) (call_device c')"
  by (auto simp: lifts_def call_device_def split: option.split)

lemma lifts_on_device [lift_intros]:
  "lifts g c c' \<Longrightarrow> lifts (wrap_handler g) (on_device c err) (on_device c' err)"
  unfolding on_device_def by (intro lift_intros)

lemma lifts_vring_steps [lift_intros]:
  "lifts (wrap_handler g) (modify_vring i f) (modify_vring i f)"
  "lifts (wrap_handler g) (get_vring i) (get_vring i)"
  "lifts (wrap_handler g) (vh_check_feature vf) (vh_check_feature vf)"
  "lifts (wrap_handler g) (va_to_gpa va) (va_to_gpa va)"
  unfolding modify_vring_def vh_check_feature_def va_to_gpa_def
  by (intro lift_intros lifts_modifyM lifts_readM; simp)
    (simp add: lifts_def get_vring_def, (intro lift_intros lifts_readM; simp)+)

lemma lifts_env_steps [lift_intros]:
  "lifts (wrap_handler g) (update_vring_registration E i index) (update_vring_registration (with_device E D) i index)"
  "lifts (wrap_handler g) (vh_set_queue_info E i da av us) (vh_set_queue_info (with_device E D) i da av us)"
  "lifts (wrap_handler g) (replace_kick E i f) (replace_kick (with_device E D) i f)"
  by (auto simp: lifts_def update_vring_registration_def vh_set_queue_info_def replace_kick_def modifyM_def Let_def
      split: option.split prod.split sum.split)

lemma lifts_vring_composites [lift_intros]:
  "lifts (wrap_handler g) (initialize_vring E i index) (initialize_vring (with_device E D) i index)"
  "lifts (wrap_handler g) (enable_all_vrings E b) (enable_all_vrings (with_device E D) b)"
  unfolding initialize_vring_def enable_all_vrings_def with_device_sel
  by (intro lift_intros lifts_readM; simp)+

lemma lifts_init_if_needed [lift_intros]:
  "lifts (wrap_handler g) (init_if_needed E index) (init_if_needed (with_device E D) index)"
  unfolding init_if_needed_def with_device_sel by (intro lift_intros lifts_readM; simp)

text \<open>The operations that do not call the device.\<close>

lemma lifts_plain_ops [lift_intros]:
  "lifts (wrap_handler g) vh_set_owner vh_set_owner"
  "lifts (wrap_handler g) vh_reset_owner vh_reset_owner"
  "lifts (wrap_handler g) (vh_set_protocol_features a) (vh_set_protocol_features a)"
  "lifts (wrap_handler g) vh_get_queue_num vh_get_queue_num"
  "lifts (wrap_handler g) vh_get_max_mem_slots vh_get_max_mem_slots"
  "lifts (wrap_handler g) (vh_set_vring_err x f) (vh_set_vring_err x f)"
  "lifts (wrap_handler g) (vh_get_inflight_fd fl) (vh_get_inflight_fd fl)"
  "lifts (wrap_handler g) (vh_set_inflight_fd fl f') (vh_set_inflight_fd fl f')"
  "lifts (wrap_handler g) vh_postcopy_end vh_postcopy_end"
  unfolding vh_set_owner_def vh_reset_owner_def vh_set_protocol_features_def vh_get_queue_num_def
    vh_get_max_mem_slots_def vh_set_vring_err_def vh_get_inflight_fd_def vh_set_inflight_fd_def
    vh_postcopy_end_def
  by (intro lift_intros lifts_readM lifts_modifyM; simp)+

lemma lifts_vring_ops [lift_intros]:
  "lifts (wrap_handler g) (vh_set_vring_num E i n) (vh_set_vring_num (with_device E D) i n)"
  "lifts (wrap_handler g) (vh_set_vring_addr E i fl da us av l) (vh_set_vring_addr (with_device E D) i fl da us av l)"
  "lifts (wrap_handler g) (vh_set_vring_base E i b) (vh_set_vring_base (with_device E D) i b)"
  "lifts (wrap_handler g) (vh_get_vring_base E i) (vh_get_vring_base (with_device E D) i)"
  "lifts (wrap_handler g) (vh_set_vring_kick E x f) (vh_set_vring_kick (with_device E D) x f)"
  "lifts (wrap_handler g) (vh_set_vring_call E x f) (vh_set_vring_call (with_device E D) x f)"
  "lifts (wrap_handler g) (vh_set_vring_enable E i en) (vh_set_vring_enable (with_device E D) i en)"
  "lifts (wrap_handler g) (vh_set_log_base E lg lf) (vh_set_log_base (with_device E D) lg lf)"
  "lifts (wrap_handler g) (vh_postcopy_advice E) (vh_postcopy_advice (with_device E D))"
  "lifts (wrap_handler g) (vh_postcopy_listen E) (vh_postcopy_listen (with_device E D))"
  unfolding vh_set_vring_num_def vh_set_vring_addr_def vh_set_vring_base_def vh_get_vring_base_def
    vh_set_vring_kick_def vh_set_vring_call_def vh_set_vring_enable_def vh_set_log_base_def
    vh_postcopy_advice_def vh_postcopy_listen_def with_device_sel Let_def
  by (intro lift_intros lifts_readM lifts_modifyM; simp)+

locale shared_device = transparent_device g "ed E" D'
  for g :: "'d \<Rightarrow> 'l" and E :: "('d, 'p, 'm, 'r, 'q, 'e) handler_env" and D' :: "('l, 'm, 'q VringState) VhostUserBackend"
begin

text \<open>Creating the handler.\<close>

lemma lift_veh_new: "lifts g (veh_new P (ed E) vs t) (veh_new P D' vs t)"
  unfolding veh_new_def by (intro lift_intros lift_methods)

lemma lift_new_workers: "lifts g (new_workers P (ed E) spawn n t masks) (new_workers P D' spawn n t masks)"
  by (induction masks arbitrary: t) (simp, intro lift_intros, simp, intro lift_intros lift_veh_new)

lemma lift_vh_new:
  "vh_new (with_device E D') spawn mem (g d) =
     (case vh_new E spawn mem d of
        None \<Rightarrow> None
      | Some (Inl e) \<Rightarrow> Some (Inl e)
      | Some (Inr h) \<Rightarrow> Some (Inr (wrap_handler g h)))"
  unfolding vh_new_def with_device_sel
  by (simp add: bindM_def callM_def readM_def failM_def liftsD [OF lift_num_queues] liftsD [OF lift_max_queue_size]
      liftsD [OF lift_queues_per_thread] liftsD [OF lift_new_workers] wrap_handler_def split: option.split sum.split prod.split)

lemma lift_memory_ops:
  "lifts (wrap_handler g) (replace_memory E mem f) (replace_memory (with_device E D') mem f)"
  "lifts (wrap_handler g) (vh_set_mem_table E ctx fs) (vh_set_mem_table (with_device E D') ctx fs)"
  "lifts (wrap_handler g) (vh_add_mem_region E reg f') (vh_add_mem_region (with_device E D') reg f')"
  "lifts (wrap_handler g) (vh_remove_mem_region E reg) (vh_remove_mem_region (with_device E D') reg)"
  unfolding vh_set_mem_table_def vh_add_mem_region_def vh_remove_mem_region_def replace_memory_def
    with_device_sel
  by (intro lift_intros lift_methods lifts_readM lifts_modifyM; simp)+

lemma lift_device_ops:
  "lifts (wrap_handler g) (vh_reset_device E) (vh_reset_device (with_device E D'))"
  "lifts (wrap_handler g) (vh_get_features E) (vh_get_features (with_device E D'))"
  "lifts (wrap_handler g) (vh_set_features E a) (vh_set_features (with_device E D') a)"
  "lifts (wrap_handler g) (vh_get_protocol_features E) (vh_get_protocol_features (with_device E D'))"
  "lifts (wrap_handler g) (vh_get_config E off sz fl) (vh_get_config (with_device E D') off sz fl)"
  "lifts (wrap_handler g) (vh_set_config E off buf fl) (vh_set_config (with_device E D') off buf fl)"
  "lifts (wrap_handler g) (vh_set_gpu_socket E f) (vh_set_gpu_socket (with_device E D') f)"
  "lifts (wrap_handler g) (vh_get_shared_object E u) (vh_get_shared_object (with_device E D') u)"
  "lifts (wrap_handler g) (vh_set_device_state_fd E dir ph f) (vh_set_device_state_fd (with_device E D') dir ph f)"
  "lifts (wrap_handler g) (vh_check_device_state E) (vh_check_device_state (with_device E D'))"
  "lifts (wrap_handler g) (vh_get_shmem_config E) (vh_get_shmem_config (with_device E D'))"
  unfolding vh_reset_device_def vh_get_features_def vh_set_features_def vh_get_protocol_features_def
    vh_get_config_def vh_set_config_def vh_set_gpu_socket_def vh_get_shared_object_def
    vh_set_device_state_fd_def vh_check_device_state_def vh_get_shmem_config_def with_device_sel Let_def
  by (intro lift_intros lift_methods lifts_readM lifts_modifyM; simp)+

lemma lift_vh_set_backend_req_fd:
  "lifts (wrap_handler g) (vh_set_backend_req_fd E b) (vh_set_backend_req_fd (with_device E D') b)"
  unfolding lifts_def vh_set_backend_req_fd_def Let_def with_device_sel
  by (auto simp: liftsD [OF lift_set_backend_req_fd] split: option.split)

end

sublocale shared_device \<subseteq> server: transparent_handler "wrap_handler g" "handler_device E" "handler_device (with_device E D')"
  by unfold_locales (simp_all add: lift_intros lift_memory_ops lift_device_ops lift_vh_set_backend_req_fd)

interpretation mutex_dev_handler: shared_device "\<lambda>d. arc_new (mutex_new d)" E "arc_device (mutex_device (ed E))" for E
  unfolding shared_device_def
  by (rule transparent_device_comp [OF mutex_dev.transparent_device_axioms arc_dev.transparent_device_axioms])

interpretation rwlock_dev_handler: shared_device "\<lambda>d. arc_new (rwlock_new d)" E "arc_device (rwlock_device (ed E))" for E
  unfolding shared_device_def
  by (rule transparent_device_comp [OF rwlock_dev.transparent_device_axioms arc_dev.transparent_device_axioms])

subsection \<open>The server of a daemon\<close>

text \<open>
  The request server of a daemon: the handler behind its mutex, around a device that is shared and
  locked by \<open>g\<close>.
\<close>

definition locked_server ::
    "('d \<Rightarrow> 'l) \<Rightarrow> ('s, ('d, 'p, 'm, 'q) VhostUserHandler) BackendReqHandler \<Rightarrow>
       ('s, ('l, 'p, 'm, 'q) VhostUserHandler Mutex) BackendReqHandler" where
  "locked_server g = wrap_server (\<lambda>b. mutex_new (wrap_handler g b))"

lemma wrap_server_comp: "wrap_server g' (wrap_server g h) = wrap_server (\<lambda>b. g' (g b)) h"
  by (simp add: wrap_server_def)

context shared_device
begin

lemma locked_request:
  "handle_request (mutex_handler (handler_device (with_device E D'))) so opt (locked_server g h) =
    (case handle_request (handler_device E) so opt h of
       None \<Rightarrow> None
     | Some (r, h') \<Rightarrow> Some (r, locked_server g h'))"
  using liftsD [OF lifts_comp [OF server.lift_handle_request mutex_hdl.lift_handle_request],
      of so opt h]
  by (simp add: locked_server_def wrap_server_comp split: option.splits)

end

text \<open>
  C8: the locks change nothing. A request server whose handler is behind a mutex and whose device is
  an \<open>Arc<Mutex<T>>\<close> or an \<open>Arc<RwLock<T>>\<close> answers every request exactly as the server with the
  bare handler and the bare device does: the same reply or error and the same next state, also when
  the request never returns. A new handler around the locked device is the bare one, locked.
\<close>

theorem locked_backend_equivalent:
  "(handle_request (mutex_handler (handler_device (with_device E (arc_device (mutex_device (ed E)))))) so opt
       (locked_server (\<lambda>d. arc_new (mutex_new d)) h) =
      (case handle_request (handler_device E) so opt h of
         None \<Rightarrow> None
       | Some (r, h') \<Rightarrow> Some (r, locked_server (\<lambda>d. arc_new (mutex_new d)) h')))
   \<and> (handle_request (mutex_handler (handler_device (with_device E (arc_device (rwlock_device (ed E)))))) so opt
       (locked_server (\<lambda>d. arc_new (rwlock_new d)) h) =
      (case handle_request (handler_device E) so opt h of
         None \<Rightarrow> None
       | Some (r, h') \<Rightarrow> Some (r, locked_server (\<lambda>d. arc_new (rwlock_new d)) h')))
   \<and> vh_new (with_device E (arc_device (rwlock_device (ed E)))) spawn mem (arc_new (rwlock_new d)) =
      (case vh_new E spawn mem d of
         None \<Rightarrow> None
       | Some (Inl e) \<Rightarrow> Some (Inl e)
       | Some (Inr h0) \<Rightarrow> Some (Inr (wrap_handler (\<lambda>d. arc_new (rwlock_new d)) h0)))"
  by (intro conjI mutex_dev_handler.locked_request rwlock_dev_handler.locked_request
      rwlock_dev_handler.lift_vh_new)

end
