(* ===== verification/Device_Invariant.thy ===== *)
theory Device_Invariant
  imports Backend_Req_Handler
begin

text \<open>
  What a device behind \<open>BackendReqHandler\<close> (\<open>vhost/src/vhost_user/backend_req_handler.rs\<close>) may
  rely on: a predicate of its state that each of its methods keeps holds after every message of the
  frontend, whatever the bytes of the message are.
\<close>

locale device_invariant =
  fixes B :: "'b VhostUserBackendReqHandler" and I :: "'b \<Rightarrow> bool"
  assumes keep_be_set_owner: "preserves I (be_set_owner B)"
    and keep_be_reset_owner: "preserves I (be_reset_owner B)"
    and keep_be_reset_device: "preserves I (be_reset_device B)"
    and keep_be_get_features: "preserves I (be_get_features B)"
    and keep_be_set_features: "\<And>x. preserves I (be_set_features B x)"
    and keep_be_set_mem_table: "\<And>x y. preserves I (be_set_mem_table B x y)"
    and keep_be_set_vring_num: "\<And>x y. preserves I (be_set_vring_num B x y)"
    and keep_be_set_vring_addr: "\<And>i n d u a l. preserves I (be_set_vring_addr B i n d u a l)"
    and keep_be_set_vring_base: "\<And>x y. preserves I (be_set_vring_base B x y)"
    and keep_be_get_vring_base: "\<And>x. preserves I (be_get_vring_base B x)"
    and keep_be_set_vring_kick: "\<And>x y. preserves I (be_set_vring_kick B x y)"
    and keep_be_set_vring_call: "\<And>x y. preserves I (be_set_vring_call B x y)"
    and keep_be_set_vring_err: "\<And>x y. preserves I (be_set_vring_err B x y)"
    and keep_be_get_protocol_features: "preserves I (be_get_protocol_features B)"
    and keep_be_set_protocol_features: "\<And>x. preserves I (be_set_protocol_features B x)"
    and keep_be_get_queue_num: "preserves I (be_get_queue_num B)"
    and keep_be_set_vring_enable: "\<And>x y. preserves I (be_set_vring_enable B x y)"
    and keep_be_get_config: "\<And>x y z. preserves I (be_get_config B x y z)"
    and keep_be_set_config: "\<And>x y z. preserves I (be_set_config B x y z)"
    and keep_be_set_backend_req_fd: "\<And>x. preserves I (callM (be_set_backend_req_fd B x) :: ('b, Error, unit) M)"
    and keep_be_set_gpu_socket: "\<And>x. preserves I (be_set_gpu_socket B x)"
    and keep_be_get_shared_object: "\<And>x. preserves I (be_get_shared_object B x)"
    and keep_be_get_inflight_fd: "\<And>x. preserves I (be_get_inflight_fd B x)"
    and keep_be_set_inflight_fd: "\<And>x y. preserves I (be_set_inflight_fd B x y)"
    and keep_be_get_max_mem_slots: "preserves I (be_get_max_mem_slots B)"
    and keep_be_add_mem_region: "\<And>x y. preserves I (be_add_mem_region B x y)"
    and keep_be_remove_mem_region: "\<And>x. preserves I (be_remove_mem_region B x)"
    and keep_be_set_device_state_fd: "\<And>x y z. preserves I (be_set_device_state_fd B x y z)"
    and keep_be_check_device_state: "preserves I (be_check_device_state B)"
    and keep_be_get_shmem_config: "preserves I (be_get_shmem_config B)"
    and keep_be_postcopy_advice: "preserves I (be_postcopy_advice B)"
    and keep_be_postcopy_listen: "preserves I (be_postcopy_listen B)"
    and keep_be_postcopy_end: "preserves I (be_postcopy_end B)"
    and keep_be_set_log_base: "\<And>x y. preserves I (be_set_log_base B x y)"
begin

lemmas keep_methods = keep_be_set_owner keep_be_reset_owner keep_be_reset_device keep_be_get_features
  keep_be_set_features keep_be_set_mem_table keep_be_set_vring_num keep_be_set_vring_addr
  keep_be_set_vring_base keep_be_get_vring_base keep_be_set_vring_kick keep_be_set_vring_call
  keep_be_set_vring_err keep_be_get_protocol_features keep_be_set_protocol_features keep_be_get_queue_num
  keep_be_set_vring_enable keep_be_get_config keep_be_set_config keep_be_set_backend_req_fd
  keep_be_set_gpu_socket keep_be_get_shared_object keep_be_get_inflight_fd keep_be_set_inflight_fd
  keep_be_get_max_mem_slots keep_be_add_mem_region keep_be_remove_mem_region keep_be_set_device_state_fd
  keep_be_check_device_state keep_be_get_shmem_config keep_be_postcopy_advice keep_be_postcopy_listen
  keep_be_postcopy_end keep_be_set_log_base

lemma keep_on_backend: "preserves I m \<Longrightarrow> preserves (\<lambda>h. I (bh_backend h)) (on_backend m)"
  by (auto simp: preserves_def on_backend_def split: option.splits)

lemma keep_on_sock: "preserves (\<lambda>h. I (bh_backend h)) (on_sock m)"
  by (auto simp: preserves_def on_sock_def split: option.splits)

lemma keep_helpers:
  "preserves (\<lambda>h. I (bh_backend h)) (set_mem_table B hdr sz buf files)"
  "preserves (\<lambda>h. I (bh_backend h)) (get_config B so hdr buf)"
  "preserves (\<lambda>h. I (bh_backend h)) (set_config B sz buf)"
  "preserves (\<lambda>h. I (bh_backend h)) (set_backend_req_fd B opt files)"
  "preserves (\<lambda>h. I (bh_backend h)) (set_gpu_socket B opt files)"
  "preserves (\<lambda>h. I (bh_backend h)) check_state"
  "preserves (\<lambda>h. I (bh_backend h)) (check_feature vf)"
  "preserves (\<lambda>h. I (bh_backend h)) (check_proto_feature pf)"
  "preserves (\<lambda>h. I (bh_backend h)) update_reply_ack_flag"
  "preserves (\<lambda>h. I (bh_backend h)) (send_ack_message so hdr res)"
  "preserves (\<lambda>h. I (bh_backend h)) (send_reply_message T so hdr msg)"
  "preserves (\<lambda>h. I (bh_backend h)) (send_reply_with_payload T so hdr msg pl)"
  "preserves (\<lambda>h. I (bh_backend h)) (recv_request_body so hdr)"
  "preserves (\<lambda>h. I (bh_backend h)) (new_reply_header n hdr k)"
  unfolding set_mem_table_def get_config_def set_config_def set_backend_req_fd_def set_gpu_socket_def
    check_state_def check_feature_def check_proto_feature_def update_reply_ack_flag_def send_ack_message_def
    send_reply_message_def send_reply_with_payload_def new_reply_header_def recv_request_body_def Let_def
  by (intro preserve_intros preserves_modifyM keep_on_backend keep_on_sock keep_methods; simp)+

lemma keep_dispatch: "preserves (\<lambda>h. I (bh_backend h)) (dispatch B so opt hdr sz buf files code)"
  by (cases code; simp only: dispatch.simps arm_defs Let_def;
      intro preserve_intros preserves_modifyM keep_on_backend keep_on_sock keep_methods keep_helpers; simp)

theorem keep_handle_request: "preserves (\<lambda>h. I (bh_backend h)) (handle_request B so opt)"
  unfolding handle_request_def
  by (intro preserve_intros keep_on_sock keep_helpers keep_dispatch)

end

end
