(* ===== verification/Workers.thy ===== *)
theory Workers
  imports Handler Device_Invariant
begin

text \<open>
  The worker threads of a handler: that the requests keep the shape of the handler (the vrings, the
  handlers of the workers and what each worker serves), and the event loop of a worker
  (\<open>vhost-user-backend/src/event_loop.rs\<close>) on the vrings and the device of the handler that
  created it (\<open>VhostUserHandler::new\<close> of \<open>vhost-user-backend/src/handler.rs\<close>).
\<close>

subsection \<open>The shape of a handler\<close>

text \<open>
  The parts of a handler that \<open>new\<close> fixes: the sizes, the masks of the threads, and of each worker
  its vrings, its index and its exit event.
\<close>

definition worker_part :: "'p VringEpollHandler \<Rightarrow> nat list \<times> nat \<times> fd option" where
  "worker_part v = (veh_vrings v, veh_thread_id v, veh_exit_event_fd v)"

definition shape ::
    "('d, 'p, 'm, 'q) VhostUserHandler \<Rightarrow>
       nat \<times> nat \<times> nat \<times> u64 list \<times> (nat list \<times> nat \<times> fd option) list \<times> nat list" where
  "shape h = (length (vh_vrings h), vh_num_queues h, vh_max_queue_size h, vh_queues_per_thread h,
     map worker_part (vh_handlers h), vh_worker_threads h)"

lemma shape_update [simp]:
  "shape (h\<lparr>vh_backend := x0\<rparr>) = shape h"
  "shape (h\<lparr>vh_owned := x1\<rparr>) = shape h"
  "shape (h\<lparr>vh_features_acked := x2\<rparr>) = shape h"
  "shape (h\<lparr>vh_acked_features := x3\<rparr>) = shape h"
  "shape (h\<lparr>vh_acked_protocol_features := x4\<rparr>) = shape h"
  "shape (h\<lparr>vh_mappings := x5\<rparr>) = shape h"
  "shape (h\<lparr>vh_atomic_mem := x6\<rparr>) = shape h"
  "shape (h\<lparr>vh_uffd := x7\<rparr>) = shape h"
  "shape (h\<lparr>vh_vrings := (vh_vrings h)[i := v]\<rparr>) = shape h"
  "shape (h\<lparr>vh_vrings := map f (vh_vrings h)\<rparr>) = shape h"
  "shape (map_epolls g h) = shape h"
  by (simp_all add: shape_def map_epolls_def worker_part_def comp_def)

lemma shape_set_epoll [simp]: "shape (set_epoll t p h) = shape h"
proof -
  have "map worker_part ((vh_handlers h)[t := (vh_handlers h ! t)\<lparr>veh_epoll := p\<rparr>]) = map worker_part (vh_handlers h)"
    by (cases "t < length (vh_handlers h)")
      (auto intro!: nth_equalityI simp: nth_list_update worker_part_def)
  then show ?thesis by (simp add: shape_def set_epoll_def)
qed

lemma shape_vrings_epolls [simp]:
  "shape ((map_epolls g h)\<lparr>vh_vrings := (vh_vrings h)[i := v]\<rparr>) = shape h"
  by (simp add: shape_def map_epolls_def worker_part_def comp_def)

lemma preserves_shape [preserve_intros]:
  "preserves (\<lambda>h. shape h = x) (call_device c)"
  "preserves (\<lambda>h. shape h = x) (modify_vring i f)"
  "preserves (\<lambda>h. shape h = x) (get_vring i)"
  "preserves (\<lambda>h. shape h = x) (update_vring_registration E i index)"
  "preserves (\<lambda>h. shape h = x) (vh_set_queue_info E i da av us)"
  "preserves (\<lambda>h. shape h = x) (replace_kick E i f')"
  by (auto simp: preserves_def call_device_def modify_vring_def get_vring_def update_vring_registration_def
      vh_set_queue_info_def replace_kick_def modifyM_def Let_def split: option.splits prod.splits sum.splits if_splits)

lemma preserves_shape_composites [preserve_intros]:
  "preserves (\<lambda>h. shape h = x) (on_device c err)"
  "preserves (\<lambda>h. shape h = x) (initialize_vring E i index)"
  "preserves (\<lambda>h. shape h = x) (enable_all_vrings E b)"
  "preserves (\<lambda>h. shape h = x) (va_to_gpa va)"
  "preserves (\<lambda>h. shape h = x) (vh_check_feature vf)"
  unfolding on_device_def initialize_vring_def enable_all_vrings_def va_to_gpa_def vh_check_feature_def
  by (intro preserve_intros)+

lemma preserves_shape_init [preserve_intros]: "preserves (\<lambda>h. shape h = x) (init_if_needed E index)"
  unfolding init_if_needed_def by (intro preserve_intros)

lemma preserves_shape_memory [preserve_intros]: "preserves (\<lambda>h. shape h = x) (replace_memory E mem f)"
  unfolding replace_memory_def by (intro preserve_intros preserves_modifyM; simp)

lemmas vh_op_defs = vh_set_owner_def vh_reset_owner_def vh_reset_device_def vh_get_features_def
  vh_set_features_def vh_get_protocol_features_def vh_set_protocol_features_def vh_get_queue_num_def
  vh_get_max_mem_slots_def vh_set_mem_table_def vh_add_mem_region_def vh_remove_mem_region_def
  vh_set_log_base_def vh_set_vring_num_def vh_set_vring_addr_def vh_set_vring_base_def
  vh_get_vring_base_def vh_set_vring_kick_def vh_set_vring_call_def vh_set_vring_err_def
  vh_set_vring_enable_def vh_get_config_def vh_set_config_def vh_set_gpu_socket_def
  vh_get_shared_object_def vh_get_inflight_fd_def vh_set_inflight_fd_def vh_set_device_state_fd_def
  vh_check_device_state_def vh_get_shmem_config_def vh_postcopy_advice_def vh_postcopy_listen_def
  vh_postcopy_end_def

lemma device_step_keeps_shape:
  assumes "device_step (handler_device E) fresh h h'"
  shows "shape h' = shape h"
  using assms
proof cases
  case (step_set_backend_req_fd f x)
  then show ?thesis by (auto simp: vh_set_backend_req_fd_def Let_def split: option.splits)
qed (simp_all only: handler_device_sel vh_op_defs Let_def,
  (erule preservesD [where P = "\<lambda>s. shape s = shape h", rotated 2], (intro preserve_intros preserves_modifyM; simp)+, rule refl)+)

lemma keep_shape_backend_req_fd:
  "preserves (\<lambda>h. shape h = x) (callM (vh_set_backend_req_fd E b) :: ('d, 'p, 'm, 'q, unit) vh)"
  by (rule preserves_callM) (auto simp: vh_set_backend_req_fd_def Let_def split: option.splits)

interpretation handler_inv: device_invariant "handler_device E" "\<lambda>h. shape h = x" for E x
  by unfold_locales
    (simp_all only: handler_device_sel vh_op_defs Let_def,
     (intro preserve_intros preserves_modifyM keep_shape_backend_req_fd; simp)+)

text \<open>Whatever bytes a frontend sends, the request server keeps the shape of the handler behind it.\<close>

lemma request_keeps_shape:
  assumes "handle_request (handler_device E) so opt h = Some (r, h')"
  shows "shape (bh_backend h') = shape (bh_backend h)"
  using preservesD [OF handler_inv.keep_handle_request _ assms, of "shape (bh_backend h)"] by simp

lemma veh_new_part:
  assumes "veh_new P D vs t d = Some (Inr v, d')"
  shows "veh_vrings v = vs \<and> veh_thread_id v = t"
  using assms unfolding veh_new_def
  by (auto elim!: bindM_InrE simp: retM_apply failM_apply split: sum.splits option.splits prod.splits)

lemma new_workers_parts:
  fixes P :: "'p epoll_ops" and D :: "('d, 'm, 'v) VhostUserBackend"
  assumes "new_workers P D spawn n t masks d = Some (Inr vs :: 'e VhostUserHandlerError + 'p VringEpollHandler list, d')" and "i < length vs"
  shows "veh_thread_id (vs ! i) = t + i \<and> veh_vrings (vs ! i) = thread_vrings n (masks ! i)"
  using assms
proof (induction masks arbitrary: t d vs d' i)
  case (Cons m masks)
  from Cons.prems(1) obtain v d1 ws d2 where v: "veh_new P D (thread_vrings n m) t d = Some (Inr v, d1)"
    and ws: "new_workers P D spawn n (Suc t) masks d1 = Some (Inr ws :: 'e VhostUserHandlerError + 'p VringEpollHandler list, d2)" and vs: "vs = v # ws"
    by (auto elim!: bindM_InrE simp: retM_apply failM_apply mapErrM_def split: sum.splits option.splits)
  show ?case
  proof (cases i)
    case 0
    with veh_new_part [OF v] vs show ?thesis by simp
  next
    case (Suc j)
    with Cons.IH [OF ws, of j] Cons.prems(2) vs show ?thesis by simp
  qed
qed (simp add: retM_apply)

lemma vh_new_workers_created:
  fixes E :: "('d, 'p, 'm, 'r, 'q, 'e) handler_env"
  assumes "vh_new E spawn mem d = Some (Inr h0)"
  shows "\<exists>d1 d2. new_workers (ep E) (ed E) spawn (length (vh_vrings h0)) 0 (vh_queues_per_thread h0) d1
      = Some (Inr (vh_handlers h0) :: 'e VhostUserHandlerError + 'p VringEpollHandler list, d2)
    \<and> vh_worker_threads h0 = [0..<length (vh_queues_per_thread h0)]"
  using assms unfolding vh_new_def
  by (auto simp: callM_def readM_apply failM_apply split: option.splits sum.splits elim!: bindM_InrE) blast

lemma vh_new_workers:
  assumes "vh_new E spawn mem d = Some (Inr h0)"
  shows "vh_worker_threads h0 = [0..<length (vh_handlers h0)]"
    and "t < length (vh_handlers h0) \<Longrightarrow> veh_thread_id (vh_handlers h0 ! t) = t
      \<and> veh_vrings (vh_handlers h0 ! t) = thread_vrings (vh_num_queues h0) (vh_queues_per_thread h0 ! t)"
  using vh_new_workers_created [OF assms] vh_new_fields(1) [OF assms]
  by (auto dest: new_workers_length new_workers_parts)

text \<open>
  From a new handler, after any sequence of requests and whatever they returned: there is one vring
  for each queue and one worker, with its thread, for each mask; each worker has the vrings that
  \<open>new\<close> gave it, all of them vrings of the handler.
\<close>

lemma handler_shape:
  assumes "vh_new E spawn mem backend = Some (Inr h0)" and "device_reaches (handler_device E) fresh h0 h"
  shows "length (vh_vrings h) = vh_num_queues h \<and> length (vh_handlers h) = length (vh_queues_per_thread h)
    \<and> vh_worker_threads h = [0..<length (vh_handlers h)]
    \<and> (\<forall>t < length (vh_handlers h). veh_thread_id (vh_handlers h ! t) = t
         \<and> veh_vrings (vh_handlers h ! t) = thread_vrings (vh_num_queues h) (vh_queues_per_thread h ! t)
         \<and> (\<forall>i \<in> set (veh_vrings (vh_handlers h ! t)). i < length (vh_vrings h)))
    \<and> (\<forall>index t d. find_thread (vh_queues_per_thread h) 0 index = Some (t, d) \<longrightarrow> t < length (vh_handlers h))"
proof -
  from assms(2) have eq: "shape h = shape h0"
    by (induction rule: device_reaches.induct) (auto dest: device_step_keeps_shape)
  then have parts: "map worker_part (vh_handlers h) = map worker_part (vh_handlers h0)"
    and rest: "length (vh_vrings h) = length (vh_vrings h0)" "vh_num_queues h = vh_num_queues h0"
      "vh_queues_per_thread h = vh_queues_per_thread h0" "vh_worker_threads h = vh_worker_threads h0"
    by (simp_all add: shape_def)
  from parts have len: "length (vh_handlers h) = length (vh_handlers h0)" by (rule map_eq_imp_length_eq)
  have part: "worker_part (vh_handlers h ! t) = worker_part (vh_handlers h0 ! t)" if "t < length (vh_handlers h)" for t
    using parts len that by (metis nth_map)
  note new = vh_new_fields(1,2) [OF assms(1)] vh_new_workers [OF assms(1)]
  have worker: "veh_thread_id (vh_handlers h ! t) = t
      \<and> veh_vrings (vh_handlers h ! t) = thread_vrings (vh_num_queues h) (vh_queues_per_thread h ! t)"
    if "t < length (vh_handlers h)" for t
    using part [OF that] new(4) [of t] len rest that by (simp add: worker_part_def)
  then show ?thesis
    using new(1-3) rest len find_threadD [of "vh_queues_per_thread h" 0]
    by (fastforce simp: vh_epolls_def thread_vrings_def)
qed

lemma handler_sizes:
  assumes "vh_new E spawn mem backend = Some (Inr h0)" and "device_reaches (handler_device E) fresh h0 h"
  shows "vh_num_queues h = vh_num_queues h0"
proof -
  from assms(2) have "shape h = shape h0"
    by (induction rule: device_reaches.induct) (auto dest: device_step_keeps_shape)
  then show ?thesis by (simp add: shape_def)
qed

subsection \<open>A worker of the handler\<close>

text \<open>
  The vrings of a worker, and the vrings of the handler after the device has changed those of the
  worker.
\<close>

definition worker_vrings :: "'p VringEpollHandler \<Rightarrow> ('d, 'p, 'm, 'q) VhostUserHandler \<Rightarrow> 'q VringState list" where
  "worker_vrings v h = map ((!) (vh_vrings h)) (veh_vrings v)"

fun put_vrings :: "nat list \<Rightarrow> 'v list \<Rightarrow> 'v list \<Rightarrow> 'v list" where
  "put_vrings (i # is) (v # vs) all = put_vrings is vs (all[i := v])"
| "put_vrings _ _ all = all"

text \<open>
  The event loop on the handler that created the worker: \<open>wait\<close> and \<open>known\<close> are the epoll instance
  and \<open>consume\<close> the event descriptors; the device is the one of the handler.
\<close>

definition handler_worker ::
    "('d, 'p, 'm, 'r, 'q, 'e) handler_env \<Rightarrow> 'p VringEpollHandler
     \<Rightarrow> (nat \<Rightarrow> (('d, 'p, 'm, 'q) VhostUserHandler, io_error, (u32 \<times> u64) list) M) \<Rightarrow> (u32 \<Rightarrow> bool)
     \<Rightarrow> (fd \<Rightarrow> (('d, 'p, 'm, 'q) VhostUserHandler, io_error, unit) M)
     \<Rightarrow> (('d, 'p, 'm, 'q) VhostUserHandler, 'q) worker_ops" where
  "handler_worker E v wait known consume =
     \<lparr>w_wait = wait, w_known = known, w_vrings = worker_vrings v, w_consume = consume,
      w_num_queues = (\<lambda>h. case d_num_queues (ed E) (vh_backend h) of
          None \<Rightarrow> None
        | Some (n, d') \<Rightarrow> Some (n, h\<lparr>vh_backend := d'\<rparr>)),
      w_handle_event = (\<lambda>device_event evset thread_id h.
        case d_handle_event (ed E) device_event evset (worker_vrings v h) thread_id (vh_backend h) of
          None \<Rightarrow> None
        | Some ((r, vs), d') \<Rightarrow>
            Some (r, h\<lparr>vh_backend := d', vh_vrings := put_vrings (veh_vrings v) vs (vh_vrings h)\<rparr>))\<rparr>"

lemma handler_worker_sel [simp]:
  "w_vrings (handler_worker E v wait known consume) = worker_vrings v"
  "w_consume (handler_worker E v wait known consume) = consume"
  by (simp_all add: handler_worker_def)

text \<open>
  The entries of \<open>queues_per_thread\<close> are masks: with \<open>[2, 2, 4]\<close>, which the documentation of the
  trait reads as numbers of queues, the first two workers get queue 1 and the third gets queue 2.
\<close>

lemma masks_not_counts: "map (thread_vrings 8) [2, 2, 4] = [[1], [1], [2]]"
  by code_simp

text \<open>
  C10: a kick reaches the device. After any sequence of requests from a new handler with at most 64
  queues, when the kick descriptor of vring \<open>i\<close> is registered with worker \<open>t\<close>, the worker handles
  an event with the data of this registration by reading the kick and calling the device, on a list
  of vrings that has vring \<open>i\<close> at the index it passes; the worker goes on unless the device fails.
\<close>

theorem kick_reaches_device:
  assumes "vh_new E spawn mem backend = Some (Inr h0)" and "vh_num_queues h0 \<le> 64"
    and "epoll_law (ep E) interest" and "queue_law (eq E)"
    and "device_reaches (handler_device E) (fresh_kick interest) h0 h"
    and "i < length (vh_vrings h)" and "vr_kick (vh_vrings h ! i) = Some f"
    and "t < length (vh_epolls h)" and "(f, d) \<in> interest (vh_epolls h ! t)"
    and "d_num_queues (ed E) (vh_backend h) = Some (vh_num_queues h, vh_backend h)"
    and "consume f h = Some (Inr (), h)"
  shows "let v = vh_handlers h ! t; vrings = worker_vrings v h in
    unat (ucast d :: u16) < length vrings \<and> vrings ! unat (ucast d :: u16) = vh_vrings h ! i
    \<and> handle_event (handler_worker E v wait known consume) v (ucast d) evset h
      = (case d_handle_event (ed E) (ucast d) evset vrings t (vh_backend h) of
           None \<Rightarrow> None
         | Some ((r, vs), d') \<Rightarrow>
             Some (case r of Inl e \<Rightarrow> Inl (HandleEventBackendHandling e) | Inr _ \<Rightarrow> Inr False,
                   h\<lparr>vh_backend := d', vh_vrings := put_vrings (veh_vrings v) vs (vh_vrings h)\<rparr>))"
proof -
  define v where "v = vh_handlers h ! t"
  have t: "t < length (vh_handlers h)" using assms(8) by (simp add: vh_epolls_def)
  have wf: "length (vh_vrings h) = vh_num_queues h" "veh_thread_id v = t"
    "veh_vrings v = thread_vrings (length (vh_vrings h)) (vh_queues_per_thread h ! t)"
    using handler_shape [OF assms(1,5)] t by (auto simp: v_def)
  note kick = registered_kick [OF assms(1-9)]
  then have d: "unat d < length (veh_vrings v)" "veh_vrings v ! unat d = i" and en: "vr_enabled (vh_vrings h ! i)"
    using wf(3) by (simp_all add: active_def)
  have "length (veh_vrings v) \<le> length (vh_vrings h)"
    using length_filter_le [of _ "[0..<length (vh_vrings h)]"] by (simp add: wf(3) thread_vrings_def)
  moreover have "vh_num_queues h \<le> 64" using handler_sizes [OF assms(1,5)] assms(2) by simp
  ultimately have small: "unat d < 64" "unat d < vh_num_queues h" using d(1) wf(1) by simp_all
  then have cast: "unat (ucast d :: u16) = unat d"
    by (simp add: unsigned_ucast_eq take_bit_nat_eq_self)
  have vr: "worker_vrings v h ! unat d = vh_vrings h ! i" "length (worker_vrings v h) = length (veh_vrings v)"
    using d by (simp_all add: worker_vrings_def)
  have "is_exit_event (handler_worker E v wait known consume) v (ucast d) h = Some (Inr False, h)"
    using assms(10) small cast by (auto simp: is_exit_event_def handler_worker_def effect_defs)
  moreover have "read_kick consume (vh_vrings h ! i) h = Some (Inr True, h)"
    using assms(7,11) en by (simp add: read_kick_def effect_defs)
  ultimately have "handle_event (handler_worker E v wait known consume) v (ucast d) evset h
      = (case d_handle_event (ed E) (ucast d) evset (worker_vrings v h) t (vh_backend h) of
           None \<Rightarrow> None
         | Some ((r, vs), d') \<Rightarrow>
             Some (case r of Inl e \<Rightarrow> Inl (HandleEventBackendHandling e) | Inr _ \<Rightarrow> Inr False,
                   h\<lparr>vh_backend := d', vh_vrings := put_vrings (veh_vrings v) vs (vh_vrings h)\<rparr>))"
    using d cast vr wf(2)
    by (simp add: handle_event_def handle_vring_event_def bindM_def readM_apply mapErrM_def thenM_def retM_def)
      (simp add: handler_worker_def split: option.split sum.split prod.split)
  with d(1) cast vr show ?thesis unfolding Let_def v_def [symmetric] by simp
qed

theorem kick_reaches_device_witness:
  "let v = \<lparr>veh_epoll = [(7, 1)], veh_vrings = [0, 1], veh_thread_id = 0, veh_exit_event_fd = None\<rparr>;
       h = simple_handler [(7, 1)] True 0 [simple_ring False None True, simple_ring True (Some 7) True] in
   handle_event (handler_worker simple_env v (\<lambda>_ _. None) (\<lambda>_. True) (\<lambda>_ h. Some (Inr (), h))) v 1 1 h
     = Some (Inr False, h)"
proof -
  let ?h = "simple_handler [(7, 1)] True 0 [simple_ring False None True, simple_ring True (Some 7) True]"
  let ?v = "\<lparr>veh_epoll = [(7, 1)], veh_vrings = [0, 1], veh_thread_id = 0, veh_exit_event_fd = None\<rparr>
    :: (fd \<times> u64) list VringEpollHandler"
  have v: "vh_handlers ?h ! 0 = ?v" by (simp add: simple_handler_def)
  have nq: "d_num_queues (ed simple_env) (vh_backend ?h) = Some (vh_num_queues ?h, vh_backend ?h)"
    by (simp add: idle_device_ops_def returns_def)
  have hyps: "vh_num_queues (simple_handler [] False 0 [simple_ring False None False, simple_ring False None False]) \<le> 64"
    "epoll_law (ep simple_env) set" "queue_law (eq simple_env)" "1 < length (vh_vrings ?h)"
    "vr_kick (vh_vrings ?h ! 1) = Some 7" "0 < length (vh_epolls ?h)" "(7, 1) \<in> set (vh_epolls ?h ! 0)"
    by (simp_all add: simple_ring_def)
  have "handle_event (handler_worker simple_env ?v (\<lambda>_ _. None) (\<lambda>_. True) (\<lambda>_ h. Some (Inr (), h))) ?v (ucast (1 :: u64)) 1 ?h
      = (case d_handle_event (ed simple_env) (ucast (1 :: u64)) 1 (worker_vrings ?v ?h) 0 (vh_backend ?h) of
           None \<Rightarrow> None
         | Some ((r, vs), d') \<Rightarrow>
             Some (case r of Inl e \<Rightarrow> Inl (HandleEventBackendHandling e) | Inr _ \<Rightarrow> Inr False,
                   ?h\<lparr>vh_backend := d', vh_vrings := put_vrings (veh_vrings ?v) vs (vh_vrings ?h)\<rparr>))"
    using kick_reaches_device [OF simple_new hyps(1-3) simple_reaches hyps(4-7) nq,
        where consume = "\<lambda>_ h. Some (Inr (), h)" and wait = "\<lambda>_ _. None" and known = "\<lambda>_. True" and evset = 1]
    unfolding v Let_def by blast
  then have "handle_event (handler_worker simple_env ?v (\<lambda>_ _. None) (\<lambda>_. True) (\<lambda>_ h. Some (Inr (), h))) ?v 1 1 ?h
      = Some (Inr False, ?h\<lparr>vh_vrings := put_vrings [0, 1] (worker_vrings ?v ?h) (vh_vrings ?h)\<rparr>)"
    by (simp add: idle_device_ops_def returns_def)
  moreover have "put_vrings [0, 1] (worker_vrings ?v ?h) (vh_vrings ?h) = vh_vrings ?h"
    by (simp add: worker_vrings_def)
  ultimately show ?thesis by (simp add: Let_def simple_handler_def)
qed

end
