(* ===== verification/Threads.thy ===== *)
theory Threads
  imports Workers
begin

text \<open>
  The serving thread and the worker threads of a handler together. The serving thread calls the
  handler (\<open>vhost-user-backend/src/handler.rs\<close>) for one request after the other; each worker runs
  the loop of \<open>vhost-user-backend/src/event_loop.rs\<close>: it waits for events, handles those it got one
  by one, and waits again, until it is told to exit or an event fails; the device adds and removes
  its own listeners at the workers. The steps of the threads interleave in every order, with a
  request, the handling of one event and a call for a listener as the steps.
\<close>

subsection \<open>Interleaved steps\<close>

datatype worker_state = Waiting | Handling "(u32 \<times> u64) list" | Ended

text \<open>
  An assumption on the device: in \<open>handle_event\<close> it works on the queues of the vrings and signals, but
  leaves their kick descriptors, the enabled flag and the ready flag, which the requests control. The
  trait does not say so, and \<open>VringT\<close> has operations that change them.
\<close>

definition ring_control :: "('q, 'm, 'e) queue_ops \<Rightarrow> 'q VringState \<Rightarrow> fd option \<times> bool \<times> bool" where
  "ring_control Q v = (vr_kick v, vr_enabled v, q_ready Q (vr_queue v))"

definition device_law :: "('d, 'm, 'q VringState) VhostUserBackend \<Rightarrow> ('q, 'n, 'e) queue_ops \<Rightarrow> bool" where
  "device_law D Q \<longleftrightarrow> (\<forall>ev evset vs t d r vs' d'. d_handle_event D ev evset vs t d = Some ((r, vs'), d') \<longrightarrow>
     map (ring_control Q) vs' = map (ring_control Q) vs)"

text \<open>
  The calls of the device for a listener at worker \<open>t\<close>: \<open>register_listener\<close> and
  \<open>unregister_listener\<close>, which ask the device for its number of queues.
\<close>

definition at_worker ::
    "('d, 'p, 'm, 'r, 'q, 'e) handler_env \<Rightarrow> nat \<Rightarrow> (nat \<Rightarrow> 'p \<Rightarrow> (io_error + unit) \<times> 'p)
     \<Rightarrow> (('d, 'p, 'm, 'q) VhostUserHandler, io_error, unit) M" where
  "at_worker E t op h = (case d_num_queues (ed E) (vh_backend h) of
       None \<Rightarrow> None
     | Some (n, d') \<Rightarrow> (case op n (vh_epolls h ! t) of
         (r, p') \<Rightarrow> Some (r, (set_epoll t p' h)\<lparr>vh_backend := d'\<rparr>)))"

definition worker_register_listener where
  "worker_register_listener E t f ev_type data = at_worker E t (\<lambda>n. register_listener (ep E) n f ev_type data)"

definition worker_unregister_listener where
  "worker_unregister_listener E t f ev_type data = at_worker E t (\<lambda>n. unregister_listener (ep E) n f ev_type data)"

text \<open>
  What is assumed of the frontend: it gives a vring a new kick descriptor, or takes the descriptor
  away, only while the vring is stopped or disabled, and the new one is not the kick of a vring
  already, nor an exit event or a listener of a worker. What happens when the kick of an active
  vring is replaced is in \<open>replaced_kick_not_registered\<close> and \<open>replaced_kick_stays_registered\<close>.
\<close>

definition quiet_kick ::
    "('q, 'n, 'e) queue_ops \<Rightarrow> ('p \<Rightarrow> (fd \<times> u64) set) \<Rightarrow> u8 \<Rightarrow> fd option \<Rightarrow> ('d, 'p, 'm, 'q) VhostUserHandler \<Rightarrow> bool" where
  "quiet_kick Q interest index fo h \<longleftrightarrow>
     (unat index < length (vh_vrings h) \<longrightarrow> \<not> active Q (vh_vrings h ! unat index))
     \<and> (\<forall>f. fo = Some f \<longrightarrow> (\<forall>v \<in> set (vh_vrings h). vr_kick v \<noteq> Some f)
          \<and> (\<forall>p \<in> set (vh_epolls h). \<forall>(g, d) \<in> interest p. g = f \<longrightarrow> unat d < length (vh_vrings h)))"

text \<open>
  One step. An event is delivered only for a descriptor that is registered with the epoll instance at
  this moment, and at most 100 at a time; it is handled later. Reading an event descriptor may
  succeed or fail. The descriptor of a listener is not the kick of a vring.
\<close>

abbreviation event_worker ::
    "('d, 'p, 'm, 'r, 'q, 'e) handler_env \<Rightarrow> 'p VringEpollHandler \<Rightarrow> (u32 \<Rightarrow> bool) \<Rightarrow> (fd \<Rightarrow> io_error + unit)
     \<Rightarrow> (('d, 'p, 'm, 'q) VhostUserHandler, 'q) worker_ops" where
  "event_worker E v known read \<equiv> handler_worker E v (\<lambda>_ _. None) known (\<lambda>f h. Some (read f, h))"

inductive thread_step ::
    "('d, 'p, 'm, 'r, 'q, 'e) handler_env \<Rightarrow> ('p \<Rightarrow> (fd \<times> u64) set) \<Rightarrow> (u32 \<Rightarrow> bool)
     \<Rightarrow> ('d, 'p, 'm, 'q) VhostUserHandler \<times> worker_state list
     \<Rightarrow> ('d, 'p, 'm, 'q) VhostUserHandler \<times> worker_state list \<Rightarrow> bool"
    for E :: "('d, 'p, 'm, 'r, 'q, 'e) handler_env" and interest :: "'p \<Rightarrow> (fd \<times> u64) set"
    and known :: "u32 \<Rightarrow> bool" where
  request: "device_step (handler_device E) (quiet_kick (eq E) interest) h h' \<Longrightarrow>
     thread_step E interest known (h, ws) (h', ws)"
| add_listener: "t < length (vh_handlers h) \<Longrightarrow> \<forall>v \<in> set (vh_vrings h). vr_kick v \<noteq> Some f \<Longrightarrow>
     worker_register_listener E t f ev_type data h = Some (r, h') \<Longrightarrow>
     thread_step E interest known (h, ws) (h', ws)"
| remove_listener: "t < length (vh_handlers h) \<Longrightarrow>
     worker_unregister_listener E t f ev_type data h = Some (r, h') \<Longrightarrow>
     thread_step E interest known (h, ws) (h', ws)"
| deliver: "t < length (vh_handlers h) \<Longrightarrow> ws ! t = Waiting \<Longrightarrow> length events \<le> EPOLL_EVENTS_LEN \<Longrightarrow>
     \<forall>(evbits, data) \<in> set events. \<exists>f. (f, data) \<in> interest (veh_epoll (vh_handlers h ! t)) \<Longrightarrow>
     thread_step E interest known (h, ws) (h, ws[t := Handling events])"
| wait_again: "ws ! t = Handling [] \<Longrightarrow> thread_step E interest known (h, ws) (h, ws[t := Waiting])"
| skip: "ws ! t = Handling ((evbits, data) # events) \<Longrightarrow> \<not> known evbits \<Longrightarrow>
     thread_step E interest known (h, ws) (h, ws[t := Handling events])"
| handle: "t < length (vh_handlers h) \<Longrightarrow> v = vh_handlers h ! t \<Longrightarrow>
     ws ! t = Handling ((evbits, data) # events) \<Longrightarrow> known evbits \<Longrightarrow>
     handle_event (event_worker E v known read) v (ucast data) evbits h = Some (r, h') \<Longrightarrow>
     thread_step E interest known (h, ws) (h', ws[t := if r = Inr False then Handling events else Ended])"

inductive thread_reaches ::
    "('d, 'p, 'm, 'r, 'q, 'e) handler_env \<Rightarrow> ('p \<Rightarrow> (fd \<times> u64) set) \<Rightarrow> (u32 \<Rightarrow> bool)
     \<Rightarrow> ('d, 'p, 'm, 'q) VhostUserHandler \<times> worker_state list
     \<Rightarrow> ('d, 'p, 'm, 'q) VhostUserHandler \<times> worker_state list \<Rightarrow> bool"
    for E :: "('d, 'p, 'm, 'r, 'q, 'e) handler_env" and interest :: "'p \<Rightarrow> (fd \<times> u64) set"
    and known :: "u32 \<Rightarrow> bool" and s0 :: "('d, 'p, 'm, 'q) VhostUserHandler \<times> worker_state list" where
  threads_start: "thread_reaches E interest known s0 s0"
| threads_step: "thread_reaches E interest known s0 s \<Longrightarrow> thread_step E interest known s s' \<Longrightarrow>
     thread_reaches E interest known s0 s'"

inductive_cases thread_stepE: "thread_step E interest known s s'"

text \<open>The threads of a new handler: every worker waits.\<close>

definition threads_new :: "('d, 'p, 'm, 'q) VhostUserHandler \<Rightarrow> ('d, 'p, 'm, 'q) VhostUserHandler \<times> worker_state list" where
  "threads_new h = (h, replicate (length (vh_handlers h)) Waiting)"

subsection \<open>What handling an event keeps\<close>

lemma put_vrings_keeps:
  "map k vs = map (\<lambda>i. k (all ! i)) is \<Longrightarrow> map k (put_vrings is vs all) = map k all"
proof (induction "is" vs all rule: put_vrings.induct)
  case (1 i "is" v vs all)
  have "map k (all[i := v]) = map k all"
    using 1(2) by (metis (no_types, lifting) list.inject list.simps(9) list_update_id map_update nth_map list_update_beyond not_le)
  moreover have "k (all[i := v] ! j) = k (all ! j)" for j
    using 1(2) by (cases "j = i"; cases "i < length all") (simp_all add: list_update_beyond)
  ultimately show ?case using 1 by simp
qed simp_all

lemma length_put_vrings [simp]: "length (put_vrings is vs all) = length all"
  by (induction "is" vs all rule: put_vrings.induct) simp_all

text \<open>The registrations depend only on the part of the vrings that the requests control.\<close>

lemma kicks_inv_cong:
  assumes "map (ring_control (eq E)) (vh_vrings h') = map (ring_control (eq E)) (vh_vrings h)"
    and "vh_handlers h' = vh_handlers h" and "vh_queues_per_thread h' = vh_queues_per_thread h"
  shows "kicks_inv E N n S h' \<longleftrightarrow> kicks_inv E N n S h"
proof -
  have len: "length (vh_vrings h') = length (vh_vrings h)" by (rule map_eq_imp_length_eq [OF assms(1)])
  have "ring_control (eq E) (vh_vrings h' ! i) = ring_control (eq E) (vh_vrings h ! i)" if "i < length (vh_vrings h)" for i
    using assms(1) that len by (metis nth_map)
  then have "vr_kick (vh_vrings h' ! i) = vr_kick (vh_vrings h ! i)"
    "active (eq E) (vh_vrings h' ! i) = active (eq E) (vh_vrings h ! i)" if "i < length (vh_vrings h)" for i
    using that by (auto simp: ring_control_def active_def)
  then show ?thesis
    unfolding kicks_inv_def using len assms(2,3) by (simp add: vh_epolls_def cong: conj_cong)
qed

lemma handle_event_keeps:
  assumes "device_law (ed E) (eq E)"
    and "handle_event (event_worker E v known read) v ev evset h = Some (r, h')"
  shows "vh_handlers h' = vh_handlers h \<and> vh_queues_per_thread h' = vh_queues_per_thread h
    \<and> map (ring_control (eq E)) (vh_vrings h') = map (ring_control (eq E)) (vh_vrings h) \<and> shape h' = shape h"
proof -
  have [simp]: "worker_vrings v (h\<lparr>vh_backend := d\<rparr>) = worker_vrings v h" for d
    by (simp add: worker_vrings_def)
  have [simp]: "map (ring_control (eq E)) (put_vrings (veh_vrings v) vs (vh_vrings h)) = map (ring_control (eq E)) (vh_vrings h)"
    if "d_handle_event (ed E) ev evset (worker_vrings v h) t d = Some ((x, vs), d')" for vs t d x d'
    using assms(1) that unfolding device_law_def worker_vrings_def
    by (intro put_vrings_keeps) (fastforce simp: comp_def)
  show ?thesis
    using assms(2)
    unfolding handle_event_def handle_vring_event_def is_exit_event_def read_kick_def
    by (auto simp: handler_worker_def bindM_def readM_apply callM_def mapErrM_def thenM_def retM_def shape_def
        split: option.splits sum.splits prod.splits if_splits)
qed

subsection \<open>Every registration with the data of a vring is the kick of a vring\<close>

text \<open>
  With \<open>n\<close> vrings: whatever is registered with data below \<open>n\<close> is the kick descriptor of a vring.
\<close>

definition kicks_owned :: "('p \<Rightarrow> (fd \<times> u64) set) \<Rightarrow> nat \<Rightarrow> ('d, 'p, 'm, 'q) VhostUserHandler \<Rightarrow> bool" where
  "kicks_owned interest n h \<longleftrightarrow> length (vh_vrings h) = n
     \<and> (\<forall>p \<in> set (vh_epolls h). \<forall>(f, d) \<in> interest p. unat d < n \<longrightarrow> Some f \<in> vr_kick ` set (vh_vrings h))"

lemma kicks_ownedD:
  "kicks_owned N n h \<Longrightarrow> p \<in> set (vh_epolls h) \<Longrightarrow> (f, d) \<in> N p \<Longrightarrow> unat d < n \<Longrightarrow> Some f \<in> vr_kick ` set (vh_vrings h)"
  unfolding kicks_owned_def by blast

lemma kicks_owned_fields [simp]:
  "kicks_owned N n (h\<lparr>vh_backend := x1\<rparr>) = kicks_owned N n h"
  "kicks_owned N n (h\<lparr>vh_owned := x2\<rparr>) = kicks_owned N n h"
  "kicks_owned N n (h\<lparr>vh_features_acked := x2\<rparr>) = kicks_owned N n h"
  "kicks_owned N n (h\<lparr>vh_acked_features := x3\<rparr>) = kicks_owned N n h"
  "kicks_owned N n (h\<lparr>vh_acked_protocol_features := x3\<rparr>) = kicks_owned N n h"
  "kicks_owned N n (h\<lparr>vh_mappings := x4\<rparr>) = kicks_owned N n h"
  "kicks_owned N n (h\<lparr>vh_atomic_mem := x5\<rparr>) = kicks_owned N n h"
  "kicks_owned N n (h\<lparr>vh_uffd := x6\<rparr>) = kicks_owned N n h"
  by (simp_all add: kicks_owned_def)

lemma kicks_owned_cong:
  assumes "map vr_kick (vh_vrings h') = map vr_kick (vh_vrings h)" and "vh_epolls h' = vh_epolls h"
  shows "kicks_owned N n h' \<longleftrightarrow> kicks_owned N n h"
  using map_eq_imp_length_eq [OF assms(1)] arg_cong [OF assms(1), of set] assms(2)
  by (simp add: kicks_owned_def)

lemma owned_update:
  assumes "kicks_owned N n h" and "vr_kick v = vr_kick (vh_vrings h ! i)"
  shows "kicks_owned N n (h\<lparr>vh_vrings := (vh_vrings h)[i := v]\<rparr>)"
proof -
  have "map vr_kick ((vh_vrings h)[i := v]) = map vr_kick (vh_vrings h)"
    using assms(2) by (cases "i < length (vh_vrings h)") (simp_all add: map_update list_update_beyond, metis list_update_id nth_map length_map)
  with assms(1) kicks_owned_cong [of "h\<lparr>vh_vrings := (vh_vrings h)[i := v]\<rparr>" h] show ?thesis by simp
qed

lemma owned_map:
  assumes "kicks_owned N n h" and "\<And>v. vr_kick (g v) = vr_kick v"
  shows "kicks_owned N n (h\<lparr>vh_vrings := map g (vh_vrings h)\<rparr>)"
  using assms(1) kicks_owned_cong [of "h\<lparr>vh_vrings := map g (vh_vrings h)\<rparr>" h] by (simp add: comp_def assms(2))

text \<open>A worker gets no registration but that of a kick, or one with data that no vring has.\<close>

lemma owned_set_epoll:
  assumes "kicks_owned N n h"
    and "\<And>g e. (g, e) \<in> N p' \<Longrightarrow> unat e < n \<Longrightarrow> (g, e) \<in> N (vh_epolls h ! t) \<or> Some g \<in> vr_kick ` set (vh_vrings h)"
  shows "kicks_owned N n (set_epoll t p' h)"
proof -
  have "Some g \<in> vr_kick ` set (vh_vrings h)" if p: "p \<in> set ((vh_epolls h)[t := p'])" "(g, e) \<in> N p" "unat e < n" for p g e
  proof (cases "p \<in> set (vh_epolls h)")
    case True
    from kicks_ownedD [OF assms(1) this p(2,3)] show ?thesis .
  next
    case False
    with p(1) have "p = p'" and t: "t < length (vh_epolls h)"
      using set_update_subset_insert [of "vh_epolls h" t p'] by (blast, metis list_update_beyond not_le)
    with kicks_ownedD [OF assms(1) nth_mem [OF t]] assms(2) p(2,3) show ?thesis by blast
  qed
  with assms(1) show ?thesis by (auto simp: kicks_owned_def)
qed

lemma owned_modify_vring [preserve_intros]:
  assumes "\<And>v. vr_kick (g v) = vr_kick v"
  shows "preserves (kicks_owned N n) (modify_vring i g)"
  unfolding modify_vring_def by (intro preserves_modifyM owned_update) (simp_all add: assms)

lemma owned_update_vring_registration:
  assumes law: "epoll_law (ep E) N" and i: "i < n"
  shows "preserves (kicks_owned N n) (update_vring_registration E i x)"
  unfolding preserves_def
proof (intro allI impI)
  fix h r h'
  assume inv: "kicks_owned N n h" and run: "update_vring_registration E i x h = Some (r, h')"
  show "kicks_owned N n h'"
  proof (cases "h' = h")
    case False
    with run obtain f t e p' where kick: "vr_kick (vh_vrings h ! i) = Some f" and h': "h' = set_epoll t p' h"
      and p': "(\<exists>a. register_event (ep E) f EVENTSET_IN e (vh_epolls h ! t) = (a, p'))
        \<or> (\<exists>a. unregister_event (ep E) f EVENTSET_IN e (vh_epolls h ! t) = (a, p'))"
      by (auto simp: update_vring_registration_def Let_def split: option.splits prod.splits sum.splits if_splits) blast+
    have "N p' \<subseteq> insert (f, e) (N (vh_epolls h ! t))"
      using p' epoll_law_add(1) [OF law] epoll_law_del [OF law] unfolding register_event_def unregister_event_def by blast
    moreover have "Some f \<in> vr_kick ` set (vh_vrings h)"
      using kick inv i by (metis image_eqI kicks_owned_def nth_mem)
    ultimately show ?thesis unfolding h' using inv by (intro owned_set_epoll) auto
  qed (simp add: inv)
qed

lemma owned_call_device [preserve_intros]: "preserves (kicks_owned N n) (call_device c)"
  by (auto simp: preserves_def call_device_def split: option.splits)

lemma owned_on_device [preserve_intros]: "preserves (kicks_owned N n) (on_device c err)"
  unfolding on_device_def by (intro preserve_intros)

lemma owned_in_range:
  "(i < n \<Longrightarrow> preserves (kicks_owned N n) m) \<Longrightarrow> preserves (kicks_owned N n) (thenM (get_vring i) m)"
  by (rule preserves_in_range [where n = n]) (simp_all add: kicks_owned_def)

lemma set_queue_info_kick: "set_queue_info Q x y z v = (r, v') \<Longrightarrow> vr_kick v' = vr_kick v"
  by (auto simp: set_queue_info_def split: sum.splits prod.splits)

lemma owned_composites [preserve_intros]:
  "preserves (kicks_owned N n) (va_to_gpa va)"
  "preserves (kicks_owned N n) (vh_check_feature vf)"
  "preserves (kicks_owned N n) (replace_memory E mem g)"
  "preserves (kicks_owned N n) (vh_set_queue_info E i x y z)"
  unfolding va_to_gpa_def vh_check_feature_def replace_memory_def
  by (intro preserve_intros preserves_modifyM; simp)+
    (auto simp: preserves_def vh_set_queue_info_def intro!: owned_update dest: set_queue_info_kick split: prod.splits)

lemma owned_register:
  assumes "epoll_law (ep E) N"
  shows "preserves (kicks_owned N n) (enable_all_vrings E b)"
    and "unat index < n \<Longrightarrow> preserves (kicks_owned N n) (init_if_needed E index)"
proof -
  show "preserves (kicks_owned N n) (enable_all_vrings E b)"
    by (rule preserves_every_vring [where n = n], simp add: kicks_owned_def,
      intro preserves_thenM owned_modify_vring owned_update_vring_registration [OF assms]; simp)
  show "preserves (kicks_owned N n) (init_if_needed E index)" if "unat index < n"
    unfolding init_if_needed_def initialize_vring_def using that
    by (intro preserve_intros owned_update_vring_registration [OF assms]) simp_all
qed

text \<open>
  A vring that is not active has no registration, so that its kick descriptor can go; a new one is
  not registered.
\<close>

lemma quiet_fresh:
  assumes "kicks_owned N n h" and "quiet_kick Q N index fo h"
  shows "fresh_kick N index fo h"
  using assms unfolding fresh_kick_def quiet_kick_def kicks_owned_def by fastforce

lemma owned_replace_kick:
  assumes law: "epoll_law (ep E) N" and kicks: "kicks_inv E N n {} h" and inv: "kicks_owned N n h" and i: "i < n"
    and quiet: "\<not> active (eq E) (vh_vrings h ! i)" and run: "replace_kick E i fo h = Some (r, h')"
  shows "kicks_owned N n h'"
proof -
  have len: "length (vh_vrings h) = n" using inv by (simp add: kicks_owned_def)
  have vr: "vh_vrings h' = (vh_vrings h)[i := set_kick fo (vh_vrings h ! i)]"
    and ep: "vh_epolls h' = vh_epolls h \<or> (\<exists>g. vh_epolls h' = map (epoll_closed (ep E) g) (vh_epolls h))"
    using run by (auto simp: replace_kick_def modifyM_def split: option.splits)
  have "Some f \<in> vr_kick ` set (vh_vrings h')"
    if p: "p \<in> set (vh_epolls h')" "(f, d) \<in> N p" "unat d < n" for p f d
  proof -
    from ep p(1,2) obtain q where q: "q \<in> set (vh_epolls h)" "(f, d) \<in> N q"
      using epoll_law_closed(1) [OF law] by (auto, blast)
    then obtain t where t: "t < length (vh_epolls h)" "(f, d) \<in> N (vh_epolls h ! t)" by (auto simp: in_set_conv_nth)
    from kicks_ownedD [OF inv q p(3)] len obtain j where j: "j < n" "vr_kick (vh_vrings h ! j) = Some f"
      by (auto simp: in_set_conv_nth)
    have "j \<noteq> i" using kicks_inv_position(2) [OF kicks j(1) t(1) j(2) t(2)] quiet by auto
    with j vr len have "vr_kick (vh_vrings h' ! j) = Some f" "j < length (vh_vrings h')" by simp_all
    then show ?thesis by (metis image_eqI nth_mem)
  qed
  with vr len show ?thesis by (auto simp: kicks_owned_def)
qed

lemma set_vring_kick_owned:
  assumes law: "epoll_law (ep E) N" and kicks: "kicks_inv E N n {} h" and inv: "kicks_owned N n h"
    and quiet: "quiet_kick (eq E) N index fo h" and run: "vh_set_vring_kick E index fo h = Some (r, h')"
  shows "kicks_owned N n h'"
proof (cases "unat index < length (vh_vrings h)")
  case False
  with run inv show ?thesis by (simp add: vh_set_vring_kick_def thenM_def bindM_def get_vring_def)
next
  case True
  with inv have i: "unat index < n" by (simp add: kicks_owned_def)
  from run True obtain h1 where h1: "replace_kick E (unat index) fo h = Some (Inr (), h1)"
    and init: "init_if_needed E index h1 = Some (r, h')"
    by (auto simp: vh_set_vring_kick_def thenM_def bindM_def get_vring_def replace_kick_def modifyM_def)
  have "kicks_owned N n h1"
    by (rule owned_replace_kick [OF law kicks inv i _ h1]) (use quiet True in \<open>simp add: quiet_kick_def\<close>)
  with owned_register(2) [OF law i] init show ?thesis by (blast dest: preservesD)
qed

lemma stopped_not_active:
  assumes "queue_law (eq E)" and "i < length (vh_vrings h)"
    and "thenM (modify_vring i (set_queue_ready (eq E) False)) (update_vring_registration E i x) h = Some (r, h')"
  shows "\<not> active (eq E) (vh_vrings h' ! i)"
proof -
  have "vh_vrings h2 = vh_vrings h1" if "update_vring_registration E i x h1 = Some (r, h2)" for h1 h2
    using that by (auto simp: update_vring_registration_def Let_def split: option.splits prod.splits sum.splits if_splits)
  then have "vh_vrings h' = (vh_vrings h)[i := set_queue_ready (eq E) False (vh_vrings h ! i)]"
    using assms(3) by (auto simp: thenM_def bindM_def modify_vring_def modifyM_def)
  with assms(1,2) show ?thesis by (simp add: active_def vring_defs queue_law_def)
qed

lemma get_vring_then: "i < length (vh_vrings h) \<Longrightarrow> thenM (get_vring i) m h = m h"
  by (simp add: thenM_def bindM_def get_vring_def)

lemma get_vring_base_owned:
  assumes law: "epoll_law (ep E) N" "queue_law (eq E)" and kicks: "kicks_inv E N n {} h" and inv: "kicks_owned N n h"
    and run: "vh_get_vring_base E index h = Some (r, h')"
  shows "kicks_owned N n h'"
proof (cases "unat index < length (vh_vrings h)")
  case False
  with run inv show ?thesis by (simp add: vh_get_vring_base_def Let_def thenM_def bindM_def get_vring_def)
next
  case True
  let ?i = "unat index"
  let ?stop = "thenM (modify_vring ?i (set_queue_ready (eq E) False)) (update_vring_registration E ?i (ucast index))"
  let ?rest = "bindM (readM (\<lambda>h. queue_next_avail (eq E) (vh_vrings h ! ?i))) (\<lambda>next_avail.
       thenM (replace_kick E ?i None)
      (thenM (modify_vring ?i (set_call None))
        (retM (VhostUserVringState_new index (ucast next_avail)))))"
  from True inv have i: "?i < n" by (simp add: kicks_owned_def)
  have "vh_get_vring_base E index = thenM (get_vring ?i) (thenM ?stop ?rest)"
    unfolding vh_get_vring_base_def Let_def thenM_def by (simp add: bindM_assoc)
  with run True have "thenM ?stop ?rest h = Some (r, h')" by (simp add: get_vring_then)
  then obtain r1 h1 where stop: "?stop h = Some (r1, h1)"
    and rest: "case r1 of Inl e \<Rightarrow> h' = h1 | Inr _ \<Rightarrow> ?rest h1 = Some (r, h')"
    by (rule thenM_SomeE) (rule that, assumption, simp)+
  have kicks1: "kicks_inv E N n {} h1"
    by (rule preservesD [OF modify_and_register_preserves [OF law(1) i _ ucast_u8_word_of_nat] kicks stop]) simp
  have inv1: "kicks_owned N n h1"
    by (rule preservesD [OF preserves_thenM [OF owned_modify_vring owned_update_vring_registration [OF law(1) i]] inv stop]) simp
  have "preserves (kicks_owned N n) (modify_vring ?i (set_call None))" by (intro preserve_intros) simp
  moreover have "kicks_owned N n h2" if "replace_kick E ?i None h1 = Some (r2, h2)" for r2 h2
    by (rule owned_replace_kick [OF law(1) kicks1 inv1 i stopped_not_active [OF law(2) True stop] that])
  ultimately show ?thesis
    using rest inv1 by (cases r1) (auto simp: readM_apply retM_apply elim!: bindM_SomeE thenM_SomeE dest: preservesD)
qed

text \<open>Every request keeps both invariants.\<close>

lemma owned_set_backend_req_fd:
  "vh_set_backend_req_fd E b h = Some (x, h') \<Longrightarrow> kicks_owned N n h \<Longrightarrow> kicks_owned N n h'"
  by (auto simp: vh_set_backend_req_fd_def Let_def split: option.splits)

lemma device_step_keeps_owned:
  assumes "device_step (handler_device E) (quiet_kick (eq E) N) h h'"
    and law: "epoll_law (ep E) N" "queue_law (eq E)" and kicks: "kicks_inv E N n {} h" and inv: "kicks_owned N n h"
  shows "kicks_owned N n h'"
  using assms(1)
proof cases
  case (step_set_vring_kick x fo r)
  with set_vring_kick_owned [OF law(1) kicks inv] show ?thesis by simp
next
  case (step_get_vring_base i r)
  with get_vring_base_owned [OF law kicks inv] show ?thesis by simp
next
  case (step_set_backend_req_fd f x)
  with owned_set_backend_req_fd [OF _ inv] show ?thesis by simp
qed (simp_all only: handler_device_sel vh_op_defs Let_def,
  (erule preservesD [where P = "kicks_owned N n" and s = h, OF _ inv, rotated],
   (intro owned_in_range preserve_intros preserves_modifyM owned_map owned_register [OF law(1)]
      owned_update_vring_registration [OF law(1)]; simp))+)

lemma device_step_mono:
  assumes "device_step B fresh h h'" and "\<And>x fo. fresh x fo h \<Longrightarrow> fresh' x fo h"
  shows "device_step B fresh' h h'"
  using assms(1)
proof cases
  case (step_set_vring_kick x fo r)
  then show ?thesis using assms(2) by (blast intro: device_step.step_set_vring_kick)
qed (rule device_step.intros, assumption)+

lemma request_keeps_both:
  assumes "device_step (handler_device E) (quiet_kick (eq E) N) h h'"
    and law: "epoll_law (ep E) N" "queue_law (eq E)" and inv: "kicks_inv E N n {} h" "kicks_owned N n h"
  shows "kicks_inv E N n {} h' \<and> kicks_owned N n h'"
proof -
  have "device_step (handler_device E) (fresh_kick N) h h'"
    by (rule device_step_mono [OF assms(1)]) (rule quiet_fresh [OF inv(2)])
  from device_step_keeps_kicks_inv [OF this law inv(1)] device_step_keeps_owned [OF assms(1) law inv]
  show ?thesis by simp
qed

subsection \<open>The invariants under every interleaving\<close>

lemma at_worker_Some:
  assumes "at_worker E t op h = Some (r, h')" and "num_queues_law (ed E) n"
  obtains d' p' where "op n (vh_epolls h ! t) = (r, p')" and "h' = (set_epoll t p' h)\<lparr>vh_backend := d'\<rparr>"
  using assms by (fastforce simp: at_worker_def num_queues_law_def split: option.splits prod.splits)

text \<open>A change of the registrations at a worker that adds none of a kick.\<close>

lemma kicks_inv_set_epoll:
  assumes inv: "kicks_inv E N n S h"
    and fewer: "\<And>g e. Some g \<in> vr_kick ` set (vh_vrings h) \<Longrightarrow> (g, e) \<in> N p' \<Longrightarrow> (g, e) \<in> N (vh_epolls h ! t)"
  shows "kicks_inv E N n S (set_epoll t p' h)"
proof -
  have len: "length (vh_vrings h) = n" using inv by (simp add: kicks_inv_def)
  have reg: "(g, e) \<in> N (vh_epolls h ! s)"
    if "i < n" "s < length (vh_epolls h)" "vr_kick (vh_vrings h ! i) = Some g" "(g, e) \<in> N ((vh_epolls h)[t := p'] ! s)" for i s g e
  proof (cases "s = t")
    case True
    moreover have "Some g \<in> vr_kick ` set (vh_vrings h)" using that(1,3) len by (metis image_eqI nth_mem)
    ultimately show ?thesis using that(2,4) fewer by simp
  qed (use that in simp)
  have "find_thread (vh_queues_per_thread h) 0 (word_of_nat i) = Some (s, e) \<and> (i \<notin> S \<longrightarrow> active (eq E) (vh_vrings h ! i))"
    if "i < n" "s < length (vh_epolls h)" "vr_kick (vh_vrings h ! i) = Some g" "(g, e) \<in> N ((vh_epolls h)[t := p'] ! s)" for i s g e
    using kicks_inv_position [OF inv that(1-3) reg [OF that]] by simp
  with inv show ?thesis by (simp add: kicks_inv_def)
qed

lemma listener_keeps:
  assumes law: "epoll_law (ep E) N" "num_queues_law (ed E) n" "n \<le> 64"
    and inv: "kicks_inv E N n {} h" "kicks_owned N n h"
  shows "worker_register_listener E t f ev_type data h = Some (r, h') \<Longrightarrow>
      \<forall>v \<in> set (vh_vrings h). vr_kick v \<noteq> Some f \<Longrightarrow> kicks_inv E N n {} h' \<and> kicks_owned N n h'"
    and "worker_unregister_listener E t f ev_type data h = Some (r, h') \<Longrightarrow>
      kicks_inv E N n {} h' \<and> kicks_owned N n h'"
proof -
  have keep: "kicks_inv E N n {} ((set_epoll t p' h)\<lparr>vh_backend := d'\<rparr>) \<and> kicks_owned N n ((set_epoll t p' h)\<lparr>vh_backend := d'\<rparr>)"
    if "\<And>g e. (g, e) \<in> N p' \<Longrightarrow> (g, e) \<in> N (vh_epolls h ! t) \<or> g = f \<and> \<not> unat e < n \<and> Some f \<notin> vr_kick ` set (vh_vrings h)" for p' d'
    using kicks_inv_set_epoll [OF inv(1), of p' t] owned_set_epoll [OF inv(2), of p' t] that unfolding kicks_inv_fields kicks_owned_fields by blast
  show "kicks_inv E N n {} h' \<and> kicks_owned N n h'" if "worker_register_listener E t f ev_type data h = Some (r, h')"
    and free: "\<forall>v \<in> set (vh_vrings h). vr_kick v \<noteq> Some f"
  proof -
    from at_worker_Some [OF that(1) [unfolded worker_register_listener_def] law(2)] obtain d' p' where
      p': "register_listener (ep E) n f ev_type data (vh_epolls h ! t) = (r, p')"
      and h': "h' = (set_epoll t p' h)\<lparr>vh_backend := d'\<rparr>" .
    have "N p' \<subseteq> N (vh_epolls h ! t) \<or> N p' \<subseteq> insert (f, data) (N (vh_epolls h ! t)) \<and> \<not> unat data < n"
    proof (cases "data \<le> word_of_nat n")
      case False
      with p' epoll_law_add(1) [OF law(1)] have "N p' \<subseteq> insert (f, data) (N (vh_epolls h ! t))"
        by (simp add: register_listener_def register_event_def)
      with False law(3) show ?thesis by (simp add: word_le_nat_alt unat_of_nat)
    qed (use p' in \<open>auto simp: register_listener_def\<close>)
    with free show ?thesis unfolding h' by (intro keep) auto
  qed
  show "kicks_inv E N n {} h' \<and> kicks_owned N n h'" if "worker_unregister_listener E t f ev_type data h = Some (r, h')"
  proof -
    from at_worker_Some [OF that(1) [unfolded worker_unregister_listener_def] law(2)] obtain d' p' where
      p': "unregister_listener (ep E) n f ev_type data (vh_epolls h ! t) = (r, p')"
      and h': "h' = (set_epoll t p' h)\<lparr>vh_backend := d'\<rparr>" .
    have "N p' \<subseteq> N (vh_epolls h ! t)"
      using p' epoll_law_del [OF law(1)] by (auto simp: unregister_listener_def unregister_event_def split: if_splits)
    then show ?thesis unfolding h' by (intro keep) auto
  qed
qed

text \<open>A new worker waits at most for its exit event.\<close>

lemma veh_new_registrations:
  assumes "veh_new P D vs t d = Some (Inr v, d')" and "epoll_law P N" and "num_queues_law D n"
    and "(f, e) \<in> N (veh_epoll v)"
  shows "e = word_of_nat n"
proof (cases "d_exit_event D t d")
  case None
  with assms(1) show ?thesis by (auto simp: veh_new_def callM_def bindM_def failM_def split: sum.splits)
next
  case (Some x)
  obtain ev d1 where x: "x = (ev, d1)" by (cases x)
  show ?thesis
  proof (cases ev)
    case None
    with Some x assms(1) have "\<exists>p. epoll_create P = Inr p \<and> veh_epoll v = p"
      by (auto simp: veh_new_def callM_def bindM_def retM_def failM_def split: sum.splits)
    with assms(4) epoll_law_create [OF assms(2)] show ?thesis by auto
  next
    case (Some cn)
    obtain c nf where "cn = (c, nf)" by (cases cn)
    with Some \<open>d_exit_event D t d = Some x\<close> x veh_new_exit_event(2) [OF assms(1) _ assms(2,3)] assms(4) show ?thesis by auto
  qed
qed

lemma new_workers_registrations:
  fixes P :: "'p epoll_ops" and D :: "('d, 'm, 'v) VhostUserBackend"
  assumes "new_workers P D spawn k t masks d = Some (Inr vs :: 'e VhostUserHandlerError + 'p VringEpollHandler list, d')"
    and law: "epoll_law P N" "num_queues_law D n" and "v \<in> set vs" and "(f, e) \<in> N (veh_epoll v)"
  shows "e = word_of_nat n"
  using assms(1,4)
proof (induction masks arbitrary: t d vs d')
  case (Cons m masks)
  from Cons.prems(1) obtain w d1 ws d2 where w: "veh_new P D (thread_vrings k m) t d = Some (Inr w, d1)"
    and ws: "new_workers P D spawn k (Suc t) masks d1 = Some (Inr ws :: 'e VhostUserHandlerError + 'p VringEpollHandler list, d2)"
    and vs: "vs = w # ws"
    by (auto elim!: bindM_InrE simp: retM_apply failM_apply mapErrM_def split: sum.splits option.splits)
  show ?case
  proof (cases "v = w")
    case True
    with veh_new_registrations [OF w law] assms(5) show ?thesis by simp
  next
    case False
    with Cons.IH [OF ws] Cons.prems(2) vs show ?thesis by simp
  qed
qed (simp add: retM_apply)

lemma new_keeps:
  assumes "vh_new E spawn mem backend = Some (Inr h0)" and "epoll_law (ep E) N"
    and "num_queues_law (ed E) (vh_num_queues h0)" and "vh_num_queues h0 \<le> 64"
  shows "kicks_inv E N (vh_num_queues h0) {} h0 \<and> kicks_owned N (vh_num_queues h0) h0"
proof -
  note new = vh_new_fields [OF assms(1)]
  have "e = word_of_nat (vh_num_queues h0)" if "p \<in> set (vh_epolls h0)" "(f, e) \<in> N p" for p f e
    using vh_new_workers_created [OF assms(1)] new_workers_registrations [OF _ assms(2,3)] that
    by (fastforce simp: vh_epolls_def)
  moreover have "unat (word_of_nat (vh_num_queues h0) :: u64) = vh_num_queues h0"
    using assms(4) by (simp add: unat_of_nat)
  ultimately have "kicks_owned N (vh_num_queues h0) h0" using new(1) by (force simp: kicks_owned_def)
  moreover have "kicks_inv E N (vh_num_queues h0) {} h0" using new by (fastforce simp: kicks_inv_def)
  ultimately show ?thesis by simp
qed

lemma thread_step_keeps:
  assumes "device_law (ed E) (eq E)" and law: "epoll_law (ep E) N" "queue_law (eq E)" "num_queues_law (ed E) n" "n \<le> 64"
    and "thread_step E N known s s'" and inv: "kicks_inv E N n {} (fst s)" "kicks_owned N n (fst s)"
  shows "kicks_inv E N n {} (fst s') \<and> kicks_owned N n (fst s') \<and> shape (fst s') = shape (fst s)"
  using assms(6)
proof cases
  case (request h h' ws)
  with request_keeps_both [OF request(3) law(1,2)] device_step_keeps_shape [OF request(3)] inv
  show ?thesis by simp
next
  case (add_listener t h f ev_type data r h' ws)
  with listener_keeps(1) [OF law(1,3,4), of h t f ev_type data r h'] inv
  have "kicks_inv E N n {} h' \<and> kicks_owned N n h'" by simp
  moreover have "shape h' = shape h"
    using add_listener(5) by (auto simp: worker_register_listener_def elim!: at_worker_Some [OF _ law(3)])
  ultimately show ?thesis using add_listener by simp
next
  case (remove_listener t h f ev_type data r h' ws)
  with listener_keeps(2) [OF law(1,3,4), of h t f ev_type data r h'] inv
  have "kicks_inv E N n {} h' \<and> kicks_owned N n h'" by simp
  moreover have "shape h' = shape h"
    using remove_listener(4) by (auto simp: worker_unregister_listener_def elim!: at_worker_Some [OF _ law(3)])
  ultimately show ?thesis using remove_listener by simp
next
  case (handle t h v ws evbits data events read r h')
  note keeps = handle_event_keeps [OF assms(1) handle(7)]
  have "map vr_kick vs = map (fst \<circ> ring_control (eq E)) vs" for vs by (simp add: ring_control_def comp_def)
  then have "map vr_kick (vh_vrings h') = map vr_kick (vh_vrings h)"
    using keeps by (metis map_map)
  with keeps kicks_inv_cong [of E h' h N n "{}"] kicks_owned_cong [of h' h N n] inv handle(1,2)
  show ?thesis by (simp add: vh_epolls_def)
qed (use inv in simp_all)

lemma threads_keep:
  assumes "device_law (ed E) (eq E)" and "epoll_law (ep E) N" and "queue_law (eq E)"
    and "vh_new E spawn mem backend = Some (Inr h0)" and "num_queues_law (ed E) (vh_num_queues h0)"
    and "vh_num_queues h0 \<le> 64" and "thread_reaches E N known (threads_new h0) s"
  shows "kicks_inv E N (vh_num_queues h0) {} (fst s) \<and> kicks_owned N (vh_num_queues h0) (fst s)
    \<and> shape (fst s) = shape h0"
  using assms(7)
proof induction
  case threads_start
  show ?case using new_keeps [OF assms(4,2,5,6)] by (simp add: threads_new_def)
next
  case (threads_step s s')
  with thread_step_keeps [OF assms(1-3,5,6) threads_step.hyps(2)] show ?case by metis
qed

text \<open>
  The events of one wait that \<open>handle_events\<close> of the event loop handles in one go are steps of the
  worker with no step of another thread between them.
\<close>

lemma events_are_steps:
  assumes "device_law (ed E) (eq E)" and "t < length (vh_handlers h)" and "t < length ws"
    and "ws ! t = Handling events" and "v = vh_handlers h ! t"
    and "handle_events (event_worker E v known read) v events h = Some (r, h')"
  shows "(thread_step E interest known)\<^sup>*\<^sup>* (h, ws) (h', ws[t := if r = Inr False then Handling [] else Ended])"
  using assms(2-6)
proof (induction events arbitrary: h ws)
  case Nil
  then show ?case by (auto simp: retM_apply) (metis list_update_id rtranclp.rtrancl_refl)
next
  case (Cons e events)
  obtain evbits data where e: "e = (evbits, data)" by (cases e)
  let ?W = "event_worker E v known read"
  show ?case
  proof (cases "known evbits")
    case False
    then have "thread_step E interest known (h, ws) (h, ws[t := Handling events])"
      using Cons.prems e by (intro skip) auto
    moreover have "handle_events ?W v events h = Some (r, h')"
      using Cons.prems(5) False e by (simp add: handler_worker_def)
    ultimately show ?thesis
      using Cons.IH [of h "ws[t := Handling events]"] Cons.prems(1,2,4)
      by (simp add: converse_rtranclp_into_rtranclp)
  next
    case True
    with Cons.prems(5) e obtain r1 h1 where
      one: "handle_event ?W v (ucast data) evbits h = Some (r1, h1)"
      by (auto simp: handler_worker_def bindM_def Let_def split: option.splits)
    have step: "thread_step E interest known (h, ws) (h1, ws[t := if r1 = Inr False then Handling events else Ended])"
      using Cons.prems(1,3,4) e one True by (intro handle) auto
    have keeps: "vh_handlers h1 = vh_handlers h" using handle_event_keeps [OF assms(1) one] by simp
    show ?thesis
    proof (cases "r1 = Inr False")
      case True
      then have "handle_events ?W v events h1 = Some (r, h')"
        using Cons.prems(5) e one \<open>known evbits\<close> by (simp add: handler_worker_def bindM_def Let_def)
      with step True Cons.IH [of h1 "ws[t := Handling events]"] Cons.prems(1,2,4) keeps
      show ?thesis by (simp add: converse_rtranclp_into_rtranclp)
    next
      case False
      then have "(r, h') = (r1, h1) \<and> r \<noteq> Inr False"
        using Cons.prems(5) e one \<open>known evbits\<close>
        by (auto simp: handler_worker_def bindM_def Let_def retM_apply split: sum.splits if_splits)
      with step False show ?thesis by auto
    qed
  qed
qed

subsection \<open>Kicks under every interleaving\<close>


text \<open>A run of the backend of the witnesses in which the worker has an event and is to handle it.\<close>

lemma simple_device_law: "device_law idle_device_ops Q"
  by (auto simp: device_law_def idle_device_ops_def returns_def)

lemma simple_threads:
  "thread_reaches simple_env set (\<lambda>_. True)
     (threads_new (simple_handler [] False 0 [simple_ring False None False, simple_ring False None False]))
     (simple_handler [(7, 1)] True 0 [simple_ring False None True, simple_ring True (Some 7) True], [Handling [(1, 1)]])"
proof -
  let ?new = "simple_handler [] False 0 [simple_ring False None False, simple_ring False None False]"
  let ?g = "simple_handler [] True 0 [simple_ring False None True, simple_ring False None True]"
  let ?h = "simple_handler [(7, 1)] True 0 [simple_ring False None True, simple_ring True (Some 7) True]"
  let ?reach = "thread_reaches simple_env set (\<lambda>_. True) (threads_new ?new)"
  have "threads_new ?new = (?new, [Waiting])" by (simp add: threads_new_def simple_handler_def)
  then have "?reach (?new, [Waiting])" using threads_start [of simple_env set "\<lambda>_. True" "threads_new ?new"] by simp
  moreover have "device_step (handler_device simple_env) (quiet_kick (eq simple_env) set) ?new ?g"
    using simple_set_features by (intro step_set_features) simp
  ultimately have "?reach (?g, [Waiting])" by (rule threads_step [OF _ request])
  moreover have "device_step (handler_device simple_env) (quiet_kick (eq simple_env) set) ?g ?h"
    using simple_set_vring_kick
    by (intro step_set_vring_kick [where fo = "Some 7" and x = 1])
      (simp_all add: quiet_kick_def simple_ring_def active_def simple_queue_ops_def)
  ultimately have "?reach (?h, [Waiting])" by (rule threads_step [OF _ request])
  moreover have "thread_step simple_env set (\<lambda>_. True) (?h, [Waiting]) (?h, [Waiting][0 := Handling [(1, 1)]])"
    by (rule deliver) (simp_all add: simple_handler_def EPOLL_EVENTS_LEN_def)
  ultimately show ?thesis using threads_step by fastforce
qed

lemma simple_num_queues_law: "num_queues_law idle_device_ops 2"
  by (simp add: num_queues_law_def idle_device_ops_def returns_def)


subsection \<open>An event that was delivered before its vring was stopped\<close>

text \<open>
  C38: a worker can hand a stopped vring to the device. An event of vring \<open>i\<close> that the worker has got from its
  epoll instance is handled after \<open>GET_VRING_BASE\<close> has stopped the vring: the vring has no kick any
  more, so that reading it succeeds and tells only whether the vring is enabled, which
  \<open>GET_VRING_BASE\<close> does not change; the device is called with the stopped vring.
\<close>

theorem stopped_vring_dispatched:
  assumes "queue_law (eq E)" and "vh_get_vring_base E index h = Some (Inr state, h1)"
    and "vr_enabled (vh_vrings h ! unat index)" and "t < length (vh_handlers h)"
    and "unat data < length (veh_vrings (vh_handlers h ! t))" and "veh_vrings (vh_handlers h ! t) ! unat data = unat index"
    and "veh_exit_event_fd (vh_handlers h ! t) = None"
  defines "v \<equiv> vh_handlers h1 ! t"
  shows "worker_vrings v h1 ! unat data = vh_vrings h1 ! unat index
    \<and> \<not> q_ready (eq E) (vr_queue (vh_vrings h1 ! unat index))
    \<and> handle_event (event_worker E v known read) v data evset h1
      = (case d_handle_event (ed E) data evset (worker_vrings v h1) (veh_thread_id v) (vh_backend h1) of
           None \<Rightarrow> None
         | Some ((r, vs), d') \<Rightarrow>
             Some (case r of Inl e \<Rightarrow> Inl (HandleEventBackendHandling e) | Inr _ \<Rightarrow> Inr False,
                   h1\<lparr>vh_backend := d', vh_vrings := put_vrings (veh_vrings v) vs (vh_vrings h1)\<rparr>))"
proof -
  let ?i = "unat index"
  have i: "?i < length (vh_vrings h)"
    using assms(2) by (auto simp: vh_get_vring_base_def get_vring_def thenM_def bindM_def Let_def split: if_splits)
  have "preserves (\<lambda>g. shape g = shape h) (vh_get_vring_base E index)"
    unfolding vh_get_vring_base_def Let_def by (intro preserve_intros)
  from preservesD [OF this refl assms(2)] have "shape h1 = shape h" .
  then have len: "length (vh_vrings h1) = length (vh_vrings h)"
    and parts: "map worker_part (vh_handlers h1) = map worker_part (vh_handlers h)"
    by (simp_all add: shape_def)
  then have t: "t < length (vh_handlers h1)" using assms(4) by (metis length_map)
  have "worker_part v = worker_part (vh_handlers h ! t)"
    using parts t assms(4) unfolding v_def by (metis nth_map)
  then have v: "veh_vrings v = veh_vrings (vh_handlers h ! t)" "veh_exit_event_fd v = None"
    using assms(7) by (simp_all add: worker_part_def)
  have ring: "vr_kick (vh_vrings h1 ! ?i) = None" "vr_enabled (vh_vrings h1 ! ?i)"
    "\<not> q_ready (eq E) (vr_queue (vh_vrings h1 ! ?i))"
    using assms(2,3) i assms(1)
    by (auto simp: vh_get_vring_base_def get_vring_def modify_vring_def update_vring_registration_def replace_kick_def
        vring_defs effect_defs Let_def set_epoll_def map_epolls_def queue_law_def
        split: option.splits prod.splits sum.splits if_splits)
  have vr: "worker_vrings v h1 ! unat data = vh_vrings h1 ! ?i" "unat data < length (worker_vrings v h1)"
    using assms(5,6) v(1) by (simp_all add: worker_vrings_def)
  have "handle_event (event_worker E v known read) v data evset h1
      = (case d_handle_event (ed E) data evset (worker_vrings v h1) (veh_thread_id v) (vh_backend h1) of
           None \<Rightarrow> None
         | Some ((r, vs), d') \<Rightarrow>
             Some (case r of Inl e \<Rightarrow> Inl (HandleEventBackendHandling e) | Inr _ \<Rightarrow> Inr False,
                   h1\<lparr>vh_backend := d', vh_vrings := put_vrings (veh_vrings v) vs (vh_vrings h1)\<rparr>))"
    using ring vr v(2)
    by (simp add: handle_event_def handle_vring_event_def is_exit_event_def read_kick_def bindM_def readM_apply
        mapErrM_def thenM_def retM_def)
      (simp add: handler_worker_def split: option.split sum.split prod.split)
  with ring(3) vr(1) show ?thesis by simp
qed

lemma simple_get_vring_base:
  "vh_get_vring_base simple_env 1 (simple_handler [(7, 1)] True 0 [simple_ring False None True, simple_ring True (Some 7) True])
     = Some (Inr (VhostUserVringState_new 1 0), simple_handler [] True 0 [simple_ring False None True, simple_ring False None True])"
  by (simp add: vh_get_vring_base_def simple_defs effect_defs get_vring_def replace_kick_def
      modify_vring_def update_vring_registration_def vring_defs Let_def unregister_event_def
      queue_next_avail_def count_ones_def shr64_def upt_rec bit_numeral_rec)

text \<open>The worker that got the event in \<open>simple_threads\<close> handles it when the vring is stopped.\<close>

theorem stopped_vring_dispatched_witness:
  "let h = simple_handler [] True 0 [simple_ring False None True, simple_ring False None True]; v = vh_handlers h ! 0 in
   thread_reaches simple_env set (\<lambda>_. True)
     (threads_new (simple_handler [] False 0 [simple_ring False None False, simple_ring False None False]))
     (h, [Handling [(1, 1)]])
   \<and> worker_vrings v h ! 1 = simple_ring False None True
   \<and> handle_event (event_worker simple_env v (\<lambda>_. True) (\<lambda>_. Inr ())) v 1 1 h = Some (Inr False, h)"
proof -
  let ?h = "simple_handler [(7, 1)] True 0 [simple_ring False None True, simple_ring True (Some 7) True]"
  let ?g = "simple_handler [] True 0 [simple_ring False None True, simple_ring False None True]"
  let ?v = "vh_handlers ?g ! 0"
  have "device_step (handler_device simple_env) (quiet_kick (eq simple_env) set) ?h ?g"
    using simple_get_vring_base by (intro step_get_vring_base) simp
  then have "thread_reaches simple_env set (\<lambda>_. True)
      (threads_new (simple_handler [] False 0 [simple_ring False None False, simple_ring False None False]))
      (?g, [Handling [(1, 1)]])"
    by (rule threads_step [OF simple_threads request])
  moreover have hyps: "vr_enabled (vh_vrings ?h ! unat (1 :: u32))" "0 < length (vh_handlers ?h)"
    "unat (1 :: u16) < length (veh_vrings (vh_handlers ?h ! 0))" "veh_vrings (vh_handlers ?h ! 0) ! unat (1 :: u16) = unat (1 :: u32)"
    "veh_exit_event_fd (vh_handlers ?h ! 0) = None" "queue_law (eq simple_env)"
    by (simp_all add: simple_handler_def simple_ring_def)
  have "handle_event (event_worker simple_env ?v (\<lambda>_. True) (\<lambda>_. Inr ())) ?v 1 1 ?g
      = (case d_handle_event (ed simple_env) 1 1 (worker_vrings ?v ?g) (veh_thread_id ?v) (vh_backend ?g) of
           None \<Rightarrow> None
         | Some ((r, vs), d') \<Rightarrow>
             Some (case r of Inl e \<Rightarrow> Inl (HandleEventBackendHandling e) | Inr _ \<Rightarrow> Inr False,
                   ?g\<lparr>vh_backend := d', vh_vrings := put_vrings (veh_vrings ?v) vs (vh_vrings ?g)\<rparr>))"
    "worker_vrings ?v ?g ! 1 = vh_vrings ?g ! 1"
    using stopped_vring_dispatched [OF hyps(6) simple_get_vring_base hyps(1-5),
        of "\<lambda>_. True" "\<lambda>_. Inr ()" 1] by simp_all
  ultimately show ?thesis
    by (simp add: Let_def idle_device_ops_def returns_def worker_vrings_def simple_handler_def)
qed

end
