(* ===== verification/Ring_Lifecycle.thy ===== *)
theory Ring_Lifecycle
  imports Threads
begin

text \<open>
  When a ring is started. The vhost-user specification, quoted in
  \<open>vhost-user-backend/src/handler.rs\<close>, has a ring started upon receiving a kick on the descriptor of
  \<open>SET_VRING_KICK\<close>, and stopped upon \<open>GET_VRING_BASE\<close>. The code starts it earlier: it sets the queue
  ready as soon as the descriptor is given, and then waits for kicks. The abstract machine of this
  theory is the behaviour of the code, over two requests; the handler refines it under every
  interleaving of all requests with the events of the workers and with calls for listeners, and the
  machine says just this of a ring.
\<close>

subsection \<open>Refinement of a machine that is driven by requests\<close>

inductive labelled_run :: "('s \<Rightarrow> 'a \<Rightarrow> 's \<Rightarrow> bool) \<Rightarrow> 's \<Rightarrow> 'a list \<Rightarrow> 's \<Rightarrow> bool"
    for step :: "'s \<Rightarrow> 'a \<Rightarrow> 's \<Rightarrow> bool" and s0 :: 's where
  run_start: "labelled_run step s0 [] s0"
| run_step: "labelled_run step s0 as s \<Longrightarrow> step s a s' \<Longrightarrow> labelled_run step s0 (as @ [a]) s'"

locale machine_refinement =
  fixes step :: "'s \<Rightarrow> 'a \<Rightarrow> 's \<Rightarrow> bool" and spec :: "'a \<Rightarrow> 't \<Rightarrow> 't" and abs :: "'s \<Rightarrow> 't"
    and ok :: "'t \<Rightarrow> bool"
  assumes step_refines: "ok (abs s) \<Longrightarrow> step s a s' \<Longrightarrow> abs s' = spec a (abs s)"
    and spec_ok: "ok x \<Longrightarrow> ok (spec a x)"
begin

lemma run_refines:
  assumes "labelled_run step s0 as s" and "ok (abs s0)"
  shows "abs s = fold spec as (abs s0) \<and> ok (abs s)"
  using assms(1)
proof induction
  case run_start
  show ?case using assms(2) by simp
next
  case (run_step as s a s')
  with step_refines [of s a s'] spec_ok [of "abs s" a] show ?case by fastforce
qed

end

subsection \<open>The abstract machine\<close>

text \<open>Of each ring: its kick descriptor, and whether it is started.\<close>

datatype ring_request = SetVringKick nat "fd option" | GetVringBase nat | OtherStep

fun ring_spec :: "ring_request \<Rightarrow> (fd option \<times> bool) list \<Rightarrow> (fd option \<times> bool) list" where
  "ring_spec (SetVringKick i f) rings = rings[i := (f, snd (rings ! i) \<or> f \<noteq> None)]"
| "ring_spec (GetVringBase i) rings = rings[i := (None, False)]"
| "ring_spec OtherStep rings = rings"

definition rings_ok :: "(fd option \<times> bool) list \<Rightarrow> bool" where
  "rings_ok rings \<longleftrightarrow> (\<forall>(kick, started) \<in> set rings. kick \<noteq> None \<longrightarrow> started)"

lemma length_ring_spec [simp]: "length (ring_spec a rings) = length rings"
  by (cases a) simp_all

lemma length_fold_ring_spec [simp]: "length (fold ring_spec as rings) = length rings"
  by (induction as arbitrary: rings) simp_all

lemma ring_spec_ok: "rings_ok rings \<Longrightarrow> rings_ok (ring_spec a rings)"
  by (cases a) (auto simp: rings_ok_def dest!: subsetD [OF set_update_subset_insert])

lemma ring_spec_started:
  "i < length rings \<Longrightarrow> snd (ring_spec a rings ! i)
     \<longleftrightarrow> (\<exists>f. a = SetVringKick i (Some f)) \<or> (snd (rings ! i) \<and> a \<noteq> GetVringBase i)"
proof (cases a)
  case (SetVringKick j f)
  then show ?thesis if "i < length rings" using that by (cases "j = i") auto
next
  case (GetVringBase j)
  then show ?thesis if "i < length rings" using that by (cases "j = i") auto
qed simp

text \<open>A ring that was not started is started exactly by a kick descriptor with no stop after it.\<close>

lemma fold_ring_spec_started:
  assumes "i < length rings" and "\<not> snd (rings ! i)"
  shows "snd (fold ring_spec as rings ! i)
    \<longleftrightarrow> (\<exists>before f after. as = before @ SetVringKick i (Some f) # after \<and> GetVringBase i \<notin> set after)"
proof (induction as rule: rev_induct)
  case Nil
  show ?case using assms by simp
next
  case (snoc a as)
  let ?R = "fold ring_spec as rings"
  let ?P = "\<lambda>as. \<exists>before f after. as = before @ SetVringKick i (Some f) # after \<and> GetVringBase i \<notin> set after"
  have grow: "?P (as @ [a]) \<longleftrightarrow> (\<exists>f. a = SetVringKick i (Some f)) \<or> (?P as \<and> a \<noteq> GetVringBase i)"
  proof
    assume "?P (as @ [a])"
    then obtain before f after where s: "as @ [a] = before @ SetVringKick i (Some f) # after" "GetVringBase i \<notin> set after"
      by blast
    show "(\<exists>f. a = SetVringKick i (Some f)) \<or> (?P as \<and> a \<noteq> GetVringBase i)"
      using s by (cases after rule: rev_cases) auto
  next
    assume "(\<exists>f. a = SetVringKick i (Some f)) \<or> (?P as \<and> a \<noteq> GetVringBase i)"
    then show "?P (as @ [a])"
    proof (elim disjE exE conjE)
      fix f assume "a = SetVringKick i (Some f)"
      then show ?thesis by (intro exI [of _ as] exI [of _ f] exI [of _ "[]"]) simp
    next
      fix before f after
      assume "as = before @ SetVringKick i (Some f) # after" "GetVringBase i \<notin> set after" "a \<noteq> GetVringBase i"
      then show ?thesis by (intro exI [of _ before] exI [of _ f] exI [of _ "after @ [a]"]) auto
    qed
  qed
  have "snd (ring_spec a ?R ! i) \<longleftrightarrow> (\<exists>f. a = SetVringKick i (Some f)) \<or> (snd (?R ! i) \<and> a \<noteq> GetVringBase i)"
    using assms(1) by (intro ring_spec_started) simp
  with snoc grow show ?case by simp
qed

subsection \<open>The handler refines it\<close>

definition ring_state :: "('q, 'm, 'e) queue_ops \<Rightarrow> 'q VringState \<Rightarrow> fd option \<times> bool" where
  "ring_state Q v = (vr_kick v, q_ready Q (vr_queue v))"

definition ring_states :: "('d, 'p, 'm, 'r, 'q, 'e) handler_env \<Rightarrow> ('d, 'p, 'm, 'q) VhostUserHandler \<Rightarrow> (fd option \<times> bool) list" where
  "ring_states E h = map (ring_state (eq E)) (vh_vrings h)"

text \<open>The steps of the threads of a handler, with the two requests that the machine knows as labels.\<close>

definition other_requests :: "('d, 'p, 'm, 'r, 'q, 'e) handler_env \<Rightarrow> ('d, 'p, 'm, 'q) VhostUserHandler VhostUserBackendReqHandler" where
  "other_requests E = (handler_device E)\<lparr>be_set_vring_kick := \<lambda>_ _ _. None, be_get_vring_base := \<lambda>_ _. None\<rparr>"

inductive ring_step ::
    "('d, 'p, 'm, 'r, 'q, 'e) handler_env \<Rightarrow> ('d, 'p, 'm, 'q) VhostUserHandler \<Rightarrow> ring_request
     \<Rightarrow> ('d, 'p, 'm, 'q) VhostUserHandler \<Rightarrow> bool"
    for E :: "('d, 'p, 'm, 'r, 'q, 'e) handler_env" where
  kick_request: "vh_set_vring_kick E index f h = Some (r, h') \<Longrightarrow> ring_step E h (SetVringKick (unat index) f) h'"
| base_request: "vh_get_vring_base E index h = Some (r, h') \<Longrightarrow> ring_step E h (GetVringBase (unat index)) h'"
| other_request: "device_step (other_requests E) (\<lambda>_ _ _. True) h h' \<Longrightarrow> ring_step E h OtherStep h'"
| listener_call: "worker_register_listener E t lf ev_type data h = Some (x, h')
     \<or> worker_unregister_listener E t lf ev_type data h = Some (x, h') \<Longrightarrow> ring_step E h OtherStep h'"
| worker_event: "handle_event (event_worker E v known read) v ev evset h = Some (r, h') \<Longrightarrow> ring_step E h OtherStep h'"

lemma ring_states_update [simp]:
  "ring_states E (h\<lparr>vh_backend := x0\<rparr>) = ring_states E h"
  "ring_states E (h\<lparr>vh_owned := x1\<rparr>) = ring_states E h"
  "ring_states E (h\<lparr>vh_features_acked := x2\<rparr>) = ring_states E h"
  "ring_states E (h\<lparr>vh_acked_features := x3\<rparr>) = ring_states E h"
  "ring_states E (h\<lparr>vh_acked_protocol_features := x4\<rparr>) = ring_states E h"
  "ring_states E (h\<lparr>vh_mappings := x5\<rparr>) = ring_states E h"
  "ring_states E (h\<lparr>vh_atomic_mem := x6\<rparr>) = ring_states E h"
  "ring_states E (h\<lparr>vh_uffd := x7\<rparr>) = ring_states E h"
  "ring_states E (map_epolls g h) = ring_states E h"
  "ring_states E (set_epoll t p h) = ring_states E h"
  by (simp_all add: ring_states_def map_epolls_def set_epoll_def)

lemma ring_states_vring:
  "ring_states E (h\<lparr>vh_vrings := (vh_vrings h)[i := v]\<rparr>) = (ring_states E h)[i := ring_state (eq E) v]"
  by (simp add: ring_states_def map_update)

lemma ring_states_same:
  "ring_state (eq E) v = ring_state (eq E) (vh_vrings h ! i) \<Longrightarrow>
     ring_states E (h\<lparr>vh_vrings := (vh_vrings h)[i := v]\<rparr>) = ring_states E h"
  by (cases "i < length (vh_vrings h)")
    (simp_all add: ring_states_vring, simp_all add: ring_states_def list_update_same_conv list_update_beyond)

text \<open>The setters of a vring that leave its kick descriptor and its ready flag.\<close>

lemma ring_state_setters [simp]:
  assumes "queue_law Q"
  shows "ring_state Q (set_enabled b v) = ring_state Q v" "ring_state Q (set_call f v) = ring_state Q v"
    "ring_state Q (set_err f v) = ring_state Q v" "ring_state Q (set_queue_size Q n v) = ring_state Q v"
    "ring_state Q (set_queue_next_avail Q n v) = ring_state Q v" "ring_state Q (set_queue_next_used Q n v) = ring_state Q v"
    "ring_state Q (set_queue_event_idx Q b v) = ring_state Q v"
    "set_queue_info Q da av us v = (r, v') \<Longrightarrow> ring_state Q v' = ring_state Q v"
  using assms
  by (auto simp: ring_state_def vring_defs queue_law_def set_queue_info_def split: sum.splits)


text \<open>The operations that the requests are made of keep the kick descriptors and the ready flags.\<close>

lemma preserves_modify_ring:
  "(\<And>v. ring_state (eq E) (f v) = ring_state (eq E) v) \<Longrightarrow> preserves (\<lambda>h. ring_states E h = x) (modify_vring i f)"
  unfolding modify_vring_def by (intro preserves_modifyM) (simp add: ring_states_same)

lemma preserves_rings [preserve_intros]:
  "preserves (\<lambda>h. ring_states E h = x) (call_device c)"
  "preserves (\<lambda>h. ring_states E h = x) (get_vring i)"
  "preserves (\<lambda>h. ring_states E h = x) (update_vring_registration E i index)"
  by (auto simp: preserves_def call_device_def get_vring_def update_vring_registration_def Let_def
      split: option.splits prod.splits sum.splits if_splits)

lemma preserves_rings_info:
  assumes "queue_law (eq E)"
  shows "preserves (\<lambda>h. ring_states E h = x) (vh_set_queue_info E i da av us)"
  unfolding preserves_def vh_set_queue_info_def
  by (auto intro!: ring_states_same ring_state_setters(8) [OF assms] split: prod.splits)

lemma preserves_rings_composites [preserve_intros]:
  "preserves (\<lambda>h. ring_states E h = x) (on_device c err)"
  "preserves (\<lambda>h. ring_states E h = x) (va_to_gpa va)"
  "preserves (\<lambda>h. ring_states E h = x) (vh_check_feature vf)"
  unfolding on_device_def va_to_gpa_def vh_check_feature_def by (intro preserve_intros)+

lemma preserves_rings_memory [preserve_intros]: "preserves (\<lambda>h. ring_states E h = x) (replace_memory E mem f)"
  unfolding replace_memory_def by (intro preserve_intros preserves_modifyM; simp)

lemma preserves_rings_enable [preserve_intros]: "preserves (\<lambda>h. ring_states E h = x) (enable_all_vrings E b)"
  unfolding enable_all_vrings_def
  by (intro preserve_intros preserves_modify_ring) (simp add: ring_state_def set_enabled_def)


text \<open>
  A call descriptor starts no ring: a ring with a kick descriptor is started already, so that
  \<open>set_vring_call\<close> never finds a ring to initialise.
\<close>

lemma rings_okD:
  "rings_ok (ring_states E h) \<Longrightarrow> i < length (vh_vrings h) \<Longrightarrow> \<not> vring_needs_init (eq E) (vh_vrings h ! i)"
  by (force simp: rings_ok_def ring_states_def ring_state_def vring_needs_init_def)

lemma set_vring_call_rings:
  assumes "queue_law (eq E)" and "rings_ok (ring_states E h)" and "vh_set_vring_call E index f h = Some (r, h')"
  shows "ring_states E h' = ring_states E h"
proof -
  let ?i = "unat index"
  let ?h = "h\<lparr>vh_vrings := (vh_vrings h)[?i := set_call f (vh_vrings h ! ?i)]\<rparr>"
  have same: "ring_states E ?h = ring_states E h" using assms(1) by (intro ring_states_same) simp
  have "\<not> vring_needs_init (eq E) (vh_vrings ?h ! ?i)" if "?i < length (vh_vrings h)"
    using rings_okD [of E ?h ?i] assms(2) same that by simp
  then have "h' = ?h \<or> h' = h"
    using assms(3)
    by (auto simp: vh_set_vring_call_def get_vring_def modify_vring_def init_if_needed_def effect_defs split: if_splits)
  with same show ?thesis by auto
qed

text \<open>The two requests of the machine, whatever they return.\<close>

lemma rings_replace_kick:
  assumes "replace_kick E i f h = Some (r, h')"
  shows "ring_states E h' = (ring_states E h)[i := (f, q_ready (eq E) (vr_queue (vh_vrings h ! i)))]"
    and "vr_queue (vh_vrings h' ! i) = vr_queue (vh_vrings h ! i)"
    and "length (vh_vrings h') = length (vh_vrings h)"
    and "i < length (vh_vrings h) \<Longrightarrow> vr_kick (vh_vrings h' ! i) = f"
  using assms
  by (cases "i < length (vh_vrings h)";
      auto simp: replace_kick_def modifyM_def ring_states_def ring_state_def set_kick_def map_update list_update_beyond
        split: option.splits)+

lemma rings_initialize:
  assumes "queue_law (eq E)" and "initialize_vring E i index h = Some (r, h')"
  shows "ring_states E h' = (ring_states E h)[i := (vr_kick (vh_vrings h ! i), True)]"
proof -
  let ?h = "h\<lparr>vh_vrings := (vh_vrings h)[i := set_queue_ready (eq E) True (vh_vrings h ! i)]\<rparr>"
  have "update_vring_registration E i index ?h = Some (r, h')"
    using assms(2) by (simp add: initialize_vring_def thenM_def bindM_def modify_vring_def modifyM_def)
  from preservesD [OF preserves_rings(3) refl this]
  show ?thesis using assms(1) by (simp add: ring_states_vring ring_state_def set_queue_ready_def queue_law_def)
qed

lemma set_vring_kick_rings:
  assumes "queue_law (eq E)" and "vh_set_vring_kick E index f h = Some (r, h')"
  shows "ring_states E h' = ring_spec (SetVringKick (unat index) f) (ring_states E h)"
proof (cases "unat index < length (vh_vrings h)")
  case False
  then show ?thesis
    using assms(2) by (auto simp: vh_set_vring_kick_def get_vring_def effect_defs ring_states_def list_update_beyond)
next
  case True
  let ?i = "unat index"
  from True assms(2) obtain h1 where h1: "replace_kick E ?i f h = Some (Inr (), h1)"
    and init: "init_if_needed E index h1 = Some (r, h')"
    by (auto simp: vh_set_vring_kick_def get_vring_def thenM_def bindM_def replace_kick_def modifyM_def)
  note kick = rings_replace_kick [OF h1]
  show ?thesis
  proof (cases "vring_needs_init (eq E) (vh_vrings h1 ! ?i)")
    case needs: True
    then have "initialize_vring E ?i index h1 = Some (r, h')"
      using init by (simp add: init_if_needed_def bindM_def readM_apply)
    from rings_initialize [OF assms(1) this] show ?thesis
      using needs kick True by (simp add: vring_needs_init_def)
  next
    case False
    then have "h' = h1" using init by (simp add: init_if_needed_def bindM_def readM_apply retM_def)
    then show ?thesis
      using False kick True by (auto simp: vring_needs_init_def ring_states_def ring_state_def)
  qed
qed

lemma get_vring_base_rings:
  assumes "queue_law (eq E)" and "vh_get_vring_base E index h = Some (r, h')"
  shows "ring_states E h' = ring_spec (GetVringBase (unat index)) (ring_states E h)"
proof (cases "unat index < length (vh_vrings h)")
  case False
  then show ?thesis
    using assms(2) by (auto simp: vh_get_vring_base_def get_vring_def effect_defs Let_def ring_states_def list_update_beyond)
next
  case True
  let ?i = "unat index"
  let ?h = "h\<lparr>vh_vrings := (vh_vrings h)[?i := set_queue_ready (eq E) False (vh_vrings h ! ?i)]\<rparr>"
  have "\<exists>p. update_vring_registration E ?i (ucast index) ?h = Some (Inr (), p)"
    using True assms(1)
    by (auto simp: update_vring_registration_def Let_def set_queue_ready_def queue_law_def split: option.splits prod.splits)
  then obtain h1 where h1: "update_vring_registration E ?i (ucast index) ?h = Some (Inr (), h1)" by blast
  from preservesD [OF preserves_rings(3) refl h1]
  have rings: "ring_states E h1 = (ring_states E h)[?i := (vr_kick (vh_vrings h ! ?i), False)]"
    using assms(1) by (simp add: ring_states_vring ring_state_def set_queue_ready_def queue_law_def)
  have "\<exists>h2. replace_kick E ?i None h1 = Some (Inr (), h2)" by (simp add: replace_kick_def modifyM_def)
  then obtain h2 where h2: "replace_kick E ?i None h1 = Some (Inr (), h2)" by blast
  have len: "?i < length (vh_vrings h1)"
    using rings True by (metis length_list_update length_map ring_states_def)
  have "snd (ring_states E h1 ! ?i) = False" using rings True by (simp add: ring_states_def)
  then have off: "\<not> q_ready (eq E) (vr_queue (vh_vrings h1 ! ?i))"
    using len by (simp add: ring_states_def ring_state_def)
  have "h' = h2\<lparr>vh_vrings := (vh_vrings h2)[?i := set_call None (vh_vrings h2 ! ?i)]\<rparr>"
    using assms(2) True h1 h2
    by (simp add: vh_get_vring_base_def get_vring_def Let_def thenM_def bindM_def readM_apply retM_def modify_vring_def modifyM_def)
  then have "ring_states E h' = ring_states E h2" using assms(1) by (simp add: ring_states_same)
  then show ?thesis using rings_replace_kick(1) [OF h2] rings off by simp
qed

text \<open>Every other request keeps the rings.\<close>

lemma preserves_rings_vring_ops:
  assumes "queue_law (eq E)"
  shows "preserves (\<lambda>h. ring_states E h = x) (vh_set_vring_num E index num)"
    and "preserves (\<lambda>h. ring_states E h = x) (vh_set_vring_base E index base)"
    and "preserves (\<lambda>h. ring_states E h = x) (vh_set_vring_err k fo)"
    and "preserves (\<lambda>h. ring_states E h = x) (vh_set_vring_enable E index b)"
    and "preserves (\<lambda>h. ring_states E h = x) (vh_set_vring_addr E index flags d u a l)"
    and "preserves (\<lambda>h. ring_states E h = x) (vh_set_features E feats)"
proof -
  note info = preserves_rings_info [OF assms]
  have [simp]: "ring_states E (h\<lparr>vh_vrings := map (set_queue_event_idx (eq E) b) (vh_vrings h)\<rparr>) = ring_states E h" for b h
    using assms by (simp add: ring_states_def comp_def)
  show "preserves (\<lambda>h. ring_states E h = x) (vh_set_vring_num E index num)"
    "preserves (\<lambda>h. ring_states E h = x) (vh_set_vring_base E index base)"
    "preserves (\<lambda>h. ring_states E h = x) (vh_set_vring_err k fo)"
    "preserves (\<lambda>h. ring_states E h = x) (vh_set_vring_enable E index b)"
    "preserves (\<lambda>h. ring_states E h = x) (vh_set_vring_addr E index flags d u a l)"
    "preserves (\<lambda>h. ring_states E h = x) (vh_set_features E feats)"
    unfolding vh_op_defs Let_def
    by (intro preserve_intros preserves_modify_ring info preserves_modifyM; simp add: assms)+
qed

lemma other_request_rings:
  assumes "queue_law (eq E)" and "rings_ok (ring_states E h)" and "device_step (other_requests E) fresh h h'"
  shows "ring_states E h' = ring_states E h"
  using assms(3)
proof cases
  case (step_set_vring_call x fo r)
  then show ?thesis using set_vring_call_rings [OF assms(1,2)] by (simp add: other_requests_def)
next
  case (step_set_backend_req_fd f x)
  then show ?thesis by (auto simp: other_requests_def vh_set_backend_req_fd_def Let_def split: option.splits)
qed (simp_all add: other_requests_def,
  (erule preservesD [where P = "\<lambda>s. ring_states E s = ring_states E h", rotated 2],
   (rule preserves_rings_vring_ops [OF assms(1)]
    | (unfold vh_op_defs Let_def, (intro preserve_intros preserves_modifyM; simp))[1]), rule refl)+)

subsection \<open>The refinement\<close>

text \<open>
  What the queues and the device have to respect; a new queue is not ready
  (\<open>virtio_queue::Queue::new\<close>).
\<close>

definition ring_laws :: "('d, 'p, 'm, 'r, 'q, 'e) handler_env \<Rightarrow> bool" where
  "ring_laws E \<longleftrightarrow> queue_law (eq E) \<and> device_law (ed E) (eq E)
     \<and> (\<forall>n q. q_new (eq E) n = Inr q \<longrightarrow> \<not> q_ready (eq E) q)"

lemma ring_step_refines:
  assumes "ring_laws E" and "rings_ok (ring_states E h)" and "ring_step E h a h'"
  shows "ring_states E h' = ring_spec a (ring_states E h)"
  using assms(3)
proof cases
  case (kick_request index f r)
  then show ?thesis using set_vring_kick_rings assms(1) by (metis ring_laws_def)
next
  case (base_request index r)
  then show ?thesis using get_vring_base_rings assms(1) by (metis ring_laws_def)
next
  case other_request
  then show ?thesis using other_request_rings assms(1,2) by (metis ring_laws_def ring_spec.simps(3))
next
  case (listener_call t f ev_type data r)
  then have "ring_states E h' = ring_states E h"
    by (auto simp: worker_register_listener_def worker_unregister_listener_def at_worker_def split: option.splits prod.splits)
  with listener_call(1) show ?thesis by simp
next
  case (worker_event v known read ev evset r)
  then have "map (ring_control (eq E)) (vh_vrings h') = map (ring_control (eq E)) (vh_vrings h)"
    using handle_event_keeps assms(1) by (metis ring_laws_def)
  then have "map ((\<lambda>(k, en, rd). (k, rd)) \<circ> ring_control (eq E)) (vh_vrings h')
      = map ((\<lambda>(k, en, rd). (k, rd)) \<circ> ring_control (eq E)) (vh_vrings h)"
    by (metis map_map)
  moreover have "(\<lambda>(k, en, rd). (k, rd)) \<circ> ring_control (eq E) = ring_state (eq E)"
    by (auto simp: ring_state_def ring_control_def)
  ultimately show ?thesis using worker_event(1) by (simp add: ring_states_def)
qed

interpretation handler_rings: machine_refinement "\<lambda>h a h'. ring_laws E \<and> ring_step E h a h'" ring_spec "ring_states E" rings_ok for E
  by unfold_locales (auto intro: ring_step_refines ring_spec_ok)

lemma labelled_run_mono:
  "labelled_run step s0 as s \<Longrightarrow> (\<And>s a s'. step s a s' \<Longrightarrow> step' s a s') \<Longrightarrow> labelled_run step' s0 as s"
  by (induction rule: labelled_run.induct) (auto intro: labelled_run.intros)

text \<open>A run of the threads is a run of the machine.\<close>

lemma request_is_ring_step:
  assumes "device_step (handler_device E) fresh h h'"
  shows "\<exists>a. ring_step E h a h'"
  using assms
proof cases
  case (step_get_vring_base i r)
  then show ?thesis by (auto intro: base_request)
next
  case (step_set_vring_kick fo x r)
  then show ?thesis by (auto intro: kick_request)
qed (intro exI [of _ OtherStep] other_request, rule device_step.intros, simp add: other_requests_def)+

lemma threads_are_rings:
  assumes "thread_reaches E interest known s0 s"
  shows "\<exists>as. labelled_run (ring_step E) (fst s0) as (fst s)"
  using assms
proof induction
  case threads_start
  show ?case by (rule exI) (rule run_start)
next
  case (threads_step s s')
  from threads_step.hyps(2) have "fst s' = fst s \<or> (\<exists>a. ring_step E (fst s) a (fst s'))"
    by cases (auto dest: request_is_ring_step intro: worker_event listener_call)
  with threads_step.IH show ?case using run_step by metis
qed

lemma new_rings:
  assumes "ring_laws E" and "vh_new E spawn mem d = Some (Inr h0)" and "v \<in> set (vh_vrings h0)"
  shows "ring_state (eq E) v = (None, False)"
proof -
  have "\<forall>v \<in> set vs. ring_state (eq E) v = (None, False)" if "new_vrings (eq E) sz n = Inr vs" for sz n vs
    using that assms(1)
    by (induction n arbitrary: vs) (auto simp: vring_new_def ring_state_def ring_laws_def split: sum.splits)
  with assms(2,3) show ?thesis
    by (auto simp: vh_new_def callM_def readM_apply failM_apply split: option.splits prod.splits sum.splits
        elim!: bindM_InrE)
qed



end
