(* ===== verification/Vhost_Backend.thy ===== *)
theory Vhost_Backend
  imports Message Locks
begin

text \<open>
  The data and the interface that the kernel and the vhost-user backends share,
  \<open>vhost/src/backend.rs\<close>: the parameter structures, the IOTLB messages and the trait
  \<open>VhostBackend\<close> as a dictionary. The contract of memory tables that both backends keep is the
  locale \<open>vhost_backend\<close>, interpreted in the theories of the two backends. The implementations of
  the trait for \<open>RwLock\<close> and \<open>RefCell\<close> keep it (\<open>wrapped_backend\<close>).
\<close>

subsection \<open>Parameters of the operations\<close>

record VringConfigData =
  vc_queue_max_size :: u16
  vc_queue_size :: u16
  vc_flags :: u32
  vc_desc_table_addr :: u64
  vc_used_ring_addr :: u64
  vc_avail_ring_addr :: u64
  vc_log_addr :: "u64 option"

definition is_log_addr_valid :: "VringConfigData \<Rightarrow> bool" where
  "is_log_addr_valid c = (if vc_flags c AND 0x1 \<noteq> 0 \<and> vc_log_addr c = None then False else True)"

definition get_log_addr :: "VringConfigData \<Rightarrow> u64" where
  "get_log_addr c =
     (if vc_flags c AND 0x1 \<noteq> 0 then (case vc_log_addr c of None \<Rightarrow> 0 | Some a \<Rightarrow> a) else 0)"

definition from_config_data :: "u32 \<Rightarrow> VringConfigData \<Rightarrow> VhostUserVringAddr" where
  "from_config_data index c =
     (let log_addr = (case vc_log_addr c of None \<Rightarrow> 0 | Some a \<Rightarrow> a) in
      \<lparr>va_index = index, va_flags = vc_flags c, va_descriptor = vc_desc_table_addr c,
       va_used = vc_used_ring_addr c, va_available = vc_avail_ring_addr c, va_log = log_addr\<rparr>)"

record VhostUserMemoryRegionInfo =
  ri_guest_phys_addr :: u64
  ri_memory_size :: u64
  ri_userspace_addr :: u64
  ri_mmap_offset :: u64
  ri_mmap_handle :: fd

definition to_region :: "VhostUserMemoryRegionInfo \<Rightarrow> VhostUserMemoryRegion" where
  "to_region i = VhostUserMemoryRegion_new (ri_guest_phys_addr i) (ri_memory_size i)
     (ri_userspace_addr i) (ri_mmap_offset i)"

definition to_single_region :: "VhostUserMemoryRegionInfo \<Rightarrow> VhostUserSingleMemoryRegion" where
  "to_single_region i = VhostUserSingleMemoryRegion_new (ri_guest_phys_addr i) (ri_memory_size i)
     (ri_userspace_addr i) (ri_mmap_offset i)"

record VhostUserDirtyLogRegion =
  dl_mmap_size :: u64
  dl_mmap_offset :: u64
  dl_mmap_handle :: fd

text \<open>
  A guest memory region as \<open>vm-memory\<close> reports it: start, length, host address and, when it is
  backed by a file, the offset and the descriptor.
\<close>

record guest_region =
  gr_start_addr :: u64
  gr_len :: u64
  gr_ptr :: u64
  gr_file_offset :: "(u64 \<times> fd) option"

definition from_guest_region :: "guest_region \<Rightarrow> VhostError + VhostUserMemoryRegionInfo" where
  "from_guest_region region =
     (case gr_file_offset region of
        None \<Rightarrow> Inl InvalidGuestMemoryRegion
      | Some (start, f) \<Rightarrow> Inr
          \<lparr>ri_guest_phys_addr = gr_start_addr region, ri_memory_size = gr_len region,
           ri_userspace_addr = gr_ptr region, ri_mmap_offset = start, ri_mmap_handle = f\<rparr>)"

definition VHOST_MAX_MEMORY_REGIONS :: nat where "VHOST_MAX_MEMORY_REGIONS = 255"

subsection \<open>IOTLB messages\<close>

datatype VhostAccess = AccessNo | AccessReadOnly | AccessWriteOnly | AccessReadWrite

fun VhostAccess_into :: "VhostAccess \<Rightarrow> u8" where
  "VhostAccess_into AccessNo = 0"
| "VhostAccess_into AccessReadOnly = 1"
| "VhostAccess_into AccessWriteOnly = 2"
| "VhostAccess_into AccessReadWrite = 3"

datatype VhostIotlbType =
    IotlbEmpty | IotlbMiss | IotlbUpdate | IotlbInvalidate | IotlbAccessFail | IotlbBatchBegin | IotlbBatchEnd

fun VhostIotlbType_into :: "VhostIotlbType \<Rightarrow> u8" where
  "VhostIotlbType_into IotlbEmpty = 0"
| "VhostIotlbType_into IotlbMiss = 1"
| "VhostIotlbType_into IotlbUpdate = 2"
| "VhostIotlbType_into IotlbInvalidate = 3"
| "VhostIotlbType_into IotlbAccessFail = 4"
| "VhostIotlbType_into IotlbBatchBegin = 5"
| "VhostIotlbType_into IotlbBatchEnd = 6"

text \<open>Both enums derive \<open>Ord\<close>: they are ordered by their discriminants.\<close>

lemma inj_VhostAccess_into: "VhostAccess_into a = VhostAccess_into b \<longleftrightarrow> a = b"
  by (cases a; cases b) simp_all

lemma inj_VhostIotlbType_into: "VhostIotlbType_into a = VhostIotlbType_into b \<longleftrightarrow> a = b"
  by (cases a; cases b) simp_all

instantiation VhostAccess :: linorder
begin

definition less_eq_VhostAccess :: "VhostAccess \<Rightarrow> VhostAccess \<Rightarrow> bool" where
  "a \<le> b \<longleftrightarrow> VhostAccess_into a \<le> VhostAccess_into b"

definition less_VhostAccess :: "VhostAccess \<Rightarrow> VhostAccess \<Rightarrow> bool" where
  "a < b \<longleftrightarrow> VhostAccess_into a < VhostAccess_into b"

instance
  by standard (auto simp: less_eq_VhostAccess_def less_VhostAccess_def inj_VhostAccess_into [symmetric])

end

instantiation VhostIotlbType :: linorder
begin

definition less_eq_VhostIotlbType :: "VhostIotlbType \<Rightarrow> VhostIotlbType \<Rightarrow> bool" where
  "a \<le> b \<longleftrightarrow> VhostIotlbType_into a \<le> VhostIotlbType_into b"

definition less_VhostIotlbType :: "VhostIotlbType \<Rightarrow> VhostIotlbType \<Rightarrow> bool" where
  "a < b \<longleftrightarrow> VhostIotlbType_into a < VhostIotlbType_into b"

instance
  by standard (auto simp: less_eq_VhostIotlbType_def less_VhostIotlbType_def inj_VhostIotlbType_into [symmetric])

end

record VhostIotlbMsg =
  iotlb_iova :: u64
  iotlb_size :: u64
  iotlb_userspace_addr :: u64
  iotlb_perm :: VhostAccess
  iotlb_msg_type :: VhostIotlbType

definition VhostIotlbMsg_default :: VhostIotlbMsg where
  "VhostIotlbMsg_default =
     \<lparr>iotlb_iova = 0, iotlb_size = 0, iotlb_userspace_addr = 0, iotlb_perm = AccessNo,
      iotlb_msg_type = IotlbEmpty\<rparr>"

subsection \<open>The trait VhostBackend\<close>

record 'b VhostBackend =
  vb_get_features :: "('b, VhostError, u64) M"
  vb_set_features :: "u64 \<Rightarrow> ('b, VhostError, unit) M"
  vb_set_owner :: "('b, VhostError, unit) M"
  vb_reset_owner :: "('b, VhostError, unit) M"
  vb_set_mem_table :: "VhostUserMemoryRegionInfo list \<Rightarrow> ('b, VhostError, unit) M"
  vb_set_log_base :: "u64 \<Rightarrow> VhostUserDirtyLogRegion option \<Rightarrow> ('b, VhostError, unit) M"
  vb_set_log_fd :: "fd \<Rightarrow> ('b, VhostError, unit) M"
  vb_set_vring_num :: "u64 \<Rightarrow> u16 \<Rightarrow> ('b, VhostError, unit) M"
  vb_set_vring_addr :: "u64 \<Rightarrow> VringConfigData \<Rightarrow> ('b, VhostError, unit) M"
  vb_set_vring_base :: "u64 \<Rightarrow> u16 \<Rightarrow> ('b, VhostError, unit) M"
  vb_get_vring_base :: "u64 \<Rightarrow> ('b, VhostError, u32) M"
  vb_set_vring_call :: "u64 \<Rightarrow> fd \<Rightarrow> ('b, VhostError, unit) M"
  vb_set_vring_kick :: "u64 \<Rightarrow> fd \<Rightarrow> ('b, VhostError, unit) M"
  vb_set_vring_err :: "u64 \<Rightarrow> fd \<Rightarrow> ('b, VhostError, unit) M"

text \<open>
  What a user of the interface relies on for memory tables: one that is empty or has more than
  \<open>max_regions\<close> regions is refused before the backend is asked.
\<close>

locale vhost_backend =
  fixes B :: "'b VhostBackend" and max_regions :: nat
  assumes bad_table_refused:
    "regions = [] \<or> length regions > max_regions \<Longrightarrow> \<exists>e. vb_set_mem_table B regions s = Some (Inl e, s)"
begin

lemma accepted_table_size:
  assumes "vb_set_mem_table B regions s = Some (Inr (), s')"
  shows "1 \<le> length regions \<and> length regions \<le> max_regions"
proof (rule ccontr)
  assume "\<not> (1 \<le> length regions \<and> length regions \<le> max_regions)"
  then have "regions = [] \<or> length regions > max_regions" by (auto simp: Suc_le_eq)
  from bad_table_refused [OF this, of s] assms show False by simp
qed

end

subsection \<open>The trait for RwLock and RefCell\<close>

text \<open>Every method has \<open>&mut self\<close>, so a lock is always taken for writing.\<close>

definition rwlock_backend :: "'b VhostBackend \<Rightarrow> 'b RwLock VhostBackend" where
  "rwlock_backend B =
     \<lparr>vb_get_features = write_unwrap (vb_get_features B),
      vb_set_features = (\<lambda>x. write_unwrap (vb_set_features B x)),
      vb_set_owner = write_unwrap (vb_set_owner B),
      vb_reset_owner = write_unwrap (vb_reset_owner B),
      vb_set_mem_table = (\<lambda>x. write_unwrap (vb_set_mem_table B x)),
      vb_set_log_base = (\<lambda>x y. write_unwrap (vb_set_log_base B x y)),
      vb_set_log_fd = (\<lambda>x. write_unwrap (vb_set_log_fd B x)),
      vb_set_vring_num = (\<lambda>x y. write_unwrap (vb_set_vring_num B x y)),
      vb_set_vring_addr = (\<lambda>x y. write_unwrap (vb_set_vring_addr B x y)),
      vb_set_vring_base = (\<lambda>x y. write_unwrap (vb_set_vring_base B x y)),
      vb_get_vring_base = (\<lambda>x. write_unwrap (vb_get_vring_base B x)),
      vb_set_vring_call = (\<lambda>x y. write_unwrap (vb_set_vring_call B x y)),
      vb_set_vring_kick = (\<lambda>x y. write_unwrap (vb_set_vring_kick B x y)),
      vb_set_vring_err = (\<lambda>x y. write_unwrap (vb_set_vring_err B x y))\<rparr>"

definition refcell_backend :: "'b VhostBackend \<Rightarrow> 'b RefCell VhostBackend" where
  "refcell_backend B =
     \<lparr>vb_get_features = borrow_mut (vb_get_features B),
      vb_set_features = (\<lambda>x. borrow_mut (vb_set_features B x)),
      vb_set_owner = borrow_mut (vb_set_owner B),
      vb_reset_owner = borrow_mut (vb_reset_owner B),
      vb_set_mem_table = (\<lambda>x. borrow_mut (vb_set_mem_table B x)),
      vb_set_log_base = (\<lambda>x y. borrow_mut (vb_set_log_base B x y)),
      vb_set_log_fd = (\<lambda>x. borrow_mut (vb_set_log_fd B x)),
      vb_set_vring_num = (\<lambda>x y. borrow_mut (vb_set_vring_num B x y)),
      vb_set_vring_addr = (\<lambda>x y. borrow_mut (vb_set_vring_addr B x y)),
      vb_set_vring_base = (\<lambda>x y. borrow_mut (vb_set_vring_base B x y)),
      vb_get_vring_base = (\<lambda>x. borrow_mut (vb_get_vring_base B x)),
      vb_set_vring_call = (\<lambda>x y. borrow_mut (vb_set_vring_call B x y)),
      vb_set_vring_kick = (\<lambda>x y. borrow_mut (vb_set_vring_kick B x y)),
      vb_set_vring_err = (\<lambda>x y. borrow_mut (vb_set_vring_err B x y))\<rparr>"

locale transparent_backend =
  fixes g :: "'b \<Rightarrow> 'c" and B :: "'b VhostBackend" and B' :: "'c VhostBackend"
  assumes lift_vb_get_features: "lifts g (vb_get_features B) (vb_get_features B')"
    and lift_vb_set_features: "\<And>x. lifts g (vb_set_features B x) (vb_set_features B' x)"
    and lift_vb_set_owner: "lifts g (vb_set_owner B) (vb_set_owner B')"
    and lift_vb_reset_owner: "lifts g (vb_reset_owner B) (vb_reset_owner B')"
    and lift_vb_set_mem_table: "\<And>x. lifts g (vb_set_mem_table B x) (vb_set_mem_table B' x)"
    and lift_vb_set_log_base: "\<And>x y. lifts g (vb_set_log_base B x y) (vb_set_log_base B' x y)"
    and lift_vb_set_log_fd: "\<And>x. lifts g (vb_set_log_fd B x) (vb_set_log_fd B' x)"
    and lift_vb_set_vring_num: "\<And>x y. lifts g (vb_set_vring_num B x y) (vb_set_vring_num B' x y)"
    and lift_vb_set_vring_addr: "\<And>x y. lifts g (vb_set_vring_addr B x y) (vb_set_vring_addr B' x y)"
    and lift_vb_set_vring_base: "\<And>x y. lifts g (vb_set_vring_base B x y) (vb_set_vring_base B' x y)"
    and lift_vb_get_vring_base: "\<And>x. lifts g (vb_get_vring_base B x) (vb_get_vring_base B' x)"
    and lift_vb_set_vring_call: "\<And>x y. lifts g (vb_set_vring_call B x y) (vb_set_vring_call B' x y)"
    and lift_vb_set_vring_kick: "\<And>x y. lifts g (vb_set_vring_kick B x y) (vb_set_vring_kick B' x y)"
    and lift_vb_set_vring_err: "\<And>x y. lifts g (vb_set_vring_err B x y) (vb_set_vring_err B' x y)"

interpretation rwlock_vb: transparent_backend rwlock_new B "rwlock_backend B" for B
  by unfold_locales (simp_all add: rwlock_backend_def lift_intros)

interpretation refcell_vb: transparent_backend refcell_new B "refcell_backend B" for B
  by unfold_locales (simp_all add: refcell_backend_def lift_intros)

text \<open>The contract of memory tables, for a backend that is wrapped.\<close>

locale wrapped_backend = vhost_backend B max_regions + transparent_backend g B B'
  for B :: "'b VhostBackend" and max_regions :: nat and g :: "'b \<Rightarrow> 'c" and B' :: "'c VhostBackend"
begin

lemma wrapped_table_size:
  assumes "vb_set_mem_table B' regions (g s) = Some (Inr (), t)"
  shows "1 \<le> length regions \<and> length regions \<le> max_regions"
  using assms liftsD [OF lift_vb_set_mem_table, of regions s] accepted_table_size
  by (auto split: option.splits)

end

end
