(* ===== verification/Xen.thy ===== *)
theory Xen
  imports Vhost_Backend Backend_Req_Handler
begin

text \<open>
  The build for Xen (\<open>cfg(feature = "xen")\<close>): a memory region carries the flags and the data of the Xen
  mapping (\<open>vhost/src/vhost_user/message.rs\<close>, \<open>vhost/src/backend.rs\<close>), and the protocol feature
  \<open>XEN_MMAP\<close> is offered and asked for by the request server
  (\<open>vhost/src/vhost_user/backend_req_handler.rs\<close>). The other theories model the build without it.
\<close>

subsection \<open>Memory regions\<close>

record XenMemoryRegion = VhostUserMemoryRegion +
  xen_mmap_flags :: u32
  xen_mmap_data :: u32

definition with_xen :: "u64 \<Rightarrow> u64 \<Rightarrow> u64 \<Rightarrow> u64 \<Rightarrow> u32 \<Rightarrow> u32 \<Rightarrow> XenMemoryRegion" where
  "with_xen gpa sz ua off fl dat =
     \<lparr>guest_phys_addr = gpa, memory_size = sz, user_addr = ua, mmap_offset = off,
      xen_mmap_flags = fl, xen_mmap_data = dat\<rparr>"

text \<open>
  What \<open>vm-memory\<close> provides: the flag set \<open>MmapXenFlags\<close> with its two checks, and the mapping of a range
  given by its size, file and offset, guest address, flags and data.
\<close>

record ('f, 'r) xen_ops =
  xen_from_bits :: "u32 \<Rightarrow> 'f option"
  xen_flags_is_valid :: "'f \<Rightarrow> bool"
  xen_from_range :: "u64 \<Rightarrow> fd \<times> u64 \<Rightarrow> u64 \<Rightarrow> u32 \<Rightarrow> u32 \<Rightarrow> 'r option"

definition xen_mmap_region :: "('f, 'r) xen_ops \<Rightarrow> XenMemoryRegion \<Rightarrow> fd \<Rightarrow> Error + 'r" where
  "xen_mmap_region X r f =
     (case xen_from_range X (memory_size r) (f, mmap_offset r) (guest_phys_addr r) (xen_mmap_flags r) (xen_mmap_data r) of
        None \<Rightarrow> Inl (ReqHandlerError (CustomIo OtherKind))
      | Some region \<Rightarrow> Inr region)"

definition xen_is_valid :: "('f, 'r) xen_ops \<Rightarrow> XenMemoryRegion \<Rightarrow> bool" where
  "xen_is_valid X r =
     (if \<not> is_valid_common (VhostUserMemoryRegion.truncate r) then False
      else (case xen_from_bits X (xen_mmap_flags r) of
              Some flags \<Rightarrow> xen_flags_is_valid X flags
            | None \<Rightarrow> False))"

definition XenMemoryRegion_T :: "('f, 'r) xen_ops \<Rightarrow> XenMemoryRegion msg_type" where
  "XenMemoryRegion_T X =
     \<lparr>size_of = 40,
      as_slice = (\<lambda>r. as_slice VhostUserMemoryRegion_T (VhostUserMemoryRegion.truncate r)
                      @ le_bytes 4 (xen_mmap_flags r) @ le_bytes 4 (xen_mmap_data r)),
      from_slice = (\<lambda>bs. with_xen (of_le_bytes (slice 0 8 bs)) (of_le_bytes (slice 8 8 bs))
                          (of_le_bytes (slice 16 8 bs)) (of_le_bytes (slice 24 8 bs))
                          (of_le_bytes (slice 32 4 bs)) (of_le_bytes (slice 36 4 bs))),
      is_valid = xen_is_valid X\<rparr>"

record XenSingleMemoryRegion =
  xsmr_padding :: u64
  xsmr_region :: XenMemoryRegion

definition XenSingleMemoryRegion_new :: "u64 \<Rightarrow> u64 \<Rightarrow> u64 \<Rightarrow> u64 \<Rightarrow> u32 \<Rightarrow> u32 \<Rightarrow> XenSingleMemoryRegion" where
  "XenSingleMemoryRegion_new gpa sz ua off fl dat =
     \<lparr>xsmr_padding = 0, xsmr_region = with_xen gpa sz ua off fl dat\<rparr>"

text \<open>The region as the frontend has it, and the messages made from it.\<close>

record XenMemoryRegionInfo = VhostUserMemoryRegionInfo +
  ri_xen_mmap_flags :: u32
  ri_xen_mmap_data :: u32

record xen_guest_region = guest_region +
  gr_xen_mmap_flags :: u32
  gr_xen_mmap_data :: u32

definition xen_from_guest_region :: "xen_guest_region \<Rightarrow> VhostError + XenMemoryRegionInfo" where
  "xen_from_guest_region region =
     (case gr_file_offset region of
        None \<Rightarrow> Inl InvalidGuestMemoryRegion
      | Some (start, f) \<Rightarrow> Inr
          \<lparr>ri_guest_phys_addr = gr_start_addr region, ri_memory_size = gr_len region,
           ri_userspace_addr = gr_ptr region, ri_mmap_offset = start, ri_mmap_handle = f,
           ri_xen_mmap_flags = gr_xen_mmap_flags region, ri_xen_mmap_data = gr_xen_mmap_data region\<rparr>)"

definition xen_to_region :: "XenMemoryRegionInfo \<Rightarrow> XenMemoryRegion" where
  "xen_to_region i = with_xen (ri_guest_phys_addr i) (ri_memory_size i) (ri_userspace_addr i)
     (ri_mmap_offset i) (ri_xen_mmap_flags i) (ri_xen_mmap_data i)"

definition xen_to_single_region :: "XenMemoryRegionInfo \<Rightarrow> XenSingleMemoryRegion" where
  "xen_to_single_region i = XenSingleMemoryRegion_new (ri_guest_phys_addr i) (ri_memory_size i)
     (ri_userspace_addr i) (ri_mmap_offset i) (ri_xen_mmap_flags i) (ri_xen_mmap_data i)"

subsection \<open>The two requests of the protocol features\<close>

definition xen_handle_GET_PROTOCOL_FEATURES ::
    "'b VhostUserBackendReqHandler \<Rightarrow> 's sock_ops \<Rightarrow> VhostUserMsgHeader \<Rightarrow> nat \<Rightarrow> u8 list \<Rightarrow> ('s, 'b, unit) brh" where
  "xen_handle_GET_PROTOCOL_FEATURES B so hdr sz buf =
     thenM (liftR (check_request_size hdr sz 0))
       (bindM (on_backend (be_get_protocol_features B)) (\<lambda>pf.
         let features = (pf OR pf_bits PF_REPLY_ACK) OR pf_bits PF_XEN_MMAP;
             msg = VhostUserU64_new features in
         thenM (send_reply_message VhostUserU64_T so hdr msg)
           update_reply_ack_flag))"

definition xen_handle_SET_PROTOCOL_FEATURES ::
    "'b VhostUserBackendReqHandler \<Rightarrow> 's sock_ops \<Rightarrow> VhostUserMsgHeader \<Rightarrow> nat \<Rightarrow> u8 list \<Rightarrow> ('s, 'b, unit) brh" where
  "xen_handle_SET_PROTOCOL_FEATURES B so hdr sz buf =
     bindM (liftR (extract_request_body VhostUserU64_T hdr sz buf)) (\<lambda>msg.
       bindM (catchM (on_backend (be_set_protocol_features B (u64_value msg)))) (\<lambda>res.
         thenM (modifyM (\<lambda>h. h\<lparr>bh_acked_protocol_features := u64_value msg\<rparr>))
         (thenM update_reply_ack_flag
         (thenM (send_ack_message so hdr res)
           (check_proto_feature PF_XEN_MMAP)))))"

subsection \<open>Facts\<close>

interpretation xen_region_body: byte_valued "XenMemoryRegion_T X" "\<lambda>_. True" for X
  by unfold_locales
    (simp_all add: XenMemoryRegion_T_def VhostUserMemoryRegion_T_def VhostUserMemoryRegion.truncate_def with_xen_def slice_def)

text \<open>
  A region of the Xen build is the region of the other build with the flags: the message that is
  made from it and its validity.
\<close>

lemma xen_to_region_truncate:
  "VhostUserMemoryRegion.truncate (xen_to_region i) = to_region (VhostUserMemoryRegionInfo.truncate i)"
  by (simp add: xen_to_region_def to_region_def with_xen_def VhostUserMemoryRegion_new_def
      VhostUserMemoryRegion.truncate_def VhostUserMemoryRegionInfo.truncate_def)

lemma xen_single_region: "xsmr_region (xen_to_single_region i) = xen_to_region i"
  by (simp add: xen_to_single_region_def XenSingleMemoryRegion_new_def xen_to_region_def)

lemma xen_is_valid_iff:
  "xen_is_valid X r \<longleftrightarrow> is_valid_common (VhostUserMemoryRegion.truncate r)
     \<and> (\<exists>flags. xen_from_bits X (xen_mmap_flags r) = Some flags \<and> xen_flags_is_valid X flags)"
  by (simp add: xen_is_valid_def split: option.split)

text \<open>
  The request server asks for \<open>XEN_MMAP\<close> only after it has answered the request: a frontend that does
  not acknowledge the feature is told that the request succeeded, and the server fails afterwards, in
  the state that the successful request left.
\<close>

lemma send_ack_keeps_features:
  "send_ack_message so hdr res h = Some (r, h') \<Longrightarrow> bh_acked_protocol_features h' = bh_acked_protocol_features h"
  unfolding send_ack_message_def new_reply_header_def
  by (auto simp: effect_defs check_state_apply on_sock_def Let_def split: option.splits sum.splits if_splits prod.splits)

lemma xen_mmap_checked_late:
  assumes "extract_request_body VhostUserU64_T hdr sz buf = Inr msg"
    and "handle_SET_PROTOCOL_FEATURES B so hdr sz buf h = Some (Inr (), h')"
  shows "xen_handle_SET_PROTOCOL_FEATURES B so hdr sz buf h
    = Some (if u64_value msg AND pf_bits PF_XEN_MMAP \<noteq> 0 then Inr () else Inl (InactiveOperation (pf_bits PF_XEN_MMAP)), h')"
proof -
  have same: "xen_handle_SET_PROTOCOL_FEATURES B so hdr sz buf
      = thenM (handle_SET_PROTOCOL_FEATURES B so hdr sz buf) (check_proto_feature PF_XEN_MMAP)"
    by (simp add: xen_handle_SET_PROTOCOL_FEATURES_def handle_SET_PROTOCOL_FEATURES_def thenM_def bindM_assoc)
  have "bh_acked_protocol_features h' = u64_value msg"
    using assms unfolding handle_SET_PROTOCOL_FEATURES_def
    by (auto simp: liftR_def thenM_def modifyM_def update_reply_ack_flag_def retM_apply Let_def
        elim!: bindM_InrE dest!: send_ack_keeps_features)
  then show ?thesis
    using assms(2) unfolding same by (simp add: thenM_def bindM_def check_proto_feature_apply)
qed

end
