(* ===== verification/Frontend.thy ===== *)
theory Frontend
  imports Connection Vhost_Backend
begin

text \<open>
  The frontend side of the vhost-user protocol, \<open>vhost/src/vhost_user/frontend.rs\<close>: the state
  \<open>FrontendInternal\<close> behind the mutex, the request and reply primitives on it, and the operations
  of \<open>Frontend\<close> (its \<open>VhostBackend\<close> and \<open>VhostUserFrontend\<close> methods), with the parameter
  structures of the theory \<open>Vhost_Backend\<close>. The mutex serialises the operations, so each one is a
  function of the state it locks. An \<open>usize\<close> queue index is a 64-bit word.
\<close>

subsection \<open>The state behind the mutex\<close>

record 's FrontendInternal =
  fe_main_sock :: 's
  fe_virtio_features :: u64
  fe_acked_virtio_features :: u64
  fe_protocol_features :: u64
  fe_acked_protocol_features :: u64
  fe_protocol_features_ready :: bool
  fe_max_queue_num :: u64
  fe_error :: "int option"
  fe_hdr_flags :: u32

type_synonym ('s, 'a) fe = "('s FrontendInternal, Error, 'a) M"

definition fe_new :: "'s \<Rightarrow> u64 \<Rightarrow> 's FrontendInternal" where
  "fe_new ep max_queue_num =
     \<lparr>fe_main_sock = ep, fe_virtio_features = 0, fe_acked_virtio_features = 0,
      fe_protocol_features = 0, fe_acked_protocol_features = 0, fe_protocol_features_ready = False,
      fe_max_queue_num = max_queue_num, fe_error = None, fe_hdr_flags = 0\<rparr>"

text \<open>
  Connecting retries at most five times while the listener refuses the connection. \<open>attempt\<close> is
  \<open>UnixStream::connect\<close> on the outside world \<open>'w\<close>; the sleeps are not modelled.
\<close>

fun fe_connect_loop :: "('w \<Rightarrow> (io_error + 's) \<times> 'w) \<Rightarrow> nat \<Rightarrow> 'w \<Rightarrow> (Error + 's) \<times> 'w" where
  "fe_connect_loop attempt retry_count w =
     (case attempt w of
        (Inr endpoint, w') \<Rightarrow> (Inr endpoint, w')
      | (Inl why, w') \<Rightarrow>
          if io_error_kind why = ConnectionRefused \<and> retry_count > 0
          then fe_connect_loop attempt (retry_count - 1) w'
          else (Inl (SocketConnect why), w'))"

definition fe_connect ::
    "('w \<Rightarrow> (io_error + 's) \<times> 'w) \<Rightarrow> u64 \<Rightarrow> 'w \<Rightarrow> (VhostError + 's FrontendInternal) \<times> 'w" where
  "fe_connect attempt max_queue_num w =
     (case fe_connect_loop attempt 5 w of
        (Inr endpoint, w') \<Rightarrow> (Inr (fe_new endpoint max_queue_num), w')
      | (Inl e, w') \<Rightarrow> (Inl (VhostUserProtocol e), w'))"

definition set_hdr_flags :: "u32 \<Rightarrow> 's FrontendInternal \<Rightarrow> 's FrontendInternal" where
  "set_hdr_flags flags node = node\<lparr>fe_hdr_flags := flags\<rparr>"

definition fe_sock :: "('s, Error, 'a) M \<Rightarrow> ('s, 'a) fe" where
  "fe_sock m = (\<lambda>h. case m (fe_main_sock h) of
       None \<Rightarrow> None
     | Some (r, s') \<Rightarrow> Some (r, h\<lparr>fe_main_sock := s'\<rparr>))"

subsection \<open>Requests and replies\<close>

definition fe_check_feature :: "VhostUserVirtioFeatures \<Rightarrow> ('s, unit) fe" where
  "fe_check_feature feat = bindM (readM fe_virtio_features) (\<lambda>features.
     if features AND vf_bits feat \<noteq> 0 then retM () else failM (InactiveFeature (vf_bits feat)))"

definition fe_check_proto_feature :: "VhostUserProtocolFeatures \<Rightarrow> ('s, unit) fe" where
  "fe_check_proto_feature feat = bindM (readM fe_acked_protocol_features) (\<lambda>acked.
     if acked AND pf_bits feat \<noteq> 0 then retM () else failM (InactiveOperation (pf_bits feat)))"

definition fe_check_state :: "('s, unit) fe" where
  "fe_check_state = bindM (readM fe_error) (\<lambda>err. case err of
       Some e \<Rightarrow> failM (SocketBroken (RawOs e))
     | None \<Rightarrow> retM ())"

definition new_request_header :: "FrontendReq \<Rightarrow> u32 \<Rightarrow> ('s, VhostUserMsgHeader) fe" where
  "new_request_header request sz =
     readM (\<lambda>node. hdr_new FrontendReq_Req request (fe_hdr_flags node OR 0x1) sz)"

definition send_request_header ::
    "'s sock_ops \<Rightarrow> FrontendReq \<Rightarrow> fd list option \<Rightarrow> ('s, VhostUserMsgHeader) fe" where
  "send_request_header so code fds =
     thenM fe_check_state
     (bindM (new_request_header code 0) (\<lambda>hdr.
       thenM (fe_sock (send_header FH so hdr fds)) (retM hdr)))"

definition send_request_with_body ::
    "'t msg_type \<Rightarrow> 's sock_ops \<Rightarrow> FrontendReq \<Rightarrow> 't \<Rightarrow> fd list option \<Rightarrow> ('s, VhostUserMsgHeader) fe" where
  "send_request_with_body T so code msg fds =
     (if size_of T > MAX_MSG_SIZE then failM InvalidParam
      else thenM fe_check_state
        (bindM (new_request_header code (word_of_nat (size_of T))) (\<lambda>hdr.
          thenM (fe_sock (send_message FH T so hdr msg fds)) (retM hdr))))"

definition send_request_with_payload ::
    "'t msg_type \<Rightarrow> 's sock_ops \<Rightarrow> FrontendReq \<Rightarrow> 't \<Rightarrow> u8 list \<Rightarrow> fd list option
     \<Rightarrow> ('s, VhostUserMsgHeader) fe" where
  "send_request_with_payload T so code msg payload fds =
     (let len = size_of T + length payload in
      if len > MAX_MSG_SIZE then failM InvalidParam
      else if (case fds of Some l \<Rightarrow> length l > MAX_ATTACHED_FD_ENTRIES | None \<Rightarrow> False)
        then failM InvalidParam
      else thenM fe_check_state
        (bindM (new_request_header code (word_of_nat len)) (\<lambda>hdr.
          thenM (fe_sock (send_message_with_payload FH T so hdr msg payload fds)) (retM hdr))))"

definition send_fd_for_vring ::
    "'s sock_ops \<Rightarrow> FrontendReq \<Rightarrow> u64 \<Rightarrow> fd \<Rightarrow> ('s, VhostUserMsgHeader) fe" where
  "send_fd_for_vring so code queue_index f =
     bindM (readM fe_max_queue_num) (\<lambda>max_queue_num.
       if queue_index \<ge> max_queue_num then failM InvalidParam
       else thenM fe_check_state
         (let msg = VhostUserU64_new queue_index in
          bindM (new_request_header code (word_of_nat (size_of VhostUserU64_T))) (\<lambda>hdr.
            thenM (fe_sock (send_message FH VhostUserU64_T so hdr msg (Some [f]))) (retM hdr))))"

definition recv_reply :: "'t msg_type \<Rightarrow> 's sock_ops \<Rightarrow> VhostUserMsgHeader \<Rightarrow> ('s, 't) fe" where
  "recv_reply T so hdr =
     (if size_of T > MAX_MSG_SIZE \<or> is_reply hdr then failM InvalidParam
      else thenM fe_check_state
        (bindM (fe_sock (recv_body FH T so)) (\<lambda>(reply, body, rfds).
          if \<not> is_reply_for FrontendReq_Req reply hdr \<or> rfds \<noteq> None \<or> \<not> is_valid T body
          then failM InvalidMessage
          else retM body)))"

definition recv_reply_with_optional_files ::
    "'t msg_type \<Rightarrow> 's sock_ops \<Rightarrow> VhostUserMsgHeader \<Rightarrow> ('s, 't \<times> fd list option) fe" where
  "recv_reply_with_optional_files T so hdr =
     (if size_of T > MAX_MSG_SIZE \<or> is_reply hdr then failM InvalidParam
      else thenM fe_check_state
        (bindM (fe_sock (recv_body FH T so)) (\<lambda>(reply, body, files).
          if \<not> is_reply_for FrontendReq_Req reply hdr \<or> \<not> is_valid T body
          then failM InvalidMessage
          else retM (body, files))))"

definition recv_reply_with_files ::
    "'t msg_type \<Rightarrow> 's sock_ops \<Rightarrow> VhostUserMsgHeader \<Rightarrow> ('s, 't \<times> fd list option) fe" where
  "recv_reply_with_files T so hdr =
     bindM (recv_reply_with_optional_files T so hdr) (\<lambda>(body, files).
       if files = None then failM InvalidMessage else retM (body, files))"

definition recv_reply_with_payload ::
    "'t msg_type \<Rightarrow> 's sock_ops \<Rightarrow> VhostUserMsgHeader \<Rightarrow> ('s, 't \<times> u8 list \<times> fd list option) fe" where
  "recv_reply_with_payload T so hdr =
     (if size_of T > MAX_MSG_SIZE \<or> unat (get_size hdr) \<le> size_of T
         \<or> unat (get_size hdr) > MAX_MSG_SIZE \<or> is_reply hdr
      then failM InvalidParam
      else thenM fe_check_state
        (let buf = replicate (unat (get_size hdr) - size_of T) 0 in
         bindM (fe_sock (recv_payload_into_buf FH T so buf)) (\<lambda>(reply, body, bytes, buf, files).
           if \<not> is_reply_for FrontendReq_Req reply hdr
              \<or> unat (get_size reply) \<noteq> size_of T + bytes
              \<or> files \<noteq> None
              \<or> \<not> is_valid T body
              \<or> bytes \<noteq> length buf
           then failM InvalidMessage
           else retM (body, buf, files))))"

definition wait_for_ack :: "'s sock_ops \<Rightarrow> VhostUserMsgHeader \<Rightarrow> ('s, unit) fe" where
  "wait_for_ack so hdr =
     bindM (readM fe_acked_protocol_features) (\<lambda>acked.
       if acked AND pf_bits PF_REPLY_ACK = 0 \<or> \<not> is_need_reply hdr then retM ()
       else thenM fe_check_state
         (bindM (fe_sock (recv_body FH VhostUserU64_T so)) (\<lambda>(reply, body, rfds).
           if \<not> is_reply_for FrontendReq_Req reply hdr \<or> rfds \<noteq> None
              \<or> \<not> is_valid VhostUserU64_T body
           then failM InvalidMessage
           else if u64_value body \<noteq> 0 then failM BackendInternalError
           else retM ())))"

subsection \<open>The operations of Frontend\<close>

text \<open>
  Every error of an operation is a vhost-user error, wrapped as \<open>Error::VhostUserProtocol\<close>.
\<close>

type_synonym ('s, 'a) api = "('s FrontendInternal, VhostError, 'a) M"

definition api :: "('s, 'a) fe \<Rightarrow> ('s, 'a) api" where
  "api m = mapErrM VhostUserProtocol m"

definition fe_get_features :: "'s sock_ops \<Rightarrow> ('s, u64) api" where
  "fe_get_features so = api
     (bindM (send_request_header so GET_FEATURES None) (\<lambda>hdr.
       bindM (recv_reply VhostUserU64_T so hdr) (\<lambda>val.
         thenM (modifyM (\<lambda>node. node\<lparr>fe_virtio_features := u64_value val\<rparr>))
           (readM fe_virtio_features))))"

definition fe_set_features :: "'s sock_ops \<Rightarrow> u64 \<Rightarrow> ('s, unit) api" where
  "fe_set_features so features = api
     (let val = VhostUserU64_new features in
      bindM (send_request_with_body VhostUserU64_T so SET_FEATURES val None) (\<lambda>hdr.
        thenM (modifyM (\<lambda>node. node\<lparr>fe_acked_virtio_features :=
                 features AND fe_virtio_features node\<rparr>))
          (wait_for_ack so hdr)))"

definition fe_set_owner :: "'s sock_ops \<Rightarrow> ('s, unit) api" where
  "fe_set_owner so = api
     (bindM (send_request_header so SET_OWNER None) (\<lambda>hdr. wait_for_ack so hdr))"

definition fe_reset_owner :: "'s sock_ops \<Rightarrow> ('s, unit) api" where
  "fe_reset_owner so = api
     (bindM (send_request_header so RESET_OWNER None) (\<lambda>hdr. wait_for_ack so hdr))"

definition fe_set_mem_table :: "'s sock_ops \<Rightarrow> VhostUserMemoryRegionInfo list \<Rightarrow> ('s, unit) api" where
  "fe_set_mem_table so regions = api
     (if regions = [] \<or> length regions > MAX_ATTACHED_FD_ENTRIES then failM InvalidParam
      else if list_ex (\<lambda>region. ri_memory_size region = 0 \<or> ri_mmap_handle region < 0) regions
        then failM InvalidParam
      else
        (let ctx_regions = map to_region regions;
             ctx_fds = map ri_mmap_handle regions;
             body = VhostUserMemory_new (word_of_nat (length ctx_regions));
             payload = concat (map (as_slice VhostUserMemoryRegion_T) ctx_regions) in
         bindM (send_request_with_payload VhostUserMemory_T so SET_MEM_TABLE body payload
                  (Some ctx_fds)) (\<lambda>hdr.
           wait_for_ack so hdr)))"

definition fe_set_log_base :: "'s sock_ops \<Rightarrow> u64 \<Rightarrow> VhostUserDirtyLogRegion option \<Rightarrow> ('s, unit) api" where
  "fe_set_log_base so base region = api
     (bindM (readM fe_acked_protocol_features) (\<lambda>acked.
       let val = VhostUserU64_new base in
       case (if acked AND pf_bits PF_LOG_SHMFD \<noteq> 0 then region else None) of
         Some rg \<Rightarrow>
           (let lg = \<lparr>log_mmap_size = dl_mmap_size rg, log_mmap_offset = dl_mmap_offset rg\<rparr> in
            bindM (send_request_with_body VhostUserLog_T so SET_LOG_BASE lg
                     (Some [dl_mmap_handle rg])) (\<lambda>hdr.
              thenM (recv_reply VhostUserLog_T so hdr) (retM ())))
       | None \<Rightarrow> thenM (send_request_with_body VhostUserU64_T so SET_LOG_BASE val None) (retM ())))"

definition fe_set_log_fd :: "'s sock_ops \<Rightarrow> fd \<Rightarrow> ('s, unit) api" where
  "fe_set_log_fd so f = api
     (bindM (send_request_header so SET_LOG_FD (Some [f])) (\<lambda>hdr. wait_for_ack so hdr))"

definition fe_set_vring_num :: "'s sock_ops \<Rightarrow> u64 \<Rightarrow> u16 \<Rightarrow> ('s, unit) api" where
  "fe_set_vring_num so queue_index num = api
     (bindM (readM fe_max_queue_num) (\<lambda>max_queue_num.
       if queue_index \<ge> max_queue_num then failM InvalidParam
       else (let val = VhostUserVringState_new (ucast queue_index) (ucast num) in
         bindM (send_request_with_body VhostUserVringState_T so SET_VRING_NUM val None) (\<lambda>hdr.
           wait_for_ack so hdr))))"

definition fe_set_vring_addr :: "'s sock_ops \<Rightarrow> u64 \<Rightarrow> VringConfigData \<Rightarrow> ('s, unit) api" where
  "fe_set_vring_addr so queue_index config_data = api
     (bindM (readM fe_max_queue_num) (\<lambda>max_queue_num.
       if queue_index \<ge> max_queue_num \<or> vc_flags config_data AND NOT VHOST_VRING_F_LOG \<noteq> 0
       then failM InvalidParam
       else
         (let val = from_config_data (ucast queue_index) config_data in
          bindM (send_request_with_body VhostUserVringAddr_T so SET_VRING_ADDR val None) (\<lambda>hdr.
            wait_for_ack so hdr))))"

definition fe_set_vring_base :: "'s sock_ops \<Rightarrow> u64 \<Rightarrow> u16 \<Rightarrow> ('s, unit) api" where
  "fe_set_vring_base so queue_index base = api
     (bindM (readM fe_max_queue_num) (\<lambda>max_queue_num.
       if queue_index \<ge> max_queue_num then failM InvalidParam
       else (let val = VhostUserVringState_new (ucast queue_index) (ucast base) in
         bindM (send_request_with_body VhostUserVringState_T so SET_VRING_BASE val None) (\<lambda>hdr.
           wait_for_ack so hdr))))"

definition fe_get_vring_base :: "'s sock_ops \<Rightarrow> u64 \<Rightarrow> ('s, u32) api" where
  "fe_get_vring_base so queue_index = api
     (bindM (readM fe_max_queue_num) (\<lambda>max_queue_num.
       if queue_index \<ge> max_queue_num then failM InvalidParam
       else (let req = VhostUserVringState_new (ucast queue_index) 0 in
         bindM (send_request_with_body VhostUserVringState_T so GET_VRING_BASE req None) (\<lambda>hdr.
           bindM (recv_reply VhostUserVringState_T so hdr) (\<lambda>reply. retM (vs_num reply))))))"

definition fe_set_vring_call :: "'s sock_ops \<Rightarrow> u64 \<Rightarrow> fd \<Rightarrow> ('s, unit) api" where
  "fe_set_vring_call so queue_index f = api
     (bindM (readM fe_max_queue_num) (\<lambda>max_queue_num.
       if queue_index \<ge> max_queue_num then failM InvalidParam
       else bindM (send_fd_for_vring so SET_VRING_CALL queue_index f) (\<lambda>hdr.
         wait_for_ack so hdr)))"

definition fe_set_vring_kick :: "'s sock_ops \<Rightarrow> u64 \<Rightarrow> fd \<Rightarrow> ('s, unit) api" where
  "fe_set_vring_kick so queue_index f = api
     (bindM (readM fe_max_queue_num) (\<lambda>max_queue_num.
       if queue_index \<ge> max_queue_num then failM InvalidParam
       else bindM (send_fd_for_vring so SET_VRING_KICK queue_index f) (\<lambda>hdr.
         wait_for_ack so hdr)))"

definition fe_set_vring_err :: "'s sock_ops \<Rightarrow> u64 \<Rightarrow> fd \<Rightarrow> ('s, unit) api" where
  "fe_set_vring_err so queue_index f = api
     (bindM (readM fe_max_queue_num) (\<lambda>max_queue_num.
       if queue_index \<ge> max_queue_num then failM InvalidParam
       else bindM (send_fd_for_vring so SET_VRING_ERR queue_index f) (\<lambda>hdr.
         wait_for_ack so hdr)))"

definition fe_get_protocol_features :: "'s sock_ops \<Rightarrow> ('s, u64) api" where
  "fe_get_protocol_features so = api
     (thenM (fe_check_feature VF_PROTOCOL_FEATURES)
       (bindM (send_request_header so GET_PROTOCOL_FEATURES None) (\<lambda>hdr.
         bindM (recv_reply VhostUserU64_T so hdr) (\<lambda>val.
           thenM (modifyM (\<lambda>node. node\<lparr>fe_protocol_features := u64_value val\<rparr>))
             (readM (\<lambda>node. pf_from_bits_truncate (fe_protocol_features node)))))))"

definition fe_set_protocol_features :: "'s sock_ops \<Rightarrow> u64 \<Rightarrow> ('s, unit) api" where
  "fe_set_protocol_features so features = api
     (thenM (fe_check_feature VF_PROTOCOL_FEATURES)
       (let val = VhostUserU64_new features in
        bindM (send_request_with_body VhostUserU64_T so SET_PROTOCOL_FEATURES val None) (\<lambda>hdr.
          thenM (modifyM (\<lambda>node. node\<lparr>fe_acked_protocol_features := features,
                                       fe_protocol_features_ready := True\<rparr>))
            (wait_for_ack so hdr))))"

definition fe_get_queue_num :: "'s sock_ops \<Rightarrow> ('s, u64) api" where
  "fe_get_queue_num so = api
     (thenM (fe_check_proto_feature PF_MQ)
       (bindM (send_request_header so GET_QUEUE_NUM None) (\<lambda>hdr.
         bindM (recv_reply VhostUserU64_T so hdr) (\<lambda>val.
           if u64_value val > VHOST_USER_MAX_VRINGS then failM InvalidMessage
           else thenM (modifyM (\<lambda>node. node\<lparr>fe_max_queue_num := u64_value val\<rparr>))
             (readM fe_max_queue_num)))))"

definition fe_reset_device :: "'s sock_ops \<Rightarrow> ('s, unit) api" where
  "fe_reset_device so = api
     (thenM (fe_check_proto_feature PF_RESET_DEVICE)
       (bindM (send_request_header so RESET_DEVICE None) (\<lambda>hdr. wait_for_ack so hdr)))"

definition fe_set_vring_enable :: "'s sock_ops \<Rightarrow> u64 \<Rightarrow> bool \<Rightarrow> ('s, unit) api" where
  "fe_set_vring_enable so queue_index enable = api
     (bindM (readM (\<lambda>node. (fe_acked_virtio_features node, fe_max_queue_num node)))
       (\<lambda>(acked, max_queue_num).
       if acked AND vf_bits VF_PROTOCOL_FEATURES = 0
       then failM (InactiveFeature (vf_bits VF_PROTOCOL_FEATURES))
       else if queue_index \<ge> max_queue_num then failM InvalidParam
       else
         (let flag = (if enable then 1 else 0);
              val = VhostUserVringState_new (ucast queue_index) flag in
          bindM (send_request_with_body VhostUserVringState_T so SET_VRING_ENABLE val None) (\<lambda>hdr.
            wait_for_ack so hdr))))"

definition fe_get_config :: "'s sock_ops \<Rightarrow> u32 \<Rightarrow> u32 \<Rightarrow> u32 \<Rightarrow> u8 list \<Rightarrow> ('s, VhostUserConfig \<times> u8 list) api" where
  "fe_get_config so off sz flags buf = api
     (let body = VhostUserConfig_new off sz flags in
      if \<not> is_valid VhostUserConfig_T body then failM InvalidParam
      else thenM (fe_check_proto_feature PF_CONFIG)
        (bindM (send_request_with_payload VhostUserConfig_T so GET_CONFIG body buf None) (\<lambda>hdr.
          bindM (recv_reply_with_payload VhostUserConfig_T so hdr) (\<lambda>(body_reply, buf_reply, rfds).
            if rfds \<noteq> None then failM InvalidMessage
            else if cfg_size body_reply = 0 then failM BackendInternalError
            else if cfg_size body_reply \<noteq> cfg_size body
                    \<or> unat (cfg_size body_reply) \<noteq> length buf
                    \<or> cfg_offset body_reply \<noteq> cfg_offset body
              then failM InvalidMessage
            else retM (body_reply, buf_reply)))))"

definition fe_set_config :: "'s sock_ops \<Rightarrow> u32 \<Rightarrow> u32 \<Rightarrow> u8 list \<Rightarrow> ('s, unit) api" where
  "fe_set_config so off flags buf = api
     (if length buf > MAX_MSG_SIZE then failM InvalidParam
      else
        (let body = VhostUserConfig_new off (word_of_nat (length buf)) flags in
         if \<not> is_valid VhostUserConfig_T body then failM InvalidParam
         else thenM (fe_check_proto_feature PF_CONFIG)
           (bindM (send_request_with_payload VhostUserConfig_T so SET_CONFIG body buf None) (\<lambda>hdr.
             wait_for_ack so hdr))))"

definition fe_set_backend_request_fd :: "'s sock_ops \<Rightarrow> fd \<Rightarrow> ('s, unit) api" where
  "fe_set_backend_request_fd so f = api
     (thenM (fe_check_proto_feature PF_BACKEND_REQ)
       (bindM (send_request_header so SET_BACKEND_REQ_FD (Some [f])) (\<lambda>hdr. wait_for_ack so hdr)))"

definition fe_get_shared_object :: "'s sock_ops \<Rightarrow> VhostUserSharedMsg \<Rightarrow> ('s, fd) api" where
  "fe_get_shared_object so u = api
     (thenM (fe_check_proto_feature PF_SHARED_OBJECT)
       (if \<not> is_valid VhostUserSharedMsg_T u then failM InvalidParam
        else bindM (send_request_with_body VhostUserSharedMsg_T so GET_SHARED_OBJECT u None) (\<lambda>hdr.
          bindM (recv_reply_with_files VhostUserEmpty_T so hdr) (\<lambda>(_, files).
           case take_single_file files of
             Some file \<Rightarrow> retM file
           | None \<Rightarrow> failM IncorrectFds))))"

definition fe_get_inflight_fd :: "'s sock_ops \<Rightarrow> VhostUserInflight \<Rightarrow> ('s, VhostUserInflight \<times> fd) api" where
  "fe_get_inflight_fd so inflight = api
     (thenM (fe_check_proto_feature PF_INFLIGHT_SHMFD)
       (bindM (send_request_with_body VhostUserInflight_T so GET_INFLIGHT_FD inflight None) (\<lambda>hdr.
          bindM (recv_reply_with_files VhostUserInflight_T so hdr) (\<lambda>(infl, files).
           case take_single_file files of
             Some file \<Rightarrow> retM (infl, file)
           | None \<Rightarrow> failM IncorrectFds))))"

definition fe_set_inflight_fd :: "'s sock_ops \<Rightarrow> VhostUserInflight \<Rightarrow> fd \<Rightarrow> ('s, unit) api" where
  "fe_set_inflight_fd so inflight f = api
     (thenM (fe_check_proto_feature PF_INFLIGHT_SHMFD)
       (if infl_mmap_size inflight = 0 \<or> infl_num_queues inflight = 0
           \<or> infl_queue_size inflight = 0 \<or> f < 0
        then failM InvalidParam
        else bindM (send_request_with_body VhostUserInflight_T so SET_INFLIGHT_FD inflight (Some [f]))
          (\<lambda>hdr. wait_for_ack so hdr)))"

definition fe_get_max_mem_slots :: "'s sock_ops \<Rightarrow> ('s, u64) api" where
  "fe_get_max_mem_slots so = api
     (thenM (fe_check_proto_feature PF_CONFIGURE_MEM_SLOTS)
       (bindM (send_request_header so GET_MAX_MEM_SLOTS None) (\<lambda>hdr.
         bindM (recv_reply VhostUserU64_T so hdr) (\<lambda>val. retM (u64_value val)))))"

definition fe_add_mem_region :: "'s sock_ops \<Rightarrow> VhostUserMemoryRegionInfo \<Rightarrow> ('s, unit) api" where
  "fe_add_mem_region so region = api
     (thenM (fe_check_proto_feature PF_CONFIGURE_MEM_SLOTS)
       (if ri_memory_size region = 0 \<or> ri_mmap_handle region < 0 then failM InvalidParam
        else
          (let body = to_single_region region; fds = [ri_mmap_handle region] in
           bindM (send_request_with_body VhostUserSingleMemoryRegion_T so ADD_MEM_REG body (Some fds))
             (\<lambda>hdr. wait_for_ack so hdr))))"

definition fe_remove_mem_region :: "'s sock_ops \<Rightarrow> VhostUserMemoryRegionInfo \<Rightarrow> ('s, unit) api" where
  "fe_remove_mem_region so region = api
     (thenM (fe_check_proto_feature PF_CONFIGURE_MEM_SLOTS)
       (if ri_memory_size region = 0 then failM InvalidParam
        else
          (let body = to_single_region region in
           bindM (send_request_with_body VhostUserSingleMemoryRegion_T so REM_MEM_REG body None)
             (\<lambda>hdr. wait_for_ack so hdr))))"

definition fe_get_shmem_config :: "'s sock_ops \<Rightarrow> ('s, VhostUserShMemConfig) api" where
  "fe_get_shmem_config so = api
     (thenM (fe_check_proto_feature PF_SHMEM)
       (bindM (send_request_header so GET_SHMEM_CONFIG None) (\<lambda>hdr.
         recv_reply VhostUserShMemConfig_T so hdr)))"

definition fe_set_device_state_fd :: "'s sock_ops \<Rightarrow> VhostTransferStateDirection \<Rightarrow> VhostTransferStatePhase \<Rightarrow> fd \<Rightarrow> ('s, fd option) api" where
  "fe_set_device_state_fd so direction phase f = api
     (thenM (fe_check_proto_feature PF_DEVICE_STATE)
       (let body = VhostUserTransferDeviceState_new direction phase in
        if \<not> is_valid VhostUserTransferDeviceState_T body then failM InvalidParam
        else bindM (send_request_with_body VhostUserTransferDeviceState_T so SET_DEVICE_STATE_FD body
                      (Some [f])) (\<lambda>hdr.
          bindM (recv_reply_with_optional_files VhostUserU64_T so hdr) (\<lambda>(reply, files).
            if u64_value reply = 0x100 \<and> files = None then retM None
            else if u64_value reply = 0 \<and> files \<noteq> None
              then (case take_single_file files of
                      Some file \<Rightarrow> retM (Some file)
                    | None \<Rightarrow> failM IncorrectFds)
            else failM BackendInternalError))))"

definition fe_check_device_state :: "'s sock_ops \<Rightarrow> ('s, unit) api" where
  "fe_check_device_state so = api
     (thenM (fe_check_proto_feature PF_DEVICE_STATE)
       (bindM (send_request_header so CHECK_DEVICE_STATE None) (\<lambda>hdr.
         bindM (recv_reply VhostUserU64_T so hdr) (\<lambda>body.
           if u64_value body \<noteq> 0 then failM BackendInternalError else retM ()))))"

definition fe_postcopy_advise :: "'s sock_ops \<Rightarrow> ('s, fd) api" where
  "fe_postcopy_advise so = api
     (thenM (fe_check_proto_feature PF_PAGEFAULT)
       (bindM (send_request_header so POSTCOPY_ADVISE None) (\<lambda>hdr.
          bindM (recv_reply_with_files VhostUserEmpty_T so hdr) (\<lambda>(_, files).
           case take_single_file files of
             Some file \<Rightarrow> retM file
           | None \<Rightarrow> failM IncorrectFds))))"

definition fe_postcopy_listen :: "'s sock_ops \<Rightarrow> ('s, unit) api" where
  "fe_postcopy_listen so = api
     (thenM (fe_check_proto_feature PF_PAGEFAULT)
       (bindM (send_request_header so POSTCOPY_LISTEN None) (\<lambda>hdr. wait_for_ack so hdr)))"

definition fe_postcopy_end :: "'s sock_ops \<Rightarrow> ('s, unit) api" where
  "fe_postcopy_end so = api
     (thenM (fe_check_proto_feature PF_PAGEFAULT)
       (bindM (send_request_header so POSTCOPY_END None) (\<lambda>hdr. wait_for_ack so hdr)))"

subsection \<open>Facts about the primitives\<close>

lemma fe_check_proto_feature_apply:
  "fe_check_proto_feature f node =
     Some (if fe_acked_protocol_features node AND pf_bits f \<noteq> 0 then Inr ()
           else Inl (InactiveOperation (pf_bits f)), node)"
  by (simp add: fe_check_proto_feature_def effect_defs)

lemma fe_check_state_apply:
  "fe_check_state node =
     Some (case fe_error node of None \<Rightarrow> Inr () | Some e \<Rightarrow> Inl (SocketBroken (RawOs e)), node)"
  by (simp add: fe_check_state_def effect_defs split: option.splits)

lemma fe_gate:
  "fe_acked_protocol_features node AND pf_bits f = 0 \<Longrightarrow>
     api (thenM (fe_check_proto_feature f) n) node
     = Some (Inl (VhostUserProtocol (InactiveOperation (pf_bits f))), node)"
  by (simp add: api_def mapErrM_def thenM_def bindM_def fe_check_proto_feature_apply)

subsection \<open>Operations that are refused before anything is sent\<close>

text \<open>
  A call of any operation of the frontend: the request it is for, and whether it failed.
\<close>

inductive fe_call ::
    "'s sock_ops \<Rightarrow> FrontendReq \<Rightarrow> 's FrontendInternal \<Rightarrow> bool \<Rightarrow> 's FrontendInternal \<Rightarrow> bool"
    for so :: "'s sock_ops" where
  call_get_features: "fe_get_features so h = Some (r, h') \<Longrightarrow> fe_call so GET_FEATURES h (isl r) h'"
| call_set_features: "fe_set_features so x0 h = Some (r, h') \<Longrightarrow> fe_call so SET_FEATURES h (isl r) h'"
| call_set_owner: "fe_set_owner so h = Some (r, h') \<Longrightarrow> fe_call so SET_OWNER h (isl r) h'"
| call_reset_owner: "fe_reset_owner so h = Some (r, h') \<Longrightarrow> fe_call so RESET_OWNER h (isl r) h'"
| call_set_mem_table: "fe_set_mem_table so x0 h = Some (r, h') \<Longrightarrow> fe_call so SET_MEM_TABLE h (isl r) h'"
| call_set_log_base: "fe_set_log_base so x0 x1 h = Some (r, h') \<Longrightarrow> fe_call so SET_LOG_BASE h (isl r) h'"
| call_set_log_fd: "fe_set_log_fd so x0 h = Some (r, h') \<Longrightarrow> fe_call so SET_LOG_FD h (isl r) h'"
| call_set_vring_num: "fe_set_vring_num so x0 x1 h = Some (r, h') \<Longrightarrow> fe_call so SET_VRING_NUM h (isl r) h'"
| call_set_vring_addr: "fe_set_vring_addr so x0 x1 h = Some (r, h') \<Longrightarrow> fe_call so SET_VRING_ADDR h (isl r) h'"
| call_set_vring_base: "fe_set_vring_base so x0 x1 h = Some (r, h') \<Longrightarrow> fe_call so SET_VRING_BASE h (isl r) h'"
| call_get_vring_base: "fe_get_vring_base so x0 h = Some (r, h') \<Longrightarrow> fe_call so GET_VRING_BASE h (isl r) h'"
| call_set_vring_call: "fe_set_vring_call so x0 x1 h = Some (r, h') \<Longrightarrow> fe_call so SET_VRING_CALL h (isl r) h'"
| call_set_vring_kick: "fe_set_vring_kick so x0 x1 h = Some (r, h') \<Longrightarrow> fe_call so SET_VRING_KICK h (isl r) h'"
| call_set_vring_err: "fe_set_vring_err so x0 x1 h = Some (r, h') \<Longrightarrow> fe_call so SET_VRING_ERR h (isl r) h'"
| call_get_protocol_features: "fe_get_protocol_features so h = Some (r, h') \<Longrightarrow> fe_call so GET_PROTOCOL_FEATURES h (isl r) h'"
| call_set_protocol_features: "fe_set_protocol_features so x0 h = Some (r, h') \<Longrightarrow> fe_call so SET_PROTOCOL_FEATURES h (isl r) h'"
| call_get_queue_num: "fe_get_queue_num so h = Some (r, h') \<Longrightarrow> fe_call so GET_QUEUE_NUM h (isl r) h'"
| call_reset_device: "fe_reset_device so h = Some (r, h') \<Longrightarrow> fe_call so RESET_DEVICE h (isl r) h'"
| call_set_vring_enable: "fe_set_vring_enable so x0 x1 h = Some (r, h') \<Longrightarrow> fe_call so SET_VRING_ENABLE h (isl r) h'"
| call_get_config: "fe_get_config so x0 x1 x2 x3 h = Some (r, h') \<Longrightarrow> fe_call so GET_CONFIG h (isl r) h'"
| call_set_config: "fe_set_config so x0 x1 x2 h = Some (r, h') \<Longrightarrow> fe_call so SET_CONFIG h (isl r) h'"
| call_set_backend_request_fd: "fe_set_backend_request_fd so x0 h = Some (r, h') \<Longrightarrow> fe_call so SET_BACKEND_REQ_FD h (isl r) h'"
| call_get_shared_object: "fe_get_shared_object so x0 h = Some (r, h') \<Longrightarrow> fe_call so GET_SHARED_OBJECT h (isl r) h'"
| call_get_inflight_fd: "fe_get_inflight_fd so x0 h = Some (r, h') \<Longrightarrow> fe_call so GET_INFLIGHT_FD h (isl r) h'"
| call_set_inflight_fd: "fe_set_inflight_fd so x0 x1 h = Some (r, h') \<Longrightarrow> fe_call so SET_INFLIGHT_FD h (isl r) h'"
| call_get_max_mem_slots: "fe_get_max_mem_slots so h = Some (r, h') \<Longrightarrow> fe_call so GET_MAX_MEM_SLOTS h (isl r) h'"
| call_add_mem_region: "fe_add_mem_region so x0 h = Some (r, h') \<Longrightarrow> fe_call so ADD_MEM_REG h (isl r) h'"
| call_remove_mem_region: "fe_remove_mem_region so x0 h = Some (r, h') \<Longrightarrow> fe_call so REM_MEM_REG h (isl r) h'"
| call_get_shmem_config: "fe_get_shmem_config so h = Some (r, h') \<Longrightarrow> fe_call so GET_SHMEM_CONFIG h (isl r) h'"
| call_set_device_state_fd: "fe_set_device_state_fd so x0 x1 x2 h = Some (r, h') \<Longrightarrow> fe_call so SET_DEVICE_STATE_FD h (isl r) h'"
| call_check_device_state: "fe_check_device_state so h = Some (r, h') \<Longrightarrow> fe_call so CHECK_DEVICE_STATE h (isl r) h'"
| call_postcopy_advise: "fe_postcopy_advise so h = Some (r, h') \<Longrightarrow> fe_call so POSTCOPY_ADVISE h (isl r) h'"
| call_postcopy_listen: "fe_postcopy_listen so h = Some (r, h') \<Longrightarrow> fe_call so POSTCOPY_LISTEN h (isl r) h'"
| call_postcopy_end: "fe_postcopy_end so h = Some (r, h') \<Longrightarrow> fe_call so POSTCOPY_END h (isl r) h'"

lemmas gated_op_defs = fe_get_queue_num_def fe_reset_device_def fe_set_backend_request_fd_def
  fe_get_shared_object_def fe_get_inflight_fd_def fe_set_inflight_fd_def
  fe_get_max_mem_slots_def fe_add_mem_region_def fe_remove_mem_region_def
  fe_get_shmem_config_def fe_set_device_state_fd_def fe_check_device_state_def
  fe_postcopy_advise_def fe_postcopy_listen_def fe_postcopy_end_def fe_get_config_def fe_set_config_def

text \<open>
  C29: no operation of the frontend sends a request of a protocol feature that is not acked: for
  every operation and every such request, except \<open>SET_LOG_BASE\<close>, the call fails and leaves the node
  and its socket untouched. (\<open>set_log_base\<close> sends its request also without \<open>LOG_SHMFD\<close>, with no
  descriptor.)
\<close>

theorem frontend_gated_by_features:
  assumes "fe_call so code node failed node'" and "protocol_feature code = Some f"
    and "fe_acked_protocol_features node AND pf_bits f = 0" and "code \<noteq> SET_LOG_BASE"
  shows "failed \<and> node' = node"
  using assms
  by cases
    (auto simp: gated_op_defs fe_gate Let_def api_def mapErrM_def thenM_def bindM_def fe_check_proto_feature_apply failM_def
      split: if_splits)

text \<open>A new frontend has acked nothing.\<close>

theorem frontend_gated_by_features_witness:
  "\<forall>so. \<exists>r node'. fe_get_config so 0 4 0 [0, 0, 0, 0] (fe_new (0::nat) 2) = Some (r, node') \<and> isl r \<and> node' = fe_new 0 2"
proof
  fix so :: "nat sock_ops"
  let ?node = "fe_new (0::nat) 2"
  have "\<exists>x. fe_get_config so 0 4 0 [0, 0, 0, 0] ?node = Some x"
    by (cases "is_valid VhostUserConfig_T (VhostUserConfig_new 0 4 0)")
      (simp_all add: fe_get_config_def Let_def api_def mapErrM_def thenM_def bindM_def fe_check_proto_feature_apply failM_def fe_new_def)
  then obtain r node' where run: "fe_get_config so 0 4 0 [0, 0, 0, 0] ?node = Some (r, node')" by fastforce
  then have "fe_call so GET_CONFIG ?node (isl r) node'" by (rule call_get_config)
  from frontend_gated_by_features [OF this, of PF_CONFIG] run
  show "\<exists>r node'. fe_get_config so 0 4 0 [0, 0, 0, 0] ?node = Some (r, node') \<and> isl r \<and> node' = ?node"
    by (simp add: fe_new_def)
qed

text \<open>
  An operation on a queue at or past the number of queues is refused with \<open>InvalidParam\<close>
  before anything is sent, and the node is untouched.
\<close>

theorem queue_index_bounded:
  assumes "fe_max_queue_num node \<le> q"
  shows "fe_set_vring_num so q n node = Some (Inl (VhostUserProtocol InvalidParam), node)
    \<and> fe_set_vring_addr so q c node = Some (Inl (VhostUserProtocol InvalidParam), node)
    \<and> fe_set_vring_base so q n node = Some (Inl (VhostUserProtocol InvalidParam), node)
    \<and> fe_get_vring_base so q node = Some (Inl (VhostUserProtocol InvalidParam), node)
    \<and> fe_set_vring_call so q f node = Some (Inl (VhostUserProtocol InvalidParam), node)
    \<and> fe_set_vring_kick so q f node = Some (Inl (VhostUserProtocol InvalidParam), node)
    \<and> fe_set_vring_err so q f node = Some (Inl (VhostUserProtocol InvalidParam), node)
    \<and> isl (fst (the (fe_set_vring_enable so q e node)))
    \<and> snd (the (fe_set_vring_enable so q e node)) = node"
  using assms
  by (simp add: fe_set_vring_num_def fe_set_vring_addr_def fe_set_vring_base_def
      fe_get_vring_base_def fe_set_vring_call_def fe_set_vring_kick_def fe_set_vring_err_def
      fe_set_vring_enable_def api_def mapErrM_def bindM_def readM_def failM_def)

theorem queue_index_bounded_witness:
  "\<forall>so. fe_set_vring_num so 2 8 (fe_new (0::nat) 2)
      = Some (Inl (VhostUserProtocol InvalidParam), fe_new 0 2)"
  using queue_index_bounded [of "fe_new (0::nat) 2" 2] by (simp add: fe_new_def)

subsection \<open>Acknowledgements\<close>

text \<open>
  Without a negotiated \<open>REPLY_ACK\<close>, or for a request that does not ask for it, waiting for the
  acknowledgement succeeds at once and reads nothing. Otherwise it succeeds only if the next
  twenty bytes of the stream are a valid reply to this very request, with the value 0 and no
  descriptor, and just those bytes are consumed.
\<close>

theorem wait_for_ack_accepts:
  assumes "recv_law so rx rxf" and "wait_for_ack so hdr node = Some (Inr (), node')"
  shows "(if fe_acked_protocol_features node AND pf_bits PF_REPLY_ACK = 0 \<or> \<not> is_need_reply hdr
     then node' = node
     else (let stream = rx (fe_main_sock node); reply = hdr_from_slice (take 12 stream) in
       20 \<le> length stream \<and> hdr_is_valid FrontendReq_Req reply
       \<and> is_reply_for FrontendReq_Req reply hdr
       \<and> (of_le_bytes (take 8 (drop 12 stream)) :: u64) = 0
       \<and> received_files (rxf (fe_main_sock node)) = None
       \<and> rx (fe_main_sock node') = drop 20 stream))"
proof (cases "fe_acked_protocol_features node AND pf_bits PF_REPLY_ACK = 0 \<or> \<not> is_need_reply hdr")
  case True
  with assms(2) show ?thesis by (auto simp: wait_for_ack_def effect_defs)
next
  case False
  with assms(2) obtain reply body rfds s' where
    recv: "recv_body FH VhostUserU64_T so (fe_main_sock node) = Some (Inr (reply, body, rfds), s')"
    and ok: "is_reply_for FrontendReq_Req reply hdr" "rfds = None" "u64_value body = 0"
      "node' = node\<lparr>fe_main_sock := s'\<rparr>"
    by (auto simp: wait_for_ack_def readM_apply fe_check_state_apply fe_sock_def retM_apply failM_apply
        elim!: bindM_InrE thenM_SomeE split: if_splits option.splits)
  have "20 \<le> length (rx (fe_main_sock node))
    \<and> reply = hdr_from_slice (take 12 (rx (fe_main_sock node))) \<and> hdr_is_valid FrontendReq_Req reply
    \<and> body = \<lparr>u64_value = of_le_bytes (take 8 (drop 12 (rx (fe_main_sock node))))\<rparr>
    \<and> rfds = received_files (rxf (fe_main_sock node)) \<and> rx s' = drop 20 (rx (fe_main_sock node))"
    using vhost_user_header.recv_body_outcome [OF assms(1) recv]
    by (auto simp: VhostUserU64_T_def slice_def hdr_size_of_def Let_def split: if_splits)
  with ok False show ?thesis by (auto simp: Let_def)
qed

theorem wait_for_ack_accepts_witness:
  "\<exists>node'. wait_for_ack (pipe_sock 64) (hdr_new FrontendReq_Req SET_OWNER HDR_NEED_REPLY 0)
      ((fe_new \<lparr>p_budget = 0, p_tx = [],
         p_rx = hdr_as_slice (hdr_new FrontendReq_Req SET_OWNER HDR_REPLY 8)
                @ le_bytes 8 (0::u64) @ [1],
         p_rxf = []\<rparr> 1)\<lparr>fe_acked_protocol_features := 8\<rparr>) = Some (Inr (), node')
    \<and> p_rx (fe_main_sock node') = [1]"
proof -
  define h where "h = hdr_new FrontendReq_Req SET_OWNER HDR_REPLY 8"
  define req where "req = hdr_new FrontendReq_Req SET_OWNER HDR_NEED_REPLY 0"
  define s where "s = \<lparr>p_budget = 0, p_tx = [],
    p_rx = hdr_as_slice h @ le_bytes 8 (0::u64) @ [1], p_rxf = []\<rparr>"
  define node where "node = (fe_new s 1)\<lparr>fe_acked_protocol_features := 8\<rparr>"
  have len: "length (hdr_as_slice h) = 12" "length (le_bytes 8 (0::u64)) = 8"
    by (simp_all add: hdr_size_of_def)
  have nn: "hdr_as_slice h \<noteq> []" using len(1) by force
  have valid: "hdr_is_valid FrontendReq_Req h" "is_reply_for FrontendReq_Req h req" "is_need_reply req"
    by (simp_all add: h_def req_def frontend_req.hdr_new_valid_iff frontend_req.is_reply_for_iff
        MAX_MSG_SIZE_def hdr_flag_defs)
  have "recv_body FH VhostUserU64_T (pipe_sock 64) s
      = Some (Inr (h, \<lparr>u64_value = 0\<rparr>, None), s\<lparr>p_rx := [1]\<rparr>)"
    using len valid nn
    by (simp add: recv_body_def recv_into_iovec_all_def recv_iovec_loop.simps recv_into_iovec_def
        hdr_size_of_def sub_lens_def pipe_sock_def fill_at_def Let_def effect_defs s_def
        VhostUserU64_T_def slice_def)
  then have run: "wait_for_ack (pipe_sock 64) req node = Some (Inr (), node\<lparr>fe_main_sock := s\<lparr>p_rx := [1]\<rparr>\<rparr>)"
    using valid by (simp add: wait_for_ack_def effect_defs node_def fe_new_def fe_sock_def
        fe_check_state_def VhostUserU64_T_def)
  have "p_rx (fe_main_sock (node\<lparr>fe_main_sock := s\<lparr>p_rx := [1]\<rparr>\<rparr>)) = drop 20 (p_rx s)"
    using wait_for_ack_accepts [OF pipe_recv_law run] valid
    by (simp add: node_def fe_new_def Let_def)
  with run show ?thesis
    unfolding h_def [symmetric] req_def [symmetric] s_def [symmetric] node_def [symmetric]
    by simp
qed

subsection \<open>The device configuration\<close>

lemma error_from_errno_neq [simp]:
  "error_from_errno e \<noteq> BackendInternalError" "BackendInternalError \<noteq> error_from_errno e"
  by (auto simp: error_from_errno_def)

lemma send_iovec_all_never: "never BackendInternalError (send_iovec_all so iovs fds)"
proof -
  have "r \<noteq> Inl BackendInternalError"
    if "send_iovec_loop so iovs fds tot sent s = Some (r, s')" for tot sent s r s'
    using that
    by (induction rule: send_iovec_loop_induct)
      (auto simp: send_chunk_def send_iovec_def Let_def split: option.splits sum.splits)
  then show ?thesis unfolding never_def send_iovec_all_def by blast
qed

lemma recv_into_iovec_all_never: "never BackendInternalError (recv_into_iovec_all so bufs)"
proof -
  have "r \<noteq> Inl BackendInternalError"
    if "recv_iovec_loop so tot bufs got rfds s = Some (r, s')" for tot bufs got rfds s r s'
    using that
    by (induction rule: recv_iovec_loop_induct)
      (auto simp: recv_into_iovec_def Let_def split: option.splits sum.splits)
  then show ?thesis unfolding never_def recv_into_iovec_all_def by blast
qed

lemma never_fe_sock [never_intros]: "never e m \<Longrightarrow> never e (fe_sock m)"
  by (auto simp: never_def fe_sock_def split: option.splits)

lemma never_fe_checks [never_intros]:
  "never BackendInternalError fe_check_state"
  "never BackendInternalError (fe_check_proto_feature f)"
  by (auto simp: never_def fe_check_state_apply fe_check_proto_feature_apply split: option.splits if_splits)

lemma never_payload [never_intros]:
  "never BackendInternalError (send_request_with_payload T so code msg payload fds)"
  "never BackendInternalError (recv_reply_with_payload T so hdr)"
  unfolding send_request_with_payload_def recv_reply_with_payload_def send_message_with_payload_def
    recv_payload_into_buf_def new_request_header_def Let_def
  by (intro never_intros send_iovec_all_never recv_into_iovec_all_never; simp)+

lemma recv_reply_with_payload_valid:
  "recv_reply_with_payload T so hdr node = Some (Inr (body, buf, files), node') \<Longrightarrow>
     is_valid T body \<and> files = None"
  by (auto simp: recv_reply_with_payload_def Let_def retM_apply failM_apply
      elim!: thenM_SomeE bindM_InrE split: if_splits)

text \<open>
  C30: reading the device configuration never reports \<open>BackendInternalError\<close>, although the code has
  a branch for it: the zero length by which a backend signals its failure makes the reply fail
  validation first.
\<close>

theorem get_config_never_reports_backend_error:
  "fe_get_config so off sz flags buf node
     \<noteq> Some (Inl (VhostUserProtocol BackendInternalError), node')"
proof -
  have "is_valid VhostUserConfig_T c \<Longrightarrow> cfg_size c \<noteq> 0" for c
    by (auto simp: VhostUserConfig_T_def VhostUserConfig_is_valid_def split: option.splits if_splits)
  then have size: "cfg_size c \<noteq> 0"
    if "recv_reply_with_payload VhostUserConfig_T so hdr n = Some (Inr (c, b, fds), n')"
    for hdr n c b fds n'
    using recv_reply_with_payload_valid [OF that] by blast
  have tail: "never BackendInternalError (bindM (recv_reply_with_payload VhostUserConfig_T so hdr)
      (\<lambda>(c, b, fds). if fds \<noteq> None then failM InvalidMessage
         else if cfg_size c = 0 then failM BackendInternalError
         else if P c then failM InvalidMessage else retM (c, b)))" for hdr P
    using never_payload(2) [of VhostUserConfig_T so hdr] unfolding never_def
    by (auto elim!: bindM_SomeE simp: retM_apply failM_apply split: if_splits
        dest: size)
  have "never BackendInternalError (let body = VhostUserConfig_new off sz flags in
      if \<not> is_valid VhostUserConfig_T body then failM InvalidParam
      else thenM (fe_check_proto_feature PF_CONFIG)
        (bindM (send_request_with_payload VhostUserConfig_T so GET_CONFIG body buf None) (\<lambda>hdr.
          bindM (recv_reply_with_payload VhostUserConfig_T so hdr) (\<lambda>(body_reply, buf_reply, rfds).
            if rfds \<noteq> None then failM InvalidMessage
            else if cfg_size body_reply = 0 then failM BackendInternalError
            else if cfg_size body_reply \<noteq> cfg_size body
                    \<or> unat (cfg_size body_reply) \<noteq> length buf
                    \<or> cfg_offset body_reply \<noteq> cfg_offset body
              then failM InvalidMessage
            else retM (body_reply, buf_reply)))))"
    unfolding Let_def by (intro never_intros tail) simp
  then show ?thesis
    unfolding fe_get_config_def never_def
    by (auto simp: api_def mapErrM_def split: option.splits sum.splits)
qed

subsection \<open>The frontend as a VhostBackend\<close>

definition frontend_backend :: "'s sock_ops \<Rightarrow> 's FrontendInternal VhostBackend" where
  "frontend_backend so =
     \<lparr>vb_get_features = fe_get_features so,
      vb_set_features = fe_set_features so,
      vb_set_owner = fe_set_owner so,
      vb_reset_owner = fe_reset_owner so,
      vb_set_mem_table = fe_set_mem_table so,
      vb_set_log_base = fe_set_log_base so,
      vb_set_log_fd = fe_set_log_fd so,
      vb_set_vring_num = fe_set_vring_num so,
      vb_set_vring_addr = fe_set_vring_addr so,
      vb_set_vring_base = fe_set_vring_base so,
      vb_get_vring_base = fe_get_vring_base so,
      vb_set_vring_call = fe_set_vring_call so,
      vb_set_vring_kick = fe_set_vring_kick so,
      vb_set_vring_err = fe_set_vring_err so\<rparr>"

interpretation frontend_vb: vhost_backend "frontend_backend so" MAX_ATTACHED_FD_ENTRIES for so
  by unfold_locales (auto simp: frontend_backend_def fe_set_mem_table_def api_def mapErrM_def failM_def)

interpretation frontend_rwlock: wrapped_backend "frontend_backend so" MAX_ATTACHED_FD_ENTRIES rwlock_new
    "rwlock_backend (frontend_backend so)" for so
  by unfold_locales

end
