(* ===== verification/End_To_End.thy ===== *)
theory End_To_End
  imports Frontend Backend_Req_Handler
begin

text \<open>
  The two ends of the frontend channel together: the bytes that \<open>Frontend\<close>
  (\<open>vhost/src/vhost_user/frontend.rs\<close>) sends are handled by \<open>BackendReqHandler\<close>
  (\<open>vhost/src/vhost_user/backend_req_handler.rs\<close>), and the bytes of its reply or acknowledgement
  are what the frontend then reads. The sockets of the two ends are different parameters, each
  cutting its streams into pieces of its own.
\<close>

subsection \<open>One end of a connection\<close>

definition endpoint ::
    "'s sock_ops \<Rightarrow> ('s \<Rightarrow> (u8 list \<times> fd list) list) \<Rightarrow> ('s \<Rightarrow> u8 list) \<Rightarrow> ('s \<Rightarrow> fd list) \<Rightarrow> ('s \<Rightarrow> nat) \<Rightarrow> bool" where
  "endpoint so tx rx rxf budget \<longleftrightarrow> send_law so tx \<and> recv_law so rx rxf \<and> duplex_law so tx rx rxf
     \<and> send_progress so budget \<and> recv_progress so rx budget"

lemma pipe_endpoint [simp]: "0 < k \<Longrightarrow> endpoint (pipe_sock k) p_tx p_rx p_rxf p_budget"
  by (simp add: endpoint_def)

lemma endpoint_duplex: "endpoint so tx rx rxf budget \<Longrightarrow> duplex_law so tx rx rxf"
  by (simp add: endpoint_def)

text \<open>The bytes and the descriptors of the chunks that were sent.\<close>

definition sent_bytes :: "(u8 list \<times> fd list) list \<Rightarrow> u8 list" where
  "sent_bytes cs = concat (map fst cs)"

definition sent_fds :: "(u8 list \<times> fd list) list \<Rightarrow> fd list" where
  "sent_fds cs = concat (map snd cs)"

lemma header_sent:
  assumes "endpoint so tx rx rxf budget"
  shows "\<exists>s' cs. send_header FH so hdr None s = Some (Inr (), s') \<and> tx s' = tx s @ cs
    \<and> sent_bytes cs = hdr_as_slice hdr \<and> sent_fds cs = [] \<and> rx s' = rx s \<and> rxf s' = rxf s"
proof -
  from assms have law: "send_law so tx" "send_progress so budget" "duplex_law so tx rx rxf"
    by (simp_all add: endpoint_def)
  obtain s' where run: "send_iovec_all so [hdr_as_slice hdr] None s = Some (Inr (length (concat [hdr_as_slice hdr])), s')"
    using send_all_returns [OF law(1,2)] by blast
  from send_all_outcome [OF law(1) run] obtain cs where
    cs: "tx s' = tx s @ cs" "concat (map fst cs) = hdr_as_slice hdr"
      "map snd cs = map (chunk_fds None) [0..<length cs]" by auto
  have "sent_fds cs = []" unfolding sent_fds_def cs(3) by (auto simp: chunk_fds_def)
  with run cs(1,2) send_all_keeps_rx [OF law(3) run] show ?thesis
    by (intro exI [of _ s'] exI [of _ cs]) (simp add: send_header_def effect_defs sent_bytes_def)
qed

lemma header_received:
  assumes "endpoint so tx rx rxf budget" and "rx s = hdr_as_slice hdr @ later" and "hdr_is_valid R hdr"
  shows "\<exists>s'. recv_header (VhostUserMsgHeader_H R) so s = Some (Inr (hdr, received_files (rxf s)), s') \<and> rx s' = later \<and> tx s' = tx s"
proof -
  from assms(1) have law: "recv_law so rx rxf" "recv_progress so rx budget" "duplex_law so tx rx rxf"
    by (simp_all add: endpoint_def)
  let ?buf = "[replicate hdr_size_of 0]"
  obtain bufs' files s' where run: "recv_into_iovec_all so ?buf s = Some (Inr (hdr_size_of, bufs', files), s')"
    using recv_all_returns [OF law(1,2), of ?buf s] assms(2) by auto
  note out = recv_all_outcome [OF law(1) run]
  then obtain b where b: "bufs' = [b]" by (auto simp: map_eq_Cons_conv)
  with out assms(2) have "b = hdr_as_slice hdr" "rx s' = later" "files = received_files (rxf s)"
    by (auto simp: hdr_size_of_def)
  with run b assms(3) recv_all_keeps_tx [OF law(3) run] show ?thesis
    by (simp add: recv_header_def effect_defs Let_def hdr_size_of_def vhost_user_header.from_slice_as_slice [simplified])
qed

text \<open>A message that an endpoint sends: its bytes, and its descriptors with the first of them.\<close>

lemma message_sent:
  assumes "endpoint so tx rx rxf budget" and "byte_valued T ok" and "ok msg" and "size_of T \<le> MAX_MSG_SIZE"
  shows "\<exists>s' cs. send_message (VhostUserMsgHeader_H R) T so hdr msg fds s = Some (Inr (), s') \<and> tx s' = tx s @ cs
    \<and> sent_bytes cs = hdr_as_slice hdr @ as_slice T msg
    \<and> sent_fds cs = (case fds of None \<Rightarrow> [] | Some l \<Rightarrow> l) \<and> rx s' = rx s \<and> rxf s' = rxf s"
proof -
  from assms(1) have law: "send_law so tx" "send_progress so budget" "duplex_law so tx rx rxf"
    by (simp_all add: endpoint_def)
  obtain s' cs where sent: "send_message (VhostUserMsgHeader_H R) T so hdr msg fds s = Some (Inr (), s')"
    "tx s' = tx s @ cs" "concat (map fst cs) = hdr_as_slice hdr @ as_slice T msg"
    "map snd cs = map (chunk_fds fds) [0..<length cs]"
    using vhost_user_header.send_message_completes [OF assms(2,3) _ law(1,2), of R hdr fds s] assms(4) by auto
  have "length (concat (map fst cs)) \<noteq> 0" by (simp only: sent(3)) (simp add: hdr_size_of_def)
  then have "cs \<noteq> []" by auto
  then have "concat (map snd cs) = (case fds of None \<Rightarrow> [] | Some l \<Rightarrow> l)"
    unfolding sent(4) by (cases cs) (auto simp: upt_conv_Cons chunk_fds_def simp del: upt_Suc)
  moreover have "rx s' = rx s \<and> rxf s' = rxf s"
    using sent(1) send_all_keeps_rx [OF law(3)] unfolding send_message_def
    by (auto elim!: bindM_InrE simp: guardM_apply failM_apply split: if_splits)
  ultimately show ?thesis using sent(1-3) by (auto simp: sent_bytes_def sent_fds_def)
qed

lemma reply_sent:
  assumes "endpoint so tx rx rxf budget" and "byte_valued T ok" and "ok msg" and "size_of T \<le> MAX_MSG_SIZE"
    and "bh_error h = None" and "get_code FrontendReq_Req req = Inr code"
  shows "\<exists>s' cs. send_reply_message T so req msg h = Some (Inr (), h\<lparr>bh_main_sock := s'\<rparr>)
    \<and> tx s' = tx (bh_main_sock h) @ cs
    \<and> sent_bytes cs = hdr_as_slice (hdr_new FrontendReq_Req code HDR_REPLY (word_of_nat (size_of T))) @ as_slice T msg
    \<and> sent_fds cs = [] \<and> rx s' = rx (bh_main_sock h)"
proof -
  let ?hdr = "hdr_new FrontendReq_Req code HDR_REPLY (word_of_nat (size_of T))"
  from message_sent [OF assms(1-4), of FrontendReq_Req ?hdr None "bh_main_sock h"] obtain s' cs where
    sent: "send_message FH T so ?hdr msg None (bh_main_sock h) = Some (Inr (), s')"
    "tx s' = tx (bh_main_sock h) @ cs" "sent_bytes cs = hdr_as_slice ?hdr @ as_slice T msg"
    "sent_fds cs = []" "rx s' = rx (bh_main_sock h)" by auto
  moreover have "send_reply_message T so req msg h = Some (Inr (), h\<lparr>bh_main_sock := s'\<rparr>)"
    using sent(1) new_reply_header_ok [OF _ assms(5,6), of "size_of T" 0] assms(4)
    by (simp add: send_reply_message_def bindM_def on_sock_def)
  ultimately show ?thesis by auto
qed

subsection \<open>Features\<close>

text \<open>The header of a request without a body, as a frontend sends it.\<close>

definition bare_request :: "FrontendReq \<Rightarrow> 's FrontendInternal \<Rightarrow> VhostUserMsgHeader" where
  "bare_request code f = hdr_new FrontendReq_Req code (fe_hdr_flags f OR 0x1) 0"

lemma bare_request_simps [simp]:
  "hdr_is_valid FrontendReq_Req (bare_request code f)"
  "get_code FrontendReq_Req (bare_request code f) = Inr code"
  "get_size (bare_request code f) = 0" "get_version (bare_request code f) = 1"
  "is_reply (bare_request code f) \<longleftrightarrow> fe_hdr_flags f AND HDR_REPLY \<noteq> 0"
  "is_need_reply (bare_request code f) \<longleftrightarrow> fe_hdr_flags f AND HDR_NEED_REPLY \<noteq> 0"
  by (simp_all add: bare_request_def frontend_req.hdr_new_valid_iff get_size_def hdr_flag_defs mask_simps)

lemma bare_request_sent:
  assumes "endpoint so tx rx rxf budget" and "fe_error f = None"
  shows "\<exists>s' cs. send_request_header so code None f = Some (Inr (bare_request code f), f\<lparr>fe_main_sock := s'\<rparr>)
    \<and> tx s' = tx (fe_main_sock f) @ cs \<and> sent_bytes cs = hdr_as_slice (bare_request code f) \<and> sent_fds cs = []
    \<and> rx s' = rx (fe_main_sock f) \<and> rxf s' = rxf (fe_main_sock f)"
proof -
  from header_sent [OF assms(1), of "bare_request code f" "fe_main_sock f"] obtain s' cs where
    "send_header FH so (bare_request code f) None (fe_main_sock f) = Some (Inr (), s')" "tx s' = tx (fe_main_sock f) @ cs"
    "sent_bytes cs = hdr_as_slice (bare_request code f)" "sent_fds cs = []" "rx s' = rx (fe_main_sock f)"
    "rxf s' = rxf (fe_main_sock f)" by blast
  then show ?thesis
    using assms(2)
    by (intro exI [of _ s'] exI [of _ cs])
      (simp add: send_request_header_def fe_check_state_apply new_request_header_def fe_sock_def
        bare_request_def effect_defs)
qed

text \<open>A request without a body is received, checked and dispatched with nothing left of it.\<close>

lemma bare_request_dispatched:
  assumes "endpoint so tx rx rxf budget" and "bh_error h = None"
    and "rx (bh_main_sock h) = hdr_as_slice (bare_request code f) @ later" and "rxf (bh_main_sock h) = []"
  shows "\<exists>s'. handle_request B so opt h
      = dispatch B so opt (bare_request code f) 0 [] None code (h\<lparr>bh_main_sock := s'\<rparr>)
    \<and> rx s' = later \<and> tx s' = tx (bh_main_sock h)"
proof -
  from header_received [OF assms(1,3), of FrontendReq_Req] obtain s' where
    s': "recv_header FH so (bh_main_sock h) = Some (Inr (bare_request code f, None), s')" "rx s' = later"
      "tx s' = tx (bh_main_sock h)"
    using assms(4) by (auto simp: received_files_def)
  then show ?thesis
    using assms(2)
    by (intro exI [of _ s'])
      (simp add: handle_request_def check_state_apply on_sock_def check_attached_files_def
        recv_request_body_def effect_defs)
qed

lemma u64_reply_received:
  assumes "request_codes R" and "endpoint so tx rx rxf budget"
    and "rx s = hdr_as_slice (hdr_new R code HDR_REPLY 8) @ as_slice VhostUserU64_T msg @ later"
    and "rxf s = []"
  shows "\<exists>s'. recv_body (VhostUserMsgHeader_H R) VhostUserU64_T so s
      = Some (Inr (hdr_new R code HDR_REPLY 8, msg, None), s') \<and> rx s' = later"
proof -
  have "is_valid (hdr_T (VhostUserMsgHeader_H R)) (hdr_new R code HDR_REPLY 8)" "is_valid VhostUserU64_T msg"
    by (simp_all add: request_codes.hdr_new_valid_iff [OF assms(1)] MAX_MSG_SIZE_def VhostUserU64_T_def)
  with vhost_user_header.recv_body_reads [OF u64_body.byte_valued_axioms TrueI, of R _ msg so rx rxf budget s later]
    assms show ?thesis
    by (simp add: endpoint_def received_files_def)
qed

lemma bare_request_sock [simp]: "bare_request code (f\<lparr>fe_main_sock := s\<rparr>) = bare_request code f"
  by (simp add: bare_request_def)

lemma features_reply_read:
  assumes "endpoint so tx rx rxf budget" and "fe_error f = None" and "fe_hdr_flags f AND HDR_REPLY = 0"
    and "rx (fe_main_sock f) = hdr_as_slice (hdr_new FrontendReq_Req GET_FEATURES HDR_REPLY 8)
           @ as_slice VhostUserU64_T (VhostUserU64_new v) @ later"
    and "rxf (fe_main_sock f) = []"
  shows "\<exists>f' request. fe_get_features so f = Some (Inr v, f') \<and> fe_virtio_features f' = v
    \<and> tx (fe_main_sock f') = tx (fe_main_sock f) @ request
    \<and> sent_bytes request = hdr_as_slice (bare_request GET_FEATURES f) \<and> sent_fds request = []
    \<and> rx (fe_main_sock f') = later"
proof -
  let ?req = "bare_request GET_FEATURES f" and ?hdr = "hdr_new FrontendReq_Req GET_FEATURES HDR_REPLY 8"
  obtain s3 request where req: "send_request_header so GET_FEATURES None f = Some (Inr ?req, f\<lparr>fe_main_sock := s3\<rparr>)"
    "tx s3 = tx (fe_main_sock f) @ request" "sent_bytes request = hdr_as_slice ?req" "sent_fds request = []"
    "rx s3 = rx (fe_main_sock f)" "rxf s3 = rxf (fe_main_sock f)"
    using bare_request_sent [OF assms(1,2)] by blast
  from u64_reply_received [OF frontend_req.request_codes_axioms assms(1), of s3 GET_FEATURES "VhostUserU64_new v" later] assms(4,5) req(5,6) obtain s4 where
    s4: "recv_body FH VhostUserU64_T so s3 = Some (Inr (?hdr, VhostUserU64_new v, None), s4)" "rx s4 = later"
    by auto
  have "tx s4 = tx s3" by (rule recv_body_keeps_tx [OF endpoint_duplex [OF assms(1)] s4(1)])
  moreover have "recv_reply VhostUserU64_T so ?req (f\<lparr>fe_main_sock := s3\<rparr>)
      = Some (Inr (VhostUserU64_new v), f\<lparr>fe_main_sock := s4\<rparr>)"
    using s4(1) assms(2,3)
    by (simp add: recv_reply_def fe_check_state_apply fe_sock_def frontend_req.is_reply_for_iff
        MAX_MSG_SIZE_def effect_defs VhostUserU64_T_def hdr_flag_defs)
  ultimately show ?thesis
    using req s4(2)
    by (intro exI [of _ "f\<lparr>fe_main_sock := s4, fe_virtio_features := v\<rparr>"] exI [of _ request])
      (simp add: fe_get_features_def api_def effect_defs VhostUserU64_new_def)
qed

text \<open>
  C5: \<open>get_features\<close> from end to end: when the backend reads the bytes that the frontend sends, it
  asks the device, and when the frontend reads the bytes that the backend then sent, it returns
  just the features that the device gave. Both ends have taken these messages and nothing more from
  their streams, both remember the features, and the device was called once.
\<close>

theorem get_features_end_to_end:
  assumes "endpoint so tx rx rxf budget" and "endpoint so' tx' rx' rxf' budget'"
    and "fe_error f = None" and "bh_error h = None" and "fe_hdr_flags f AND HDR_REPLY = 0"
    and "be_get_features B (bh_backend h) = Some (Inr v, b')"
    and "rx' (bh_main_sock h) = hdr_as_slice (bare_request GET_FEATURES f) @ later'" and "rxf' (bh_main_sock h) = []"
  shows "\<exists>h' reply. handle_request B so' opt h = Some (Inr (), h')
    \<and> tx' (bh_main_sock h') = tx' (bh_main_sock h) @ reply \<and> rx' (bh_main_sock h') = later'
    \<and> bh_backend h' = b' \<and> bh_virtio_features h' = v \<and> sent_fds reply = []
    \<and> (\<forall>s later. rx s = sent_bytes reply @ later \<and> rxf s = sent_fds reply \<longrightarrow>
        (\<exists>f' request. fe_get_features so (f\<lparr>fe_main_sock := s\<rparr>) = Some (Inr v, f') \<and> fe_virtio_features f' = v
           \<and> tx (fe_main_sock f') = tx s @ request
           \<and> sent_bytes request = hdr_as_slice (bare_request GET_FEATURES f) \<and> sent_fds request = []
           \<and> rx (fe_main_sock f') = later))"
proof -
  let ?req = "bare_request GET_FEATURES f" and ?hdr = "hdr_new FrontendReq_Req GET_FEATURES HDR_REPLY 8"
  from bare_request_dispatched [OF assms(2,4,7,8)] obtain s1 where
    s1: "handle_request B so' opt h = dispatch B so' opt ?req 0 [] None GET_FEATURES (h\<lparr>bh_main_sock := s1\<rparr>)"
      "rx' s1 = later'" "tx' s1 = tx' (bh_main_sock h)" by blast
  let ?h1 = "h\<lparr>bh_main_sock := s1, bh_backend := b'\<rparr>"
  from reply_sent [OF assms(2) u64_body.byte_valued_axioms TrueI, of ?h1 ?req GET_FEATURES "VhostUserU64_new v"]
  obtain s2 reply where
    r: "send_reply_message VhostUserU64_T so' ?req (VhostUserU64_new v) ?h1 = Some (Inr (), ?h1\<lparr>bh_main_sock := s2\<rparr>)"
      "tx' s2 = tx' s1 @ reply" "sent_bytes reply = hdr_as_slice ?hdr @ as_slice VhostUserU64_T (VhostUserU64_new v)"
      "sent_fds reply = []" "rx' s2 = rx' s1"
    using assms(4) by (auto simp: VhostUserU64_T_def MAX_MSG_SIZE_def)
  obtain h' where h': "handle_request B so' opt h = Some (Inr (), h')" "bh_main_sock h' = s2" "bh_backend h' = b'"
      "bh_virtio_features h' = v"
    using s1(1) r(1) assms(5,6)
    by (simp add: handle_GET_FEATURES_def check_request_size_def on_backend_def update_reply_ack_flag_def
        Let_def effect_defs)
  have "\<exists>f' request. fe_get_features so (f\<lparr>fe_main_sock := s\<rparr>) = Some (Inr v, f') \<and> fe_virtio_features f' = v
      \<and> tx (fe_main_sock f') = tx s @ request \<and> sent_bytes request = hdr_as_slice ?req \<and> sent_fds request = []
      \<and> rx (fe_main_sock f') = later"
    if "rx s = sent_bytes reply @ later" "rxf s = sent_fds reply" for s later
    using features_reply_read [OF assms(1), of "f\<lparr>fe_main_sock := s\<rparr>" v later] that r(3,4) assms(3,5) by simp
  with h' s1(2,3) r(2,4,5) show ?thesis by (intro exI [of _ h'] exI [of _ reply]) simp
qed

text \<open>Sockets for the witnesses, which move a few bytes at a time and refuse the first attempt.\<close>

definition quiet_pipe :: "u8 list \<Rightarrow> pipe" where
  "quiet_pipe bytes = \<lparr>p_budget = 1, p_tx = [], p_rx = bytes, p_rxf = []\<rparr>"

theorem get_features_end_to_end_witness:
  "\<exists>h' f'. handle_request counting_device (pipe_sock 5) (\<lambda>f n. Inr 0)
       (brh_new (quiet_pipe (hdr_as_slice (hdr_new FrontendReq_Req GET_FEATURES 1 0))) 3) = Some (Inr (), h')
     \<and> bh_backend h' = 4
     \<and> fe_get_features (pipe_sock 7) (fe_new (quiet_pipe (sent_bytes (p_tx (bh_main_sock h')))) 1) = Some (Inr 0, f')"
proof -
  let ?f = "fe_new (quiet_pipe []) 1"
  let ?h = "brh_new (quiet_pipe (hdr_as_slice (hdr_new FrontendReq_Req GET_FEATURES 1 0))) (3::nat)"
  have hyps: "fe_error ?f = None" "bh_error ?h = None" "fe_hdr_flags ?f AND HDR_REPLY = 0"
    "be_get_features counting_device (bh_backend ?h) = Some (Inr 0, 4)"
    "p_rx (bh_main_sock ?h) = hdr_as_slice (bare_request GET_FEATURES ?f) @ []" "p_rxf (bh_main_sock ?h) = []"
    by (simp_all add: brh_new_def fe_new_def quiet_pipe_def bare_request_def counting_device_def tick_def)
  obtain h' reply where h': "handle_request counting_device (pipe_sock 5) (\<lambda>f n. Inr 0) ?h = Some (Inr (), h')"
    "p_tx (bh_main_sock h') = p_tx (bh_main_sock ?h) @ reply" "bh_backend h' = 4" "sent_fds reply = []"
    "\<forall>s later. p_rx s = sent_bytes reply @ later \<and> p_rxf s = sent_fds reply \<longrightarrow>
        (\<exists>f'. fe_get_features (pipe_sock 7) (?f\<lparr>fe_main_sock := s\<rparr>) = Some (Inr 0, f'))"
    using get_features_end_to_end [OF pipe_endpoint [of 7] pipe_endpoint [of 5] hyps, of "\<lambda>f n. Inr 0"] by fastforce
  moreover have "p_tx (bh_main_sock ?h) = []" by (simp add: brh_new_def quiet_pipe_def)
  moreover obtain f' where "fe_get_features (pipe_sock 7) (?f\<lparr>fe_main_sock := quiet_pipe (sent_bytes reply)\<rparr>) = Some (Inr 0, f')"
    using h'(4) h'(5) [rule_format, of "quiet_pipe (sent_bytes reply)" "[]"] by (auto simp: quiet_pipe_def)
  ultimately show ?thesis by (auto simp: fe_new_def)
qed

subsection \<open>Acknowledgements\<close>

lemma wait_for_ack_keeps_tx:
  assumes "duplex_law so tx rx rxf" and "wait_for_ack so hdr f = Some (r, f')"
  shows "tx (fe_main_sock f') = tx (fe_main_sock f)"
  using assms(2) recv_body_keeps_tx [OF assms(1)]
  unfolding wait_for_ack_def fe_sock_def
  by (auto elim!: bindM_SomeE thenM_SomeE simp: readM_apply retM_apply failM_apply
      fe_check_state_apply split: if_splits option.splits prod.splits)

lemma ack_received:
  assumes "endpoint so tx rx rxf budget" and "fe_error f = None"
    and "fe_acked_protocol_features f AND pf_bits PF_REPLY_ACK \<noteq> 0"
    and "is_need_reply req" and "\<not> is_reply req" and "get_code FrontendReq_Req req = Inr code"
    and "rx (fe_main_sock f) = hdr_as_slice (hdr_new FrontendReq_Req code HDR_REPLY 8) @ le_bytes 8 (v :: u64) @ later"
    and "rxf (fe_main_sock f) = []"
  shows "\<exists>s'. wait_for_ack so req f = Some (if v = 0 then Inr () else Inl BackendInternalError, f\<lparr>fe_main_sock := s'\<rparr>)
    \<and> rx s' = later"
proof -
  have "as_slice VhostUserU64_T (VhostUserU64_new v) = le_bytes 8 v"
    by (simp add: VhostUserU64_T_def VhostUserU64_new_def)
  with u64_reply_received [OF frontend_req.request_codes_axioms assms(1), of "fe_main_sock f" code "VhostUserU64_new v" later] assms(7,8)
  obtain s' where "recv_body FH VhostUserU64_T so (fe_main_sock f)
      = Some (Inr (hdr_new FrontendReq_Req code HDR_REPLY 8, VhostUserU64_new v, None), s')" "rx s' = later"
    by auto
  then show ?thesis
    using assms(2-6)
    by (intro exI [of _ s'])
      (simp add: wait_for_ack_def fe_check_state_apply fe_sock_def frontend_req.is_reply_for_iff effect_defs
        VhostUserU64_T_def VhostUserU64_new_def hdr_flag_defs)
qed

text \<open>
  C16: an error of the device reaches the caller of the frontend. With \<open>REPLY_ACK\<close> negotiated at both
  ends and asked for, the caller of \<open>set_owner\<close> is told \<open>Ok\<close> exactly when the device accepted, and
  \<open>BackendInternalError\<close> when it refused; the backend's server gets the device's own result, and
  both ends have taken these messages and nothing more from their streams.
\<close>

theorem set_owner_end_to_end:
  assumes "endpoint so tx rx rxf budget" and "endpoint so' tx' rx' rxf' budget'"
    and "fe_error f = None" and "bh_error h = None" and "fe_hdr_flags f AND HDR_REPLY = 0"
    and "fe_hdr_flags f AND HDR_NEED_REPLY \<noteq> 0" and "fe_acked_protocol_features f AND pf_bits PF_REPLY_ACK \<noteq> 0"
    and "bh_reply_ack_enabled h" and "be_set_owner B (bh_backend h) = Some (res, b')"
    and "rx' (bh_main_sock h) = hdr_as_slice (bare_request SET_OWNER f) @ later'" and "rxf' (bh_main_sock h) = []"
  shows "\<exists>h' reply. handle_request B so' opt h = Some (res, h')
    \<and> tx' (bh_main_sock h') = tx' (bh_main_sock h) @ reply \<and> bh_backend h' = b' \<and> sent_fds reply = []
    \<and> (\<forall>s later. rx s = sent_bytes reply @ later \<and> rxf s = sent_fds reply \<longrightarrow>
        (\<exists>f' request. fe_set_owner so (f\<lparr>fe_main_sock := s\<rparr>)
              = Some (if isl res then Inl (VhostUserProtocol BackendInternalError) else Inr (), f')
           \<and> tx (fe_main_sock f') = tx s @ request
           \<and> sent_bytes request = hdr_as_slice (bare_request SET_OWNER f) \<and> sent_fds request = []
           \<and> rx (fe_main_sock f') = later))"
proof -
  let ?req = "bare_request SET_OWNER f"
  let ?ack = "hdr_as_slice (hdr_new FrontendReq_Req SET_OWNER HDR_REPLY 8) @ le_bytes 8 (if isl res then 1 else 0 :: u64)"
  from bare_request_dispatched [OF assms(2,4,10,11)] obtain s1 where
    s1: "handle_request B so' opt h = dispatch B so' opt ?req 0 [] None SET_OWNER (h\<lparr>bh_main_sock := s1\<rparr>)"
      "tx' s1 = tx' (bh_main_sock h)" by blast
  let ?h1 = "h\<lparr>bh_main_sock := s1, bh_backend := b'\<rparr>"
  obtain s2 reply where r: "send_ack_message so' ?req res ?h1 = Some (res, ?h1\<lparr>bh_main_sock := s2\<rparr>)"
    "tx' s2 = tx' s1 @ reply" "sent_bytes reply = ?ack" "sent_fds reply = []"
    using ack_sent [of so' tx' budget' ?h1 ?req SET_OWNER res] assms(2,4,6,8)
    by (auto simp: endpoint_def sent_bytes_def sent_fds_def)
  then have h': "handle_request B so' opt h = Some (res, ?h1\<lparr>bh_main_sock := s2\<rparr>)"
    using s1(1) assms(5,9)
    by (simp add: handle_SET_OWNER_def check_request_size_def on_backend_def effect_defs)
  have "\<exists>f' request. fe_set_owner so (f\<lparr>fe_main_sock := s\<rparr>)
        = Some (if isl res then Inl (VhostUserProtocol BackendInternalError) else Inr (), f')
      \<and> tx (fe_main_sock f') = tx s @ request \<and> sent_bytes request = hdr_as_slice ?req \<and> sent_fds request = []
      \<and> rx (fe_main_sock f') = later"
    if "rx s = sent_bytes reply @ later" "rxf s = sent_fds reply" for s later
  proof -
    obtain s3 request where q: "send_request_header so SET_OWNER None (f\<lparr>fe_main_sock := s\<rparr>)
        = Some (Inr ?req, f\<lparr>fe_main_sock := s3\<rparr>)"
      "tx s3 = tx s @ request" "sent_bytes request = hdr_as_slice ?req" "sent_fds request = []" "rx s3 = rx s" "rxf s3 = rxf s"
      using bare_request_sent [OF assms(1), of "f\<lparr>fe_main_sock := s\<rparr>" SET_OWNER] assms(3) by auto
    with that r(3,4) have "rx s3 = hdr_as_slice (hdr_new FrontendReq_Req SET_OWNER HDR_REPLY 8)
        @ le_bytes 8 (if isl res then 1 else 0 :: u64) @ later" "rxf s3 = []" by simp_all
    then obtain s4 where w: "wait_for_ack so ?req (f\<lparr>fe_main_sock := s3\<rparr>)
        = Some (if isl res then Inl BackendInternalError else Inr (), f\<lparr>fe_main_sock := s4\<rparr>)" "rx s4 = later"
      using ack_received [OF assms(1), of "f\<lparr>fe_main_sock := s3\<rparr>" ?req SET_OWNER "if isl res then 1 else 0" later] assms(3,5-7)
      by (auto split: if_splits)
    have "tx s4 = tx s3"
      using wait_for_ack_keeps_tx [OF endpoint_duplex [OF assms(1)] w(1)] by simp
    with q w show ?thesis
      by (intro exI [of _ "f\<lparr>fe_main_sock := s4\<rparr>"] exI [of _ request])
        (simp add: fe_set_owner_def api_def effect_defs)
  qed
  with h' s1(2) r(2,4) show ?thesis
    by (intro exI [of _ "?h1\<lparr>bh_main_sock := s2\<rparr>"] exI [of _ reply]) simp
qed

theorem set_owner_end_to_end_witness:
  "\<exists>h' f'. handle_request (counting_device\<lparr>be_set_owner := failM InvalidParam\<rparr>) (pipe_sock 5) (\<lambda>f n. Inr 0)
       ((brh_new (quiet_pipe (hdr_as_slice (hdr_new FrontendReq_Req SET_OWNER 9 0))) 3)\<lparr>bh_reply_ack_enabled := True\<rparr>)
         = Some (Inl InvalidParam, h')
     \<and> fe_set_owner (pipe_sock 7) ((fe_new (quiet_pipe (sent_bytes (p_tx (bh_main_sock h')))) 1)
           \<lparr>fe_acked_protocol_features := 8, fe_hdr_flags := 8\<rparr>)
         = Some (Inl (VhostUserProtocol BackendInternalError), f')"
proof -
  let ?B = "counting_device\<lparr>be_set_owner := failM InvalidParam\<rparr>"
  let ?f = "(fe_new (quiet_pipe []) 1)\<lparr>fe_acked_protocol_features := 8, fe_hdr_flags := 8\<rparr>"
  let ?h = "(brh_new (quiet_pipe (hdr_as_slice (hdr_new FrontendReq_Req SET_OWNER 9 0))) (3::nat))\<lparr>bh_reply_ack_enabled := True\<rparr>"
  have hyps: "fe_error ?f = None" "bh_error ?h = None" "fe_hdr_flags ?f AND HDR_REPLY = 0"
    "fe_hdr_flags ?f AND HDR_NEED_REPLY \<noteq> 0" "fe_acked_protocol_features ?f AND pf_bits PF_REPLY_ACK \<noteq> 0"
    "bh_reply_ack_enabled ?h" "be_set_owner ?B (bh_backend ?h) = Some (Inl InvalidParam, 3)"
    "p_rx (bh_main_sock ?h) = hdr_as_slice (bare_request SET_OWNER ?f) @ []" "p_rxf (bh_main_sock ?h) = []"
    by (simp_all add: brh_new_def fe_new_def quiet_pipe_def bare_request_def hdr_flag_defs failM_def)
  obtain h' reply where h': "handle_request ?B (pipe_sock 5) (\<lambda>f n. Inr 0) ?h = Some (Inl InvalidParam, h')"
    "p_tx (bh_main_sock h') = p_tx (bh_main_sock ?h) @ reply" "sent_fds reply = []"
    "\<forall>s later. p_rx s = sent_bytes reply @ later \<and> p_rxf s = sent_fds reply \<longrightarrow>
        (\<exists>f'. fe_set_owner (pipe_sock 7) (?f\<lparr>fe_main_sock := s\<rparr>) = Some (Inl (VhostUserProtocol BackendInternalError), f'))"
    using set_owner_end_to_end [OF pipe_endpoint [of 7] pipe_endpoint [of 5] hyps, of "\<lambda>f n. Inr 0"] by fastforce
  moreover have "p_tx (bh_main_sock ?h) = []" by (simp add: brh_new_def quiet_pipe_def)
  moreover obtain f' where "fe_set_owner (pipe_sock 7) (?f\<lparr>fe_main_sock := quiet_pipe (sent_bytes reply)\<rparr>)
      = Some (Inl (VhostUserProtocol BackendInternalError), f')"
    using h'(3) h'(4) [rule_format, of "quiet_pipe (sent_bytes reply)" "[]"] by (auto simp: quiet_pipe_def)
  ultimately show ?thesis by (auto simp: fe_new_def)
qed

end
