(* ===== verification/Reverse_Channel.thy ===== *)
theory Reverse_Channel
  imports Device_Trait End_To_End
begin

text \<open>
  The two ends of the reverse channel together: what the proxy \<open>Backend\<close>
  (\<open>vhost/src/vhost_user/backend_req.rs\<close>) sends is handled by \<open>FrontendReqHandler\<close>
  (\<open>vhost/src/vhost_user/frontend_req_handler.rs\<close>), and the value of its acknowledgement decides
  what the caller of the proxy is told. The services may be shared through a \<open>Mutex\<close>, whose
  implementation of the trait forwards each of them.
\<close>

subsection \<open>Services behind a Mutex\<close>

definition mutex_services :: "'f VhostUserFrontendReqHandler \<Rightarrow> 'f Mutex VhostUserFrontendReqHandler" where
  "mutex_services S =
     \<lparr>fs_handle_config_change = lock_unwrap (fs_handle_config_change S),
      fs_shared_object_add = (\<lambda>uuid. lock_unwrap (fs_shared_object_add S uuid)),
      fs_shared_object_remove = (\<lambda>uuid. lock_unwrap (fs_shared_object_remove S uuid)),
      fs_shared_object_lookup = (\<lambda>uuid f. lock_unwrap (fs_shared_object_lookup S uuid f)),
      fs_shmem_map = (\<lambda>req f. lock_unwrap (fs_shmem_map S req f)),
      fs_shmem_unmap = (\<lambda>req. lock_unwrap (fs_shmem_unmap S req))\<rparr>"

definition wrap_services_server :: "('f \<Rightarrow> 'g) \<Rightarrow> ('s, 'f) FrontendReqHandler \<Rightarrow> ('s, 'g) FrontendReqHandler" where
  "wrap_services_server g h =
     \<lparr>fr_sub_sock = fr_sub_sock h, fr_reply_ack_negotiated = fr_reply_ack_negotiated h,
      fr_backend = g (fr_backend h), fr_error = fr_error h\<rparr>"

lemma wrap_services_server_simps [simp]:
  "fr_sub_sock (wrap_services_server g h) = fr_sub_sock h"
  "fr_reply_ack_negotiated (wrap_services_server g h) = fr_reply_ack_negotiated h"
  "fr_backend (wrap_services_server g h) = g (fr_backend h)"
  "fr_error (wrap_services_server g h) = fr_error h"
  "(wrap_services_server g h)\<lparr>fr_sub_sock := s\<rparr> = wrap_services_server g (h\<lparr>fr_sub_sock := s\<rparr>)"
  "(wrap_services_server g h)\<lparr>fr_backend := g x\<rparr> = wrap_services_server g (h\<lparr>fr_backend := x\<rparr>)"
  by (simp_all add: wrap_services_server_def)

lemma lifts_fr_on_sock [lift_intros]: "lifts (wrap_services_server g) (fr_on_sock m) (fr_on_sock m)"
  by (auto simp: lifts_def fr_on_sock_def split: option.split)

lemma lifts_fr_service [lift_intros]:
  "lifts g m m' \<Longrightarrow> lifts (wrap_services_server g) (fr_service m) (fr_service m')"
  by (auto simp: lifts_def fr_service_def split: option.split sum.split)

lemma lifts_unwrap_file [lift_intros]: "lifts g (unwrap_file files) (unwrap_file files)"
  by (auto simp: lifts_def unwrap_file_def split: option.split list.split)

lemma lifts_fr_checks [lift_intros]:
  "lifts (wrap_services_server g) fr_check_state fr_check_state"
  "lifts (wrap_services_server g) (fr_new_reply_header n hdr) (fr_new_reply_header n hdr)"
  "lifts (wrap_services_server g) (fr_send_ack_message so hdr res) (fr_send_ack_message so hdr res)"
  "lifts (wrap_services_server g) (fr_recv_request_body so hdr) (fr_recv_request_body so hdr)"
  unfolding fr_check_state_def fr_new_reply_header_def fr_send_ack_message_def fr_recv_request_body_def Let_def
  by (intro lift_intros lifts_readM; simp)+

locale transparent_services =
  fixes g :: "'f \<Rightarrow> 'g" and S :: "'f VhostUserFrontendReqHandler" and S' :: "'g VhostUserFrontendReqHandler"
  assumes lift_handle_config_change: "lifts g (fs_handle_config_change S) (fs_handle_config_change S')"
    and lift_shared_object_add: "\<And>u. lifts g (fs_shared_object_add S u) (fs_shared_object_add S' u)"
    and lift_shared_object_remove: "\<And>u. lifts g (fs_shared_object_remove S u) (fs_shared_object_remove S' u)"
    and lift_shared_object_lookup: "\<And>u f. lifts g (fs_shared_object_lookup S u f) (fs_shared_object_lookup S' u f)"
    and lift_shmem_map: "\<And>r f. lifts g (fs_shmem_map S r f) (fs_shmem_map S' r f)"
    and lift_shmem_unmap: "\<And>r. lifts g (fs_shmem_unmap S r) (fs_shmem_unmap S' r)"
begin

lemma lift_fr_dispatch:
  "lifts (wrap_services_server g) (fr_dispatch S hdr sz buf files code) (fr_dispatch S' hdr sz buf files code)"
  by (cases code; simp only: fr_dispatch.simps;
      intro lift_intros lift_handle_config_change lift_shared_object_add lift_shared_object_remove
        lift_shared_object_lookup lift_shmem_map lift_shmem_unmap)

lemma lift_fr_handle_request:
  "lifts (wrap_services_server g) (fr_handle_request S so) (fr_handle_request S' so)"
  unfolding fr_handle_request_def by (intro lift_intros lift_fr_dispatch)

end

interpretation mutex_services: transparent_services mutex_new S "mutex_services S" for S
  by unfold_locales (simp_all add: mutex_services_def lift_intros)

text \<open>
  A server whose services are shared through a \<open>Mutex\<close> handles a request as one that owns them:
  it returns the same, and the state behind the lock changes in the same way.
\<close>

lemma locked_services_equivalent:
  "fr_handle_request (mutex_services S) so (wrap_services_server mutex_new h)
   = (case fr_handle_request S so h of
        None \<Rightarrow> None
      | Some (r, h') \<Rightarrow> Some (r, wrap_services_server mutex_new h'))"
  by (rule liftsD [OF mutex_services.lift_fr_handle_request])

subsection \<open>One end of the channel\<close>

text \<open>The header of a request of the proxy.\<close>

definition service_request :: "BackendReq \<Rightarrow> nat \<Rightarrow> VhostUserMsgHeader" where
  "service_request code n = set_need_reply True (hdr_new BackendReq_Req code 0 (word_of_nat n))"

lemma service_request_simps [simp]:
  "get_code BackendReq_Req (service_request code n) = Inr code"
  "is_need_reply (service_request code n)" "\<not> is_reply (service_request code n)"
  "get_version (service_request code n) = 1"
  "get_size (service_request code n) = word_of_nat n"
  by (simp_all add: service_request_def backend_req.get_code_Inr get_size_def)
    (simp add: hdr_new_def Let_def)

lemma service_request_size: "n \<le> MAX_MSG_SIZE \<Longrightarrow> unat (get_size (service_request code n)) = n"
  by (simp add: unsigned_of_nat take_bit_nat_eq_self MAX_MSG_SIZE_def)

lemma service_request_valid: "n \<le> MAX_MSG_SIZE \<Longrightarrow> hdr_is_valid BackendReq_Req (service_request code n)"
  using service_request_size [of n code]
  by (simp add: backend_req.hdr_is_valid_iff get_size_def)
    (simp add: service_request_def set_need_reply_def hdr_new_def Let_def hdr_flag_defs mask_simps)

lemma fr_check_state_apply: "fr_error h = None \<Longrightarrow> fr_check_state h = Some (Inr (), h)"
  by (simp add: fr_check_state_def effect_defs)

lemma bc_check_state_apply: "bc_error b = None \<Longrightarrow> bc_check_state b = Some (Inr 0, b)"
  by (simp add: bc_check_state_def effect_defs)

text \<open>
  \<open>recv_data\<close> receives the body of a request in a single call, while a header is received in a
  loop: a socket that has the whole body and gives only a part of it makes the request fail.
\<close>

definition recv_whole :: "'s sock_ops \<Rightarrow> ('s \<Rightarrow> u8 list) \<Rightarrow> bool" where
  "recv_whole so rx \<longleftrightarrow> (\<forall>s len. 0 < len \<and> len \<le> length (rx s) \<longrightarrow>
     (\<exists>fds s'. recv_with_fds so s [len] 0 = Some (Inr (take len (rx s), fds), s')))"

lemma short_body_refused:
  assumes "get_size hdr \<noteq> 0" and "unat (get_size hdr) \<le> MAX_MSG_SIZE"
    and "recv_with_fds so (fr_sub_sock h) [unat (get_size hdr)] 0 = Some (Inr (bs, fds), s')"
    and "length bs < unat (get_size hdr)"
  shows "fr_recv_request_body so hdr h = Some (Inl InvalidMessage, h\<lparr>fr_sub_sock := s'\<rparr>)"
  using assms by (simp add: fr_recv_request_body_def fr_on_sock_def recv_data_def Let_def effect_defs)

lemma body_received:
  assumes "endpoint so tx rx rxf budget" and "recv_whole so rx" and "rx s = body @ later" and "body \<noteq> []"
  shows "\<exists>s'. recv_data so (length body) s = Some (Inr (length body, body), s') \<and> rx s' = later \<and> tx s' = tx s"
proof -
  from assms(2-4) obtain fds s' where
    r: "recv_with_fds so s [length body] 0 = Some (Inr (body, fds), s')"
    unfolding recv_whole_def by (auto dest!: spec [of _ s] spec [of _ "length body"])
  moreover from r assms(1,3) have "rx s' = later" "tx s' = tx s"
    unfolding endpoint_def recv_law_def duplex_law_def by fastforce+
  ultimately show ?thesis by (simp add: recv_data_def)
qed

text \<open>A request of the proxy is received, checked and dispatched with nothing left of it.\<close>

lemma service_request_dispatched:
  assumes "endpoint so tx rx rxf budget" and "recv_whole so rx" and "fr_error h = None"
    and "byte_valued T ok" and "ok msg" and "0 < size_of T" and "size_of T \<le> MAX_MSG_SIZE"
    and "rx (fr_sub_sock h) = hdr_as_slice (service_request code (size_of T)) @ as_slice T msg @ later"
    and "fr_check_attached_files (service_request code (size_of T)) (received_files (rxf (fr_sub_sock h))) = Inr ()"
  shows "\<exists>s'. fr_handle_request S so h
      = bindM (fr_dispatch S (service_request code (size_of T)) (size_of T) (as_slice T msg)
                 (received_files (rxf (fr_sub_sock h))) code)
          (\<lambda>res. thenM (fr_send_ack_message so (service_request code (size_of T)) res) (liftR res))
          (h\<lparr>fr_sub_sock := s'\<rparr>)
    \<and> rx s' = later \<and> tx s' = tx (fr_sub_sock h)"
proof -
  let ?hdr = "service_request code (size_of T)"
  from header_received [OF assms(1,8) service_request_valid [OF assms(7)]] obtain s1 where
    s1: "recv_header BH so (fr_sub_sock h) = Some (Inr (?hdr, received_files (rxf (fr_sub_sock h))), s1)"
      "rx s1 = as_slice T msg @ later" "tx s1 = tx (fr_sub_sock h)" by blast
  have len: "length (as_slice T msg) = size_of T" by (rule byte_valued.length_as_slice [OF assms(4,5)])
  with assms(6) have "as_slice T msg \<noteq> []" by auto
  from body_received [OF assms(1,2) s1(2) this] len obtain s2 where
    s2: "recv_data so (size_of T) s1 = Some (Inr (size_of T, as_slice T msg), s2)" "rx s2 = later" "tx s2 = tx s1"
    by auto
  have sz: "get_size ?hdr \<noteq> 0" using service_request_size [OF assms(7), of code] assms(6) by force
  have "fr_recv_request_body so ?hdr (h\<lparr>fr_sub_sock := s1\<rparr>)
      = Some (Inr (size_of T, as_slice T msg), h\<lparr>fr_sub_sock := s2\<rparr>)"
    using s2(1) sz assms(7)
    by (simp add: fr_recv_request_body_def Let_def service_request_size fr_on_sock_def effect_defs del: service_request_simps)
  with s1(1,3) s2(2,3) assms(3,9) show ?thesis
    by (intro exI [of _ s2])
      (simp add: fr_handle_request_def fr_check_state_apply fr_on_sock_def effect_defs)
qed

lemma service_ack_sent:
  assumes "endpoint so tx rx rxf budget" and "fr_error h = None" and "fr_reply_ack_negotiated h"
    and "is_need_reply req" and "get_code BackendReq_Req req = Inr code"
  shows "\<exists>s' cs. fr_send_ack_message so req res h = Some (Inr (), h\<lparr>fr_sub_sock := s'\<rparr>)
    \<and> tx s' = tx (fr_sub_sock h) @ cs \<and> sent_fds cs = [] \<and> rx s' = rx (fr_sub_sock h)
    \<and> sent_bytes cs = hdr_as_slice (hdr_new BackendReq_Req code HDR_REPLY 8) @ as_slice VhostUserU64_T (VhostUserU64_new (ack_value res))"
proof -
  let ?hdr = "hdr_new BackendReq_Req code HDR_REPLY 8" and ?msg = "VhostUserU64_new (ack_value res)"
  have sz: "size_of VhostUserU64_T = 8" by (simp add: VhostUserU64_T_def)
  from message_sent [OF assms(1) u64_body.byte_valued_axioms TrueI, of BackendReq_Req ?hdr ?msg None "fr_sub_sock h"]
  obtain s' cs where "send_message BH VhostUserU64_T so ?hdr ?msg None (fr_sub_sock h) = Some (Inr (), s')"
    "tx s' = tx (fr_sub_sock h) @ cs" "sent_bytes cs = hdr_as_slice ?hdr @ as_slice VhostUserU64_T ?msg"
    "sent_fds cs = []" "rx s' = rx (fr_sub_sock h)" by (auto simp: sz MAX_MSG_SIZE_def)
  then show ?thesis
    using assms(2-5)
    by (intro exI [of _ s'] exI [of _ cs])
      (simp add: fr_send_ack_message_def fr_new_reply_header_def fr_check_state_apply fr_on_sock_def sz
        MAX_MSG_SIZE_def effect_defs)
qed

lemma proxy_acknowledged:
  assumes "endpoint so tx rx rxf budget" and "bc_error b = None" and "bc_reply_ack_negotiated b"
    and "byte_valued T ok" and "ok msg" and "size_of T \<le> MAX_MSG_SIZE"
    and "rx (bc_sock b) = hdr_as_slice (hdr_new BackendReq_Req code HDR_REPLY 8)
           @ as_slice VhostUserU64_T (VhostUserU64_new v) @ later" and "rxf (bc_sock b) = []"
  shows "\<exists>b' request. bc_send_message T so code msg fds b
      = Some (if v = 0 then Inr 0 else Inl FrontendInternalError, b')
    \<and> tx (bc_sock b') = tx (bc_sock b) @ request
    \<and> sent_bytes request = hdr_as_slice (service_request code (size_of T)) @ as_slice T msg
    \<and> sent_fds request = (case fds of None \<Rightarrow> [] | Some l \<Rightarrow> l) \<and> rx (bc_sock b') = later"
proof -
  let ?hdr = "service_request code (size_of T)"
  from message_sent [OF assms(1,4-6), of BackendReq_Req ?hdr fds "bc_sock b"] obtain s1 request where
    s1: "send_message BH T so ?hdr msg fds (bc_sock b) = Some (Inr (), s1)" "tx s1 = tx (bc_sock b) @ request"
      "sent_bytes request = hdr_as_slice ?hdr @ as_slice T msg"
      "sent_fds request = (case fds of None \<Rightarrow> [] | Some l \<Rightarrow> l)" "rx s1 = rx (bc_sock b)" "rxf s1 = rxf (bc_sock b)"
    by blast
  from u64_reply_received [OF backend_req.request_codes_axioms assms(1), of s1 code "VhostUserU64_new v" later]
    s1(5,6) assms(7,8) obtain s2 where
    s2: "recv_body BH VhostUserU64_T so s1 = Some (Inr (hdr_new BackendReq_Req code HDR_REPLY 8, VhostUserU64_new v, None), s2)"
      "rx s2 = later" by auto
  have "tx s2 = tx s1" by (rule recv_body_keeps_tx [OF endpoint_duplex [OF assms(1)] s2(1)])
  moreover have "bc_send_message T so code msg fds b
      = Some (if v = 0 then Inr 0 else Inl FrontendInternalError, b\<lparr>bc_sock := s2\<rparr>)"
    using s1(1) s2(1) assms(2,3)
    by (simp add: bc_send_message_def bc_wait_for_ack_def bc_check_state_apply bc_on_sock_def service_request_def
        [symmetric] backend_req.is_reply_for_iff VhostUserU64_T_def VhostUserU64_new_def Let_def effect_defs hdr_flag_defs)
  ultimately show ?thesis using s1 s2(2) by (intro exI [of _ "b\<lparr>bc_sock := s2\<rparr>"] exI [of _ request]) simp
qed

subsection \<open>Mapping shared memory\<close>

lemma mmap_size [simp]: "size_of VhostUserMMap_T = 40" "is_valid VhostUserMMap_T = VhostUserMMap_is_valid"
  by (simp_all add: VhostUserMMap_T_def)

text \<open>The message of a mapping request arrives at the server, whatever its fields are.\<close>

lemma shmem_map_received:
  assumes "endpoint so tx rx rxf budget" and "recv_whole so rx" and "fr_error h = None"
    and "length (mmap_padding req) = 7" and "rxf (fr_sub_sock h) = [f]"
    and "rx (fr_sub_sock h) = hdr_as_slice (service_request SHMEM_MAP 40) @ as_slice VhostUserMMap_T req @ later"
  shows "\<exists>s'. fr_handle_request S so h
      = (if VhostUserMMap_is_valid req
         then bindM (catchM (fr_service (fs_shmem_map S req f)))
           (\<lambda>res. thenM (fr_send_ack_message so (service_request SHMEM_MAP 40) res) (liftR res))
         else failM InvalidMessage) (h\<lparr>fr_sub_sock := s'\<rparr>)
    \<and> rx s' = later \<and> tx s' = tx (fr_sub_sock h)"
proof -
  let ?hdr = "service_request SHMEM_MAP 40"
  have files: "received_files [f] = Some [f]" by (simp add: received_files_def MAX_ATTACHED_FD_ENTRIES_def)
  then have "fr_check_attached_files ?hdr (received_files (rxf (fr_sub_sock h))) = Inr ()"
    by (simp add: assms(5) fr_check_attached_files_def)
  from service_request_dispatched [OF assms(1-3) mmap_body.byte_valued_axioms assms(4), unfolded mmap_size(1), OF _ _ assms(6) this, of S]
  obtain s' where s': "fr_handle_request S so h
      = bindM (fr_dispatch S ?hdr 40 (as_slice VhostUserMMap_T req) (Some [f]) SHMEM_MAP)
          (\<lambda>res. thenM (fr_send_ack_message so ?hdr res) (liftR res)) (h\<lparr>fr_sub_sock := s'\<rparr>)"
    "rx s' = later" "tx s' = tx (fr_sub_sock h)" by (auto simp: MAX_MSG_SIZE_def files assms(5))
  have "extract_msg_body VhostUserMMap_T ?hdr 40 (as_slice VhostUserMMap_T req)
      = (if VhostUserMMap_is_valid req then Inr req else Inl InvalidMessage)"
    using mmap_body.from_slice_prefix [OF assms(4), of "[]"] service_request_size [of 40 SHMEM_MAP]
    by (simp add: extract_msg_body_def check_msg_size_def Let_def MAX_MSG_SIZE_def)
  with s' show ?thesis
    by (cases "VhostUserMMap_is_valid req")
      (auto intro!: exI [of _ s'] simp: bindM_def liftR_def failM_def unwrap_file_def)
qed

text \<open>For the witness: a socket that gives all it is asked for, a server and a proxy.\<close>

definition whole_sock :: "pipe sock_ops" where
  "whole_sock =
     \<lparr>send_with_fds = (\<lambda>s iovs fds.
        Some (Inr (length (concat iovs)), s\<lparr>p_tx := p_tx s @ [(concat iovs, fds)]\<rparr>)),
      recv_with_fds = (\<lambda>s lens cap. let n = min (sum_list lens) (length (p_rx s)) in
        Some (Inr (take n (p_rx s), take cap (p_rxf s)), s\<lparr>p_rx := drop n (p_rx s), p_rxf := []\<rparr>))\<rparr>"

lemma whole_endpoint: "endpoint whole_sock p_tx p_rx p_rxf p_budget" "recv_whole whole_sock p_rx"
  by (auto simp: endpoint_def send_law_def recv_law_def duplex_law_def send_progress_def recv_progress_def
      recv_whole_def whole_sock_def Let_def min_def simp del: sum_list_eq_0_iff split: if_splits)

definition mapping_server :: "VhostUserMMap \<Rightarrow> fd \<Rightarrow> (pipe, (u8 \<times> fd) list) FrontendReqHandler" where
  "mapping_server req f = fr_set_reply_ack_flag True (fr_new
     \<lparr>p_budget = 0, p_tx = [],
      p_rx = hdr_as_slice (service_request SHMEM_MAP 40) @ as_slice VhostUserMMap_T req, p_rxf = [f]\<rparr> [])"

definition mapping_proxy :: "'s \<Rightarrow> 's BackendInternal" where
  "mapping_proxy s = set_shmem_flag True (set_reply_ack_flag True (bc_new s))"

text \<open>
  C15: \<open>shmem_map\<close> from end to end: when the server of the frontend reads what the proxy sends, with
  acknowledgements negotiated at both ends and a valid request, the service gets just the request
  and the descriptor of the caller, its result is the result of \<open>handle_request\<close>, and when the
  proxy reads the acknowledgement, its caller is told \<open>Ok(0)\<close> exactly when the acknowledged value
  is 0, and an error otherwise. Both ends have taken these messages and nothing more from their streams.
\<close>

theorem shmem_map_end_to_end:
  assumes "endpoint so tx rx rxf budget" and "endpoint so' tx' rx' rxf' budget'" and "recv_whole so' rx'"
    and "bc_error b = None" and "bc_reply_ack_negotiated b" and "bc_shmem_negotiated b"
    and "fr_error h = None" and "fr_reply_ack_negotiated h"
    and "length (mmap_padding req) = 7" and "VhostUserMMap_is_valid req"
    and "fs_shmem_map S req f (fr_backend h) = Some (res, x')"
    and "rx' (fr_sub_sock h) = hdr_as_slice (service_request SHMEM_MAP 40) @ as_slice VhostUserMMap_T req @ later'"
    and "rxf' (fr_sub_sock h) = [f]"
  defines "res' \<equiv> map_sum ReqHandlerError id res"
  shows "\<exists>h' reply. fr_handle_request S so' h = Some (res', h') \<and> fr_backend h' = x'
    \<and> tx' (fr_sub_sock h') = tx' (fr_sub_sock h) @ reply \<and> rx' (fr_sub_sock h') = later' \<and> sent_fds reply = []
    \<and> (\<forall>s later. rx s = sent_bytes reply @ later \<and> rxf s = sent_fds reply \<longrightarrow>
        (\<exists>b' request. bc_shmem_map so req f (b\<lparr>bc_sock := s\<rparr>)
              = Some (if ack_value res' = 0 then Inr 0 else Inl (CustomIo OtherKind), b')
           \<and> tx (bc_sock b') = tx s @ request
           \<and> sent_bytes request = hdr_as_slice (service_request SHMEM_MAP 40) @ as_slice VhostUserMMap_T req
           \<and> sent_fds request = [f] \<and> rx (bc_sock b') = later))"
proof -
  let ?req = "service_request SHMEM_MAP 40"
  from shmem_map_received [OF assms(2,3,7,9,13,12), of S] assms(10) obtain s1 where
    s1: "fr_handle_request S so' h = bindM (catchM (fr_service (fs_shmem_map S req f)))
           (\<lambda>res. thenM (fr_send_ack_message so' ?req res) (liftR res)) (h\<lparr>fr_sub_sock := s1\<rparr>)"
      "rx' s1 = later'" "tx' s1 = tx' (fr_sub_sock h)" by auto
  let ?h1 = "h\<lparr>fr_sub_sock := s1, fr_backend := x'\<rparr>"
  have call: "catchM (fr_service (fs_shmem_map S req f)) (h\<lparr>fr_sub_sock := s1\<rparr>) = Some (Inr res', ?h1)"
    using assms(11) by (cases res) (simp_all add: res'_def catchM_def fr_service_def)
  from service_ack_sent [OF assms(2), of ?h1 ?req SHMEM_MAP res'] assms(7,8) obtain s2 reply where
    r: "fr_send_ack_message so' ?req res' ?h1 = Some (Inr (), ?h1\<lparr>fr_sub_sock := s2\<rparr>)"
      "tx' s2 = tx' s1 @ reply" "sent_fds reply = []" "rx' s2 = rx' s1"
      "sent_bytes reply = hdr_as_slice (hdr_new BackendReq_Req SHMEM_MAP HDR_REPLY 8)
         @ as_slice VhostUserU64_T (VhostUserU64_new (ack_value res'))" by auto
  have h': "fr_handle_request S so' h = Some (res', ?h1\<lparr>fr_sub_sock := s2\<rparr>)"
    using s1(1) call r(1) by (simp add: bindM_def thenM_def liftR_def)
  have "\<exists>b' request. bc_shmem_map so req f (b\<lparr>bc_sock := s\<rparr>)
        = Some (if ack_value res' = 0 then Inr 0 else Inl (CustomIo OtherKind), b')
      \<and> tx (bc_sock b') = tx s @ request \<and> sent_bytes request = hdr_as_slice ?req @ as_slice VhostUserMMap_T req
      \<and> sent_fds request = [f] \<and> rx (bc_sock b') = later"
    if "rx s = sent_bytes reply @ later" "rxf s = sent_fds reply" for s later
  proof -
    from proxy_acknowledged [OF assms(1), of "b\<lparr>bc_sock := s\<rparr>" VhostUserMMap_T "\<lambda>m. length (mmap_padding m) = 7" req SHMEM_MAP
        "ack_value res'" later "Some [f]"] mmap_body.byte_valued_axioms assms(4,5,9) that r(3,5) obtain b' request where
      "bc_send_message VhostUserMMap_T so SHMEM_MAP req (Some [f]) (b\<lparr>bc_sock := s\<rparr>)
         = Some (if ack_value res' = 0 then Inr 0 else Inl FrontendInternalError, b')"
      "tx (bc_sock b') = tx s @ request" "sent_bytes request = hdr_as_slice ?req @ as_slice VhostUserMMap_T req"
      "sent_fds request = [f]" "rx (bc_sock b') = later"
      by (auto simp: MAX_MSG_SIZE_def)
    then show ?thesis
      using assms(6)
      by (intro exI [of _ b'] exI [of _ request]) (simp add: bc_shmem_map_def gate_def to_io_def effect_defs)
  qed
  with h' s1(2,3) r(2-4) show ?thesis
    by (intro exI [of _ "?h1\<lparr>fr_sub_sock := s2\<rparr>"] exI [of _ reply]) simp
qed

theorem shmem_map_end_to_end_witness:
  "\<exists>h' b'. fr_handle_request (default_services\<lparr>fs_shmem_map := \<lambda>req f s. Some (Inr 0, s @ [(shmid req, f)])\<rparr>) whole_sock
       (mapping_server \<lparr>shmid = 1, mmap_padding = replicate 7 0, fd_offset = 0, shm_offset = 0, mm_len = 4096, mm_flags = 1\<rparr> 9)
         = Some (Inr 0, h')
     \<and> fr_backend h' = [(1, 9)]
     \<and> bc_shmem_map (pipe_sock 7)
         \<lparr>shmid = 1, mmap_padding = replicate 7 0, fd_offset = 0, shm_offset = 0, mm_len = 4096, mm_flags = 1\<rparr> 9
         (mapping_proxy (quiet_pipe (sent_bytes (p_tx (fr_sub_sock h'))))) = Some (Inr 0, b')"
proof -
  let ?req = "\<lparr>shmid = 1, mmap_padding = replicate 7 0, fd_offset = 0, shm_offset = 0, mm_len = 4096, mm_flags = 1\<rparr>"
  let ?S = "default_services\<lparr>fs_shmem_map := \<lambda>req f s. Some (Inr 0, s @ [(shmid req, f)])\<rparr>"
  let ?b = "mapping_proxy (quiet_pipe [])" and ?h = "mapping_server ?req 9"
  have hyps: "bc_error ?b = None" "bc_reply_ack_negotiated ?b" "bc_shmem_negotiated ?b"
    "fr_error ?h = None" "fr_reply_ack_negotiated ?h" "length (mmap_padding ?req) = 7"
    by (simp_all add: mapping_proxy_def mapping_server_def set_shmem_flag_def set_reply_ack_flag_def bc_new_def
        fr_set_reply_ack_flag_def fr_new_def)
  have valid: "VhostUserMMap_is_valid ?req"
    by (simp add: VhostUserMMap_is_valid_def MMAP_WRITABLE_def checked_add_def)
  have call: "fs_shmem_map ?S ?req 9 (fr_backend ?h) = Some (Inr 0, [(1, 9)])"
    "p_rx (fr_sub_sock ?h) = hdr_as_slice (service_request SHMEM_MAP 40) @ as_slice VhostUserMMap_T ?req @ []"
    "p_rxf (fr_sub_sock ?h) = [9]"
    by (simp_all add: mapping_server_def fr_set_reply_ack_flag_def fr_new_def)
  obtain h' reply where h': "fr_handle_request ?S whole_sock ?h = Some (Inr 0, h')" "fr_backend h' = [(1, 9)]"
    "p_tx (fr_sub_sock h') = p_tx (fr_sub_sock ?h) @ reply" "sent_fds reply = []"
    "\<forall>s later. p_rx s = sent_bytes reply @ later \<and> p_rxf s = sent_fds reply \<longrightarrow>
        (\<exists>b'. bc_shmem_map (pipe_sock 7) ?req 9 (?b\<lparr>bc_sock := s\<rparr>) = Some (Inr 0, b'))"
    using shmem_map_end_to_end [OF pipe_endpoint [of 7] whole_endpoint hyps(1-6) valid call]
    by (fastforce simp: ack_value_def)
  moreover have "p_tx (fr_sub_sock ?h) = []"
    by (simp add: mapping_server_def fr_set_reply_ack_flag_def fr_new_def)
  moreover obtain b' where "bc_shmem_map (pipe_sock 7) ?req 9 (?b\<lparr>bc_sock := quiet_pipe (sent_bytes reply)\<rparr>) = Some (Inr 0, b')"
    using h'(4) h'(5) [rule_format, of "quiet_pipe (sent_bytes reply)" "[]"] by (auto simp: quiet_pipe_def)
  ultimately show ?thesis by (auto simp: mapping_proxy_def set_shmem_flag_def set_reply_ack_flag_def bc_new_def)
qed

text \<open>
  C37: a mapping request with an invalid field, which the proxy sends without looking at it, ends
  \<open>handle_request\<close> before the acknowledgement: the server sends nothing, and the proxy, which asked
  for an acknowledgement, goes on waiting for one.
\<close>

theorem invalid_request_unanswered:
  assumes "endpoint so tx rx rxf budget" and "recv_whole so rx" and "fr_error h = None"
    and "length (mmap_padding req) = 7" and "rxf (fr_sub_sock h) = [f]" and "\<not> VhostUserMMap_is_valid req"
    and "rx (fr_sub_sock h) = hdr_as_slice (service_request SHMEM_MAP 40) @ as_slice VhostUserMMap_T req @ later"
  shows "\<exists>h'. fr_handle_request S so h = Some (Inl InvalidMessage, h')
    \<and> tx (fr_sub_sock h') = tx (fr_sub_sock h) \<and> rx (fr_sub_sock h') = later"
  using shmem_map_received [OF assms(1-5,7), of S] assms(6) by (auto simp: failM_def)

theorem invalid_request_unanswered_witness:
  "\<exists>h'. fr_handle_request default_services whole_sock
       (mapping_server \<lparr>shmid = 1, mmap_padding = replicate 7 0, fd_offset = 0, shm_offset = 0, mm_len = 0, mm_flags = 0\<rparr> 9)
         = Some (Inl InvalidMessage, h')
     \<and> p_tx (fr_sub_sock h') = [] \<and> p_rx (fr_sub_sock h') = []"
proof -
  let ?req = "\<lparr>shmid = 1, mmap_padding = replicate 7 0, fd_offset = 0, shm_offset = 0, mm_len = 0, mm_flags = 0\<rparr>"
  let ?h = "mapping_server ?req 9"
  have "fr_error ?h = None" "length (mmap_padding ?req) = 7" "p_rxf (fr_sub_sock ?h) = [9]"
    "\<not> VhostUserMMap_is_valid ?req"
    "p_rx (fr_sub_sock ?h) = hdr_as_slice (service_request SHMEM_MAP 40) @ as_slice VhostUserMMap_T ?req @ []"
    by (simp_all add: mapping_server_def fr_set_reply_ack_flag_def fr_new_def VhostUserMMap_is_valid_def)
  from invalid_request_unanswered [OF whole_endpoint this, of default_services] show ?thesis
    by (simp add: mapping_server_def fr_set_reply_ack_flag_def fr_new_def)
qed

end
