(* ===== verification/Gpu_Message.thy ===== *)
theory Gpu_Message
  imports Connection
begin

text \<open>
  The messages of the display channel of a vhost-user-gpu backend,
  \<open>vhost/src/vhost_user/gpu_message.rs\<close>: the request codes, the header, which has no version and
  only the reply flag, and the structures that travel on the channel. The header is a second
  instance of the interfaces \<open>request_codes\<close> and \<open>msg_header\<close>, so what is proved of the endpoint
  holds for this channel too.
\<close>

subsection \<open>Requests\<close>

datatype GpuBackendReq =
    GPU_GET_PROTOCOL_FEATURES | GPU_SET_PROTOCOL_FEATURES | GPU_GET_DISPLAY_INFO | GPU_CURSOR_POS
  | GPU_CURSOR_POS_HIDE | GPU_CURSOR_UPDATE | GPU_SCANOUT | GPU_UPDATE
  | GPU_DMABUF_SCANOUT | GPU_DMABUF_UPDATE | GPU_GET_EDID | GPU_DMABUF_SCANOUT2

fun GpuBackendReq_into :: "GpuBackendReq \<Rightarrow> u32" where
  "GpuBackendReq_into GPU_GET_PROTOCOL_FEATURES = 1"
| "GpuBackendReq_into GPU_SET_PROTOCOL_FEATURES = 2"
| "GpuBackendReq_into GPU_GET_DISPLAY_INFO = 3"
| "GpuBackendReq_into GPU_CURSOR_POS = 4"
| "GpuBackendReq_into GPU_CURSOR_POS_HIDE = 5"
| "GpuBackendReq_into GPU_CURSOR_UPDATE = 6"
| "GpuBackendReq_into GPU_SCANOUT = 7"
| "GpuBackendReq_into GPU_UPDATE = 8"
| "GpuBackendReq_into GPU_DMABUF_SCANOUT = 9"
| "GpuBackendReq_into GPU_DMABUF_UPDATE = 10"
| "GpuBackendReq_into GPU_GET_EDID = 11"
| "GpuBackendReq_into GPU_DMABUF_SCANOUT2 = 12"

definition GpuBackendReq_variants :: "GpuBackendReq list" where
  "GpuBackendReq_variants =
    [ GPU_GET_PROTOCOL_FEATURES, GPU_SET_PROTOCOL_FEATURES, GPU_GET_DISPLAY_INFO, GPU_CURSOR_POS,
      GPU_CURSOR_POS_HIDE, GPU_CURSOR_UPDATE, GPU_SCANOUT, GPU_UPDATE,
      GPU_DMABUF_SCANOUT, GPU_DMABUF_UPDATE, GPU_GET_EDID, GPU_DMABUF_SCANOUT2]"

definition GpuBackendReq_try_from :: "u32 \<Rightarrow> GpuBackendReq option" where
  "GpuBackendReq_try_from = enum_try_from GpuBackendReq_into GpuBackendReq_variants"

definition GpuBackendReq_Req :: "GpuBackendReq Req" where
  "GpuBackendReq_Req = \<lparr>into = GpuBackendReq_into, try_from = GpuBackendReq_try_from\<rparr>"

lemma set_GpuBackendReq_variants: "set GpuBackendReq_variants = UNIV"
proof (rule set_eqI)
  fix r show "r \<in> set GpuBackendReq_variants \<longleftrightarrow> r \<in> UNIV"
    by (cases r) (simp_all add: GpuBackendReq_variants_def)
qed

lemma inj_GpuBackendReq_into: "inj GpuBackendReq_into"
  by (rule inj_of_variants [OF set_GpuBackendReq_variants]) (simp add: GpuBackendReq_variants_def)

interpretation gpu_req: request_codes GpuBackendReq_Req
  by unfold_locales
    (simp add: GpuBackendReq_Req_def GpuBackendReq_try_from_def
      enum_try_from_Some_iff [OF set_GpuBackendReq_variants inj_GpuBackendReq_into])

subsection \<open>The header\<close>

definition GPU_HDR_REPLY :: u32 where "GPU_HDR_REPLY = 0x4"

record VhostUserGpuMsgHeader =
  gpu_request :: u32
  gpu_flags :: u32
  gpu_size :: u32

definition gpu_hdr_new :: "GpuBackendReq \<Rightarrow> u32 \<Rightarrow> u32 \<Rightarrow> VhostUserGpuMsgHeader" where
  "gpu_hdr_new request flags sz =
     \<lparr>gpu_request = into GpuBackendReq_Req request, gpu_flags = flags, gpu_size = sz\<rparr>"

definition gpu_hdr_default :: VhostUserGpuMsgHeader where
  "gpu_hdr_default = \<lparr>gpu_request = 0, gpu_flags = 0, gpu_size = 0\<rparr>"

definition gpu_get_code :: "VhostUserGpuMsgHeader \<Rightarrow> Error + GpuBackendReq" where
  "gpu_get_code h = (case try_from GpuBackendReq_Req (gpu_request h) of
       Some r \<Rightarrow> Inr r
     | None \<Rightarrow> Inl InvalidMessage)"

definition gpu_is_reply :: "VhostUserGpuMsgHeader \<Rightarrow> bool" where
  "gpu_is_reply h \<longleftrightarrow> gpu_flags h AND GPU_HDR_REPLY \<noteq> 0"

definition gpu_set_reply :: "bool \<Rightarrow> VhostUserGpuMsgHeader \<Rightarrow> VhostUserGpuMsgHeader" where
  "gpu_set_reply b h =
     (if b then h\<lparr>gpu_flags := gpu_flags h OR GPU_HDR_REPLY\<rparr>
      else h\<lparr>gpu_flags := gpu_flags h AND NOT GPU_HDR_REPLY\<rparr>)"

definition gpu_is_reply_for :: "VhostUserGpuMsgHeader \<Rightarrow> VhostUserGpuMsgHeader \<Rightarrow> bool" where
  "gpu_is_reply_for h req = (case (gpu_get_code h, gpu_get_code req) of
       (Inr code1, Inr code2) \<Rightarrow> gpu_is_reply h \<and> \<not> gpu_is_reply req \<and> code1 = code2
     | _ \<Rightarrow> False)"

definition gpu_get_size :: "VhostUserGpuMsgHeader \<Rightarrow> u32" where
  "gpu_get_size h = gpu_size h"

definition gpu_set_size :: "u32 \<Rightarrow> VhostUserGpuMsgHeader \<Rightarrow> VhostUserGpuMsgHeader" where
  "gpu_set_size n h = h\<lparr>gpu_size := n\<rparr>"

text \<open>\<open>from_bits\<close> accepts the declared flags only.\<close>

definition gpu_hdr_is_valid :: "VhostUserGpuMsgHeader \<Rightarrow> bool" where
  "gpu_hdr_is_valid h \<longleftrightarrow> \<not> isl (gpu_get_code h) \<and> gpu_flags h AND NOT GPU_HDR_REPLY = 0"

definition VhostUserGpuMsgHeader_T :: "VhostUserGpuMsgHeader msg_type" where
  "VhostUserGpuMsgHeader_T =
     \<lparr>size_of = 12,
      as_slice = (\<lambda>h. le_bytes 4 (gpu_request h) @ le_bytes 4 (gpu_flags h) @ le_bytes 4 (gpu_size h)),
      from_slice = (\<lambda>bs. \<lparr>gpu_request = of_le_bytes (slice 0 4 bs),
                          gpu_flags = of_le_bytes (slice 4 4 bs),
                          gpu_size = of_le_bytes (slice 8 4 bs)\<rparr>),
      is_valid = gpu_hdr_is_valid\<rparr>"

definition GH :: "VhostUserGpuMsgHeader MsgHeader" where
  "GH = \<lparr>hdr_T = VhostUserGpuMsgHeader_T, max_msg_size = 0xffffffff\<rparr>"

interpretation gpu_header: msg_header GH
  by unfold_locales (simp_all add: GH_def VhostUserGpuMsgHeader_T_def slice_def)

text \<open>The protocol feature flags, with the values the code gives them.\<close>

datatype VhostUserGpuProtocolFeatures = GPU_EDID | GPU_DMABUF2

fun gpu_pf_bits :: "VhostUserGpuProtocolFeatures \<Rightarrow> u64" where
  "gpu_pf_bits GPU_EDID = 0"
| "gpu_pf_bits GPU_DMABUF2 = 1"

subsection \<open>Structures of the virtio specification\<close>

record VirtioGpuCtrlHdr =
  gch_type :: u32
  gch_flags :: u32
  gch_fence_id :: u64
  gch_ctx_id :: u32
  gch_ring_idx :: u8
  gch_padding :: "u8 list"

definition VirtioGpuCtrlHdr_T :: "VirtioGpuCtrlHdr msg_type" where
  "VirtioGpuCtrlHdr_T =
     \<lparr>size_of = 24,
      as_slice = (\<lambda>m. le_bytes 4 (gch_type m) @ le_bytes 4 (gch_flags m) @ le_bytes 8 (gch_fence_id m)
                      @ le_bytes 4 (gch_ctx_id m) @ [gch_ring_idx m] @ gch_padding m),
      from_slice = (\<lambda>bs. \<lparr>gch_type = of_le_bytes (slice 0 4 bs), gch_flags = of_le_bytes (slice 4 4 bs),
                          gch_fence_id = of_le_bytes (slice 8 8 bs), gch_ctx_id = of_le_bytes (slice 16 4 bs),
                          gch_ring_idx = bs ! 20, gch_padding = slice 21 3 bs\<rparr>),
      is_valid = (\<lambda>_. True)\<rparr>"

record VirtioGpuRect =
  gr_x :: u32
  gr_y :: u32
  gr_width :: u32
  gr_height :: u32

definition VirtioGpuRect_T :: "VirtioGpuRect msg_type" where
  "VirtioGpuRect_T =
     \<lparr>size_of = 16,
      as_slice = (\<lambda>m. le_bytes 4 (gr_x m) @ le_bytes 4 (gr_y m) @ le_bytes 4 (gr_width m) @
                      le_bytes 4 (gr_height m)),
      from_slice = (\<lambda>bs. \<lparr>gr_x = of_le_bytes (slice 0 4 bs), gr_y = of_le_bytes (slice 4 4 bs),
                          gr_width = of_le_bytes (slice 8 4 bs),
                          gr_height = of_le_bytes (slice 12 4 bs)\<rparr>),
      is_valid = (\<lambda>_. True)\<rparr>"

record VirtioGpuDisplayOne =
  gd_r :: VirtioGpuRect
  gd_enabled :: u32
  gd_flags :: u32

definition VirtioGpuDisplayOne_T :: "VirtioGpuDisplayOne msg_type" where
  "VirtioGpuDisplayOne_T =
     \<lparr>size_of = 24,
      as_slice = (\<lambda>m. as_slice VirtioGpuRect_T (gd_r m) @ le_bytes 4 (gd_enabled m) @ le_bytes 4 (gd_flags m)),
      from_slice = (\<lambda>bs. \<lparr>gd_r = from_slice VirtioGpuRect_T (slice 0 16 bs),
                          gd_enabled = of_le_bytes (slice 16 4 bs), gd_flags = of_le_bytes (slice 20 4 bs)\<rparr>),
      is_valid = (\<lambda>_. True)\<rparr>"

definition VIRTIO_GPU_MAX_SCANOUTS :: nat where "VIRTIO_GPU_MAX_SCANOUTS = 16"

record VirtioGpuRespDisplayInfo =
  gdi_hdr :: VirtioGpuCtrlHdr
  gdi_pmodes :: "VirtioGpuDisplayOne list"

definition VirtioGpuRespDisplayInfo_T :: "VirtioGpuRespDisplayInfo msg_type" where
  "VirtioGpuRespDisplayInfo_T =
     \<lparr>size_of = 408,
      as_slice = (\<lambda>m. as_slice VirtioGpuCtrlHdr_T (gdi_hdr m)
                      @ concat (map (as_slice VirtioGpuDisplayOne_T) (gdi_pmodes m))),
      from_slice = (\<lambda>bs. \<lparr>gdi_hdr = from_slice VirtioGpuCtrlHdr_T (take 24 bs),
                          gdi_pmodes = map (from_slice VirtioGpuDisplayOne_T)
                            (chunks 24 VIRTIO_GPU_MAX_SCANOUTS (drop 24 bs))\<rparr>),
      is_valid = (\<lambda>_. True)\<rparr>"

record VirtioGpuRespGetEdid =
  ge_hdr :: VirtioGpuCtrlHdr
  ge_size :: u32
  ge_padding :: u32
  ge_edid :: "u8 list"

definition VirtioGpuRespGetEdid_T :: "VirtioGpuRespGetEdid msg_type" where
  "VirtioGpuRespGetEdid_T =
     \<lparr>size_of = 1056,
      as_slice = (\<lambda>m. as_slice VirtioGpuCtrlHdr_T (ge_hdr m) @ le_bytes 4 (ge_size m)
                      @ le_bytes 4 (ge_padding m) @ ge_edid m),
      from_slice = (\<lambda>bs. \<lparr>ge_hdr = from_slice VirtioGpuCtrlHdr_T (take 24 bs),
                          ge_size = of_le_bytes (slice 24 4 bs), ge_padding = of_le_bytes (slice 28 4 bs),
                          ge_edid = drop 32 bs\<rparr>),
      is_valid = (\<lambda>_. True)\<rparr>"

subsection \<open>Structures of the display channel\<close>

record VhostUserGpuEdidRequest =
  ger_scanout_id :: u32

definition VhostUserGpuEdidRequest_T :: "VhostUserGpuEdidRequest msg_type" where
  "VhostUserGpuEdidRequest_T =
     \<lparr>size_of = 4,
      as_slice = (\<lambda>m. le_bytes 4 (ger_scanout_id m)),
      from_slice = (\<lambda>bs. \<lparr>ger_scanout_id = of_le_bytes (slice 0 4 bs)\<rparr>),
      is_valid = (\<lambda>_. True)\<rparr>"

record VhostUserGpuUpdate =
  gu_scanout_id :: u32
  gu_x :: u32
  gu_y :: u32
  gu_width :: u32
  gu_height :: u32

definition VhostUserGpuUpdate_T :: "VhostUserGpuUpdate msg_type" where
  "VhostUserGpuUpdate_T =
     \<lparr>size_of = 20,
      as_slice = (\<lambda>m. le_bytes 4 (gu_scanout_id m) @ le_bytes 4 (gu_x m) @
                      le_bytes 4 (gu_y m) @ le_bytes 4 (gu_width m) @
                      le_bytes 4 (gu_height m)),
      from_slice = (\<lambda>bs. \<lparr>gu_scanout_id = of_le_bytes (slice 0 4 bs),
                          gu_x = of_le_bytes (slice 4 4 bs), gu_y = of_le_bytes (slice 8 4 bs),
                          gu_width = of_le_bytes (slice 12 4 bs),
                          gu_height = of_le_bytes (slice 16 4 bs)\<rparr>),
      is_valid = (\<lambda>_. True)\<rparr>"

record VhostUserGpuDMABUFScanout =
  gs_scanout_id :: u32
  gs_x :: u32
  gs_y :: u32
  gs_width :: u32
  gs_height :: u32
  gs_fd_width :: u32
  gs_fd_height :: u32
  gs_fd_stride :: u32
  gs_fd_flags :: u32
  gs_fd_drm_fourcc :: u32

definition VhostUserGpuDMABUFScanout_T :: "VhostUserGpuDMABUFScanout msg_type" where
  "VhostUserGpuDMABUFScanout_T =
     \<lparr>size_of = 40,
      as_slice = (\<lambda>m. le_bytes 4 (gs_scanout_id m) @ le_bytes 4 (gs_x m) @
                      le_bytes 4 (gs_y m) @ le_bytes 4 (gs_width m) @
                      le_bytes 4 (gs_height m) @ le_bytes 4 (gs_fd_width m) @
                      le_bytes 4 (gs_fd_height m) @ le_bytes 4 (gs_fd_stride m) @
                      le_bytes 4 (gs_fd_flags m) @ le_bytes 4 (gs_fd_drm_fourcc m)),
      from_slice = (\<lambda>bs. \<lparr>gs_scanout_id = of_le_bytes (slice 0 4 bs),
                          gs_x = of_le_bytes (slice 4 4 bs), gs_y = of_le_bytes (slice 8 4 bs),
                          gs_width = of_le_bytes (slice 12 4 bs),
                          gs_height = of_le_bytes (slice 16 4 bs),
                          gs_fd_width = of_le_bytes (slice 20 4 bs),
                          gs_fd_height = of_le_bytes (slice 24 4 bs),
                          gs_fd_stride = of_le_bytes (slice 28 4 bs),
                          gs_fd_flags = of_le_bytes (slice 32 4 bs),
                          gs_fd_drm_fourcc = of_le_bytes (slice 36 4 bs)\<rparr>),
      is_valid = (\<lambda>_. True)\<rparr>"

record VhostUserGpuDMABUFScanout2 =
  gs2_dmabuf_scanout :: VhostUserGpuDMABUFScanout
  gs2_modifier :: u64

definition VhostUserGpuDMABUFScanout2_T :: "VhostUserGpuDMABUFScanout2 msg_type" where
  "VhostUserGpuDMABUFScanout2_T =
     \<lparr>size_of = 48,
      as_slice = (\<lambda>m. as_slice VhostUserGpuDMABUFScanout_T (gs2_dmabuf_scanout m) @ le_bytes 8 (gs2_modifier m)),
      from_slice = (\<lambda>bs. \<lparr>gs2_dmabuf_scanout = from_slice VhostUserGpuDMABUFScanout_T (take 40 bs),
                          gs2_modifier = of_le_bytes (slice 40 8 bs)\<rparr>),
      is_valid = (\<lambda>_. True)\<rparr>"

record VhostUserGpuCursorPos =
  gcp_scanout_id :: u32
  gcp_x :: u32
  gcp_y :: u32

definition VhostUserGpuCursorPos_T :: "VhostUserGpuCursorPos msg_type" where
  "VhostUserGpuCursorPos_T =
     \<lparr>size_of = 12,
      as_slice = (\<lambda>m. le_bytes 4 (gcp_scanout_id m) @ le_bytes 4 (gcp_x m) @
                      le_bytes 4 (gcp_y m)),
      from_slice = (\<lambda>bs. \<lparr>gcp_scanout_id = of_le_bytes (slice 0 4 bs),
                          gcp_x = of_le_bytes (slice 4 4 bs), gcp_y = of_le_bytes (slice 8 4 bs)\<rparr>),
      is_valid = (\<lambda>_. True)\<rparr>"

record VhostUserGpuCursorUpdate =
  gcu_pos :: VhostUserGpuCursorPos
  gcu_hot_x :: u32
  gcu_hot_y :: u32

definition VhostUserGpuCursorUpdate_T :: "VhostUserGpuCursorUpdate msg_type" where
  "VhostUserGpuCursorUpdate_T =
     \<lparr>size_of = 20,
      as_slice = (\<lambda>m. as_slice VhostUserGpuCursorPos_T (gcu_pos m) @ le_bytes 4 (gcu_hot_x m) @ le_bytes 4 (gcu_hot_y m)),
      from_slice = (\<lambda>bs. \<lparr>gcu_pos = from_slice VhostUserGpuCursorPos_T (take 12 bs),
                          gcu_hot_x = of_le_bytes (slice 12 4 bs), gcu_hot_y = of_le_bytes (slice 16 4 bs)\<rparr>),
      is_valid = (\<lambda>_. True)\<rparr>"

record VhostUserGpuScanout =
  gsc_scanout_id :: u32
  gsc_width :: u32
  gsc_height :: u32

definition VhostUserGpuScanout_T :: "VhostUserGpuScanout msg_type" where
  "VhostUserGpuScanout_T =
     \<lparr>size_of = 12,
      as_slice = (\<lambda>m. le_bytes 4 (gsc_scanout_id m) @ le_bytes 4 (gsc_width m) @
                      le_bytes 4 (gsc_height m)),
      from_slice = (\<lambda>bs. \<lparr>gsc_scanout_id = of_le_bytes (slice 0 4 bs),
                          gsc_width = of_le_bytes (slice 4 4 bs),
                          gsc_height = of_le_bytes (slice 8 4 bs)\<rparr>),
      is_valid = (\<lambda>_. True)\<rparr>"

subsection \<open>The structures are recovered from their bytes\<close>

lemmas gpu_body_defs = VirtioGpuCtrlHdr_T_def VirtioGpuRect_T_def VirtioGpuDisplayOne_T_def
  VirtioGpuRespDisplayInfo_T_def VirtioGpuRespGetEdid_T_def VhostUserGpuEdidRequest_T_def
  VhostUserGpuUpdate_T_def VhostUserGpuDMABUFScanout_T_def VhostUserGpuDMABUFScanout2_T_def
  VhostUserGpuCursorPos_T_def VhostUserGpuCursorUpdate_T_def VhostUserGpuScanout_T_def

interpretation ctrl_hdr_body: byte_valued VirtioGpuCtrlHdr_T "\<lambda>m. length (gch_padding m) = 3"
  by unfold_locales (simp_all add: VirtioGpuCtrlHdr_T_def slice_def nth_append)

interpretation rect_body: byte_valued VirtioGpuRect_T "\<lambda>_. True"
  by unfold_locales (simp_all add: gpu_body_defs slice_def)

interpretation display_one_body: byte_valued VirtioGpuDisplayOne_T "\<lambda>_. True"
  by unfold_locales (simp_all add: gpu_body_defs slice_def)

interpretation edid_request_body: byte_valued VhostUserGpuEdidRequest_T "\<lambda>_. True"
  by unfold_locales (simp_all add: gpu_body_defs slice_def)

interpretation gpu_update_body: byte_valued VhostUserGpuUpdate_T "\<lambda>_. True"
  by unfold_locales (simp_all add: gpu_body_defs slice_def)

interpretation dmabuf_scanout_body: byte_valued VhostUserGpuDMABUFScanout_T "\<lambda>_. True"
  by unfold_locales (simp_all add: gpu_body_defs slice_def)

interpretation dmabuf_scanout2_body: byte_valued VhostUserGpuDMABUFScanout2_T "\<lambda>_. True"
  by unfold_locales (simp_all add: gpu_body_defs slice_def)

interpretation cursor_pos_msg_body: byte_valued VhostUserGpuCursorPos_T "\<lambda>_. True"
  by unfold_locales (simp_all add: gpu_body_defs slice_def)

interpretation cursor_update_msg_body: byte_valued VhostUserGpuCursorUpdate_T "\<lambda>_. True"
  by unfold_locales (simp_all add: gpu_body_defs slice_def)

interpretation scanout_msg_body: byte_valued VhostUserGpuScanout_T "\<lambda>_. True"
  by unfold_locales (simp_all add: gpu_body_defs slice_def)

lemma display_chunks:
  assumes "length ds = n"
  shows "chunks 24 n (concat (map (as_slice VirtioGpuDisplayOne_T) ds)) = map (as_slice VirtioGpuDisplayOne_T) ds"
    and "length (concat (map (as_slice VirtioGpuDisplayOne_T) ds)) = 24 * n"
proof -
  have "\<forall>x \<in> set (map (as_slice VirtioGpuDisplayOne_T) ds). length x = 24"
    by (simp add: gpu_body_defs)
  from chunks_concat [OF this] length_concat_const [OF this] assms
  show "chunks 24 n (concat (map (as_slice VirtioGpuDisplayOne_T) ds)) = map (as_slice VirtioGpuDisplayOne_T) ds"
    and "length (concat (map (as_slice VirtioGpuDisplayOne_T) ds)) = 24 * n"
    by simp_all
qed

interpretation display_info_body: byte_valued VirtioGpuRespDisplayInfo_T
    "\<lambda>m. length (gch_padding (gdi_hdr m)) = 3 \<and> length (gdi_pmodes m) = 16"
proof unfold_locales
  fix m :: VirtioGpuRespDisplayInfo assume ok: "length (gch_padding (gdi_hdr m)) = 3 \<and> length (gdi_pmodes m) = 16"
  have len: "length (as_slice VirtioGpuCtrlHdr_T (gdi_hdr m)) = 24"
    using ctrl_hdr_body.length_as_slice [of "gdi_hdr m"] ok by (simp add: VirtioGpuCtrlHdr_T_def)
  with ok show "length (as_slice VirtioGpuRespDisplayInfo_T m) = size_of VirtioGpuRespDisplayInfo_T"
    by (simp add: VirtioGpuRespDisplayInfo_T_def display_chunks(2))
  show "from_slice VirtioGpuRespDisplayInfo_T (as_slice VirtioGpuRespDisplayInfo_T m) = m"
    using ok len
    by (simp add: VirtioGpuRespDisplayInfo_T_def display_chunks(1) VIRTIO_GPU_MAX_SCANOUTS_def
        ctrl_hdr_body.from_slice_as_slice display_one_body.from_slice_as_slice comp_def)
qed

interpretation get_edid_body: byte_valued VirtioGpuRespGetEdid_T
    "\<lambda>m. length (gch_padding (ge_hdr m)) = 3 \<and> length (ge_edid m) = 1024"
proof unfold_locales
  fix m :: VirtioGpuRespGetEdid assume ok: "length (gch_padding (ge_hdr m)) = 3 \<and> length (ge_edid m) = 1024"
  have len: "length (as_slice VirtioGpuCtrlHdr_T (ge_hdr m)) = 24"
    using ctrl_hdr_body.length_as_slice [of "ge_hdr m"] ok by (simp add: VirtioGpuCtrlHdr_T_def)
  with ok show "length (as_slice VirtioGpuRespGetEdid_T m) = size_of VirtioGpuRespGetEdid_T"
    by (simp add: VirtioGpuRespGetEdid_T_def)
  show "from_slice VirtioGpuRespGetEdid_T (as_slice VirtioGpuRespGetEdid_T m) = m"
    using ok len
    by (simp add: VirtioGpuRespGetEdid_T_def slice_def ctrl_hdr_body.from_slice_as_slice)
qed

end
