(* ===== verification/Gpu_Backend.thy ===== *)
theory Gpu_Backend
  imports Gpu_Message
begin

text \<open>
  The proxy \<open>GpuBackend\<close> of \<open>vhost/src/vhost_user/gpu_backend_req.rs\<close>, by which a
  vhost-user-gpu backend drives the display of its frontend: the primitives that send a request
  and receive its reply, and one operation for each request. Some requests always have a reply and
  the others never have one.
\<close>

record 's GpuBackendInternal =
  gb_sock :: 's
  gb_error :: "int option"

definition gb_new :: "'s \<Rightarrow> 's GpuBackendInternal" where
  "gb_new ep = \<lparr>gb_sock = ep, gb_error = None\<rparr>"

definition gb_set_failed :: "int \<Rightarrow> 's GpuBackendInternal \<Rightarrow> 's GpuBackendInternal" where
  "gb_set_failed e b = b\<lparr>gb_error := Some e\<rparr>"

type_synonym ('s, 'a) gb = "('s GpuBackendInternal, io_error, 'a) M"

text \<open>\<open>io_err_convert_fn\<close>: every vhost-user error becomes an \<open>io::Error\<close> of kind other.\<close>

definition io_err_convert :: "Error \<Rightarrow> io_error" where
  "io_err_convert e = CustomIo OtherKind"

definition gb_on_sock :: "('s, Error, 'a) M \<Rightarrow> ('s, 'a) gb" where
  "gb_on_sock m = (\<lambda>b. case m (gb_sock b) of
       None \<Rightarrow> None
     | Some (Inl e, s') \<Rightarrow> Some (Inl (io_err_convert e), b\<lparr>gb_sock := s'\<rparr>)
     | Some (Inr x, s') \<Rightarrow> Some (Inr x, b\<lparr>gb_sock := s'\<rparr>))"

subsection \<open>Requests and replies\<close>

definition gb_check_state :: "('s, u64) gb" where
  "gb_check_state = bindM (readM gb_error) (\<lambda>err. case err of
       Some e \<Rightarrow> failM (io_err_convert (SocketBroken (RawOs e)))
     | None \<Rightarrow> retM 0)"

definition gb_send_header ::
    "'s sock_ops \<Rightarrow> GpuBackendReq \<Rightarrow> fd list option \<Rightarrow> ('s, VhostUserGpuMsgHeader) gb" where
  "gb_send_header so request fds =
     thenM gb_check_state
     (let hdr = gpu_hdr_new request 0 0 in
      thenM (gb_on_sock (send_header GH so hdr fds)) (retM hdr))"

definition gb_send_message ::
    "'t msg_type \<Rightarrow> 's sock_ops \<Rightarrow> GpuBackendReq \<Rightarrow> 't \<Rightarrow> fd list option \<Rightarrow> ('s, VhostUserGpuMsgHeader) gb" where
  "gb_send_message T so request body fds =
     thenM gb_check_state
     (let len = size_of T;
          hdr = gpu_hdr_new request 0 (word_of_nat len) in
      thenM (gb_on_sock (send_message GH T so hdr body fds)) (retM hdr))"

definition gb_send_message_with_payload ::
    "'t msg_type \<Rightarrow> 's sock_ops \<Rightarrow> GpuBackendReq \<Rightarrow> 't \<Rightarrow> u8 list \<Rightarrow> fd list option
     \<Rightarrow> ('s, VhostUserGpuMsgHeader) gb" where
  "gb_send_message_with_payload T so request body data fds =
     thenM gb_check_state
     (let len = size_of T + length data;
          hdr = gpu_hdr_new request 0 (word_of_nat len) in
      thenM (gb_on_sock (send_message_with_payload GH T so hdr body data fds)) (retM hdr))"

definition gb_recv_reply ::
    "'t msg_type \<Rightarrow> 's sock_ops \<Rightarrow> VhostUserGpuMsgHeader \<Rightarrow> ('s, 't) gb" where
  "gb_recv_reply T so hdr =
     thenM gb_check_state
     (bindM (gb_on_sock (recv_body GH T so)) (\<lambda>(reply, body, rfds).
       if \<not> gpu_is_reply_for reply hdr \<or> rfds \<noteq> None \<or> \<not> is_valid T body
       then failM (io_err_convert InvalidMessage)
       else retM body))"

subsection \<open>The operations\<close>

definition gpu_get_protocol_features :: "'s sock_ops \<Rightarrow> ('s, VhostUserU64) gb" where
  "gpu_get_protocol_features so =
     bindM (gb_send_header so GPU_GET_PROTOCOL_FEATURES None) (gb_recv_reply VhostUserU64_T so)"

definition gpu_set_protocol_features :: "'s sock_ops \<Rightarrow> VhostUserU64 \<Rightarrow> ('s, unit) gb" where
  "gpu_set_protocol_features so msg =
     thenM (gb_send_message VhostUserU64_T so GPU_SET_PROTOCOL_FEATURES msg None) (retM ())"

definition gpu_get_display_info :: "'s sock_ops \<Rightarrow> ('s, VirtioGpuRespDisplayInfo) gb" where
  "gpu_get_display_info so =
     bindM (gb_send_header so GPU_GET_DISPLAY_INFO None) (gb_recv_reply VirtioGpuRespDisplayInfo_T so)"

definition gpu_get_edid :: "'s sock_ops \<Rightarrow> VhostUserGpuEdidRequest \<Rightarrow> ('s, VirtioGpuRespGetEdid) gb" where
  "gpu_get_edid so get_edid =
     bindM (gb_send_message VhostUserGpuEdidRequest_T so GPU_GET_EDID get_edid None)
       (gb_recv_reply VirtioGpuRespGetEdid_T so)"

definition gpu_set_scanout :: "'s sock_ops \<Rightarrow> VhostUserGpuScanout \<Rightarrow> ('s, unit) gb" where
  "gpu_set_scanout so scanout =
     thenM (gb_send_message VhostUserGpuScanout_T so GPU_SCANOUT scanout None) (retM ())"

definition gpu_update_scanout :: "'s sock_ops \<Rightarrow> VhostUserGpuUpdate \<Rightarrow> u8 list \<Rightarrow> ('s, unit) gb" where
  "gpu_update_scanout so update data =
     thenM (gb_send_message_with_payload VhostUserGpuUpdate_T so GPU_UPDATE update data None) (retM ())"

definition gpu_set_dmabuf_scanout ::
    "'s sock_ops \<Rightarrow> VhostUserGpuDMABUFScanout \<Rightarrow> fd option \<Rightarrow> ('s, unit) gb" where
  "gpu_set_dmabuf_scanout so scanout f =
     thenM (gb_send_message VhostUserGpuDMABUFScanout_T so GPU_DMABUF_SCANOUT scanout
              (map_option (\<lambda>x. [x]) f)) (retM ())"

definition gpu_set_dmabuf_scanout2 ::
    "'s sock_ops \<Rightarrow> VhostUserGpuDMABUFScanout2 \<Rightarrow> fd option \<Rightarrow> ('s, unit) gb" where
  "gpu_set_dmabuf_scanout2 so scanout f =
     thenM (gb_send_message VhostUserGpuDMABUFScanout2_T so GPU_DMABUF_SCANOUT2 scanout
              (map_option (\<lambda>x. [x]) f)) (retM ())"

definition gpu_update_dmabuf_scanout :: "'s sock_ops \<Rightarrow> VhostUserGpuUpdate \<Rightarrow> ('s, unit) gb" where
  "gpu_update_dmabuf_scanout so update =
     bindM (gb_send_message VhostUserGpuUpdate_T so GPU_DMABUF_UPDATE update None)
       (\<lambda>hdr. thenM (gb_recv_reply VhostUserEmpty_T so hdr) (retM ()))"

definition gpu_cursor_pos :: "'s sock_ops \<Rightarrow> VhostUserGpuCursorPos \<Rightarrow> ('s, unit) gb" where
  "gpu_cursor_pos so cursor_pos =
     thenM (gb_send_message VhostUserGpuCursorPos_T so GPU_CURSOR_POS cursor_pos None) (retM ())"

definition gpu_cursor_pos_hide :: "'s sock_ops \<Rightarrow> VhostUserGpuCursorPos \<Rightarrow> ('s, unit) gb" where
  "gpu_cursor_pos_hide so cursor_pos =
     thenM (gb_send_message VhostUserGpuCursorPos_T so GPU_CURSOR_POS_HIDE cursor_pos None) (retM ())"

definition gpu_cursor_update ::
    "'s sock_ops \<Rightarrow> VhostUserGpuCursorUpdate \<Rightarrow> u8 list \<Rightarrow> ('s, unit) gb" where
  "gpu_cursor_update so cursor_update data =
     thenM (gb_send_message_with_payload VhostUserGpuCursorUpdate_T so GPU_CURSOR_UPDATE cursor_update data None)
       (retM ())"

subsection \<open>Facts about the header\<close>

lemma gpu_hdr_new_code [simp]: "gpu_get_code (gpu_hdr_new r fl n) = Inr r"
  by (simp add: gpu_get_code_def gpu_hdr_new_def)

lemma gpu_hdr_new_is_reply [simp]: "gpu_is_reply (gpu_hdr_new r fl n) \<longleftrightarrow> fl AND GPU_HDR_REPLY \<noteq> 0"
  by (simp add: gpu_is_reply_def gpu_hdr_new_def)

lemma gpu_reply_valid [simp]:
  "gpu_hdr_is_valid (gpu_hdr_new r GPU_HDR_REPLY n)"
  "gpu_is_reply_for (gpu_hdr_new r GPU_HDR_REPLY n) (gpu_hdr_new r 0 m)"
  by (simp_all add: gpu_hdr_is_valid_def gpu_is_reply_for_def GPU_HDR_REPLY_def) 
    (simp add: gpu_hdr_new_def)

lemma GH_simps [simp]:
  "hdr_T GH = VhostUserGpuMsgHeader_T" "max_msg_size GH = 0xffffffff"
  "size_of VhostUserGpuMsgHeader_T = 12" "is_valid VhostUserGpuMsgHeader_T = gpu_hdr_is_valid"
  by (simp_all add: GH_def VhostUserGpuMsgHeader_T_def)

lemma gb_check_state_ok [simp]: "gb_error b = None \<Longrightarrow> gb_check_state b = Some (Inr 0, b)"
  by (simp add: gb_check_state_def effect_defs)

text \<open>Sending a message: it completes, and leaves what is to be received alone.\<close>

lemma gb_send_message_completes:
  assumes T: "byte_valued T ok" "ok body" "size_of T \<le> 0xffffffff" and b: "gb_error b = None"
    and law: "send_law so tx" "send_progress so budget" "duplex_law so tx rx rxf"
  obtains s' cs where
    "gb_send_message T so req body fds b
       = Some (Inr (gpu_hdr_new req 0 (word_of_nat (size_of T))), b\<lparr>gb_sock := s'\<rparr>)"
    and "tx s' = tx (gb_sock b) @ cs"
    and "concat (map fst cs) = as_slice VhostUserGpuMsgHeader_T (gpu_hdr_new req 0 (word_of_nat (size_of T)))
      @ as_slice T body"
    and "rx s' = rx (gb_sock b)" and "rxf s' = rxf (gb_sock b)"
proof -
  let ?hdr = "gpu_hdr_new req 0 (word_of_nat (size_of T))"
  obtain s' cs where run: "send_message GH T so ?hdr body fds (gb_sock b) = Some (Inr (), s')"
    and tx: "tx s' = tx (gb_sock b) @ cs"
    and bytes: "concat (map fst cs) = as_slice VhostUserGpuMsgHeader_T ?hdr @ as_slice T body"
    using gpu_header.send_message_completes [OF T(1,2) _ law(1,2)] T(3) by fastforce
  then obtain n where "send_iovec_all so [as_slice (hdr_T GH) ?hdr, as_slice T body] fds (gb_sock b) = Some (Inr n, s')"
    unfolding send_message_def by (auto elim!: bindM_InrE simp: guardM_apply failM_apply split: if_splits)
  from send_all_keeps_rx [OF law(3) this] have "rx s' = rx (gb_sock b)" "rxf s' = rxf (gb_sock b)" .
  moreover have "gb_send_message T so req body fds b = Some (Inr ?hdr, b\<lparr>gb_sock := s'\<rparr>)"
    using run b by (simp add: gb_send_message_def thenM_def bindM_def gb_on_sock_def retM_def Let_def)
  ultimately show thesis using that tx bytes by blast
qed

lemma gb_recv_reply_reads:
  assumes T: "byte_valued T ok" "ok body" "is_valid T body" and b: "gb_error b = None"
    and law: "recv_law so rx rxf" "recv_progress so rx budget"
    and stream: "rx (gb_sock b) = as_slice VhostUserGpuMsgHeader_T (gpu_hdr_new req GPU_HDR_REPLY n) @ as_slice T body @ later"
    and nofd: "rxf (gb_sock b) = []"
    and dup: "duplex_law so tx rx rxf"
  obtains s' where "gb_recv_reply T so (gpu_hdr_new req 0 m) b = Some (Inr body, b\<lparr>gb_sock := s'\<rparr>)"
    and "rx s' = later" and "tx s' = tx (gb_sock b)"
proof -
  have valid: "is_valid (hdr_T GH) (gpu_hdr_new req GPU_HDR_REPLY n)" by simp
  obtain s' where "recv_body GH T so (gb_sock b)
      = Some (Inr (gpu_hdr_new req GPU_HDR_REPLY n, body, received_files (rxf (gb_sock b))), s')" and "rx s' = later"
    using gpu_header.recv_body_reads [OF T(1,2) valid T(3) law, of "gb_sock b" later] stream by auto
  moreover from recv_body_keeps_tx [OF dup this(1)] have "tx s' = tx (gb_sock b)" .
  moreover from calculation(1) nofd T(3) b
  have "gb_recv_reply T so (gpu_hdr_new req 0 m) b = Some (Inr body, b\<lparr>gb_sock := s'\<rparr>)"
    by (simp add: gb_recv_reply_def thenM_def bindM_def gb_on_sock_def retM_def received_files_def)
  ultimately show thesis using that by blast
qed

text \<open>
  C36: a request for display data is answered: on a socket that makes progress, \<open>get_edid\<close> returns;
  it sends one request for this scanout, and it returns the body of the reply that the frontend
  sent, taking just this reply from the stream, however the socket splits the two messages.
\<close>

theorem gpu_get_edid_returns_reply:
  assumes "send_law so tx" and "send_progress so budget" and "duplex_law so tx rx rxf"
    and "recv_law so rx rxf" and "recv_progress so rx budget'"
    and "gb_error b = None" and "rxf (gb_sock b) = []"
    and "length (gch_padding (ge_hdr edid)) = 3" and "length (ge_edid edid) = 1024"
    and "rx (gb_sock b) = as_slice VhostUserGpuMsgHeader_T (gpu_hdr_new GPU_GET_EDID GPU_HDR_REPLY 1056)
           @ as_slice VirtioGpuRespGetEdid_T edid @ later"
  shows "\<exists>b' cs. gpu_get_edid so req b = Some (Inr edid, b') \<and> rx (gb_sock b') = later
    \<and> tx (gb_sock b') = tx (gb_sock b) @ cs
    \<and> concat (map fst cs) = as_slice VhostUserGpuMsgHeader_T (gpu_hdr_new GPU_GET_EDID 0 4)
        @ le_bytes 4 (ger_scanout_id req)"
proof -
  have sz: "size_of VhostUserGpuEdidRequest_T = 4" by (simp add: VhostUserGpuEdidRequest_T_def)
  obtain s1 cs where send: "gb_send_message VhostUserGpuEdidRequest_T so GPU_GET_EDID req None b
      = Some (Inr (gpu_hdr_new GPU_GET_EDID 0 4), b\<lparr>gb_sock := s1\<rparr>)"
    and tx: "tx s1 = tx (gb_sock b) @ cs"
    and bytes: "concat (map fst cs) = as_slice VhostUserGpuMsgHeader_T (gpu_hdr_new GPU_GET_EDID 0 4)
      @ as_slice VhostUserGpuEdidRequest_T req"
    and keep: "rx s1 = rx (gb_sock b)" "rxf s1 = rxf (gb_sock b)"
    using gb_send_message_completes [OF edid_request_body.byte_valued_axioms TrueI _ assms(6,1,2,3),
        of GPU_GET_EDID req None] sz by auto
  let ?b1 = "b\<lparr>gb_sock := s1\<rparr>"
  have b1: "gb_error ?b1 = None" "rxf (gb_sock ?b1) = []" using assms(6,7) keep by simp_all
  have stream: "rx (gb_sock ?b1) = as_slice VhostUserGpuMsgHeader_T (gpu_hdr_new GPU_GET_EDID GPU_HDR_REPLY 1056)
           @ as_slice VirtioGpuRespGetEdid_T edid @ later"
    using assms(10) keep by simp
  have valid: "is_valid VirtioGpuRespGetEdid_T edid" by (simp add: VirtioGpuRespGetEdid_T_def)
  obtain s2 where "gb_recv_reply VirtioGpuRespGetEdid_T so (gpu_hdr_new GPU_GET_EDID 0 4) ?b1
      = Some (Inr edid, ?b1\<lparr>gb_sock := s2\<rparr>)" and rest: "rx s2 = later" "tx s2 = tx (gb_sock ?b1)"
    using gb_recv_reply_reads [OF get_edid_body.byte_valued_axioms conjI [OF assms(8,9)] valid b1(1) assms(4,5)
        stream b1(2) assms(3)] by blast
  with send have "gpu_get_edid so req b = Some (Inr edid, ?b1\<lparr>gb_sock := s2\<rparr>)"
    by (simp add: gpu_get_edid_def bindM_def)
  with rest tx bytes show ?thesis by (auto simp: VhostUserGpuEdidRequest_T_def)
qed

theorem gpu_get_edid_returns_reply_witness:
  "\<exists>edid b'. gpu_get_edid (pipe_sock 64) \<lparr>ger_scanout_id = 1\<rparr>
      (gb_new \<lparr>p_budget = 2, p_tx = [],
        p_rx = as_slice VhostUserGpuMsgHeader_T (gpu_hdr_new GPU_GET_EDID GPU_HDR_REPLY 1056)
          @ as_slice VirtioGpuRespGetEdid_T edid @ [7], p_rxf = []\<rparr>) = Some (Inr edid, b')
    \<and> p_rx (gb_sock b') = [7]"
proof -
  define edid where "edid = \<lparr>ge_hdr = \<lparr>gch_type = 0, gch_flags = 0, gch_fence_id = 0, gch_ctx_id = 0,
    gch_ring_idx = 0, gch_padding = [0, 0, 0]\<rparr>, ge_size = 128, ge_padding = 0, ge_edid = replicate 1024 0\<rparr>"
  define s where "s = \<lparr>p_budget = 2, p_tx = [],
    p_rx = as_slice VhostUserGpuMsgHeader_T (gpu_hdr_new GPU_GET_EDID GPU_HDR_REPLY 1056)
      @ as_slice VirtioGpuRespGetEdid_T edid @ [7], p_rxf = []\<rparr>"
  have "\<exists>b' cs. gpu_get_edid (pipe_sock 64) \<lparr>ger_scanout_id = 1\<rparr> (gb_new s) = Some (Inr edid, b')
      \<and> p_rx (gb_sock b') = [7] \<and> p_tx (gb_sock b') = p_tx (gb_sock (gb_new s)) @ cs
      \<and> concat (map fst cs) = as_slice VhostUserGpuMsgHeader_T (gpu_hdr_new GPU_GET_EDID 0 4)
          @ le_bytes 4 (ger_scanout_id \<lparr>ger_scanout_id = 1\<rparr>)"
    by (rule gpu_get_edid_returns_reply [OF pipe_send_law pipe_send_progress pipe_duplex_law pipe_recv_law pipe_recv_progress])
      (simp_all add: gb_new_def s_def edid_def)
  then show ?thesis unfolding s_def by blast
qed

text \<open>
  The size field of a display message with a payload never wraps: when the message is sent, it
  is exactly the length of the structure and the payload, although the code cuts that length to 32
  bits before the endpoint checks it.
\<close>

theorem gpu_payload_size_exact:
  assumes "gb_send_message_with_payload T so request body data fds b = Some (Inr hdr, b')"
  shows "unat (gpu_get_size hdr) = size_of T + length data \<and> gpu_get_code hdr = Inr request"
proof -
  from assms have hdr: "hdr = gpu_hdr_new request 0 (word_of_nat (size_of T + length data))"
    and le: "size_of T + length data \<le> 0xffffffff"
    by (auto simp: gb_send_message_with_payload_def Let_def send_message_with_payload_def retM_def
        gb_on_sock_def failM_def split: if_splits option.splits elim!: thenM_SomeE)
  from le have "unat (word_of_nat (size_of T + length data) :: u32) = size_of T + length data"
    by (simp only: unat_of_nat) simp
  with hdr show ?thesis by (simp add: gpu_get_size_def gpu_hdr_new_def gpu_get_code_def)
qed

theorem gpu_payload_size_exact_witness:
  "\<exists>hdr b'. gb_send_message_with_payload VhostUserGpuUpdate_T (pipe_sock 64) GPU_UPDATE
       \<lparr>gu_scanout_id = 0, gu_x = 0, gu_y = 0, gu_width = 1, gu_height = 1\<rparr> [1, 2, 3, 4] None
       (gb_new \<lparr>p_budget = 0, p_tx = [], p_rx = [], p_rxf = []\<rparr>) = Some (Inr hdr, b')
     \<and> unat (gpu_get_size hdr) = 24"
proof -
  let ?u = "\<lparr>gu_scanout_id = 0, gu_x = 0, gu_y = 0, gu_width = 1, gu_height = 1\<rparr>"
  let ?b = "gb_new \<lparr>p_budget = 0, p_tx = [], p_rx = [], p_rxf = []\<rparr>"
  let ?hdr = "gpu_hdr_new GPU_UPDATE 0 24"
  have len: "length (as_slice VhostUserGpuMsgHeader_T ?hdr) = 12" "length (as_slice VhostUserGpuUpdate_T ?u) = 20"
    by (simp_all add: VhostUserGpuMsgHeader_T_def VhostUserGpuUpdate_T_def)
  obtain s' where "send_iovec_all (pipe_sock 64)
      [as_slice VhostUserGpuMsgHeader_T ?hdr, as_slice VhostUserGpuUpdate_T ?u, [1, 2, 3, 4]] None (gb_sock ?b)
        = Some (Inr (length (concat [as_slice VhostUserGpuMsgHeader_T ?hdr, as_slice VhostUserGpuUpdate_T ?u, [1, 2, 3, 4]])), s')"
    using send_all_returns [OF pipe_send_law pipe_send_progress] by (metis zero_less_numeral)
  with len have "gb_send_message_with_payload VhostUserGpuUpdate_T (pipe_sock 64) GPU_UPDATE ?u [1, 2, 3, 4] None ?b
      = Some (Inr ?hdr, ?b\<lparr>gb_sock := s'\<rparr>)"
    by (simp add: gb_send_message_with_payload_def send_message_with_payload_def gb_check_state_def gb_on_sock_def
        gb_new_def effect_defs Let_def) (simp add: VhostUserGpuUpdate_T_def retM_def)
  with gpu_payload_size_exact [OF this] show ?thesis by (auto simp: VhostUserGpuUpdate_T_def)
qed

end
