(* ===== verification/Vhost_Kern.thy ===== *)
theory Vhost_Kern
  imports Vhost_Backend
begin

text \<open>
  The in-kernel vhost backends, \<open>vhost/src/vhost_kern\<close>: the structures and request codes of
  \<open>vhost_binding.rs\<close>, the operations of \<open>mod.rs\<close> that every kernel backend has, the vDPA backend
  of \<open>vdpa.rs\<close>, and the net and vsock backends of \<open>net.rs\<close> and \<open>vsock.rs\<close>.

  The kernel is a parameter: \<open>k_ioctl\<close> takes a request code and the bytes of its argument and
  gives an errno or the argument as the kernel leaves it, \<open>k_write\<close> takes the bytes written to the
  device. Structures are modelled down to the bytes that the kernel sees. An access outside of an
  allocation and a transmutation of an invalid value have no defined outcome: they are \<open>None\<close>.
\<close>

subsection \<open>Request codes\<close>

text \<open>A code has the direction of its macro, the type \<open>VHOST\<close>, a number and the size of its argument.\<close>

datatype ioctl_dir = IO | IOR | IOW | IOWR

record ioctl_code =
  ioc_dir :: ioctl_dir
  ioc_type :: nat
  ioc_nr :: nat
  ioc_size :: nat

definition VHOST :: nat where "VHOST = 0xaf"

abbreviation ioctl_code :: "ioctl_dir \<Rightarrow> nat \<Rightarrow> nat \<Rightarrow> ioctl_code" where
  "ioctl_code dir nr sz \<equiv> \<lparr>ioc_dir = dir, ioc_type = VHOST, ioc_nr = nr, ioc_size = sz\<rparr>"

definition VHOST_GET_FEATURES :: ioctl_code where "VHOST_GET_FEATURES = ioctl_code IOR 0x00 8"
definition VHOST_SET_FEATURES :: ioctl_code where "VHOST_SET_FEATURES = ioctl_code IOW 0x00 8"
definition VHOST_SET_OWNER :: ioctl_code where "VHOST_SET_OWNER = ioctl_code IO 0x01 0"
definition VHOST_RESET_OWNER :: ioctl_code where "VHOST_RESET_OWNER = ioctl_code IO 0x02 0"
definition VHOST_SET_MEM_TABLE :: ioctl_code where "VHOST_SET_MEM_TABLE = ioctl_code IOW 0x03 8"
definition VHOST_SET_LOG_BASE :: ioctl_code where "VHOST_SET_LOG_BASE = ioctl_code IOW 0x04 8"
definition VHOST_SET_LOG_FD :: ioctl_code where "VHOST_SET_LOG_FD = ioctl_code IOW 0x07 4"
definition VHOST_SET_VRING_NUM :: ioctl_code where "VHOST_SET_VRING_NUM = ioctl_code IOW 0x10 8"
definition VHOST_SET_VRING_ADDR :: ioctl_code where "VHOST_SET_VRING_ADDR = ioctl_code IOW 0x11 40"
definition VHOST_SET_VRING_BASE :: ioctl_code where "VHOST_SET_VRING_BASE = ioctl_code IOW 0x12 8"
definition VHOST_GET_VRING_BASE :: ioctl_code where "VHOST_GET_VRING_BASE = ioctl_code IOWR 0x12 8"
definition VHOST_SET_VRING_KICK :: ioctl_code where "VHOST_SET_VRING_KICK = ioctl_code IOW 0x20 8"
definition VHOST_SET_VRING_CALL :: ioctl_code where "VHOST_SET_VRING_CALL = ioctl_code IOW 0x21 8"
definition VHOST_SET_VRING_ERR :: ioctl_code where "VHOST_SET_VRING_ERR = ioctl_code IOW 0x22 8"
definition VHOST_SET_BACKEND_FEATURES :: ioctl_code where "VHOST_SET_BACKEND_FEATURES = ioctl_code IOW 0x25 8"
definition VHOST_GET_BACKEND_FEATURES :: ioctl_code where "VHOST_GET_BACKEND_FEATURES = ioctl_code IOR 0x26 8"
definition VHOST_NET_SET_BACKEND :: ioctl_code where "VHOST_NET_SET_BACKEND = ioctl_code IOW 0x30 8"
definition VHOST_SCSI_SET_ENDPOINT :: ioctl_code where "VHOST_SCSI_SET_ENDPOINT = ioctl_code IOW 0x40 232"
definition VHOST_SCSI_CLEAR_ENDPOINT :: ioctl_code where "VHOST_SCSI_CLEAR_ENDPOINT = ioctl_code IOW 0x41 232"
definition VHOST_SCSI_GET_ABI_VERSION :: ioctl_code where "VHOST_SCSI_GET_ABI_VERSION = ioctl_code IOW 0x42 4"
definition VHOST_SCSI_SET_EVENTS_MISSED :: ioctl_code where "VHOST_SCSI_SET_EVENTS_MISSED = ioctl_code IOW 0x43 4"
definition VHOST_SCSI_GET_EVENTS_MISSED :: ioctl_code where "VHOST_SCSI_GET_EVENTS_MISSED = ioctl_code IOW 0x44 4"
definition VHOST_VSOCK_SET_GUEST_CID :: ioctl_code where "VHOST_VSOCK_SET_GUEST_CID = ioctl_code IOW 0x60 8"
definition VHOST_VSOCK_SET_RUNNING :: ioctl_code where "VHOST_VSOCK_SET_RUNNING = ioctl_code IOW 0x61 4"
definition VHOST_VDPA_GET_DEVICE_ID :: ioctl_code where "VHOST_VDPA_GET_DEVICE_ID = ioctl_code IOR 0x70 4"
definition VHOST_VDPA_GET_STATUS :: ioctl_code where "VHOST_VDPA_GET_STATUS = ioctl_code IOR 0x71 1"
definition VHOST_VDPA_SET_STATUS :: ioctl_code where "VHOST_VDPA_SET_STATUS = ioctl_code IOW 0x72 1"
definition VHOST_VDPA_GET_CONFIG :: ioctl_code where "VHOST_VDPA_GET_CONFIG = ioctl_code IOR 0x73 8"
definition VHOST_VDPA_SET_CONFIG :: ioctl_code where "VHOST_VDPA_SET_CONFIG = ioctl_code IOW 0x74 8"
definition VHOST_VDPA_SET_VRING_ENABLE :: ioctl_code where "VHOST_VDPA_SET_VRING_ENABLE = ioctl_code IOW 0x75 8"
definition VHOST_VDPA_GET_VRING_NUM :: ioctl_code where "VHOST_VDPA_GET_VRING_NUM = ioctl_code IOR 0x76 2"
definition VHOST_VDPA_SET_CONFIG_CALL :: ioctl_code where "VHOST_VDPA_SET_CONFIG_CALL = ioctl_code IOW 0x77 4"
definition VHOST_VDPA_GET_IOVA_RANGE :: ioctl_code where "VHOST_VDPA_GET_IOVA_RANGE = ioctl_code IOR 0x78 16"
definition VHOST_VDPA_GET_CONFIG_SIZE :: ioctl_code where "VHOST_VDPA_GET_CONFIG_SIZE = ioctl_code IOR 0x79 4"
definition VHOST_VDPA_GET_VQS_COUNT :: ioctl_code where "VHOST_VDPA_GET_VQS_COUNT = ioctl_code IOR 0x80 4"
definition VHOST_VDPA_GET_GROUP_NUM :: ioctl_code where "VHOST_VDPA_GET_GROUP_NUM = ioctl_code IOR 0x81 4"
definition VHOST_VDPA_GET_AS_NUM :: ioctl_code where "VHOST_VDPA_GET_AS_NUM = ioctl_code IOR 0x7a 4"
definition VHOST_VDPA_GET_VRING_GROUP :: ioctl_code where "VHOST_VDPA_GET_VRING_GROUP = ioctl_code IOWR 0x7b 8"
definition VHOST_VDPA_SET_GROUP_ASID :: ioctl_code where "VHOST_VDPA_SET_GROUP_ASID = ioctl_code IOW 0x7c 8"
definition VHOST_VDPA_SUSPEND :: ioctl_code where "VHOST_VDPA_SUSPEND = ioctl_code IO 0x7d 0"

lemmas ioctl_defs = VHOST_GET_FEATURES_def VHOST_SET_FEATURES_def VHOST_SET_OWNER_def
  VHOST_RESET_OWNER_def VHOST_SET_MEM_TABLE_def VHOST_SET_LOG_BASE_def VHOST_SET_LOG_FD_def
  VHOST_SET_VRING_NUM_def VHOST_SET_VRING_ADDR_def VHOST_SET_VRING_BASE_def
  VHOST_GET_VRING_BASE_def VHOST_SET_VRING_KICK_def VHOST_SET_VRING_CALL_def
  VHOST_SET_VRING_ERR_def VHOST_SET_BACKEND_FEATURES_def VHOST_GET_BACKEND_FEATURES_def
  VHOST_NET_SET_BACKEND_def VHOST_VSOCK_SET_GUEST_CID_def VHOST_VSOCK_SET_RUNNING_def
  VHOST_VDPA_GET_DEVICE_ID_def VHOST_VDPA_GET_STATUS_def VHOST_VDPA_SET_STATUS_def
  VHOST_VDPA_GET_CONFIG_def VHOST_VDPA_SET_CONFIG_def VHOST_VDPA_SET_VRING_ENABLE_def
  VHOST_VDPA_GET_VRING_NUM_def VHOST_VDPA_SET_CONFIG_CALL_def VHOST_VDPA_GET_IOVA_RANGE_def
  VHOST_VDPA_GET_CONFIG_SIZE_def VHOST_VDPA_GET_VQS_COUNT_def VHOST_VDPA_GET_GROUP_NUM_def
  VHOST_VDPA_GET_AS_NUM_def VHOST_VDPA_GET_VRING_GROUP_def VHOST_VDPA_SET_GROUP_ASID_def
  VHOST_VDPA_SUSPEND_def VHOST_SCSI_SET_ENDPOINT_def VHOST_SCSI_CLEAR_ENDPOINT_def
  VHOST_SCSI_GET_ABI_VERSION_def VHOST_SCSI_SET_EVENTS_MISSED_def VHOST_SCSI_GET_EVENTS_MISSED_def

subsection \<open>Structures\<close>

record vhost_vring_state =
  vvs_index :: u32
  vvs_num :: u32

definition vring_state_bytes :: "vhost_vring_state \<Rightarrow> u8 list" where
  "vring_state_bytes s = le_bytes 4 (vvs_index s) @ le_bytes 4 (vvs_num s)"

definition vring_state_of_bytes :: "u8 list \<Rightarrow> vhost_vring_state" where
  "vring_state_of_bytes bs = \<lparr>vvs_index = of_le_bytes (slice 0 4 bs), vvs_num = of_le_bytes (slice 4 4 bs)\<rparr>"

record vhost_vring_file =
  vvf_index :: u32
  vvf_fd :: "32 word"

definition vring_file_bytes :: "vhost_vring_file \<Rightarrow> u8 list" where
  "vring_file_bytes s = le_bytes 4 (vvf_index s) @ le_bytes 4 (vvf_fd s)"

record vhost_vring_addr =
  vva_index :: u32
  vva_flags :: u32
  vva_desc_user_addr :: u64
  vva_used_user_addr :: u64
  vva_avail_user_addr :: u64
  vva_log_guest_addr :: u64

definition vring_addr_bytes :: "vhost_vring_addr \<Rightarrow> u8 list" where
  "vring_addr_bytes a = le_bytes 4 (vva_index a) @ le_bytes 4 (vva_flags a)
     @ le_bytes 8 (vva_desc_user_addr a) @ le_bytes 8 (vva_used_user_addr a)
     @ le_bytes 8 (vva_avail_user_addr a) @ le_bytes 8 (vva_log_guest_addr a)"

record vhost_memory_region =
  vmr_guest_phys_addr :: u64
  vmr_memory_size :: u64
  vmr_userspace_addr :: u64
  vmr_flags_padding :: u64

definition memory_region_bytes :: "vhost_memory_region \<Rightarrow> u8 list" where
  "memory_region_bytes r = le_bytes 8 (vmr_guest_phys_addr r) @ le_bytes 8 (vmr_memory_size r)
     @ le_bytes 8 (vmr_userspace_addr r) @ le_bytes 8 (vmr_flags_padding r)"

definition memory_region_of_bytes :: "u8 list \<Rightarrow> vhost_memory_region" where
  "memory_region_of_bytes bs =
     \<lparr>vmr_guest_phys_addr = of_le_bytes (slice 0 8 bs), vmr_memory_size = of_le_bytes (slice 8 8 bs),
      vmr_userspace_addr = of_le_bytes (slice 16 8 bs), vmr_flags_padding = of_le_bytes (slice 24 8 bs)\<rparr>"

text \<open>
  The endpoint of the SCSI target; \<open>repr(C)\<close> needs no padding, as the name is 224 bytes and the
  two numbers after it fill the last four.
\<close>

record vhost_scsi_target =
  vst_abi_version :: "32 word"
  vst_vhost_wwpn :: "u8 list"
  vst_vhost_tpgt :: u16
  vst_reserved :: u16

definition vhost_scsi_target_default :: vhost_scsi_target where
  "vhost_scsi_target_default =
     \<lparr>vst_abi_version = 0, vst_vhost_wwpn = replicate 224 0, vst_vhost_tpgt = 0, vst_reserved = 0\<rparr>"

definition scsi_target_bytes :: "vhost_scsi_target \<Rightarrow> u8 list" where
  "scsi_target_bytes t = le_bytes 4 (vst_abi_version t) @ vst_vhost_wwpn t
     @ le_bytes 2 (vst_vhost_tpgt t) @ le_bytes 2 (vst_reserved t)"

text \<open>
  A request code announces the size of its argument to the kernel: it is the length of the bytes
  that the operations pass with it.
\<close>

lemma ioctl_argument_sizes:
  "length (vring_state_bytes vs) = ioc_size VHOST_SET_VRING_NUM"
  "length (vring_state_bytes vs) = ioc_size VHOST_SET_VRING_BASE"
  "length (vring_state_bytes vs) = ioc_size VHOST_GET_VRING_BASE"
  "length (vring_state_bytes vs) = ioc_size VHOST_VDPA_SET_VRING_ENABLE"
  "length (vring_state_bytes vs) = ioc_size VHOST_VDPA_GET_VRING_GROUP"
  "length (vring_file_bytes vf) = ioc_size VHOST_SET_VRING_KICK"
  "length (vring_file_bytes vf) = ioc_size VHOST_SET_VRING_CALL"
  "length (vring_file_bytes vf) = ioc_size VHOST_SET_VRING_ERR"
  "length (vring_file_bytes vf) = ioc_size VHOST_NET_SET_BACKEND"
  "length (vring_addr_bytes va) = ioc_size VHOST_SET_VRING_ADDR"
  "length (vst_vhost_wwpn t) = 224 \<Longrightarrow> length (scsi_target_bytes t) = ioc_size VHOST_SCSI_SET_ENDPOINT"
  "length (vst_vhost_wwpn t) = 224 \<Longrightarrow> length (scsi_target_bytes t) = ioc_size VHOST_SCSI_CLEAR_ENDPOINT"
  "scsi_target_bytes vhost_scsi_target_default = replicate (ioc_size VHOST_SCSI_SET_ENDPOINT) 0"
  by (simp_all add: vring_state_bytes_def vring_file_bytes_def vring_addr_bytes_def scsi_target_bytes_def
      vhost_scsi_target_default_def ioctl_defs le_bytes_0 flip: replicate_add)

text \<open>
  \<open>VhostMemory\<close> is a vector of eight-byte headers, long enough for the header and the regions that
  follow it; the regions are written through a pointer past the first header.
\<close>

type_synonym VhostMemory = "u8 list"

definition VhostMemory_new :: "u16 \<Rightarrow> VhostMemory" where
  "VhostMemory_new entries =
     (let sz = 32 * unat entries;
          count = (sz + 2 * 8 - 1) div 8 in
      le_bytes 4 (ucast entries :: u32) @ replicate (8 * count - 4) 0)"

definition vm_nregions :: "VhostMemory \<Rightarrow> u32" where
  "vm_nregions buf = of_le_bytes (take 4 buf)"

definition get_region :: "VhostMemory \<Rightarrow> u32 \<Rightarrow> vhost_memory_region option option" where
  "get_region buf index =
     (if index \<ge> vm_nregions buf then Some None
      else if 8 + 32 * unat (vm_nregions buf) > length buf then None
      else Some (Some (memory_region_of_bytes (slice (8 + 32 * unat index) 32 buf))))"

definition set_region :: "VhostMemory \<Rightarrow> u32 \<Rightarrow> vhost_memory_region \<Rightarrow> (VhostError + VhostMemory) option" where
  "set_region buf index region =
     (if index \<ge> vm_nregions buf then Some (Inl InvalidGuestMemory)
      else if 8 + 32 * (unat index + 1) > length buf then None
      else Some (Inr (take (8 + 32 * unat index) buf @ memory_region_bytes region
                      @ drop (8 + 32 * (unat index + 1)) buf)))"

subsection \<open>The kernel and the guest memory\<close>

record 'k kern_ops =
  k_ioctl :: "ioctl_code \<Rightarrow> u8 list \<Rightarrow> 'k \<Rightarrow> (int + u8 list) \<times> 'k"
  k_write :: "u8 list \<Rightarrow> 'k \<Rightarrow> (int + nat) \<times> 'k"

record 'm mem_ops =
  address_in_range :: "u64 \<Rightarrow> 'm \<Rightarrow> bool"
  get_host_address :: "u64 \<Rightarrow> 'm \<Rightarrow> u64 option"

text \<open>What every kernel backend has: the open device and the guest memory.\<close>

record ('k, 'm) KernBackend =
  kn_dev :: 'k
  kn_mem :: 'm

type_synonym ('k, 'm, 'z, 'a) kern = "(('k, 'm, 'z) KernBackend_scheme, VhostError, 'a) M"

text \<open>An \<open>ioctl\<close> with a pointer to its argument, and \<open>ioctl_result\<close> or \<open>io_result\<close> on the outcome.\<close>

definition ioctl_arg :: "'k kern_ops \<Rightarrow> ioctl_code \<Rightarrow> u8 list \<Rightarrow> ('k, 'm, 'z, u8 list) kern" where
  "ioctl_arg K req arg = (\<lambda>h. case k_ioctl K req arg (kn_dev h) of
       (Inl e, k') \<Rightarrow> Some (Inl (IoctlError (RawOs e)), h\<lparr>kn_dev := k'\<rparr>)
     | (Inr out, k') \<Rightarrow> Some (Inr out, h\<lparr>kn_dev := k'\<rparr>))"

definition ioctl_set :: "'k kern_ops \<Rightarrow> ioctl_code \<Rightarrow> u8 list \<Rightarrow> ('k, 'm, 'z, unit) kern" where
  "ioctl_set K req arg = thenM (ioctl_arg K req arg) (retM ())"

definition dev_write :: "'k kern_ops \<Rightarrow> u8 list \<Rightarrow> ('k, 'm, 'z, unit) kern" where
  "dev_write K bs = (\<lambda>h. case k_write K bs (kn_dev h) of
       (Inl e, k') \<Rightarrow> Some (Inl (IOError (RawOs e)), h\<lparr>kn_dev := k'\<rparr>)
     | (Inr _, k') \<Rightarrow> Some (Inr (), h\<lparr>kn_dev := k'\<rparr>))"

subsection \<open>VhostKernBackend\<close>

definition queue_size_valid :: "VringConfigData \<Rightarrow> bool" where
  "queue_size_valid c \<longleftrightarrow> (let queue_size = vc_queue_size c in
     \<not> (queue_size > vc_queue_max_size c \<or> queue_size = 0 \<or> queue_size AND (queue_size - 1) \<noteq> 0))"

text \<open>\<open>checked_add(size).is_none_or(|v| !m.address_in_range(v))\<close> must not hold.\<close>

definition area_valid :: "'m mem_ops \<Rightarrow> 'm \<Rightarrow> u64 \<Rightarrow> u64 \<Rightarrow> bool" where
  "area_valid G m addr len = (case checked_add addr len of
       None \<Rightarrow> False
     | Some v \<Rightarrow> address_in_range G v m)"

definition kern_is_valid :: "'m mem_ops \<Rightarrow> 'm \<Rightarrow> VringConfigData \<Rightarrow> bool" where
  "kern_is_valid G m c =
     (if \<not> queue_size_valid c then False
      else
        (let queue_size = ucast (vc_queue_size c) :: u64;
             desc_table_size = 16 * queue_size;
             avail_ring_size = 6 + 2 * queue_size;
             used_ring_size = 6 + 8 * queue_size in
         if \<not> area_valid G m (vc_desc_table_addr c) desc_table_size then False
         else if \<not> area_valid G m (vc_avail_ring_addr c) avail_ring_size then False
         else if \<not> area_valid G m (vc_used_ring_addr c) used_ring_size then False
         else is_log_addr_valid c))"

text \<open>The conversion of the ring addresses to the host address space.\<close>

definition to_vhost_vring_addr ::
    "'m mem_ops \<Rightarrow> 'm \<Rightarrow> u64 \<Rightarrow> VringConfigData \<Rightarrow> VhostError + vhost_vring_addr" where
  "to_vhost_vring_addr G m queue_index c =
     (case get_host_address G (vc_desc_table_addr c) m of
        None \<Rightarrow> Inl DescriptorTableAddress
      | Some desc_addr \<Rightarrow> (case get_host_address G (vc_avail_ring_addr c) m of
          None \<Rightarrow> Inl AvailAddress
        | Some avail_addr \<Rightarrow> (case get_host_address G (vc_used_ring_addr c) m of
            None \<Rightarrow> Inl UsedAddress
          | Some used_addr \<Rightarrow> Inr
              \<lparr>vva_index = ucast queue_index, vva_flags = vc_flags c, vva_desc_user_addr = desc_addr,
               vva_used_user_addr = used_addr, vva_avail_user_addr = avail_addr,
               vva_log_guest_addr = get_log_addr c\<rparr>)))"

subsection \<open>VhostBackend for kernel backends\<close>

definition kern_get_features :: "'k kern_ops \<Rightarrow> ('k, 'm, 'z, u64) kern" where
  "kern_get_features K = bindM (ioctl_arg K VHOST_GET_FEATURES (le_bytes 8 (0 :: u64)))
     (\<lambda>out. retM (of_le_bytes out))"

definition kern_set_features :: "'k kern_ops \<Rightarrow> u64 \<Rightarrow> ('k, 'm, 'z, unit) kern" where
  "kern_set_features K features = ioctl_set K VHOST_SET_FEATURES (le_bytes 8 features)"

definition kern_set_owner :: "'k kern_ops \<Rightarrow> ('k, 'm, 'z, unit) kern" where
  "kern_set_owner K = ioctl_set K VHOST_SET_OWNER []"

definition kern_reset_owner :: "'k kern_ops \<Rightarrow> ('k, 'm, 'z, unit) kern" where
  "kern_reset_owner K = ioctl_set K VHOST_RESET_OWNER []"

definition kern_region :: "VhostUserMemoryRegionInfo \<Rightarrow> vhost_memory_region" where
  "kern_region region =
     \<lparr>vmr_guest_phys_addr = ri_guest_phys_addr region, vmr_memory_size = ri_memory_size region,
      vmr_userspace_addr = ri_userspace_addr region, vmr_flags_padding = 0\<rparr>"

text \<open>The loop that writes the regions into the table, from index \<open>i\<close> on.\<close>

fun fill_regions :: "VhostMemory \<Rightarrow> nat \<Rightarrow> VhostUserMemoryRegionInfo list \<Rightarrow> (VhostError + VhostMemory) option" where
  "fill_regions buf i [] = Some (Inr buf)"
| "fill_regions buf i (region # regions) =
     (case set_region buf (word_of_nat i) (kern_region region) of
        None \<Rightarrow> None
      | Some (Inl e) \<Rightarrow> Some (Inl e)
      | Some (Inr buf') \<Rightarrow> fill_regions buf' (Suc i) regions)"

definition kern_set_mem_table ::
    "'k kern_ops \<Rightarrow> VhostUserMemoryRegionInfo list \<Rightarrow> ('k, 'm, 'z, unit) kern" where
  "kern_set_mem_table K regions =
     (if regions = [] \<or> length regions > VHOST_MAX_MEMORY_REGIONS then failM InvalidGuestMemory
      else bindM (\<lambda>h. map_option (\<lambda>r. (r, h)) (fill_regions (VhostMemory_new (word_of_nat (length regions))) 0 regions))
        (\<lambda>vhost_memory. ioctl_set K VHOST_SET_MEM_TABLE vhost_memory))"

definition kern_set_log_base ::
    "'k kern_ops \<Rightarrow> u64 \<Rightarrow> VhostUserDirtyLogRegion option \<Rightarrow> ('k, 'm, 'z, unit) kern" where
  "kern_set_log_base K base region =
     (if region \<noteq> None then failM LogAddress
      else ioctl_set K VHOST_SET_LOG_BASE (le_bytes 8 base))"

definition kern_set_log_fd :: "'k kern_ops \<Rightarrow> fd \<Rightarrow> ('k, 'm, 'z, unit) kern" where
  "kern_set_log_fd K f = ioctl_set K VHOST_SET_LOG_FD (le_bytes 4 (word_of_int f :: 32 word))"

definition kern_set_vring_num :: "'k kern_ops \<Rightarrow> u64 \<Rightarrow> u16 \<Rightarrow> ('k, 'm, 'z, unit) kern" where
  "kern_set_vring_num K queue_index num =
     ioctl_set K VHOST_SET_VRING_NUM
       (vring_state_bytes \<lparr>vvs_index = ucast queue_index, vvs_num = ucast num\<rparr>)"

text \<open>\<open>valid\<close> is the \<open>is_valid\<close> of the backend.\<close>

definition kern_set_vring_addr ::
    "'k kern_ops \<Rightarrow> 'm mem_ops \<Rightarrow> ('m \<Rightarrow> VringConfigData \<Rightarrow> bool) \<Rightarrow> u64 \<Rightarrow> VringConfigData \<Rightarrow> ('k, 'm, 'z, unit) kern" where
  "kern_set_vring_addr K G valid queue_index c = bindM (readM kn_mem) (\<lambda>m.
     if \<not> valid m c then failM InvalidQueue
     else bindM (liftR (to_vhost_vring_addr G m queue_index c)) (\<lambda>vring_addr.
       ioctl_set K VHOST_SET_VRING_ADDR (vring_addr_bytes vring_addr)))"

definition kern_set_vring_base :: "'k kern_ops \<Rightarrow> u64 \<Rightarrow> u16 \<Rightarrow> ('k, 'm, 'z, unit) kern" where
  "kern_set_vring_base K queue_index base =
     ioctl_set K VHOST_SET_VRING_BASE
       (vring_state_bytes \<lparr>vvs_index = ucast queue_index, vvs_num = ucast base\<rparr>)"

definition kern_get_vring_base :: "'k kern_ops \<Rightarrow> u64 \<Rightarrow> ('k, 'm, 'z, u32) kern" where
  "kern_get_vring_base K queue_index =
     bindM (ioctl_arg K VHOST_GET_VRING_BASE
              (vring_state_bytes \<lparr>vvs_index = ucast queue_index, vvs_num = 0\<rparr>))
       (\<lambda>out. retM (vvs_num (vring_state_of_bytes out)))"

definition kern_set_vring_call :: "'k kern_ops \<Rightarrow> u64 \<Rightarrow> fd \<Rightarrow> ('k, 'm, 'z, unit) kern" where
  "kern_set_vring_call K queue_index f =
     ioctl_set K VHOST_SET_VRING_CALL
       (vring_file_bytes \<lparr>vvf_index = ucast queue_index, vvf_fd = word_of_int f\<rparr>)"

definition kern_set_vring_kick :: "'k kern_ops \<Rightarrow> u64 \<Rightarrow> fd \<Rightarrow> ('k, 'm, 'z, unit) kern" where
  "kern_set_vring_kick K queue_index f =
     ioctl_set K VHOST_SET_VRING_KICK
       (vring_file_bytes \<lparr>vvf_index = ucast queue_index, vvf_fd = word_of_int f\<rparr>)"

definition kern_set_vring_err :: "'k kern_ops \<Rightarrow> u64 \<Rightarrow> fd \<Rightarrow> ('k, 'm, 'z, unit) kern" where
  "kern_set_vring_err K queue_index f =
     ioctl_set K VHOST_SET_VRING_ERR
       (vring_file_bytes \<lparr>vvf_index = ucast queue_index, vvf_fd = word_of_int f\<rparr>)"

definition kern_backend ::
    "'k kern_ops \<Rightarrow> 'm mem_ops \<Rightarrow> ('m \<Rightarrow> VringConfigData \<Rightarrow> bool) \<Rightarrow> ('k, 'm, 'z) KernBackend_scheme VhostBackend" where
  "kern_backend K G valid =
     \<lparr>vb_get_features = kern_get_features K,
      vb_set_features = kern_set_features K,
      vb_set_owner = kern_set_owner K,
      vb_reset_owner = kern_reset_owner K,
      vb_set_mem_table = kern_set_mem_table K,
      vb_set_log_base = kern_set_log_base K,
      vb_set_log_fd = kern_set_log_fd K,
      vb_set_vring_num = kern_set_vring_num K,
      vb_set_vring_addr = kern_set_vring_addr K G valid,
      vb_set_vring_base = kern_set_vring_base K,
      vb_get_vring_base = kern_get_vring_base K,
      vb_set_vring_call = kern_set_vring_call K,
      vb_set_vring_kick = kern_set_vring_kick K,
      vb_set_vring_err = kern_set_vring_err K\<rparr>"

interpretation kern_vb: vhost_backend "kern_backend K G valid" VHOST_MAX_MEMORY_REGIONS for K G valid
  by unfold_locales (auto simp: kern_backend_def kern_set_mem_table_def failM_def)

interpretation kern_refcell: wrapped_backend "kern_backend K G valid" VHOST_MAX_MEMORY_REGIONS refcell_new
    "refcell_backend (kern_backend K G valid)" for K G valid
  by unfold_locales

subsection \<open>IOTLB messages\<close>

definition VHOST_ACCESS_RO :: u8 where "VHOST_ACCESS_RO = 1"
definition VHOST_ACCESS_WO :: u8 where "VHOST_ACCESS_WO = 2"
definition VHOST_ACCESS_RW :: u8 where "VHOST_ACCESS_RW = 3"
definition VHOST_IOTLB_MISS :: u8 where "VHOST_IOTLB_MISS = 1"
definition VHOST_IOTLB_UPDATE :: u8 where "VHOST_IOTLB_UPDATE = 2"
definition VHOST_IOTLB_INVALIDATE :: u8 where "VHOST_IOTLB_INVALIDATE = 3"
definition VHOST_IOTLB_ACCESS_FAIL :: u8 where "VHOST_IOTLB_ACCESS_FAIL = 4"
definition VHOST_IOTLB_BATCH_BEGIN :: u8 where "VHOST_IOTLB_BATCH_BEGIN = 5"
definition VHOST_IOTLB_BATCH_END :: u8 where "VHOST_IOTLB_BATCH_END = 6"

text \<open>The enums of \<open>backend.rs\<close> have the values of the kernel bindings that they are documented to map.\<close>

lemma iotlb_enums_are_bindings:
  "map VhostAccess_into [AccessReadOnly, AccessWriteOnly, AccessReadWrite]
     = [VHOST_ACCESS_RO, VHOST_ACCESS_WO, VHOST_ACCESS_RW]"
  "map VhostIotlbType_into [IotlbMiss, IotlbUpdate, IotlbInvalidate, IotlbAccessFail, IotlbBatchBegin, IotlbBatchEnd]
     = [VHOST_IOTLB_MISS, VHOST_IOTLB_UPDATE, VHOST_IOTLB_INVALIDATE, VHOST_IOTLB_ACCESS_FAIL,
        VHOST_IOTLB_BATCH_BEGIN, VHOST_IOTLB_BATCH_END]"
  by (simp_all add: VHOST_ACCESS_RO_def VHOST_ACCESS_WO_def VHOST_ACCESS_RW_def VHOST_IOTLB_MISS_def
      VHOST_IOTLB_UPDATE_def VHOST_IOTLB_INVALIDATE_def VHOST_IOTLB_ACCESS_FAIL_def
      VHOST_IOTLB_BATCH_BEGIN_def VHOST_IOTLB_BATCH_END_def)

definition VHOST_IOTLB_MSG :: "32 word" where "VHOST_IOTLB_MSG = 1"
definition VHOST_IOTLB_MSG_V2 :: u32 where "VHOST_IOTLB_MSG_V2 = 2"
definition VHOST_BACKEND_F_IOTLB_MSG_V2 :: nat where "VHOST_BACKEND_F_IOTLB_MSG_V2 = 0x1"

text \<open>
  \<open>vhost_iotlb_msg\<close> inside of its 64-byte union; \<open>vhost_msg\<close> and \<open>vhost_msg_v2\<close> put it after a
  type and four bytes of padding or reserved bytes, 72 bytes in all.
\<close>

definition iotlb_union_bytes :: "VhostIotlbMsg \<Rightarrow> u8 list" where
  "iotlb_union_bytes msg = le_bytes 8 (iotlb_iova msg) @ le_bytes 8 (iotlb_size msg)
     @ le_bytes 8 (iotlb_userspace_addr msg)
     @ [VhostAccess_into (iotlb_perm msg), VhostIotlbType_into (iotlb_msg_type msg)] @ replicate 38 0"

definition vhost_msg_bytes :: "VhostIotlbMsg \<Rightarrow> u8 list" where
  "vhost_msg_bytes msg = le_bytes 4 VHOST_IOTLB_MSG @ replicate 4 0 @ iotlb_union_bytes msg"

definition vhost_msg_v2_bytes :: "VhostIotlbMsg \<Rightarrow> u8 list" where
  "vhost_msg_v2_bytes msg = le_bytes 4 VHOST_IOTLB_MSG_V2 @ replicate 4 0 @ iotlb_union_bytes msg"

text \<open>\<open>transmute\<close> of a byte to an enum is defined for the declared values only.\<close>

definition transmute_access :: "u8 \<Rightarrow> VhostAccess option" where
  "transmute_access b = find (\<lambda>a. VhostAccess_into a = b)
     [AccessNo, AccessReadOnly, AccessWriteOnly, AccessReadWrite]"

definition transmute_iotlb_type :: "u8 \<Rightarrow> VhostIotlbType option" where
  "transmute_iotlb_type b = find (\<lambda>t. VhostIotlbType_into t = b)
     [IotlbEmpty, IotlbMiss, IotlbUpdate, IotlbInvalidate, IotlbAccessFail, IotlbBatchBegin, IotlbBatchEnd]"

definition parse_iotlb :: "u8 list \<Rightarrow> (VhostError + VhostIotlbMsg) option" where
  "parse_iotlb u =
     (if u ! 25 = 0 then Some (Inl InvalidIotlbMsg)
      else (case transmute_access (u ! 24) of
          None \<Rightarrow> None
        | Some perm \<Rightarrow> (case transmute_iotlb_type (u ! 25) of
            None \<Rightarrow> None
          | Some t \<Rightarrow> Some (Inr
              \<lparr>iotlb_iova = of_le_bytes (slice 0 8 u), iotlb_size = of_le_bytes (slice 8 8 u),
               iotlb_userspace_addr = of_le_bytes (slice 16 8 u), iotlb_perm = perm, iotlb_msg_type = t\<rparr>))))"

definition parse_vhost_msg :: "u8 list \<Rightarrow> (VhostError + VhostIotlbMsg) option" where
  "parse_vhost_msg bs =
     (if (of_le_bytes (take 4 bs) :: 32 word) \<noteq> VHOST_IOTLB_MSG then Some (Inl InvalidIotlbMsg)
      else parse_iotlb (drop 8 bs))"

definition parse_vhost_msg_v2 :: "u8 list \<Rightarrow> (VhostError + VhostIotlbMsg) option" where
  "parse_vhost_msg_v2 bs =
     (if (of_le_bytes (take 4 bs) :: u32) \<noteq> VHOST_IOTLB_MSG_V2 then Some (Inl InvalidIotlbMsg)
      else parse_iotlb (drop 8 bs))"

subsection \<open>The vDPA backend\<close>

record ('k, 'm) VhostKernVdpa = "('k, 'm) KernBackend" +
  vd_backend_features_acked :: u64

type_synonym ('k, 'm, 'a) vdpa = "(('k, 'm) VhostKernVdpa, VhostError, 'a) M"

definition vdpa_with :: "'k \<Rightarrow> 'm \<Rightarrow> u64 \<Rightarrow> ('k, 'm) VhostKernVdpa" where
  "vdpa_with dev m acked = \<lparr>kn_dev = dev, kn_mem = m, vd_backend_features_acked = acked\<rparr>"

text \<open>\<open>opened\<close> is the result of opening the device node.\<close>

definition vdpa_new :: "io_error + 'k \<Rightarrow> 'm \<Rightarrow> VhostError + ('k, 'm) VhostKernVdpa" where
  "vdpa_new opened m = (case opened of
       Inl e \<Rightarrow> Inl (VhostOpen e)
     | Inr dev \<Rightarrow> Inr (vdpa_with dev m 0))"

definition vdpa_is_valid :: "VringConfigData \<Rightarrow> bool" where
  "vdpa_is_valid c = (if \<not> queue_size_valid c then False else is_log_addr_valid c)"

definition vdpa_set_vring_addr :: "'k kern_ops \<Rightarrow> u64 \<Rightarrow> VringConfigData \<Rightarrow> ('k, 'm, unit) vdpa" where
  "vdpa_set_vring_addr K queue_index c =
     (if \<not> vdpa_is_valid c then failM InvalidQueue
      else ioctl_set K VHOST_SET_VRING_ADDR (vring_addr_bytes
        \<lparr>vva_index = ucast queue_index, vva_flags = vc_flags c, vva_desc_user_addr = vc_desc_table_addr c,
         vva_used_user_addr = vc_used_ring_addr c, vva_avail_user_addr = vc_avail_ring_addr c,
         vva_log_guest_addr = get_log_addr c\<rparr>))"

definition get_backend_features :: "'k kern_ops \<Rightarrow> ('k, 'm, u64) vdpa" where
  "get_backend_features K = bindM (ioctl_arg K VHOST_GET_BACKEND_FEATURES (le_bytes 8 (0 :: u64)))
     (\<lambda>out. retM (of_le_bytes out))"

definition set_backend_features :: "'k kern_ops \<Rightarrow> u64 \<Rightarrow> ('k, 'm, unit) vdpa" where
  "set_backend_features K features =
     thenM (ioctl_set K VHOST_SET_BACKEND_FEATURES (le_bytes 8 features))
       (modifyM (\<lambda>h. h\<lparr>vd_backend_features_acked := features\<rparr>))"

definition send_iotlb_msg :: "'k kern_ops \<Rightarrow> VhostIotlbMsg \<Rightarrow> ('k, 'm, unit) vdpa" where
  "send_iotlb_msg K msg = bindM (readM vd_backend_features_acked) (\<lambda>acked.
     if acked AND push_bit VHOST_BACKEND_F_IOTLB_MSG_V2 1 \<noteq> 0
     then dev_write K (vhost_msg_v2_bytes msg)
     else dev_write K (vhost_msg_bytes msg))"

definition vdpa_get_device_id :: "'k kern_ops \<Rightarrow> ('k, 'm, u32) vdpa" where
  "vdpa_get_device_id K = bindM (ioctl_arg K VHOST_VDPA_GET_DEVICE_ID (le_bytes 4 (0 :: u32)))
     (\<lambda>out. retM (of_le_bytes out))"

definition vdpa_get_status :: "'k kern_ops \<Rightarrow> ('k, 'm, u8) vdpa" where
  "vdpa_get_status K = bindM (ioctl_arg K VHOST_VDPA_GET_STATUS [0]) (\<lambda>out. retM (of_le_bytes out))"

definition vdpa_set_status :: "'k kern_ops \<Rightarrow> u8 \<Rightarrow> ('k, 'm, unit) vdpa" where
  "vdpa_set_status K status = ioctl_set K VHOST_VDPA_SET_STATUS [status]"

text \<open>
  \<open>vhost_vdpa_config\<close>: offset, length and the buffer. The allocation fails for a buffer of more than
  \<open>c_uint::MAX\<close> bytes. \<open>get_config\<close> gives the bytes copied to the caller's buffer; after a failed
  request the caller has the error, and the bytes in the buffer, which are the kernel's, are left out.
\<close>

definition vdpa_config_bytes :: "u32 \<Rightarrow> u8 list \<Rightarrow> u8 list" where
  "vdpa_config_bytes off buf = le_bytes 4 off @ le_bytes 4 (word_of_nat (length buf) :: u32) @ buf"

definition vdpa_get_config :: "'k kern_ops \<Rightarrow> u32 \<Rightarrow> nat \<Rightarrow> ('k, 'm, u8 list) vdpa" where
  "vdpa_get_config K off len =
     (if len > 0xffffffff then failM (IoctlError (RawOs ENOMEM))
      else bindM (ioctl_arg K VHOST_VDPA_GET_CONFIG (vdpa_config_bytes off (replicate len 0)))
        (\<lambda>out. retM (take len (drop 8 out))))"

definition vdpa_set_config :: "'k kern_ops \<Rightarrow> u32 \<Rightarrow> u8 list \<Rightarrow> ('k, 'm, unit) vdpa" where
  "vdpa_set_config K off buf =
     (if length buf > 0xffffffff then failM (IoctlError (RawOs ENOMEM))
      else ioctl_set K VHOST_VDPA_SET_CONFIG (vdpa_config_bytes off buf))"

definition vdpa_set_vring_enable :: "'k kern_ops \<Rightarrow> u64 \<Rightarrow> bool \<Rightarrow> ('k, 'm, unit) vdpa" where
  "vdpa_set_vring_enable K queue_index enabled =
     ioctl_set K VHOST_VDPA_SET_VRING_ENABLE
       (vring_state_bytes \<lparr>vvs_index = ucast queue_index, vvs_num = (if enabled then 1 else 0)\<rparr>)"

definition vdpa_get_vring_num :: "'k kern_ops \<Rightarrow> ('k, 'm, u16) vdpa" where
  "vdpa_get_vring_num K = bindM (ioctl_arg K VHOST_VDPA_GET_VRING_NUM (le_bytes 2 (0 :: u16)))
     (\<lambda>out. retM (of_le_bytes out))"

definition vdpa_set_config_call :: "'k kern_ops \<Rightarrow> fd \<Rightarrow> ('k, 'm, unit) vdpa" where
  "vdpa_set_config_call K f = ioctl_set K VHOST_VDPA_SET_CONFIG_CALL (le_bytes 4 (word_of_int f :: 32 word))"

record VhostVdpaIovaRange =
  ir_first :: u64
  ir_last :: u64

definition vdpa_get_iova_range :: "'k kern_ops \<Rightarrow> ('k, 'm, VhostVdpaIovaRange) vdpa" where
  "vdpa_get_iova_range K =
     bindM (ioctl_arg K VHOST_VDPA_GET_IOVA_RANGE (le_bytes 8 (0 :: u64) @ le_bytes 8 (0 :: u64)))
       (\<lambda>out. retM \<lparr>ir_first = of_le_bytes (slice 0 8 out), ir_last = of_le_bytes (slice 8 8 out)\<rparr>)"

definition vdpa_get_u32 :: "'k kern_ops \<Rightarrow> ioctl_code \<Rightarrow> ('k, 'm, u32) vdpa" where
  "vdpa_get_u32 K req = bindM (ioctl_arg K req (le_bytes 4 (0 :: u32))) (\<lambda>out. retM (of_le_bytes out))"

definition vdpa_get_config_size :: "'k kern_ops \<Rightarrow> ('k, 'm, u32) vdpa" where
  "vdpa_get_config_size K = vdpa_get_u32 K VHOST_VDPA_GET_CONFIG_SIZE"

definition vdpa_get_vqs_count :: "'k kern_ops \<Rightarrow> ('k, 'm, u32) vdpa" where
  "vdpa_get_vqs_count K = vdpa_get_u32 K VHOST_VDPA_GET_VQS_COUNT"

definition vdpa_get_group_num :: "'k kern_ops \<Rightarrow> ('k, 'm, u32) vdpa" where
  "vdpa_get_group_num K = vdpa_get_u32 K VHOST_VDPA_GET_GROUP_NUM"

definition vdpa_get_as_num :: "'k kern_ops \<Rightarrow> ('k, 'm, u32) vdpa" where
  "vdpa_get_as_num K = vdpa_get_u32 K VHOST_VDPA_GET_AS_NUM"

definition vdpa_get_vring_group :: "'k kern_ops \<Rightarrow> u32 \<Rightarrow> ('k, 'm, u32) vdpa" where
  "vdpa_get_vring_group K queue_index =
     bindM (ioctl_arg K VHOST_VDPA_GET_VRING_GROUP (vring_state_bytes \<lparr>vvs_index = queue_index, vvs_num = 0\<rparr>))
       (\<lambda>out. retM (vvs_num (vring_state_of_bytes out)))"

definition vdpa_set_group_asid :: "'k kern_ops \<Rightarrow> u32 \<Rightarrow> u32 \<Rightarrow> ('k, 'm, unit) vdpa" where
  "vdpa_set_group_asid K group_index asid =
     ioctl_set K VHOST_VDPA_GET_VRING_GROUP (vring_state_bytes \<lparr>vvs_index = group_index, vvs_num = asid\<rparr>)"

definition vdpa_suspend :: "'k kern_ops \<Rightarrow> ('k, 'm, unit) vdpa" where
  "vdpa_suspend K = ioctl_set K VHOST_VDPA_SUSPEND []"

definition dma_map :: "'k kern_ops \<Rightarrow> u64 \<Rightarrow> u64 \<Rightarrow> u64 \<Rightarrow> bool \<Rightarrow> ('k, 'm, unit) vdpa" where
  "dma_map K iova len vaddr readonly =
     send_iotlb_msg K
       \<lparr>iotlb_iova = iova, iotlb_size = len, iotlb_userspace_addr = vaddr,
        iotlb_perm = (if readonly then AccessReadOnly else AccessReadWrite), iotlb_msg_type = IotlbUpdate\<rparr>"

definition dma_unmap :: "'k kern_ops \<Rightarrow> u64 \<Rightarrow> u64 \<Rightarrow> ('k, 'm, unit) vdpa" where
  "dma_unmap K iova len =
     send_iotlb_msg K (VhostIotlbMsg_default
       \<lparr>iotlb_iova := iova, iotlb_size := len, iotlb_msg_type := IotlbInvalidate\<rparr>)"

subsection \<open>The net and vsock backends\<close>

definition net_new :: "io_error + 'k \<Rightarrow> 'm \<Rightarrow> VhostError + ('k, 'm) KernBackend" where
  "net_new opened m = (case opened of
       Inl e \<Rightarrow> Inl (VhostOpen e)
     | Inr dev \<Rightarrow> Inr \<lparr>kn_dev = dev, kn_mem = m\<rparr>)"

definition net_set_backend :: "'k kern_ops \<Rightarrow> u64 \<Rightarrow> fd option \<Rightarrow> ('k, 'm, 'z, unit) kern" where
  "net_set_backend K queue_index f =
     ioctl_set K VHOST_NET_SET_BACKEND
       (vring_file_bytes \<lparr>vvf_index = ucast queue_index,
         vvf_fd = (case f of None \<Rightarrow> - 1 | Some v \<Rightarrow> word_of_int v)\<rparr>)"

definition vsock_new :: "io_error + 'k \<Rightarrow> 'm \<Rightarrow> VhostError + ('k, 'm) KernBackend" where
  "vsock_new opened m = (case opened of
       Inl e \<Rightarrow> Inl (VhostOpen e)
     | Inr dev \<Rightarrow> Inr \<lparr>kn_dev = dev, kn_mem = m\<rparr>)"

definition vsock_set_running :: "'k kern_ops \<Rightarrow> bool \<Rightarrow> ('k, 'm, 'z, unit) kern" where
  "vsock_set_running K running =
     ioctl_set K VHOST_VSOCK_SET_RUNNING (le_bytes 4 (if running then 1 else 0 :: 32 word))"

definition vsock_set_guest_cid :: "'k kern_ops \<Rightarrow> u64 \<Rightarrow> ('k, 'm, 'z, unit) kern" where
  "vsock_set_guest_cid K cid = ioctl_set K VHOST_VSOCK_SET_GUEST_CID (le_bytes 8 cid)"

definition vsock_start :: "'k kern_ops \<Rightarrow> ('k, 'm, 'z, unit) kern" where
  "vsock_start K = vsock_set_running K True"

definition vsock_stop :: "'k kern_ops \<Rightarrow> ('k, 'm, 'z, unit) kern" where
  "vsock_stop K = vsock_set_running K False"

subsection \<open>Facts about the memory table\<close>

lemma length_memory_region_bytes [simp]: "length (memory_region_bytes r) = 32"
  by (simp add: memory_region_bytes_def)

lemma VhostMemory_new_bytes:
  "VhostMemory_new n = le_bytes 4 (ucast n :: u32) @ replicate (4 + 32 * unat n) 0"
proof -
  have "(32 * unat n + 2 * 8 - 1) div 8 = 4 * unat n + 1" by presburger
  then show ?thesis by (simp add: VhostMemory_new_def Let_def)
qed

lemma set_region_next:
  assumes "take 4 pre = le_bytes 4 (word_of_nat n :: u32)" and "length pre = 8 + 32 * i"
    and "i < n" and "n < 2 ^ 32"
  shows "set_region (pre @ replicate 32 0 @ rest) (word_of_nat i) r
           = Some (Inr (pre @ memory_region_bytes r @ rest))"
proof -
  have "unat (word_of_nat i :: u32) = i" "unat (word_of_nat n :: u32) = n"
    using assms(3,4) by (simp_all add: unsigned_of_nat take_bit_nat_eq_self)
  moreover have "vm_nregions (pre @ replicate 32 0 @ rest) = word_of_nat n"
    using assms(1,2) by (simp add: vm_nregions_def)
  ultimately show ?thesis
    using assms(2,3) by (simp add: set_region_def word_le_nat_alt)
qed

text \<open>From a table whose first \<open>i\<close> regions are written, the loop writes the others and fails nowhere.\<close>

lemma fill_regions_writes:
  assumes "take 4 pre = le_bytes 4 (word_of_nat n :: u32)" and "length pre = 8 + 32 * i"
    and "i + length rs = n" and "n < 2 ^ 32"
  shows "fill_regions (pre @ replicate (32 * length rs) 0) i rs
           = Some (Inr (pre @ concat (map (memory_region_bytes \<circ> kern_region) rs)))"
  using assms
proof (induction rs arbitrary: i pre)
  case Nil
  then show ?case by simp
next
  case (Cons r rs)
  have "replicate (32 * length (r # rs)) (0 :: u8) = replicate 32 0 @ replicate (32 * length rs) 0"
    by (simp only: replicate_add [symmetric]) simp
  then have "set_region (pre @ replicate (32 * length (r # rs)) 0) (word_of_nat i) (kern_region r)
      = Some (Inr (pre @ memory_region_bytes (kern_region r) @ replicate (32 * length rs) 0))"
    using set_region_next [of pre n i "replicate (32 * length rs) 0"] Cons.prems by simp
  moreover have "fill_regions ((pre @ memory_region_bytes (kern_region r)) @ replicate (32 * length rs) 0)
      (Suc i) rs = Some (Inr ((pre @ memory_region_bytes (kern_region r))
        @ concat (map (memory_region_bytes \<circ> kern_region) rs)))"
    using Cons.prems by (intro Cons.IH) auto
  ultimately show ?case by (simp add: comp_def)
qed

lemma fill_new_table:
  assumes "length regions \<le> VHOST_MAX_MEMORY_REGIONS"
  shows "fill_regions (VhostMemory_new (word_of_nat (length regions))) 0 regions
    = Some (Inr (le_bytes 4 (word_of_nat (length regions) :: u32) @ replicate 4 0
                 @ concat (map (memory_region_bytes \<circ> kern_region) regions)))"
proof -
  have n: "length regions < 2 ^ 16" using assms by (simp add: VHOST_MAX_MEMORY_REGIONS_def)
  then have "unat (word_of_nat (length regions) :: u16) = length regions"
    by (simp add: unsigned_of_nat take_bit_nat_eq_self)
  then have "VhostMemory_new (word_of_nat (length regions))
      = (le_bytes 4 (word_of_nat (length regions) :: u32) @ replicate 4 0) @ replicate (32 * length regions) 0"
    by (simp add: VhostMemory_new_bytes replicate_add unsigned_of_nat take_bit_nat_eq_self n)
  then show ?thesis
    using fill_regions_writes [of "le_bytes 4 (word_of_nat (length regions) :: u32) @ replicate 4 0"
        "length regions" 0 regions] n
    by simp
qed

text \<open>
  C19: for every table of 1 to 255 regions, writing the regions through the pointer past the header
  stays inside of the allocation, and what the kernel gets is one \<open>VHOST_SET_MEM_TABLE\<close> request
  whose argument is the number of regions, four bytes of padding and the regions in order, each
  with its guest address, size, user address and a zero padding word.
\<close>

theorem kern_mem_table_bytes:
  assumes "regions \<noteq> []" and "length regions \<le> VHOST_MAX_MEMORY_REGIONS"
  shows "kern_set_mem_table K regions h =
    ioctl_set K VHOST_SET_MEM_TABLE
      (le_bytes 4 (word_of_nat (length regions) :: u32) @ replicate 4 0
       @ concat (map (memory_region_bytes \<circ> kern_region) regions)) h"
  using assms by (simp add: kern_set_mem_table_def fill_new_table bindM_def)

text \<open>A kernel that accepts every request and keeps the requests, last first.\<close>

definition recording_kernel :: "(ioctl_code \<times> u8 list) list kern_ops" where
  "recording_kernel =
     \<lparr>k_ioctl = (\<lambda>req arg k. (Inr arg, (req, arg) # k)),
      k_write = (\<lambda>bs k. (Inr (length bs), k))\<rparr>"

lemma kern_mem_table_bytes_witness:
  "kern_set_mem_table recording_kernel
     [\<lparr>ri_guest_phys_addr = 0, ri_memory_size = 0x1000, ri_userspace_addr = 0x7000,
       ri_mmap_offset = 0, ri_mmap_handle = 5\<rparr>]
     \<lparr>kn_dev = [], kn_mem = ()\<rparr>
   = Some (Inr (), \<lparr>kn_dev = [(VHOST_SET_MEM_TABLE,
        [1, 0, 0, 0, 0, 0, 0, 0,
         0, 0, 0, 0, 0, 0, 0, 0, 0, 0x10, 0, 0, 0, 0, 0, 0,
         0, 0x70, 0, 0, 0, 0, 0, 0, 0, 0, 0, 0, 0, 0, 0, 0])],
      kn_mem = ()\<rparr>)"
proof -
  let ?r = "\<lparr>ri_guest_phys_addr = 0, ri_memory_size = 0x1000, ri_userspace_addr = 0x7000,
       ri_mmap_offset = 0, ri_mmap_handle = 5\<rparr>"
  have "le_bytes 4 (1 :: u32) @ replicate 4 0 @ memory_region_bytes (kern_region ?r)
    = [1, 0, 0, 0, 0, 0, 0, 0, 0, 0, 0, 0, 0, 0, 0, 0, 0, 0x10, 0, 0, 0, 0, 0, 0,
       0, 0x70, 0, 0, 0, 0, 0, 0, 0, 0, 0, 0, 0, 0, 0, 0]"
    by code_simp
  then show ?thesis
    using kern_mem_table_bytes [of "[?r]" recording_kernel "\<lparr>kn_dev = [], kn_mem = ()\<rparr>"]
    by (simp add: VHOST_MAX_MEMORY_REGIONS_def ioctl_set_def ioctl_arg_def recording_kernel_def
        effect_defs)
qed

subsection \<open>Facts about IOTLB messages\<close>

lemma transmute_access_into [simp]: "transmute_access (VhostAccess_into a) = Some a"
  by (cases a) (simp_all add: transmute_access_def)

lemma transmute_iotlb_type_into [simp]: "transmute_iotlb_type (VhostIotlbType_into t) = Some t"
  by (cases t) (simp_all add: transmute_iotlb_type_def)

lemma VhostIotlbType_into_0_iff [simp]: "VhostIotlbType_into t = 0 \<longleftrightarrow> t = IotlbEmpty"
  by (cases t) simp_all

lemma parse_iotlb_union:
  "parse_iotlb (iotlb_union_bytes msg) =
     Some (if iotlb_msg_type msg = IotlbEmpty then Inl InvalidIotlbMsg else Inr msg)"
proof -
  have "iotlb_union_bytes msg ! 24 = VhostAccess_into (iotlb_perm msg)"
    "iotlb_union_bytes msg ! 25 = VhostIotlbType_into (iotlb_msg_type msg)"
    by (simp_all add: iotlb_union_bytes_def nth_append)
  then show ?thesis
    by (simp add: parse_iotlb_def) (simp add: iotlb_union_bytes_def slice_def)
qed

text \<open>
  C26: the 72 bytes that \<open>send_iotlb_msg\<close> writes are read back as the message that was sent by the
  parser of the version that the acknowledged features select, and refused by the parser of the
  other version; a message of type \<open>Empty\<close> is written all the same and refused by both.
\<close>

theorem iotlb_msg_roundtrip:
  fixes h :: "('k, 'm) VhostKernVdpa"
  shows "\<exists>bs. send_iotlb_msg K msg h = dev_write K bs h \<and> length bs = 72
    \<and> (let v2 = bit (vd_backend_features_acked h) 1 in
       (if v2 then parse_vhost_msg_v2 else parse_vhost_msg) bs
         = Some (if iotlb_msg_type msg = IotlbEmpty then Inl InvalidIotlbMsg else Inr msg)
       \<and> (if v2 then parse_vhost_msg else parse_vhost_msg_v2) bs = Some (Inl InvalidIotlbMsg))"
proof -
  have v2: "vd_backend_features_acked h AND push_bit VHOST_BACKEND_F_IOTLB_MSG_V2 1 \<noteq> 0
      \<longleftrightarrow> bit (vd_backend_features_acked h) 1"
    using and_pow2_nonzero_iff [of "vd_backend_features_acked h" 1]
    by (simp add: VHOST_BACKEND_F_IOTLB_MSG_V2_def push_bit_eq_mult)
  have send: "send_iotlb_msg K msg h = dev_write K
      (if bit (vd_backend_features_acked h) 1 then vhost_msg_v2_bytes msg else vhost_msg_bytes msg) h"
    using v2 by (simp add: send_iotlb_msg_def readM_def bindM_def)
  have len: "length (vhost_msg_bytes msg) = 72" "length (vhost_msg_v2_bytes msg) = 72"
    by (simp_all add: vhost_msg_bytes_def vhost_msg_v2_bytes_def iotlb_union_bytes_def)
  have "parse_vhost_msg (vhost_msg_bytes msg) = parse_iotlb (iotlb_union_bytes msg)"
    "parse_vhost_msg_v2 (vhost_msg_v2_bytes msg) = parse_iotlb (iotlb_union_bytes msg)"
    "parse_vhost_msg (vhost_msg_v2_bytes msg) = Some (Inl InvalidIotlbMsg)"
    "parse_vhost_msg_v2 (vhost_msg_bytes msg) = Some (Inl InvalidIotlbMsg)"
    by (simp_all add: parse_vhost_msg_def parse_vhost_msg_v2_def vhost_msg_bytes_def
        vhost_msg_v2_bytes_def VHOST_IOTLB_MSG_def VHOST_IOTLB_MSG_V2_def)
  then show ?thesis
    using len parse_iotlb_union [of msg]
    by (intro exI [of _ "if bit (vd_backend_features_acked h) 1 then vhost_msg_v2_bytes msg
        else vhost_msg_bytes msg"] conjI send) (simp_all add: Let_def)
qed

subsection \<open>Facts about the ring configuration\<close>

lemma nat_pow2_iff: "0 < n \<Longrightarrow> n AND (n - 1) = 0 \<longleftrightarrow> (\<exists>k. n = (2::nat) ^ k)"
proof (induction n rule: less_induct)
  case (less n)
  show ?case
  proof (cases "even n")
    case True
    then obtain m where m: "n = 2 * m" "0 < m" using less.prems by (elim evenE) auto
    have "n div 2 = m" "(n - 1) div 2 = m - 1" "even n" using m by auto
    then have "n AND (n - 1) = 2 * (m AND (m - 1))" by (subst and_rec) simp
    moreover have "(\<exists>k. n = 2 ^ k) \<longleftrightarrow> (\<exists>k. m = 2 ^ k)"
    proof
      assume "\<exists>k. n = 2 ^ k"
      then obtain k where "2 * m = 2 ^ k" using m by auto
      then show "\<exists>k. m = 2 ^ k" by (cases k) auto
    next
      assume "\<exists>k. m = 2 ^ k"
      then show "\<exists>k. n = 2 ^ k" using m by (metis power_Suc)
    qed
    ultimately show ?thesis using less.IH [of m] m by simp
  next
    case False
    then obtain m where m: "n = 2 * m + 1" by (elim oddE)
    have "n AND (n - 1) = 2 * m" using m by (subst and_rec) auto
    moreover have "(\<exists>k. n = 2 ^ k) \<longleftrightarrow> m = 0"
    proof
      assume "\<exists>k. n = 2 ^ k"
      then obtain k where "2 * m + 1 = 2 ^ k" using m by auto
      then show "m = 0" by (cases k) (auto, presburger)
    next
      assume "m = 0"
      then show "\<exists>k. n = 2 ^ k" using m by (intro exI [of _ 0]) simp
    qed
    ultimately show ?thesis by simp
  qed
qed

lemma word_pow2_iff:
  fixes w :: "'a::len word"
  assumes "w \<noteq> 0"
  shows "w AND (w - 1) = 0 \<longleftrightarrow> (\<exists>k. unat w = 2 ^ k)"
proof -
  have "unat (w - 1) = unat w - 1" using assms by (simp add: unat_minus_one)
  then have "w AND (w - 1) = 0 \<longleftrightarrow> unat w AND (unat w - 1) = 0"
    by (simp add: word_unat_eq_iff unsigned_and_eq)
  then show ?thesis using nat_pow2_iff [of "unat w"] assms by (simp add: unat_gt_0)
qed

lemma area_valid_iff:
  "area_valid G m addr len \<longleftrightarrow>
     unat addr + unat len < 2 ^ 64 \<and> address_in_range G (addr + len) m"
  by (simp add: area_valid_def checked_add_def)

lemma unat_ring_size:
  fixes q :: u16
  assumes "a < 2 ^ 32" and "b < 2 ^ 32"
  shows "unat (word_of_nat a + word_of_nat b * (ucast q :: u64) :: u64) = a + b * unat q"
proof -
  have "b * unat q < 2 ^ 32 * 2 ^ 16"
    using assms(2) unsigned_less [of q] by (intro mult_strict_mono) auto
  then have "a + b * unat q < 2 ^ 64" using assms(1) by simp
  moreover have "word_of_nat a + word_of_nat b * (ucast q :: u64) = (word_of_nat (a + b * unat q) :: u64)"
    by simp
  ultimately show ?thesis by (simp only:) (simp add: unsigned_of_nat take_bit_nat_eq_self del: of_nat_add of_nat_mult)
qed

text \<open>
  C27: \<open>is_valid\<close> accepts a ring configuration exactly when the queue size is a power of two that is
  not above the maximum, each of the three ring areas (16, 2 and 8 bytes per entry, and 6 bytes of
  header for the two rings) ends below \<open>2^64\<close> at an address that is itself guest memory, and a log
  address is given whenever logging is asked for. The address checked is the first one after the
  area, so a ring that ends where the memory ends is refused, and the addresses before it are not
  looked at.
\<close>

theorem kern_is_valid_iff:
  "kern_is_valid G m c \<longleftrightarrow>
     (let n = unat (vc_queue_size c);
          fits = (\<lambda>addr len. unat addr + len < 2 ^ 64 \<and> address_in_range G (addr + word_of_nat len) m) in
      (\<exists>k. n = 2 ^ k) \<and> n \<le> unat (vc_queue_max_size c)
      \<and> fits (vc_desc_table_addr c) (16 * n)
      \<and> fits (vc_avail_ring_addr c) (6 + 2 * n)
      \<and> fits (vc_used_ring_addr c) (6 + 8 * n)
      \<and> \<not> (bit (vc_flags c) 0 \<and> vc_log_addr c = None))"
proof -
  have q: "queue_size_valid c \<longleftrightarrow> (\<exists>k. unat (vc_queue_size c) = 2 ^ k)
      \<and> unat (vc_queue_size c) \<le> unat (vc_queue_max_size c)"
  proof (cases "vc_queue_size c = 0")
    case True
    then show ?thesis by (simp add: queue_size_valid_def)
  next
    case False
    then show ?thesis
      using word_pow2_iff [OF False] by (auto simp: queue_size_valid_def Let_def word_le_nat_alt not_less)
  qed
  have s: "unat (16 * (ucast (vc_queue_size c) :: u64)) = 16 * unat (vc_queue_size c)"
    "unat (6 + 2 * (ucast (vc_queue_size c) :: u64)) = 6 + 2 * unat (vc_queue_size c)"
    "unat (6 + 8 * (ucast (vc_queue_size c) :: u64)) = 6 + 8 * unat (vc_queue_size c)"
    using unat_ring_size [of 0 16 "vc_queue_size c"] unat_ring_size [of 6 2 "vc_queue_size c"]
      unat_ring_size [of 6 8 "vc_queue_size c"] by simp_all
  have l: "is_log_addr_valid c \<longleftrightarrow> \<not> (bit (vc_flags c) 0 \<and> vc_log_addr c = None)"
    using and_pow2_nonzero_iff [of "vc_flags c" 0] by (auto simp: is_log_addr_valid_def)
  show ?thesis
    unfolding kern_is_valid_def Let_def area_valid_iff q l s by auto
qed

end
