(* ===== verification/Vring_Lock.thy ===== *)
theory Vring_Lock
  imports Vring Locks
begin

text \<open>
  The trait \<open>VringT\<close> of \<open>vhost-user-backend/src/vring.rs\<close> as a dictionary, and its two
  implementations \<open>VringMutex\<close> and \<open>VringRwLock\<close>, which lock a \<open>VringState\<close> around each of
  its operations. A vring works beside a world \<open>'w\<close> with the guest memory and the event
  descriptors (\<open>vring_env\<close>). The lemmas at the end show that each operation of the two is the one
  of the state inside, so that the handler and the event loop can be modelled on the bare states.
\<close>

subsection \<open>The trait\<close>

record ('v, 'w, 'q, 'e) VringT =
  vt_new :: "u16 \<Rightarrow> 'e + 'v"
  vt_get_ref :: "('v \<times> 'w, 'q VringState) call"
  vt_get_mut :: "('q VringState \<Rightarrow> 'q VringState) \<Rightarrow> ('v \<times> 'w, unit) call"
  vt_add_used :: "u16 \<Rightarrow> u32 \<Rightarrow> ('v \<times> 'w, 'e + unit) call"
  vt_signal_used_queue :: "('v \<times> 'w, io_error + unit) call"
  vt_enable_notification :: "('v \<times> 'w, 'e + bool) call"
  vt_disable_notification :: "('v \<times> 'w, 'e + unit) call"
  vt_needs_notification :: "('v \<times> 'w, 'e + bool) call"
  vt_set_enabled :: "bool \<Rightarrow> ('v \<times> 'w, unit) call"
  vt_set_queue_info :: "u64 \<Rightarrow> u64 \<Rightarrow> u64 \<Rightarrow> ('v \<times> 'w, 'e + unit) call"
  vt_queue_next_avail :: "('v \<times> 'w, u16) call"
  vt_set_queue_next_avail :: "u16 \<Rightarrow> ('v \<times> 'w, unit) call"
  vt_set_queue_next_used :: "u16 \<Rightarrow> ('v \<times> 'w, unit) call"
  vt_queue_used_idx :: "('v \<times> 'w, 'e + u16) call"
  vt_set_queue_size :: "u16 \<Rightarrow> ('v \<times> 'w, unit) call"
  vt_set_queue_event_idx :: "bool \<Rightarrow> ('v \<times> 'w, unit) call"
  vt_set_queue_ready :: "bool \<Rightarrow> ('v \<times> 'w, unit) call"
  vt_set_kick :: "fd option \<Rightarrow> ('v \<times> 'w, unit) call"
  vt_read_kick :: "('v \<times> 'w, io_error + bool) call"
  vt_set_call :: "fd option \<Rightarrow> ('v \<times> 'w, unit) call"
  vt_set_err :: "fd option \<Rightarrow> ('v \<times> 'w, unit) call"

text \<open>\<open>get_ref\<close> gives what is seen through the guard; \<open>get_mut\<close> takes what is done through it.\<close>

subsection \<open>The state without a lock\<close>

record ('q, 'm, 'e, 'w) vring_env =
  ve_queue :: "('q, 'm, 'e) queue_ops"
  ve_ring :: "('q, 'm, 'e) ring_ops"
  ve_mem :: "'w \<Rightarrow> 'm"
  ve_set_mem :: "'m \<Rightarrow> 'w \<Rightarrow> 'w"
  ve_consume :: "fd \<Rightarrow> ('w, io_error, unit) M"
  ve_notify :: "fd \<Rightarrow> ('w, io_error, unit) M"

text \<open>Operations of the state as calls: on the ring in memory, on a descriptor, and the setters.\<close>

definition ring_call ::
    "('q, 'm, 'e, 'w) vring_env \<Rightarrow> ('m \<Rightarrow> 'q VringState \<Rightarrow> ('e + 'a) \<times> 'q VringState \<times> 'm)
     \<Rightarrow> ('q VringState \<times> 'w, 'e + 'a) call" where
  "ring_call V f = (\<lambda>(v, w). case f (ve_mem V w) v of (r, v', mem) \<Rightarrow> Some (r, (v', ve_set_mem V mem w)))"

definition fd_call :: "('v \<Rightarrow> ('w, io_error, 'a) M) \<Rightarrow> ('v \<times> 'w, io_error + 'a) call" where
  "fd_call f = (\<lambda>(v, w). case f v w of None \<Rightarrow> None | Some (r, w') \<Rightarrow> Some (r, (v, w')))"

definition setter_call :: "('v \<Rightarrow> 'v) \<Rightarrow> ('v \<times> 'w, unit) call" where
  "setter_call f = (\<lambda>(v, w). Some ((), (f v, w)))"

definition VringState_T :: "('q, 'm, 'e, 'w) vring_env \<Rightarrow> ('q VringState, 'w, 'q, 'e) VringT" where
  "VringState_T V =
     \<lparr>vt_new = vring_new (ve_queue V),
      vt_get_ref = (\<lambda>(v, w). Some (v, (v, w))),
      vt_get_mut = (\<lambda>f. \<lambda>(v, w). Some ((), (f v, w))),
      vt_add_used = (\<lambda>i n. ring_call V (add_used (ve_ring V) i n)),
      vt_signal_used_queue = fd_call (signal_used_queue (ve_notify V)),
      vt_enable_notification = ring_call V (enable_notification (ve_ring V)),
      vt_disable_notification = ring_call V (disable_notification (ve_ring V)),
      vt_needs_notification = ring_call V (needs_notification (ve_ring V)),
      vt_set_enabled = (\<lambda>b. setter_call (set_enabled b)),
      vt_set_queue_info = (\<lambda>d a u. \<lambda>(v, w). case set_queue_info (ve_queue V) d a u v of (r, v') \<Rightarrow> Some (r, (v', w))),
      vt_queue_next_avail = (\<lambda>(v, w). Some (queue_next_avail (ve_queue V) v, (v, w))),
      vt_set_queue_next_avail = (\<lambda>n. setter_call (set_queue_next_avail (ve_queue V) n)),
      vt_set_queue_next_used = (\<lambda>n. setter_call (set_queue_next_used (ve_queue V) n)),
      vt_queue_used_idx = (\<lambda>(v, w). Some (queue_used_idx (ve_queue V) (ve_mem V w) v, (v, w))),
      vt_set_queue_size = (\<lambda>n. setter_call (set_queue_size (ve_queue V) n)),
      vt_set_queue_event_idx = (\<lambda>b. setter_call (set_queue_event_idx (ve_queue V) b)),
      vt_set_queue_ready = (\<lambda>b. setter_call (set_queue_ready (ve_queue V) b)),
      vt_set_kick = (\<lambda>f. setter_call (set_kick f)),
      vt_read_kick = fd_call (read_kick (ve_consume V)),
      vt_set_call = (\<lambda>f. setter_call (set_call f)),
      vt_set_err = (\<lambda>f. setter_call (set_err f))\<rparr>"

subsection \<open>VringMutex and VringRwLock\<close>

text \<open>An operation through a lock, beside the world.\<close>

definition beside ::
    "(('d, 'a \<times> 'w) call \<Rightarrow> ('l, 'a \<times> 'w) call) \<Rightarrow> ('d \<times> 'w, 'a) call \<Rightarrow> ('l \<times> 'w, 'a) call" where
  "beside through m = (\<lambda>(l, w).
     case through (\<lambda>d. case m (d, w) of None \<Rightarrow> None | Some (x, (d', w')) \<Rightarrow> Some ((x, w'), d')) l of
       None \<Rightarrow> None
     | Some ((x, w'), l') \<Rightarrow> Some (x, (l', w')))"

definition VringMutex_T :: "('q, 'm, 'e, 'w) vring_env \<Rightarrow> ('q VringState Mutex, 'w, 'q, 'e) VringT" where
  "VringMutex_T V =
     \<lparr>vt_new = (\<lambda>max_queue_size. case vring_new (ve_queue V) max_queue_size of
         Inl e \<Rightarrow> Inl e
       | Inr v \<Rightarrow> Inr (mutex_new v)),
      vt_get_ref = beside lock_unwrap (vt_get_ref (VringState_T V)),
      vt_get_mut = (\<lambda>f. beside lock_unwrap (vt_get_mut (VringState_T V) f)),
      vt_add_used = (\<lambda>i n. beside lock_unwrap (vt_add_used (VringState_T V) i n)),
      vt_signal_used_queue = beside lock_unwrap (vt_signal_used_queue (VringState_T V)),
      vt_enable_notification = beside lock_unwrap (vt_enable_notification (VringState_T V)),
      vt_disable_notification = beside lock_unwrap (vt_disable_notification (VringState_T V)),
      vt_needs_notification = beside lock_unwrap (vt_needs_notification (VringState_T V)),
      vt_set_enabled = (\<lambda>b. beside lock_unwrap (vt_set_enabled (VringState_T V) b)),
      vt_set_queue_info = (\<lambda>d a u. beside lock_unwrap (vt_set_queue_info (VringState_T V) d a u)),
      vt_queue_next_avail = beside lock_unwrap (vt_queue_next_avail (VringState_T V)),
      vt_set_queue_next_avail = (\<lambda>n. beside lock_unwrap (vt_set_queue_next_avail (VringState_T V) n)),
      vt_set_queue_next_used = (\<lambda>n. beside lock_unwrap (vt_set_queue_next_used (VringState_T V) n)),
      vt_queue_used_idx = beside lock_unwrap (vt_queue_used_idx (VringState_T V)),
      vt_set_queue_size = (\<lambda>n. beside lock_unwrap (vt_set_queue_size (VringState_T V) n)),
      vt_set_queue_event_idx = (\<lambda>b. beside lock_unwrap (vt_set_queue_event_idx (VringState_T V) b)),
      vt_set_queue_ready = (\<lambda>b. beside lock_unwrap (vt_set_queue_ready (VringState_T V) b)),
      vt_set_kick = (\<lambda>f. beside lock_unwrap (vt_set_kick (VringState_T V) f)),
      vt_read_kick = beside lock_unwrap (vt_read_kick (VringState_T V)),
      vt_set_call = (\<lambda>f. beside lock_unwrap (vt_set_call (VringState_T V) f)),
      vt_set_err = (\<lambda>f. beside lock_unwrap (vt_set_err (VringState_T V) f))\<rparr>"

definition VringRwLock_T :: "('q, 'm, 'e, 'w) vring_env \<Rightarrow> ('q VringState RwLock, 'w, 'q, 'e) VringT" where
  "VringRwLock_T V =
     \<lparr>vt_new = (\<lambda>max_queue_size. case vring_new (ve_queue V) max_queue_size of
         Inl e \<Rightarrow> Inl e
       | Inr v \<Rightarrow> Inr (rwlock_new v)),
      vt_get_ref = beside read_unwrap (vt_get_ref (VringState_T V)),
      vt_get_mut = (\<lambda>f. beside write_unwrap (vt_get_mut (VringState_T V) f)),
      vt_add_used = (\<lambda>i n. beside write_unwrap (vt_add_used (VringState_T V) i n)),
      vt_signal_used_queue = beside read_unwrap (vt_signal_used_queue (VringState_T V)),
      vt_enable_notification = beside write_unwrap (vt_enable_notification (VringState_T V)),
      vt_disable_notification = beside write_unwrap (vt_disable_notification (VringState_T V)),
      vt_needs_notification = beside write_unwrap (vt_needs_notification (VringState_T V)),
      vt_set_enabled = (\<lambda>b. beside write_unwrap (vt_set_enabled (VringState_T V) b)),
      vt_set_queue_info = (\<lambda>d a u. beside write_unwrap (vt_set_queue_info (VringState_T V) d a u)),
      vt_queue_next_avail = beside read_unwrap (vt_queue_next_avail (VringState_T V)),
      vt_set_queue_next_avail = (\<lambda>n. beside write_unwrap (vt_set_queue_next_avail (VringState_T V) n)),
      vt_set_queue_next_used = (\<lambda>n. beside write_unwrap (vt_set_queue_next_used (VringState_T V) n)),
      vt_queue_used_idx = beside read_unwrap (vt_queue_used_idx (VringState_T V)),
      vt_set_queue_size = (\<lambda>n. beside write_unwrap (vt_set_queue_size (VringState_T V) n)),
      vt_set_queue_event_idx = (\<lambda>b. beside write_unwrap (vt_set_queue_event_idx (VringState_T V) b)),
      vt_set_queue_ready = (\<lambda>b. beside write_unwrap (vt_set_queue_ready (VringState_T V) b)),
      vt_set_kick = (\<lambda>f. beside write_unwrap (vt_set_kick (VringState_T V) f)),
      vt_read_kick = beside read_unwrap (vt_read_kick (VringState_T V)),
      vt_set_call = (\<lambda>f. beside write_unwrap (vt_set_call (VringState_T V) f)),
      vt_set_err = (\<lambda>f. beside write_unwrap (vt_set_err (VringState_T V) f))\<rparr>"

subsection \<open>The locks are transparent\<close>

lemma lifts_beside:
  assumes "\<And>m. lifts g m (through m)"
  shows "lifts (map_prod g id) m (beside through m)"
  unfolding lifts_def beside_def
  by (auto simp: liftsD [OF assms] split: option.split prod.split)

locale transparent_vring =
  fixes g :: "'v \<Rightarrow> 'l" and T :: "('v, 'w, 'q, 'e) VringT" and T' :: "('l, 'w, 'q, 'e) VringT"
  assumes lift_vt_new: "\<And>n. vt_new T' n = (case vt_new T n of Inl e \<Rightarrow> Inl e | Inr v \<Rightarrow> Inr (g v))"
    and lift_vt_get_ref: "lifts (map_prod g id) (vt_get_ref T) (vt_get_ref T')"
    and lift_vt_get_mut: "\<And>f. lifts (map_prod g id) (vt_get_mut T f) (vt_get_mut T' f)"
    and lift_vt_add_used: "\<And>i n. lifts (map_prod g id) (vt_add_used T i n) (vt_add_used T' i n)"
    and lift_vt_signal_used_queue: "lifts (map_prod g id) (vt_signal_used_queue T) (vt_signal_used_queue T')"
    and lift_vt_enable_notification: "lifts (map_prod g id) (vt_enable_notification T) (vt_enable_notification T')"
    and lift_vt_disable_notification: "lifts (map_prod g id) (vt_disable_notification T) (vt_disable_notification T')"
    and lift_vt_needs_notification: "lifts (map_prod g id) (vt_needs_notification T) (vt_needs_notification T')"
    and lift_vt_set_enabled: "\<And>b. lifts (map_prod g id) (vt_set_enabled T b) (vt_set_enabled T' b)"
    and lift_vt_set_queue_info: "\<And>d a u. lifts (map_prod g id) (vt_set_queue_info T d a u) (vt_set_queue_info T' d a u)"
    and lift_vt_queue_next_avail: "lifts (map_prod g id) (vt_queue_next_avail T) (vt_queue_next_avail T')"
    and lift_vt_set_queue_next_avail: "\<And>n. lifts (map_prod g id) (vt_set_queue_next_avail T n) (vt_set_queue_next_avail T' n)"
    and lift_vt_set_queue_next_used: "\<And>n. lifts (map_prod g id) (vt_set_queue_next_used T n) (vt_set_queue_next_used T' n)"
    and lift_vt_queue_used_idx: "lifts (map_prod g id) (vt_queue_used_idx T) (vt_queue_used_idx T')"
    and lift_vt_set_queue_size: "\<And>n. lifts (map_prod g id) (vt_set_queue_size T n) (vt_set_queue_size T' n)"
    and lift_vt_set_queue_event_idx: "\<And>b. lifts (map_prod g id) (vt_set_queue_event_idx T b) (vt_set_queue_event_idx T' b)"
    and lift_vt_set_queue_ready: "\<And>b. lifts (map_prod g id) (vt_set_queue_ready T b) (vt_set_queue_ready T' b)"
    and lift_vt_set_kick: "\<And>f. lifts (map_prod g id) (vt_set_kick T f) (vt_set_kick T' f)"
    and lift_vt_read_kick: "lifts (map_prod g id) (vt_read_kick T) (vt_read_kick T')"
    and lift_vt_set_call: "\<And>f. lifts (map_prod g id) (vt_set_call T f) (vt_set_call T' f)"
    and lift_vt_set_err: "\<And>f. lifts (map_prod g id) (vt_set_err T f) (vt_set_err T' f)"
begin

text \<open>
  What a device does when it returns a buffer: add the descriptor to the used ring and notify the
  frontend when that is needed.
\<close>

lemma return_buffer:
  assumes "vt_add_used T i n (v, w) = Some (Inr (), (v1, w1))"
    and "vt_needs_notification T (v1, w1) = Some (Inr True, (v2, w2))"
    and "vt_signal_used_queue T (v2, w2) = Some (r, (v3, w3))"
  shows "\<exists>l1 l2. vt_add_used T' i n (g v, w) = Some (Inr (), (l1, w1))
    \<and> vt_needs_notification T' (l1, w1) = Some (Inr True, (l2, w2))
    \<and> vt_signal_used_queue T' (l2, w2) = Some (r, (g v3, w3))"
  using assms liftsD [OF lift_vt_add_used, of i n "(v, w)"] liftsD [OF lift_vt_needs_notification, of "(v1, w1)"]
    liftsD [OF lift_vt_signal_used_queue, of "(v2, w2)"]
  by simp

end

interpretation vring_mutex: transparent_vring mutex_new "VringState_T V" "VringMutex_T V" for V
  by unfold_locales (simp_all add: VringMutex_T_def lifts_beside lift_intros, simp add: VringState_T_def)

interpretation vring_rwlock: transparent_vring rwlock_new "VringState_T V" "VringRwLock_T V" for V
  by unfold_locales (simp_all add: VringRwLock_T_def lifts_beside lift_intros, simp add: VringState_T_def)

end
