(* ===== verification/Inflight.thy ===== *)
theory Inflight
  imports Message
begin

text \<open>
  The layouts of the inflight regions at the end of \<open>vhost/src/vhost_user/message.rs\<close>: the memory
  that a backend shares with its frontend to record which descriptors it is working on. The
  structures are \<open>repr(C, packed)\<close>, so their bytes are their fields one after the other. The crate
  creates them; a device reads and writes them.
\<close>

subsection \<open>Split virtqueues\<close>

record DescStateSplit =
  dss_inflight :: u8
  dss_padding :: "u8 list"
  dss_next :: u16
  dss_counter :: u64

definition DescStateSplit_new :: DescStateSplit where
  "DescStateSplit_new = \<lparr>dss_inflight = 0, dss_padding = replicate 5 0, dss_next = 0, dss_counter = 0\<rparr>"

definition DescStateSplit_bytes :: "DescStateSplit \<Rightarrow> u8 list" where
  "DescStateSplit_bytes d = le_bytes 1 (dss_inflight d) @ dss_padding d @ le_bytes 2 (dss_next d)
     @ le_bytes 8 (dss_counter d)"

definition DescStateSplit_of_bytes :: "u8 list \<Rightarrow> DescStateSplit" where
  "DescStateSplit_of_bytes bs =
     \<lparr>dss_inflight = of_le_bytes (slice 0 1 bs), dss_padding = slice 1 5 bs,
      dss_next = of_le_bytes (slice 6 2 bs), dss_counter = of_le_bytes (slice 8 8 bs)\<rparr>"

record QueueRegionSplit =
  qrs_features :: u64
  qrs_version :: u16
  qrs_desc_num :: u16
  qrs_last_batch_head :: u16
  qrs_used_idx :: u16
  qrs_desc :: u64

definition QueueRegionSplit_new :: "u64 \<Rightarrow> u16 \<Rightarrow> QueueRegionSplit" where
  "QueueRegionSplit_new features queue_size =
     \<lparr>qrs_features = features, qrs_version = 1, qrs_desc_num = queue_size, qrs_last_batch_head = 0,
      qrs_used_idx = 0, qrs_desc = 0\<rparr>"

definition QueueRegionSplit_bytes :: "QueueRegionSplit \<Rightarrow> u8 list" where
  "QueueRegionSplit_bytes q = le_bytes 8 (qrs_features q) @ le_bytes 2 (qrs_version q)
     @ le_bytes 2 (qrs_desc_num q) @ le_bytes 2 (qrs_last_batch_head q) @ le_bytes 2 (qrs_used_idx q)
     @ le_bytes 8 (qrs_desc q)"

definition QueueRegionSplit_of_bytes :: "u8 list \<Rightarrow> QueueRegionSplit" where
  "QueueRegionSplit_of_bytes bs =
     \<lparr>qrs_features = of_le_bytes (slice 0 8 bs), qrs_version = of_le_bytes (slice 8 2 bs),
      qrs_desc_num = of_le_bytes (slice 10 2 bs), qrs_last_batch_head = of_le_bytes (slice 12 2 bs),
      qrs_used_idx = of_le_bytes (slice 14 2 bs), qrs_desc = of_le_bytes (slice 16 8 bs)\<rparr>"

subsection \<open>Packed virtqueues\<close>

record DescStatePacked =
  dsp_inflight :: u8
  dsp_padding :: u8
  dsp_next :: u16
  dsp_last :: u16
  dsp_num :: u16
  dsp_counter :: u64
  dsp_id :: u16
  dsp_flags :: u16
  dsp_len :: u32
  dsp_addr :: u64

definition DescStatePacked_new :: DescStatePacked where
  "DescStatePacked_new =
     \<lparr>dsp_inflight = 0, dsp_padding = 0, dsp_next = 0, dsp_last = 0, dsp_num = 0, dsp_counter = 0,
      dsp_id = 0, dsp_flags = 0, dsp_len = 0, dsp_addr = 0\<rparr>"

definition DescStatePacked_bytes :: "DescStatePacked \<Rightarrow> u8 list" where
  "DescStatePacked_bytes d = le_bytes 1 (dsp_inflight d) @ le_bytes 1 (dsp_padding d)
     @ le_bytes 2 (dsp_next d) @ le_bytes 2 (dsp_last d) @ le_bytes 2 (dsp_num d)
     @ le_bytes 8 (dsp_counter d) @ le_bytes 2 (dsp_id d) @ le_bytes 2 (dsp_flags d)
     @ le_bytes 4 (dsp_len d) @ le_bytes 8 (dsp_addr d)"

definition DescStatePacked_of_bytes :: "u8 list \<Rightarrow> DescStatePacked" where
  "DescStatePacked_of_bytes bs =
     \<lparr>dsp_inflight = of_le_bytes (slice 0 1 bs), dsp_padding = of_le_bytes (slice 1 1 bs),
      dsp_next = of_le_bytes (slice 2 2 bs), dsp_last = of_le_bytes (slice 4 2 bs),
      dsp_num = of_le_bytes (slice 6 2 bs), dsp_counter = of_le_bytes (slice 8 8 bs),
      dsp_id = of_le_bytes (slice 16 2 bs), dsp_flags = of_le_bytes (slice 18 2 bs),
      dsp_len = of_le_bytes (slice 20 4 bs), dsp_addr = of_le_bytes (slice 24 8 bs)\<rparr>"

record QueueRegionPacked =
  qrp_features :: u64
  qrp_version :: u16
  qrp_desc_num :: u16
  qrp_free_head :: u16
  qrp_old_free_head :: u16
  qrp_used_idx :: u16
  qrp_old_used_idx :: u16
  qrp_used_wrap_counter :: u8
  qrp_old_used_wrap_counter :: u8
  qrp_padding :: "u8 list"
  qrp_desc :: u64

definition QueueRegionPacked_new :: "u64 \<Rightarrow> u16 \<Rightarrow> QueueRegionPacked" where
  "QueueRegionPacked_new features queue_size =
     \<lparr>qrp_features = features, qrp_version = 1, qrp_desc_num = queue_size, qrp_free_head = 0,
      qrp_old_free_head = 0, qrp_used_idx = 0, qrp_old_used_idx = 0, qrp_used_wrap_counter = 0,
      qrp_old_used_wrap_counter = 0, qrp_padding = replicate 7 0, qrp_desc = 0\<rparr>"

definition QueueRegionPacked_bytes :: "QueueRegionPacked \<Rightarrow> u8 list" where
  "QueueRegionPacked_bytes q = le_bytes 8 (qrp_features q) @ le_bytes 2 (qrp_version q)
     @ le_bytes 2 (qrp_desc_num q) @ le_bytes 2 (qrp_free_head q) @ le_bytes 2 (qrp_old_free_head q)
     @ le_bytes 2 (qrp_used_idx q) @ le_bytes 2 (qrp_old_used_idx q) @ le_bytes 1 (qrp_used_wrap_counter q)
     @ le_bytes 1 (qrp_old_used_wrap_counter q) @ qrp_padding q @ le_bytes 8 (qrp_desc q)"

definition QueueRegionPacked_of_bytes :: "u8 list \<Rightarrow> QueueRegionPacked" where
  "QueueRegionPacked_of_bytes bs =
     \<lparr>qrp_features = of_le_bytes (slice 0 8 bs), qrp_version = of_le_bytes (slice 8 2 bs),
      qrp_desc_num = of_le_bytes (slice 10 2 bs), qrp_free_head = of_le_bytes (slice 12 2 bs),
      qrp_old_free_head = of_le_bytes (slice 14 2 bs), qrp_used_idx = of_le_bytes (slice 16 2 bs),
      qrp_old_used_idx = of_le_bytes (slice 18 2 bs), qrp_used_wrap_counter = of_le_bytes (slice 20 1 bs),
      qrp_old_used_wrap_counter = of_le_bytes (slice 21 1 bs), qrp_padding = slice 22 7 bs,
      qrp_desc = of_le_bytes (slice 29 8 bs)\<rparr>"

subsection \<open>Reading a region back\<close>

text \<open>
  The memory of a region: its header, then the states of its descriptors. A state has 16 bytes in
  a split queue and 32 in a packed one, the headers 24 and 37.
\<close>

lemma split_layout_roundtrip:
  "length (dss_padding d) = 5 \<Longrightarrow> length (DescStateSplit_bytes d) = 16"
  "length (dss_padding d) = 5 \<Longrightarrow> DescStateSplit_of_bytes (DescStateSplit_bytes d) = d"
  "length (QueueRegionSplit_bytes q) = 24"
  "QueueRegionSplit_of_bytes (QueueRegionSplit_bytes q) = q"
  by (simp_all add: DescStateSplit_bytes_def DescStateSplit_of_bytes_def QueueRegionSplit_bytes_def
      QueueRegionSplit_of_bytes_def slice_def)

lemma packed_layout_roundtrip:
  "length (DescStatePacked_bytes d) = 32"
  "DescStatePacked_of_bytes (DescStatePacked_bytes d) = d"
  "length (qrp_padding q) = 7 \<Longrightarrow> length (QueueRegionPacked_bytes q) = 37"
  "length (qrp_padding q) = 7 \<Longrightarrow> QueueRegionPacked_of_bytes (QueueRegionPacked_bytes q) = q"
  by (simp_all add: DescStatePacked_bytes_def DescStatePacked_of_bytes_def QueueRegionPacked_bytes_def
      QueueRegionPacked_of_bytes_def slice_def)

text \<open>A new region records no descriptor as inflight, and reads back as it was made.\<close>

lemma new_regions_read_back:
  "QueueRegionSplit_of_bytes (QueueRegionSplit_bytes (QueueRegionSplit_new features n)) = QueueRegionSplit_new features n"
  "QueueRegionPacked_of_bytes (QueueRegionPacked_bytes (QueueRegionPacked_new features n)) = QueueRegionPacked_new features n"
  "dss_inflight (DescStateSplit_of_bytes (DescStateSplit_bytes DescStateSplit_new)) = 0"
  "dsp_inflight (DescStatePacked_of_bytes (DescStatePacked_bytes DescStatePacked_new)) = 0"
  by (simp_all add: split_layout_roundtrip packed_layout_roundtrip QueueRegionPacked_new_def
      DescStateSplit_new_def DescStatePacked_new_def)

end
