(* ===== verification/Dummy_Backend.thy ===== *)
theory Dummy_Backend
  imports Device_Invariant
begin

text \<open>
  The device of \<open>vhost/src/vhost_user/dummy_backend.rs\<close>, with which the crate tests its two ends: a
  device of two queues that checks and records what it is told. A failed assertion, an index
  outside of an array and an \<open>unwrap\<close> of a missing temporary file are panics, \<open>None\<close>. The
  temporary file of a call (its descriptor and that of its clone) is a parameter.

  It is the concrete device of the locale \<open>device_invariant\<close>: whatever bytes a frontend sends, its
  state stays well-formed.
\<close>

subsection \<open>The device\<close>

definition MAX_QUEUE_NUM :: nat where "MAX_QUEUE_NUM = 2"
definition MAX_VRING_NUM :: nat where "MAX_VRING_NUM = 256"
definition DUMMY_MAX_MEM_SLOTS :: nat where "DUMMY_MAX_MEM_SLOTS = 509"
definition VIRTIO_FEATURES :: u64 where "VIRTIO_FEATURES = 0x40000003"
definition VHOST_USER_CONFIG_OFFSET :: u32 where "VHOST_USER_CONFIG_OFFSET = 0x100"

record DummyBackendReqHandler =
  du_owned :: bool
  du_features_acked :: bool
  du_acked_features :: u64
  du_acked_protocol_features :: u64
  du_queue_num :: nat
  du_vring_num :: "u32 list"
  du_vring_base :: "u32 list"
  du_call_fd :: "fd option list"
  du_kick_fd :: "fd option list"
  du_err_fd :: "fd option list"
  du_vring_started :: "bool list"
  du_vring_enabled :: "bool list"
  du_inflight_file :: "fd option"
  du_shared_file :: "fd option"
  du_shmem_config :: "VhostUserShMemConfig option"

definition dummy_new :: DummyBackendReqHandler where
  "dummy_new =
     \<lparr>du_owned = False, du_features_acked = False, du_acked_features = 0, du_acked_protocol_features = 0,
      du_queue_num = MAX_QUEUE_NUM, du_vring_num = replicate MAX_QUEUE_NUM 0,
      du_vring_base = replicate MAX_QUEUE_NUM 0, du_call_fd = replicate MAX_QUEUE_NUM None,
      du_kick_fd = replicate MAX_QUEUE_NUM None, du_err_fd = replicate MAX_QUEUE_NUM None,
      du_vring_started = replicate MAX_QUEUE_NUM False, du_vring_enabled = replicate MAX_QUEUE_NUM False,
      du_inflight_file = None, du_shared_file = None, du_shmem_config = None\<rparr>"

type_synonym 'a du = "(DummyBackendReqHandler, Error, 'a) M"

definition dummy_set_shmem_config :: "VhostUserShMemConfig \<Rightarrow> DummyBackendReqHandler \<Rightarrow> DummyBackendReqHandler" where
  "dummy_set_shmem_config config d =
     d\<lparr>du_acked_protocol_features := du_acked_protocol_features d OR pf_bits PF_SHMEM,
       du_shmem_config := Some config\<rparr>"

definition dummy_check_feature :: "VhostUserVirtioFeatures \<Rightarrow> unit du" where
  "dummy_check_feature feat = bindM (readM du_acked_features) (\<lambda>acked.
     if acked AND vf_bits feat \<noteq> 0 then retM () else failM (InactiveFeature (vf_bits feat)))"

definition dummy_check_proto_feature :: "VhostUserProtocolFeatures \<Rightarrow> unit du" where
  "dummy_check_proto_feature feat = bindM (readM du_acked_protocol_features) (\<lambda>acked.
     if acked AND pf_bits feat \<noteq> 0 then retM () else failM (InactiveOperation (pf_bits feat)))"

text \<open>Array accesses and assertions, which panic.\<close>

definition store_at ::
    "(DummyBackendReqHandler \<Rightarrow> 'v list) \<Rightarrow> (('v list \<Rightarrow> 'v list) \<Rightarrow> DummyBackendReqHandler \<Rightarrow> DummyBackendReqHandler)
     \<Rightarrow> nat \<Rightarrow> 'v \<Rightarrow> unit du" where
  "store_at get upd i v = (\<lambda>d. if i < length (get d) then Some (Inr (), upd (\<lambda>xs. xs[i := v]) d) else None)"

definition load_at :: "(DummyBackendReqHandler \<Rightarrow> 'v list) \<Rightarrow> nat \<Rightarrow> 'v du" where
  "load_at get i = (\<lambda>d. if i < length (get d) then Some (Inr (get d ! i), d) else None)"

definition assertM :: "bool \<Rightarrow> unit du" where
  "assertM b = (\<lambda>d. if b then Some (Inr (), d) else None)"

definition unwrap_tempfile :: "(DummyBackendReqHandler \<Rightarrow> (fd \<times> fd) option) \<Rightarrow> (fd \<times> fd) du" where
  "unwrap_tempfile tmp = (\<lambda>d. case tmp d of None \<Rightarrow> None | Some p \<Rightarrow> Some (Inr p, d))"

definition check_index :: "nat \<Rightarrow> unit du" where
  "check_index index = bindM (readM du_queue_num) (\<lambda>n. if n \<le> index then failM InvalidParam else retM ())"

subsection \<open>The requests\<close>

definition dummy_set_owner :: "unit du" where
  "dummy_set_owner = bindM (readM du_owned) (\<lambda>owned.
     if owned then failM (InvalidOperation ''already claimed'')
     else modifyM (\<lambda>d. d\<lparr>du_owned := True\<rparr>))"

definition dummy_reset_owner :: "unit du" where
  "dummy_reset_owner = modifyM (\<lambda>d. d\<lparr>du_owned := False, du_features_acked := False,
     du_acked_features := 0, du_acked_protocol_features := 0\<rparr>)"

definition dummy_reset_device :: "unit du" where
  "dummy_reset_device = modifyM (\<lambda>d. d\<lparr>du_features_acked := False, du_acked_features := 0\<rparr>)"

definition dummy_get_features :: "u64 du" where
  "dummy_get_features = retM VIRTIO_FEATURES"

definition dummy_set_features :: "u64 \<Rightarrow> unit du" where
  "dummy_set_features features =
     bindM (readM du_owned) (\<lambda>owned.
     bindM (readM du_features_acked) (\<lambda>acked.
       if \<not> owned then failM (InvalidOperation ''not owned'')
       else if acked then failM (InvalidOperation ''features already set'')
       else if features AND NOT VIRTIO_FEATURES \<noteq> 0 then failM InvalidParam
       else modifyM (\<lambda>d. let d' = d\<lparr>du_acked_features := features, du_features_acked := True\<rparr>;
           vring_enabled = (du_acked_features d' AND vf_bits VF_PROTOCOL_FEATURES = 0) in
         d'\<lparr>du_vring_enabled := map (\<lambda>_. vring_enabled) (du_vring_enabled d')\<rparr>)))"

definition dummy_set_vring_num :: "u32 \<Rightarrow> u32 \<Rightarrow> unit du" where
  "dummy_set_vring_num index num = bindM (readM du_queue_num) (\<lambda>queue_num.
     if queue_num \<le> unat index \<or> num = 0 \<or> MAX_VRING_NUM < unat num then failM InvalidParam
     else store_at du_vring_num du_vring_num_update (unat index) num)"

definition dummy_set_vring_addr :: "u32 \<Rightarrow> u32 \<Rightarrow> u64 \<Rightarrow> u64 \<Rightarrow> u64 \<Rightarrow> u64 \<Rightarrow> unit du" where
  "dummy_set_vring_addr index flags desc used available lg = check_index (unat index)"

definition dummy_set_vring_base :: "u32 \<Rightarrow> u32 \<Rightarrow> unit du" where
  "dummy_set_vring_base index base = bindM (readM du_queue_num) (\<lambda>queue_num.
     if queue_num \<le> unat index \<or> MAX_VRING_NUM \<le> unat base then failM InvalidParam
     else store_at du_vring_base du_vring_base_update (unat index) base)"

definition dummy_get_vring_base :: "u32 \<Rightarrow> VhostUserVringState du" where
  "dummy_get_vring_base index =
     thenM (check_index (unat index))
     (thenM (store_at du_vring_started du_vring_started_update (unat index) False)
     (bindM (load_at du_vring_base (unat index)) (\<lambda>base. retM (VhostUserVringState_new index base))))"

definition dummy_set_vring_kick :: "u8 \<Rightarrow> fd option \<Rightarrow> unit du" where
  "dummy_set_vring_kick index f =
     thenM (check_index (unat index))
     (thenM (store_at du_kick_fd du_kick_fd_update (unat index) f)
       (store_at du_vring_started du_vring_started_update (unat index) True))"

definition dummy_set_vring_call :: "u8 \<Rightarrow> fd option \<Rightarrow> unit du" where
  "dummy_set_vring_call index f =
     thenM (check_index (unat index)) (store_at du_call_fd du_call_fd_update (unat index) f)"

definition dummy_set_vring_err :: "u8 \<Rightarrow> fd option \<Rightarrow> unit du" where
  "dummy_set_vring_err index f =
     thenM (check_index (unat index)) (store_at du_err_fd du_err_fd_update (unat index) f)"

definition dummy_get_protocol_features :: "u64 du" where
  "dummy_get_protocol_features = retM pf_all"

definition dummy_set_protocol_features :: "u64 \<Rightarrow> unit du" where
  "dummy_set_protocol_features features = modifyM (\<lambda>d. d\<lparr>du_acked_protocol_features := features\<rparr>)"

definition dummy_get_queue_num :: "u64 du" where
  "dummy_get_queue_num = retM (word_of_nat MAX_QUEUE_NUM)"

definition dummy_set_vring_enable :: "u32 \<Rightarrow> bool \<Rightarrow> unit du" where
  "dummy_set_vring_enable index enable =
     thenM (dummy_check_feature VF_PROTOCOL_FEATURES)
     (thenM (check_index (unat index))
       (store_at du_vring_enabled du_vring_enabled_update (unat index) enable))"

definition config_range_ok :: "u32 \<Rightarrow> u32 \<Rightarrow> bool" where
  "config_range_ok offset sz \<longleftrightarrow>
     \<not> (\<not> (VHOST_USER_CONFIG_OFFSET \<le> offset \<and> offset < VHOST_USER_CONFIG_SIZE)
       \<or> sz > VHOST_USER_CONFIG_SIZE - VHOST_USER_CONFIG_OFFSET
       \<or> sz + offset > VHOST_USER_CONFIG_SIZE)"

definition dummy_get_config :: "u32 \<Rightarrow> u32 \<Rightarrow> u32 \<Rightarrow> u8 list du" where
  "dummy_get_config offset sz flags =
     thenM (dummy_check_proto_feature PF_CONFIG)
     (if \<not> config_range_ok offset sz then failM InvalidParam
      else thenM (assertM (offset = 0x100)) (thenM (assertM (sz = 4)) (retM (replicate (unat sz) 0xa5))))"

definition dummy_set_config :: "u32 \<Rightarrow> u8 list \<Rightarrow> u32 \<Rightarrow> unit du" where
  "dummy_set_config offset buf flags =
     (let sz = word_of_nat (length buf) in
      thenM (dummy_check_proto_feature PF_CONFIG)
      (if \<not> config_range_ok offset sz then failM InvalidParam
       else thenM (assertM (offset = 0x100)) (thenM (assertM (length buf = 4))
         (assertM (buf = replicate 4 0xa5)))))"

definition dummy_get_shared_object ::
    "(DummyBackendReqHandler \<Rightarrow> (fd \<times> fd) option) \<Rightarrow> VhostUserSharedMsg \<Rightarrow> fd du" where
  "dummy_get_shared_object tmp u = bindM (unwrap_tempfile tmp) (\<lambda>(f, clone).
     thenM (modifyM (\<lambda>d. d\<lparr>du_shared_file := Some clone\<rparr>)) (retM f))"

definition dummy_get_inflight_fd ::
    "(DummyBackendReqHandler \<Rightarrow> (fd \<times> fd) option) \<Rightarrow> VhostUserInflight \<Rightarrow> (VhostUserInflight \<times> fd) du" where
  "dummy_get_inflight_fd tmp inflight = bindM (unwrap_tempfile tmp) (\<lambda>(f, clone).
     thenM (modifyM (\<lambda>d. d\<lparr>du_inflight_file := Some clone\<rparr>))
       (retM (\<lparr>infl_mmap_size = 0x1000, infl_mmap_offset = 0, infl_num_queues = infl_num_queues inflight,
               infl_queue_size = infl_queue_size inflight\<rparr>, f)))"

definition dummy_get_max_mem_slots :: "u64 du" where
  "dummy_get_max_mem_slots = retM (word_of_nat DUMMY_MAX_MEM_SLOTS)"

definition dummy_get_shmem_config :: "VhostUserShMemConfig du" where
  "dummy_get_shmem_config = bindM (readM du_shmem_config) (\<lambda>config. case config of
       None \<Rightarrow> failM (ReqHandlerError (CustomIo Unsupported))
     | Some c \<Rightarrow> retM c)"

definition dummy_postcopy_advice :: "(DummyBackendReqHandler \<Rightarrow> (fd \<times> fd) option) \<Rightarrow> fd du" where
  "dummy_postcopy_advice tmp = bindM (unwrap_tempfile tmp) (\<lambda>(f, _). retM f)"

text \<open>The device as the dictionary of the request server; the other requests succeed, or are not supported.\<close>

definition dummy_device ::
    "(DummyBackendReqHandler \<Rightarrow> (fd \<times> fd) option) \<Rightarrow> DummyBackendReqHandler VhostUserBackendReqHandler" where
  "dummy_device tmp =
     \<lparr>be_set_owner = dummy_set_owner, be_reset_owner = dummy_reset_owner,
      be_reset_device = dummy_reset_device, be_get_features = dummy_get_features,
      be_set_features = dummy_set_features, be_set_mem_table = (\<lambda>_ _. retM ()),
      be_set_vring_num = dummy_set_vring_num, be_set_vring_addr = dummy_set_vring_addr,
      be_set_vring_base = dummy_set_vring_base, be_get_vring_base = dummy_get_vring_base,
      be_set_vring_kick = dummy_set_vring_kick, be_set_vring_call = dummy_set_vring_call,
      be_set_vring_err = dummy_set_vring_err, be_get_protocol_features = dummy_get_protocol_features,
      be_set_protocol_features = dummy_set_protocol_features, be_get_queue_num = dummy_get_queue_num,
      be_set_vring_enable = dummy_set_vring_enable, be_get_config = dummy_get_config,
      be_set_config = dummy_set_config, be_set_backend_req_fd = (\<lambda>_. returns ()),
      be_set_gpu_socket = (\<lambda>_. retM ()), be_get_shared_object = dummy_get_shared_object tmp,
      be_get_inflight_fd = dummy_get_inflight_fd tmp, be_set_inflight_fd = (\<lambda>_ _. retM ()),
      be_get_max_mem_slots = dummy_get_max_mem_slots, be_add_mem_region = (\<lambda>_ _. retM ()),
      be_remove_mem_region = (\<lambda>_. retM ()),
      be_set_device_state_fd = (\<lambda>_ _ _. failM (ReqHandlerError (CustomIo Unsupported))),
      be_check_device_state = failM (ReqHandlerError (CustomIo Unsupported)),
      be_get_shmem_config = dummy_get_shmem_config, be_postcopy_advice = dummy_postcopy_advice tmp,
      be_postcopy_listen = retM (), be_postcopy_end = retM (), be_set_log_base = (\<lambda>_ _. retM ())\<rparr>"

subsection \<open>The invariant\<close>

text \<open>
  The arrays have one entry per queue and hold only values that were checked; features are acked
  only by an owner and only those that were offered.
\<close>

definition dummy_ok :: "DummyBackendReqHandler \<Rightarrow> bool" where
  "dummy_ok d \<longleftrightarrow> du_queue_num d = MAX_QUEUE_NUM
     \<and> length (du_vring_num d) = MAX_QUEUE_NUM \<and> length (du_vring_base d) = MAX_QUEUE_NUM
     \<and> length (du_call_fd d) = MAX_QUEUE_NUM \<and> length (du_kick_fd d) = MAX_QUEUE_NUM
     \<and> length (du_err_fd d) = MAX_QUEUE_NUM \<and> length (du_vring_started d) = MAX_QUEUE_NUM
     \<and> length (du_vring_enabled d) = MAX_QUEUE_NUM
     \<and> list_all (\<lambda>n. unat n \<le> MAX_VRING_NUM) (du_vring_num d)
     \<and> list_all (\<lambda>b. unat b < MAX_VRING_NUM) (du_vring_base d)
     \<and> (du_features_acked d \<longrightarrow> du_owned d) \<and> (\<not> du_features_acked d \<longrightarrow> du_acked_features d = 0)
     \<and> du_acked_features d AND NOT VIRTIO_FEATURES = 0"

lemma dummy_new_ok: "dummy_ok dummy_new"
  by (simp add: dummy_ok_def dummy_new_def MAX_QUEUE_NUM_def MAX_VRING_NUM_def numeral_2_eq_2)

lemma list_all_update: "list_all P xs \<Longrightarrow> P x \<Longrightarrow> list_all P (xs[i := x])"
  by (auto simp: list_all_iff dest!: subsetD [OF set_update_subset_insert])

lemma keep_store:
  "(\<And>d. dummy_ok d \<Longrightarrow> dummy_ok (upd (\<lambda>xs. xs[i := v]) d)) \<Longrightarrow> preserves dummy_ok (store_at get upd i v)"
  by (auto simp: preserves_def store_at_def split: if_splits)

lemma keep_panicking [preserve_intros]:
  "preserves dummy_ok (load_at get i)" "preserves dummy_ok (assertM b)" "preserves dummy_ok (unwrap_tempfile tmp)"
  "preserves dummy_ok (check_index i)" "preserves dummy_ok (dummy_check_feature vf)"
  "preserves dummy_ok (dummy_check_proto_feature pf)"
  unfolding check_index_def dummy_check_feature_def dummy_check_proto_feature_def
  by (auto simp: preserves_def load_at_def assertM_def unwrap_tempfile_def effect_defs split: if_splits option.splits)

lemmas dummy_op_defs = dummy_set_owner_def dummy_reset_owner_def dummy_reset_device_def
  dummy_get_features_def dummy_set_vring_addr_def dummy_get_vring_base_def
  dummy_set_vring_kick_def dummy_set_vring_call_def dummy_set_vring_err_def dummy_get_protocol_features_def
  dummy_set_protocol_features_def dummy_get_queue_num_def dummy_set_vring_enable_def dummy_get_config_def
  dummy_set_config_def dummy_get_shared_object_def dummy_get_inflight_fd_def dummy_get_max_mem_slots_def
  dummy_get_shmem_config_def dummy_postcopy_advice_def

text \<open>The requests whose checks establish a part of the invariant.\<close>

lemma keep_checked:
  "preserves dummy_ok (dummy_set_features features)"
  "preserves dummy_ok (dummy_set_vring_num index num)" "preserves dummy_ok (dummy_set_vring_base index base)"
  unfolding dummy_set_features_def dummy_set_vring_num_def dummy_set_vring_base_def preserves_def store_at_def
  by (auto simp: dummy_ok_def effect_defs Let_def list_all_update split: if_splits)

interpretation dummy: device_invariant "dummy_device tmp" dummy_ok for tmp
  by unfold_locales
    (simp_all only: dummy_device_def VhostUserBackendReqHandlerBase.simps VhostUserBackendReqHandler.simps
      dummy_op_defs Let_def,
     (intro preserve_intros preserves_modifyM preserves_callM keep_store keep_checked;
      auto simp: dummy_ok_def list_all_update returns_def)+)

text \<open>
  Whatever bytes a frontend sends, the state of the device stays well-formed, so that no request
  makes it access an array outside of its bounds.
\<close>

lemma dummy_stays_ok:
  assumes "dummy_ok (bh_backend h)" and "handle_request (dummy_device tmp) so opt h = Some (r, h')"
  shows "dummy_ok (bh_backend h')"
  using preservesD [OF dummy.keep_handle_request assms] .

lemma dummy_accesses_in_bounds:
  assumes "dummy_ok d"
  shows "dummy_set_vring_num i n d \<noteq> None" "dummy_set_vring_base i n d \<noteq> None" "dummy_get_vring_base i d \<noteq> None"
    "dummy_set_vring_kick j f d \<noteq> None" "dummy_set_vring_call j f d \<noteq> None" "dummy_set_vring_err j f d \<noteq> None"
    "dummy_set_vring_enable i b d \<noteq> None"
  using assms
  by (auto simp: dummy_ok_def dummy_set_vring_num_def dummy_set_vring_base_def dummy_get_vring_base_def
      dummy_set_vring_kick_def dummy_set_vring_call_def dummy_set_vring_err_def dummy_set_vring_enable_def
      dummy_check_feature_def check_index_def store_at_def load_at_def effect_defs)

text \<open>A ring that was given a base reports it when it is stopped.\<close>

lemma dummy_vring_base_roundtrip:
  assumes "dummy_ok d" and "dummy_set_vring_base i b d = Some (Inr (), d')"
  shows "\<exists>d''. dummy_get_vring_base i d' = Some (Inr (VhostUserVringState_new i b), d'')
    \<and> \<not> du_vring_started d'' ! unat i"
  using assms
  by (auto simp: dummy_ok_def dummy_set_vring_base_def dummy_get_vring_base_def check_index_def store_at_def
      load_at_def effect_defs split: if_splits)

end
