(* ===== verification/Spec2Isabelle.thy ===== *)
theory Spec2Isabelle
  imports Error_Text Shared_Handler Ring_Lifecycle Xen Reverse_Channel Gpu_Backend Vhost_Kern Vring_Lock Inflight Dummy_Backend
begin

text \<open>
  \<^bold>\<open>Verification of the rust-vmm vhost crates\<close>

  \<^bold>\<open>The program.\<close> The crate \<open>vhost\<close> has the two ends of the vhost-user protocol, which configures a
  virtio device over a Unix socket, and the in-kernel vhost backends; the crate
  \<open>vhost-user-backend\<close> is a framework for devices on top of it. A virtual machine monitor is the
  frontend: it sends requests (features, memory tables, vrings) as a header, a body and a payload,
  with file descriptors attached. The backend serves the requests one after the other, maps the
  guest memory, and lets worker threads wait for kicks of the guest and call the device. A second
  socket carries requests of the backend to the frontend, a third those of a GPU device.

  \<^bold>\<open>Effects.\<close> A stateful and fallible operation is a function of type \<open>('s, 'e, 'a) M\<close> (theory
  \<open>Prelude\<close>): from a state it gives an error or a value and the new state, or \<open>None\<close> when it never
  returns or panics. Machine integers are words of their width; an \<open>usize\<close> that only counts is a
  natural number. The operating system, \<open>vm-memory\<close>, \<open>virtio-queue\<close> and the device behind the
  framework are records of functions that the definitions take as arguments; what a theorem needs
  of them is a named predicate (\<open>send_law\<close>, \<open>recv_law\<close>, \<open>duplex_law\<close>, \<open>send_progress\<close>, \<open>recv_progress\<close>,
  \<open>recv_whole\<close>, \<open>consume_law\<close>, \<open>epoll_law\<close>, \<open>queue_law\<close>, \<open>num_queues_law\<close>, \<open>exit_law\<close>, \<open>ring_laws\<close>) that states
  the documented behaviour, and each witness shows an instance. \<open>device_law\<close> is an assumption on devices
  that the trait does not document: handling an event leaves the kick, enabled and ready state of the
  vrings alone. A value of type \<open>fd\<close> stands for a descriptor number with its open file; closing a
  descriptor need not end its registration with an epoll instance, because the frontend may have the
  file open as well. Locks, reference counts and cells of the standard
  library are records in \<open>Locks\<close>; a poisoned lock panics.

  \<^bold>\<open>Theories.\<close>
  \<^item> \<open>Prelude\<close>: words, bytes, checked arithmetic, the effect type with its rules, and the two
    predicates \<open>preserves\<close> and \<open>never\<close> with their introduction rules.
  \<^item> \<open>Vhost_Error\<close>: the errors of both crates (\<open>vhost_user/mod.rs\<close>, \<open>lib.rs\<close>).
  \<^item> \<open>Msg_Header\<close>, \<open>Message\<close>: \<open>vhost_user/message.rs\<close>. Request codes (locale \<open>request_codes\<close>), the
    header, the feature flags and the bodies with their bytes and validity checks (locale
    \<open>byte_valued\<close>, interpreted for every body). Codes, headers and bodies survive the way over their
    bytes, and the validity checks are characterised in unbounded arithmetic.
  \<^item> \<open>Inflight\<close>: the layouts of the inflight regions at the end of \<open>vhost_user/message.rs\<close>.
  \<^item> \<open>Locks\<close>: \<open>Arc\<close>, \<open>Mutex\<close>, \<open>RwLock\<close>, \<open>RefCell\<close>, and \<open>lifts\<close>, which says that a call behind a wrapper
    does what the call inside does.
  \<^item> \<open>Connection\<close>: \<open>Endpoint\<close> of \<open>vhost_user/connection.rs\<close> for any header (locale \<open>msg_header\<close>). The
    transfer loops send and receive a prefix of the data in order, attach the descriptors to the
    first byte only and return on a socket that makes progress; a message sent is the message
    received. The loops are \<open>partial_function\<close>s, so that returning is a theorem.
  \<^item> \<open>Backend_Req_Handler\<close>: \<open>vhost_user/backend_req_handler.rs\<close>, one definition per arm of
    \<open>handle_request\<close>. Only validated requests reach the device, and acknowledgements are sent just
    when they were negotiated. Requests whose protocol feature (\<open>protocol_feature\<close> of \<open>Msg_Header\<close>) is
    not acked are refused, but for the two requests of the device state; messages with the reply flag
    are refused by all arms but six.
  \<^item> \<open>Device_Invariant\<close>: the locale \<open>device_invariant\<close>, whose client lemma carries an invariant of a device
    through every message. It is interpreted for the test device (\<open>Dummy_Backend\<close>,
    \<open>vhost_user/dummy_backend.rs\<close>) and for the shape of the framework's handler (\<open>Workers\<close>).
  \<^item> \<open>Vhost_Backend\<close>, \<open>Frontend\<close>: \<open>backend.rs\<close> and \<open>vhost_user/frontend.rs\<close>, one definition per
    operation. An operation without its acked protocol feature sends nothing, but for \<open>set_log_base\<close>.
    The trait \<open>VhostBackend\<close> is a dictionary; the locale \<open>vhost_backend\<close> is its contract for
    memory tables, interpreted for the frontend and for the kernel backends, and kept by the wrappers
    for \<open>RwLock\<close> and \<open>RefCell\<close> (locale \<open>wrapped_backend\<close>).
  \<^item> \<open>End_To_End\<close>: both ends of the frontend channel. A request with a reply and a request with an
    acknowledgement give the caller of the frontend just what the device behind the backend gave.
  \<^item> \<open>Backend_Channel\<close>: \<open>vhost_user/backend_req.rs\<close> and \<open>frontend_req_handler.rs\<close>, the reverse channel;
    \<open>Reverse_Channel\<close>: both ends of it, and the services behind a \<open>Mutex\<close>.
  \<^item> \<open>Gpu_Message\<close>, \<open>Gpu_Backend\<close>: \<open>vhost_user/gpu_message.rs\<close> and \<open>gpu_backend_req.rs\<close>, instances of the
    locales of the endpoint with the GPU header.
  \<^item> \<open>Bitmap\<close>: \<open>vhost-user-backend/src/bitmap.rs\<close>, the dirty page log. Marking a range of a region
    refines the union with the set of pages of the guest that the range touches, up to the last whole page
    of the region; a partial last page is never logged.
  \<^item> \<open>Device_Trait\<close>: \<open>vhost-user-backend/src/backend.rs\<close>, the trait of the device with its provided methods,
    and its implementations for \<open>Arc\<close>, \<open>Mutex\<close> and \<open>RwLock\<close> (locale \<open>transparent_device\<close>).
  \<^item> \<open>Vring\<close>, \<open>Vring_Lock\<close>, \<open>Event_Loop\<close>: \<open>vring.rs\<close> and \<open>event_loop.rs\<close>, the state of a vring, its lock
    wrappers, and the worker's loop, which takes at most 100 events from each wait. A worker that was
    created with an exit event ends once \<open>send_exit_event\<close> has notified it.
  \<^item> \<open>Handler\<close>: \<open>handler.rs\<close>, the device of the request server (\<open>handler_device\<close>). In every reachable
    state a kick of a vring is registered only while the vring is started and enabled, and addresses of
    the frontend are translated as the memory table says. A kick that is replaced while its vring is
    active stays registered, and the new one is not registered.
  \<^item> \<open>Workers\<close>: the workers of a handler. The requests keep its shape, and a registered kick reaches the
    device with the right vring.
  \<^item> \<open>Threads\<close>: the serving thread and the workers of a handler as a step relation whose steps are a
    request, a call for a listener, the delivery of events and the handling of one event. Under every
    interleaving in which no kick of an active vring is replaced, whatever is registered with the data
    of a vring is the kick of an active vring, that vring; an event that was delivered before can still reach the
    device with a stopped vring.
  \<^item> \<open>Ring_Lifecycle\<close>: when a ring is started, which in the code is when its kick descriptor is given: an
    abstract machine over \<open>SET_VRING_KICK\<close> and \<open>GET_VRING_BASE\<close> that the handler refines under every interleaving (locale
    \<open>machine_refinement\<close>).
  \<^item> \<open>Shared_Handler\<close>: the handler behind its \<open>Mutex\<close> and the device behind a lock handle every request
    as they would without the locks.
  \<^item> \<open>Daemon\<close>: \<open>vhost-user-backend/src/lib.rs\<close> with the listeners of \<open>connection.rs\<close> and
    \<open>vhost_user/backend.rs\<close>. The serving thread, shutdown requests and the peer are a step relation;
    \<open>wait\<close> is characterised for every interleaving, and \<open>serve\<close> terminates.
  \<^item> \<open>Vhost_Kern\<close>: \<open>vhost_kern\<close> (\<open>mod.rs\<close>, \<open>vhost_binding.rs\<close>, \<open>vdpa.rs\<close>, \<open>net.rs\<close>, \<open>vsock.rs\<close>), down to
    the bytes that the kernel is given.
  \<^item> \<open>Xen\<close>: what the feature \<open>xen\<close> changes: the memory regions of \<open>message.rs\<close> and \<open>backend.rs\<close> and the
    requests of the protocol features.
  \<^item> \<open>Error_Text\<close>: the texts of the errors of both crates; no two errors have the same text.
  \<^item> This theory: a property of the frontend and the backend together.

  \<^bold>\<open>How the parts fit.\<close> \<open>Frontend\<close> and \<open>Backend_Req_Handler\<close> share only the endpoint and the
  messages. \<open>handle_request\<close> of the latter takes the device as a dictionary; \<open>handler_device\<close> of
  \<open>Handler\<close> is that dictionary for the framework, and \<open>Daemon\<close> runs \<open>handle_request\<close> in a loop.
  \<open>Handler\<close> registers kicks with the epoll instances that \<open>Event_Loop\<close> waits on, and replaces the
  bitmaps of \<open>Bitmap\<close> when logging starts; \<open>Workers\<close> runs the loop of \<open>Event_Loop\<close> on the vrings and the
  device of a handler, and \<open>Threads\<close> interleaves it with the requests. A handler and a device may be
  shared by threads; their locks serialise the calls, and \<open>Shared_Handler\<close> shows that one thread does
  not see them.

  \<^bold>\<open>Bounds and fuel.\<close> No loop has fuel: loops that may not end are \<open>partial_function\<close>s, the others
  are structural or have a measure. Finite streams, the number of retries of a socket and positive
  progress are the measures of the termination theorems.

  \<^bold>\<open>Not modelled.\<close> Accessors of raw descriptors; the unlinking of socket files; the bitmap of the unit
  type, which is there for tests; the derived \<open>Debug\<close> texts; constants of the kernel bindings that no
  code uses; interleavings finer than a request and the handling of one event (a request takes the
  lock of a vring once for each access, and a worker could run between two of them); the sleeps
  between connection attempts; the tests.
\<close>

subsection \<open>A memory table from the frontend to the device\<close>

text \<open>The body of a message that carries a memory table.\<close>

definition mem_table_body :: "VhostUserMemoryRegion list \<Rightarrow> u8 list" where
  "mem_table_body regions =
     as_slice VhostUserMemory_T (VhostUserMemory_new (word_of_nat (length regions)))
     @ concat (map (as_slice VhostUserMemoryRegion_T) regions)"

abbreviation mem_table_header :: "u32 \<Rightarrow> nat \<Rightarrow> VhostUserMsgHeader" where
  "mem_table_header flags n \<equiv>
     hdr_new FrontendReq_Req SET_MEM_TABLE (flags OR 0x1) (word_of_nat (8 + 32 * n))"

lemma mem_sizes [simp]: "size_of VhostUserMemory_T = 8" "size_of VhostUserMemoryRegion_T = 32"
  by (simp_all add: VhostUserMemory_T_def VhostUserMemoryRegion_T_def)

lemma length_region_payload [simp]:
  "length (concat (map (as_slice VhostUserMemoryRegion_T) regions)) = 32 * length regions"
  "length (concat (map (\<lambda>x. as_slice VhostUserMemoryRegion_T (g x)) rs)) = 32 * length rs"
  by (induction regions, simp_all add: VhostUserMemoryRegion_T_def)
    (induction rs, simp_all)

lemma length_mem_table_body [simp]: "length (mem_table_body regions) = 8 + 32 * length regions"
  by (simp add: mem_table_body_def memory_body.length_as_slice del: length_concat)

lemma unat_small_u32: "n < 2 ^ 32 \<Longrightarrow> unat (word_of_nat n :: u32) = n"
  by (simp add: unsigned_of_nat take_bit_nat_eq_self)

text \<open>What a sent message with a payload adds to the socket.\<close>

lemma payload_message_sent:
  assumes "send_law so tx" and "byte_valued T ok" and "ok body"
    and "send_message_with_payload FH T so hdr body payload fds s = Some (Inr (), s')"
  shows "\<exists>cs. tx s' = tx s @ cs
    \<and> concat (map fst cs) = hdr_as_slice hdr @ as_slice T body @ payload
    \<and> concat (map snd cs) = (case fds of None \<Rightarrow> [] | Some l \<Rightarrow> l)"
proof -
  let ?iovs = "[hdr_as_slice hdr, as_slice T body, payload]"
  have len: "length (concat ?iovs) = hdr_size_of + size_of T + length payload"
    using byte_valued.length_as_slice [OF assms(2,3)] by simp
  then have "send_iovec_all so ?iovs fds s = Some (Inr (length (concat ?iovs)), s')"
    using assms(4) unfolding send_message_with_payload_def Let_def
    by (auto elim!: bindM_InrE simp: guardM_apply failM_apply VhostUserMsgHeader_H_def
        split: if_splits)
  from send_all_outcome [OF assms(1) this] obtain cs where
    cs: "tx s' = tx s @ cs" "concat (map fst cs) = concat ?iovs"
      "map snd cs = map (chunk_fds fds) [0..<length cs]" by auto
  then have "length (concat (map fst cs)) \<noteq> 0" using len by (simp only: cs(2)) (simp add: hdr_size_of_def)
  then have "cs \<noteq> []" by auto
  then have "concat (map snd cs) = (case fds of None \<Rightarrow> [] | Some l \<Rightarrow> l)"
    unfolding cs(3) by (cases cs) (auto simp: upt_conv_Cons chunk_fds_def simp del: upt_Suc)
  with cs show ?thesis by auto
qed

lemma mem_table_sent:
  assumes "send_law so tx" and "duplex_law so tx rx rxf"
    and "fe_set_mem_table so regions f = Some (Inr (), f')"
  shows "1 \<le> length regions \<and> length regions \<le> 32
    \<and> (\<exists>cs. tx (fe_main_sock f') = tx (fe_main_sock f) @ cs
       \<and> concat (map fst cs) = hdr_as_slice (mem_table_header (fe_hdr_flags f) (length regions))
           @ mem_table_body (map to_region regions)
       \<and> concat (map snd cs) = map ri_mmap_handle regions)"
proof -
  have n: "1 \<le> length regions \<and> length regions \<le> 32"
    using frontend_vb.accepted_table_size [of so regions f f'] assms(3)
    by (simp add: frontend_backend_def MAX_ATTACHED_FD_ENTRIES_def)
  let ?hdr = "mem_table_header (fe_hdr_flags f) (length regions)"
  let ?body = "VhostUserMemory_new (word_of_nat (length regions))"
  let ?payload = "concat (map (as_slice VhostUserMemoryRegion_T) (map to_region regions))"
  from assms(3) obtain s1 where
    send: "send_message_with_payload FH VhostUserMemory_T so ?hdr ?body ?payload
      (Some (map ri_mmap_handle regions)) (fe_main_sock f) = Some (Inr (), s1)"
    and ack: "wait_for_ack so ?hdr (f\<lparr>fe_main_sock := s1\<rparr>) = Some (Inr (), f')"
    unfolding fe_set_mem_table_def api_def mapErrM_def Let_def send_request_with_payload_def
      new_request_header_def fe_sock_def
    by (auto elim!: bindM_InrE thenM_SomeE simp: readM_apply retM_apply failM_apply
        fe_check_state_apply comp_def simp del: length_concat
        split: if_splits option.splits sum.splits)
  from payload_message_sent [OF assms(1) memory_body.byte_valued_axioms _ send]
    wait_for_ack_keeps_tx [OF assms(2) ack] n
  show ?thesis by (auto simp: mem_table_body_def)
qed

lemma set_mem_table_of_body:
  assumes "1 \<le> length regions" and "length regions \<le> 32" and "length fs = length regions"
    and "\<forall>r \<in> set regions. is_valid_common r" and "fl AND HDR_REPLY = 0"
  shows "set_mem_table B (mem_table_header fl (length regions)) (8 + 32 * length regions)
      (mem_table_body regions) (Some fs) = on_backend (be_set_mem_table B regions fs)"
proof -
  let ?n = "length regions" and ?m = "VhostUserMemory_new (word_of_nat (length regions))"
  have small: "unat (word_of_nat ?n :: u32) = ?n" "unat (word_of_nat (8 + 32 * ?n) :: u32) = 8 + 32 * ?n"
    using assms(2) unat_small_u32 [of ?n] unat_small_u32 [of "8 + 32 * ?n"] by simp_all
  have "check_request_size (mem_table_header fl ?n) (8 + 32 * ?n) (8 + 32 * ?n) = Inr ()"
    using small(2) assms(5)
    by (simp add: check_request_size_def hdr_new_def Let_def get_size_def is_reply_def get_version_def
        hdr_flag_defs mask_simps)
  moreover have "get_size (mem_table_header fl ?n) = word_of_nat (8 + 32 * ?n)"
    by (simp add: hdr_new_def Let_def get_size_def)
  moreover have "take 8 (mem_table_body regions) = as_slice VhostUserMemory_T ?m"
    "drop 8 (mem_table_body regions) = concat (map (as_slice VhostUserMemoryRegion_T) regions)"
    using memory_body.length_as_slice [of ?m] by (simp_all add: mem_table_body_def)
  moreover have "chunks 32 ?n (concat (map (as_slice VhostUserMemoryRegion_T) regions))
      = map (as_slice VhostUserMemoryRegion_T) regions"
    by (rule chunks_concat) (simp_all add: region_body.length_as_slice)
  moreover have "map (from_slice VhostUserMemoryRegion_T) (map (as_slice VhostUserMemoryRegion_T) regions)
      = regions"
    by (simp add: comp_def region_body.from_slice_as_slice)
  moreover have "is_valid VhostUserMemory_T ?m" "unat (num_regions ?m) = ?n"
    using small(1) assms(1,2)
    by (auto simp: VhostUserMemory_T_def VhostUserMemory_is_valid_def VhostUserMemory_new_def
        MAX_ATTACHED_FD_ENTRIES_def word_unat_eq_iff)
  moreover have "list_all (is_valid VhostUserMemoryRegion_T) regions"
    using assms(4) by (simp add: list_all_iff VhostUserMemoryRegion_T_def)
  ultimately show ?thesis
    using small(2) assms(3) memory_body.from_slice_as_slice [of ?m]
    by (simp add: set_mem_table_def Let_def liftR_def thenM_def bindM_def mult.commute)
qed

text \<open>
  C1: a memory table that the frontend sent arrives at the device as it was given: the stream the
  frontend leaves on its socket, whatever the chunks, is one valid \<open>SET_MEM_TABLE\<close> message
  whose header announces just the body that follows, with the descriptors of the regions attached,
  and the backend's handling of that message hands the device the same regions, in order, with
  their descriptors, and acknowledges what the device returned.
\<close>

theorem mem_table_reaches_device:
  fixes h :: "('t, 'b) BackendReqHandler"
  assumes "send_law so tx" and "duplex_law so tx rx rxf"
    and "fe_set_mem_table so regions f = Some (Inr (), f')"
    and "\<forall>r \<in> set regions. is_valid_common (to_region r)" and "fe_hdr_flags f AND HDR_REPLY = 0"
  shows "\<exists>cs hdr buf. tx (fe_main_sock f') = tx (fe_main_sock f) @ cs
    \<and> concat (map fst cs) = hdr_as_slice hdr @ buf
    \<and> concat (map snd cs) = map ri_mmap_handle regions
    \<and> hdr_is_valid FrontendReq_Req hdr \<and> get_code FrontendReq_Req hdr = Inr SET_MEM_TABLE
    \<and> unat (get_size hdr) = length buf
    \<and> dispatch B so' opt hdr (length buf) buf (Some (map ri_mmap_handle regions)) SET_MEM_TABLE h
        = bindM (catchM (on_backend (be_set_mem_table B (map to_region regions) (map ri_mmap_handle regions))))
            (send_ack_message so' hdr) h"
proof -
  from mem_table_sent [OF assms(1-3)] obtain cs where
    n: "1 \<le> length regions" "length regions \<le> 32" and
    cs: "tx (fe_main_sock f') = tx (fe_main_sock f) @ cs"
      "concat (map fst cs) = hdr_as_slice (mem_table_header (fe_hdr_flags f) (length regions))
        @ mem_table_body (map to_region regions)"
      "concat (map snd cs) = map ri_mmap_handle regions" by auto
  let ?hdr = "mem_table_header (fe_hdr_flags f) (length regions)"
  have size: "get_size ?hdr = word_of_nat (8 + 32 * length regions)"
    by (simp add: get_size_def hdr_new_def Let_def)
  have "hdr_is_valid FrontendReq_Req ?hdr \<and> get_code FrontendReq_Req ?hdr = Inr SET_MEM_TABLE
      \<and> unat (get_size ?hdr) = length (mem_table_body (map to_region regions))"
    using n unat_small_u32 [of "8 + 32 * length regions"] size
    by (simp add: frontend_req.hdr_new_valid_iff MAX_MSG_SIZE_def)
  moreover have "set_mem_table B ?hdr (length (mem_table_body (map to_region regions)))
      (mem_table_body (map to_region regions)) (Some (map ri_mmap_handle regions))
      = (on_backend (be_set_mem_table B (map to_region regions) (map ri_mmap_handle regions))
          :: ('t, 'b, unit) brh)"
    using set_mem_table_of_body [of "map to_region regions" "map ri_mmap_handle regions" "fe_hdr_flags f"]
      n assms(4,5) by simp
  ultimately show ?thesis
    using cs by (intro exI [of _ cs] exI [of _ ?hdr] exI [of _ "mem_table_body (map to_region regions)"])
      (simp add: handle_SET_MEM_TABLE_def)
qed

theorem mem_table_reaches_device_witness:
  "let region = \<lparr>ri_guest_phys_addr = 0x1000, ri_memory_size = 0x2000, ri_userspace_addr = 0x7000,
                 ri_mmap_offset = 0, ri_mmap_handle = 9\<rparr>;
       f = fe_new \<lparr>p_budget = 2, p_tx = [], p_rx = [], p_rxf = []\<rparr> 1
   in \<exists>f' hdr buf. fe_set_mem_table (pipe_sock 7) [region] f = Some (Inr (), f')
     \<and> concat (map fst (p_tx (fe_main_sock f'))) = hdr_as_slice hdr @ buf
     \<and> concat (map snd (p_tx (fe_main_sock f'))) = [9]
     \<and> dispatch counting_device (pipe_sock 7) (\<lambda>f n. Inr 0) hdr (length buf) buf (Some [9]) SET_MEM_TABLE
          (brh_new (fe_main_sock f') 0) = Some (Inr (), brh_new (fe_main_sock f') 1)"
proof -
  let ?r = "\<lparr>ri_guest_phys_addr = 0x1000, ri_memory_size = 0x2000, ri_userspace_addr = 0x7000,
                 ri_mmap_offset = 0, ri_mmap_handle = 9\<rparr>"
  let ?f = "fe_new \<lparr>p_budget = 2, p_tx = [], p_rx = [], p_rxf = []\<rparr> 1"
  let ?iovs = "[hdr_as_slice (mem_table_header 0 1), as_slice VhostUserMemory_T (VhostUserMemory_new 1),
    as_slice VhostUserMemoryRegion_T (to_region ?r)]"
  obtain s' where "send_iovec_all (pipe_sock 7) ?iovs (Some [9]) (fe_main_sock ?f)
      = Some (Inr (length (concat ?iovs)), s')"
    using send_all_returns [of "pipe_sock 7" p_tx p_budget] pipe_send_progress [of 7]
    by (metis pipe_send_law zero_less_numeral)
  then have run: "fe_set_mem_table (pipe_sock 7) [?r] ?f = Some (Inr (), ?f\<lparr>fe_main_sock := s'\<rparr>)"
    by (simp add: fe_set_mem_table_def api_def send_request_with_payload_def new_request_header_def
        send_message_with_payload_def fe_check_state_apply fe_sock_def wait_for_ack_def fe_new_def
        MAX_ATTACHED_FD_ENTRIES_def MAX_MSG_SIZE_def hdr_size_of_def memory_body.length_as_slice
        region_body.length_as_slice VhostUserMsgHeader_H_def effect_defs Let_def)
  have "is_valid_common (to_region ?r)"
    by (simp add: is_valid_common_def to_region_def VhostUserMemoryRegion_new_def checked_add_def)
  then obtain cs hdr buf where
    "p_tx s' = cs" "concat (map fst cs) = hdr_as_slice hdr @ buf" "concat (map snd cs) = [9]"
    "dispatch counting_device (pipe_sock 7) (\<lambda>f n. Inr 0) hdr (length buf) buf (Some [9]) SET_MEM_TABLE
        (brh_new s' 0)
      = bindM (catchM (on_backend (be_set_mem_table counting_device [to_region ?r] [9])))
          (send_ack_message (pipe_sock 7) hdr) (brh_new s' 0)"
    using mem_table_reaches_device [OF pipe_send_law pipe_duplex_law run, of counting_device "pipe_sock 7"
        "\<lambda>f n. Inr 0" "brh_new s' 0"]
    by (auto simp: fe_new_def)
  then show ?thesis
    unfolding Let_def
    by (intro exI [of _ "?f\<lparr>fe_main_sock := s'\<rparr>"] exI [of _ hdr] exI [of _ buf] conjI run)
      (simp_all add: on_backend_def counting_device_def tick_def send_ack_message_def brh_new_def
        effect_defs)
qed

end
